(* ===== verification/Prelude.thy ===== *)
theory Prelude
  imports Main
begin

text \<open>
  The shared vocabulary of the development.

  \<^item> JavaScript strings. A string is modelled by its UTF-8 bytes (HOL's \<open>string\<close>); the
    operations the source uses (\<open>toLowerCase\<close>, \<open>trim\<close>, \<open>includes\<close>, \<open>startsWith\<close>,
    \<open>split\<close>, \<open>join\<close>) act on ASCII characters, bytes above 127 are left as they are.
  \<^item> JavaScript truthiness and the operators \<open>||\<close> and \<open>??\<close> on optional values.
  \<^item> Rendered trees: a React component's return value is a tree of elements with the
    attributes that carry behaviour (handlers, \<open>disabled\<close>, \<open>checked\<close>, \<open>href\<close>, ARIA state)
    and its text. CSS class names are left out.
  \<^item> The effects a handler has outside its component (navigation, toasts, telemetry).
  \<^item> Results of remote calls and of cached queries.
\<close>

named_theorems hive_simps \<open>defining equations unfolded in component proofs\<close>

section \<open>Strings\<close>

definition ascii_lower_char :: "char \<Rightarrow> char" where
  "ascii_lower_char c =
     (let n = (of_char c :: nat) in if 65 \<le> n \<and> n \<le> 90 then char_of (n + 32) else c)"

definition ascii_upper_char :: "char \<Rightarrow> char" where
  "ascii_upper_char c =
     (let n = (of_char c :: nat) in if 97 \<le> n \<and> n \<le> 122 then char_of (n - 32) else c)"

definition toLowerCase :: "string \<Rightarrow> string" where
  "toLowerCase s = map ascii_lower_char s"

definition toUpperCase :: "string \<Rightarrow> string" where
  "toUpperCase s = map ascii_upper_char s"

definition is_space :: "char \<Rightarrow> bool" where
  "is_space c \<longleftrightarrow> (let n = (of_char c :: nat) in n = 32 \<or> (9 \<le> n \<and> n \<le> 13))"

definition trim :: "string \<Rightarrow> string" where
  "trim s = rev (dropWhile is_space (rev (dropWhile is_space s)))"

fun starts_with :: "string \<Rightarrow> string \<Rightarrow> bool" where
  "starts_with s [] = True"
| "starts_with [] (p # ps) = False"
| "starts_with (c # s) (p # ps) = (c = p \<and> starts_with s ps)"

fun str_includes :: "string \<Rightarrow> string \<Rightarrow> bool" where
  "str_includes [] p = (p = [])"
| "str_includes (c # s) p = (starts_with (c # s) p \<or> str_includes s p)"

fun split_char :: "char \<Rightarrow> string \<Rightarrow> string list" where
  "split_char d [] = [[]]"
| "split_char d (c # s) =
     (if c = d then [] # split_char d s
      else (case split_char d s of [] \<Rightarrow> [[c]] | w # ws \<Rightarrow> (c # w) # ws))"

fun join_with :: "string \<Rightarrow> string list \<Rightarrow> string" where
  "join_with d [] = []"
| "join_with d [w] = w"
| "join_with d (w # v # ws) = w @ d @ join_with d (v # ws)"

definition replace_char :: "char \<Rightarrow> char \<Rightarrow> string \<Rightarrow> string" where
  "replace_char a b s = map (\<lambda>c. if c = a then b else c) s"

fun nat_digits :: "nat \<Rightarrow> string" where
  "nat_digits n = (if n < 10 then [char_of (48 + n)]
                   else nat_digits (n div 10) @ [char_of (48 + n mod 10)])"

declare nat_digits.simps [simp del]

definition show_int :: "int \<Rightarrow> string" where
  "show_int i = (if i < 0 then CHR 0x2D # nat_digits (nat (- i)) else nat_digits (nat i))"

abbreviation show_nat :: "nat \<Rightarrow> string" where
  "show_nat n \<equiv> nat_digits n"

text \<open>
  \<open>s.length\<close>, the number of UTF-16 units of a string given by its UTF-8 bytes: continuation
  bytes count nothing, the leading byte of a four-byte sequence stands for a surrogate pair.
\<close>

definition utf16_units :: "char \<Rightarrow> nat" where
  "utf16_units c =
     (let n = (of_char c :: nat) in if n < 128 then 1 else if n < 192 then 0 else if n < 240 then 1 else 2)"

definition js_length :: "string \<Rightarrow> nat" where
  "js_length s = sum_list (map utf16_units s)"

text \<open>
  Reading a property of an object literal by a computed name: an own property, one inherited from
  \<open>Object.prototype\<close> (a function or an object, never a string), or \<open>undefined\<close>.
\<close>

datatype 'a js_prop = Own 'a | Inherited | Undefined

definition object_prototype :: "string list" where
  "object_prototype =
     [''constructor'', ''toString'', ''toLocaleString'', ''valueOf'', ''hasOwnProperty'', ''isPrototypeOf'',
      ''propertyIsEnumerable'', ''__proto__'', ''__defineGetter__'', ''__defineSetter__'',
      ''__lookupGetter__'', ''__lookupSetter__'']"

definition prop_get :: "(string \<times> 'a) list \<Rightarrow> string \<Rightarrow> 'a js_prop" where
  "prop_get obj k =
     (case map_of obj k of Some v \<Rightarrow> Own v
      | None \<Rightarrow> if k \<in> set object_prototype then Inherited else Undefined)"

text \<open>Characters of the user-visible texts outside ASCII, in UTF-8.\<close>

definition ellipsis :: string where "ellipsis = [CHR 0xE2, CHR 0x80, CHR 0xA6]"
definition middot :: string where "middot = [CHR 0xC2, CHR 0xB7]"
definition emdash :: string where "emdash = [CHR 0xE2, CHR 0x80, CHR 0x94]"
definition endash :: string where "endash = [CHR 0xE2, CHR 0x80, CHR 0x93]"
definition rsquo :: string where "rsquo = [CHR 0xE2, CHR 0x80, CHR 0x99]"
definition ldquo :: string where "ldquo = [CHR 0xE2, CHR 0x80, CHR 0x9C]"
definition rdquo :: string where "rdquo = [CHR 0xE2, CHR 0x80, CHR 0x9D]"
definition rarrow :: string where "rarrow = [CHR 0xE2, CHR 0x86, CHR 0x92]"
definition euro :: string where "euro = [CHR 0xE2, CHR 0x82, CHR 0xAC]"
definition squote :: string where "squote = [CHR 0x27]"

section \<open>Truthiness and defaults\<close>

text \<open>\<open>a || b\<close> on strings: the empty string is falsy.\<close>

definition str_or :: "string \<Rightarrow> string \<Rightarrow> string" where
  "str_or a b = (if a = [] then b else a)"

text \<open>\<open>a || b\<close> where \<open>a\<close> may be \<open>undefined\<close> or \<open>null\<close>.\<close>

definition opt_str_or :: "string option \<Rightarrow> string \<Rightarrow> string" where
  "opt_str_or a b = (case a of None \<Rightarrow> b | Some s \<Rightarrow> str_or s b)"

text \<open>\<open>a ?? b\<close>.\<close>

definition nullish :: "'a option \<Rightarrow> 'a \<Rightarrow> 'a" where
  "nullish a b = (case a of None \<Rightarrow> b | Some x \<Rightarrow> x)"

definition truthy_str :: "string option \<Rightarrow> bool" where
  "truthy_str a \<longleftrightarrow> (case a of None \<Rightarrow> False | Some s \<Rightarrow> s \<noteq> [])"

section \<open>Numbers\<close>

text \<open>
  \<open>Math.round(a / b)\<close> for integral \<open>a\<close> and positive integral \<open>b\<close>: the nearest integer,
  ties towards plus infinity.
\<close>

definition round_div :: "int \<Rightarrow> int \<Rightarrow> int" where
  "round_div a b = (2 * a + b) div (2 * b)"

section \<open>Arrays and sets\<close>

text \<open>\<open>Array.prototype.findIndex\<close>: the first index that satisfies the predicate, or \<open>-1\<close>.\<close>

fun find_index :: "('a \<Rightarrow> bool) \<Rightarrow> 'a list \<Rightarrow> int" where
  "find_index P [] = -1"
| "find_index P (x # xs) = (if P x then 0 else
     (let i = find_index P xs in if i < 0 then -1 else i + 1))"

text \<open>An array read outside the bounds is \<open>undefined\<close>.\<close>

definition js_nth :: "'a list \<Rightarrow> int \<Rightarrow> 'a option" where
  "js_nth xs i = (if 0 \<le> i \<and> nat i < length xs then Some (xs ! nat i) else None)"

text \<open>\<open>[...new Set(xs)]\<close>: first occurrences, in order; the first argument holds what was seen.\<close>

fun js_set :: "'a list \<Rightarrow> 'a list \<Rightarrow> 'a list" where
  "js_set seen [] = []"
| "js_set seen (x # xs) = (if x \<in> set seen then js_set seen xs else x # js_set (x # seen) xs)"

section \<open>Rendered trees\<close>

datatype 'a attr =
    AStr string string      \<comment> \<open>a string-valued attribute\<close>
  | ABool string bool       \<comment> \<open>a flag such as \<open>disabled\<close>, \<open>checked\<close>, \<open>aria-pressed\<close>\<close>
  | ANum string int
  | On string 'a            \<comment> \<open>a handler that ignores the event's payload\<close>
  | OnValue string "string \<Rightarrow> 'a" \<comment> \<open>a handler of \<open>event.target.value\<close> or \<open>event.key\<close>\<close>
  | OnFlag string "bool \<Rightarrow> 'a"    \<comment> \<open>a handler of a new checked or open state\<close>

datatype 'a node =
    Txt string
  | El string "'a attr list" "'a node list"

definition shown_if :: "bool \<Rightarrow> 'a node list \<Rightarrow> 'a node list" where
  "shown_if b ns = (if b then ns else [])"

fun is_disabled :: "'a attr list \<Rightarrow> bool" where
  "is_disabled [] = False"
| "is_disabled (ABool n v # as) = ((n = ''disabled'' \<and> v) \<or> is_disabled as)"
| "is_disabled (_ # as) = is_disabled as"

fun handlers :: "string \<Rightarrow> 'a attr list \<Rightarrow> 'a list" where
  "handlers ev [] = []"
| "handlers ev (On n a # as) = (if n = ev then a # handlers ev as else handlers ev as)"
| "handlers ev (_ # as) = handlers ev as"

text \<open>The actions a click somewhere in the tree can cause: disabled elements react to none.\<close>

fun clicks :: "'a node \<Rightarrow> 'a list" where
  "clicks (Txt s) = []"
| "clicks (El t as cs) =
     (if is_disabled as then [] else handlers ''click'' as) @ concat (map clicks cs)"

text \<open>The actions that entering a text somewhere in the tree can cause.\<close>

fun value_handlers :: "string \<Rightarrow> string \<Rightarrow> 'a attr list \<Rightarrow> 'a list" where
  "value_handlers ev v [] = []"
| "value_handlers ev v (OnValue n h # as) = (if n = ev then h v # value_handlers ev v as else value_handlers ev v as)"
| "value_handlers ev v (_ # as) = value_handlers ev v as"

fun entries :: "string \<Rightarrow> 'a node \<Rightarrow> 'a list" where
  "entries v (Txt s) = []"
| "entries v (El t as cs) =
     (if is_disabled as then [] else value_handlers ''change'' v as) @ concat (map (entries v) cs)"

fun texts :: "'a node \<Rightarrow> string list" where
  "texts (Txt s) = [s]"
| "texts (El t as cs) = concat (map texts cs)"

fun subnodes :: "'a node \<Rightarrow> 'a node list" where
  "subnodes (Txt s) = [Txt s]"
| "subnodes (El t as cs) = El t as cs # concat (map subnodes cs)"

definition count_tag :: "string \<Rightarrow> 'a node \<Rightarrow> nat" where
  "count_tag t n = length (filter (\<lambda>m. case m of El u _ _ \<Rightarrow> u = t | _ \<Rightarrow> False) (subnodes n))"

section \<open>Errors, effects and query results\<close>

datatype code = Unauthenticated | PermissionDenied | OtherCode nat

text \<open>
  What a rejected promise carries: a Connect error with its code, the message without and
  with the code prefix, or any other exception with its message.
\<close>

datatype thrown =
    ConnectError code string string
  | OtherError string

primrec rawMessage :: "thrown \<Rightarrow> string" where
  "rawMessage (ConnectError c r m) = r"
| "rawMessage (OtherError m) = m"

primrec message :: "thrown \<Rightarrow> string" where
  "message (ConnectError c r m) = m"
| "message (OtherError m) = m"

datatype effect =
    RouterPush string
  | RouterReplace string
  | LocationAssign string
  | ToastError string
  | ToastSuccess string
  | Track string "(string \<times> string) list"
  | RemoveUser
  | SigninRedirect
  | SignoutRedirect
  | InvalidateQueries
  | Refetch
  | ConsoleError string
  | Toast string string string    \<comment> \<open>kind, title, description\<close>

record 'd query =
  q_data :: "'d option"
  q_isPending :: bool
  q_error :: "thrown option"

definition q_isError :: "'d query \<Rightarrow> bool" where
  "q_isError q \<longleftrightarrow> q_error q \<noteq> None"

text \<open>A sequence of events, with the outputs in order.\<close>

fun steps :: "('e \<Rightarrow> 's \<Rightarrow> 's \<times> 'x list) \<Rightarrow> 'e list \<Rightarrow> 's \<Rightarrow> 's \<times> 'x list" where
  "steps f [] s = (s, [])"
| "steps f (e # es) s = (let (s', x) = f e s; (t, y) = steps f es s' in (t, x @ y))"

section \<open>Lemmas\<close>

lemma toLowerCase_Nil [simp]: "toLowerCase [] = []"
  by (simp add: toLowerCase_def)

lemma toLowerCase_append: "toLowerCase (s @ t) = toLowerCase s @ toLowerCase t"
  by (simp add: toLowerCase_def)

lemma trim_Nil [simp]: "trim [] = []"
  by (simp add: trim_def)

lemma starts_with_append [simp]: "starts_with (s @ t) s"
  by (induction s) auto

lemma starts_with_iff_prefix: "starts_with s p \<longleftrightarrow> (\<exists>t. s = p @ t)"
  by (induction s p rule: starts_with.induct) auto

lemma str_includes_Nil [simp]: "str_includes s []"
  by (cases s) auto

lemma str_includes_iff: "str_includes s p \<longleftrightarrow> (\<exists>u v. s = u @ p @ v)"
proof (induction s)
  case Nil
  show ?case by auto
next
  case (Cons c s)
  show ?case
  proof
    assume "str_includes (c # s) p"
    then consider "starts_with (c # s) p" | "str_includes s p" by auto
    then show "\<exists>u v. c # s = u @ p @ v"
    proof cases
      case 1
      then obtain t where "c # s = p @ t" by (auto simp: starts_with_iff_prefix)
      then have "c # s = [] @ p @ t" by simp
      then show ?thesis by blast
    next
      case 2
      then obtain u v where "s = u @ p @ v" using Cons.IH by auto
      then have "c # s = (c # u) @ p @ v" by simp
      then show ?thesis by blast
    qed
  next
    assume "\<exists>u v. c # s = u @ p @ v"
    then obtain u v where uv: "c # s = u @ p @ v" by blast
    show "str_includes (c # s) p"
    proof (cases u)
      case Nil
      with uv have "starts_with (c # s) p" by (auto simp: starts_with_iff_prefix)
      then show ?thesis by simp
    next
      case (Cons a u')
      with uv have "s = u' @ p @ v" by simp
      then have "str_includes s p" using Cons.IH \<open>s = u' @ p @ v\<close> by blast
      then show ?thesis by simp
    qed
  qed
qed

lemma str_includes_refl [simp]: "str_includes s s"
proof -
  have "s = [] @ s @ []" by simp
  then show ?thesis unfolding str_includes_iff by blast
qed

lemma split_char_not_Nil [simp]: "split_char d s \<noteq> []"
  by (induction s) (auto split: list.splits)

lemma split_char_append:
  "d \<notin> set w \<Longrightarrow> split_char d (w @ d # s) = w # split_char d s"
  by (induction w) auto

lemma split_char_no_sep: "d \<notin> set w \<Longrightarrow> split_char d w = [w]"
  by (induction w) auto

lemma nullish_Some [simp]: "nullish (Some x) b = x"
  and nullish_None [simp]: "nullish None b = b"
  by (simp_all add: nullish_def)

lemma str_or_Nil [simp]: "str_or [] b = b"
  by (simp add: str_or_def)

lemma str_or_eq_Nil [simp]: "str_or a b = [] \<longleftrightarrow> a = [] \<and> b = []"
  by (simp add: str_or_def)

lemma shown_if_True [simp]: "shown_if True ns = ns"
  and shown_if_False [simp]: "shown_if False ns = []"
  by (simp_all add: shown_if_def)

lemma set_shown_if [simp]: "set (shown_if b ns) = (if b then set ns else {})"
  by (simp add: shown_if_def)

lemma map_shown_if: "map f (shown_if b ns) = (if b then map f ns else [])"
  by (simp add: shown_if_def)

lemma round_div_nearest:
  assumes "0 < b"
  shows "2 * \<bar>b * round_div a b - a\<bar> \<le> b"
proof -
  have e: "2 * a + b = (2 * b) * round_div a b + (2 * a + b) mod (2 * b)"
    by (simp add: round_div_def)
  have "0 \<le> (2 * a + b) mod (2 * b)" "(2 * a + b) mod (2 * b) < 2 * b"
    using assms by simp_all
  with e show ?thesis by (simp add: abs_if mult.assoc)
qed

lemma round_div_exact:
  assumes "0 < b"
  shows "round_div (b * n) b = n"
proof -
  have "2 * (b * n) + b = b + n * (2 * b)" by simp
  then have "round_div (b * n) b = (b + n * (2 * b)) div (2 * b)"
    by (simp only: round_div_def)
  also have "\<dots> = n + b div (2 * b)"
    using assms by (subst div_mult_self1) simp_all
  also have "b div (2 * b) = 0"
    using assms by (simp add: div_pos_pos_trivial)
  finally show ?thesis by simp
qed

lemma set_js_set: "set (js_set seen xs) = set xs - set seen"
  by (induction seen xs rule: js_set.induct) auto

lemma distinct_js_set [simp]: "distinct (js_set seen xs)"
  by (induction seen xs rule: js_set.induct) (auto simp: set_js_set)

lemma length_js_set: "length (js_set [] xs) = card (set xs)"
  using distinct_card[OF distinct_js_set, of "[]" xs] by (simp add: set_js_set)

lemma find_Some_mem: "find P xs = Some x \<Longrightarrow> x \<in> set xs \<and> P x"
  by (auto simp: find_Some_iff)

lemma find_index_ge: "-1 \<le> find_index P xs"
  by (induction xs) (auto simp: Let_def)

lemma find_index_less: "find_index P xs < int (length xs)"
  by (induction xs) (auto simp: Let_def)

lemma find_index_key:
  "distinct (map key xs) \<Longrightarrow> i < length xs \<Longrightarrow> find_index (\<lambda>x. key x = key (xs ! i)) xs = int i"
proof (induction xs arbitrary: i)
  case Nil
  then show ?case by simp
next
  case (Cons x xs)
  show ?case
  proof (cases i)
    case 0
    then show ?thesis by simp
  next
    case (Suc j)
    with Cons.prems have "key x \<noteq> key (xs ! j)" by auto
    with Suc Cons show ?thesis by (simp add: Let_def)
  qed
qed

lemma steps_append:
  "steps f (xs @ ys) s = (let (s', x) = steps f xs s; (t, y) = steps f ys s' in (t, x @ y))"
  by (induction xs arbitrary: s) (simp_all add: Let_def split: prod.splits)

end
