(* ===== verification/Rules.thy ===== *)
theory Rules
  imports Prelude Complex_Main
begin

text \<open>
  The rule types of \<open>buf.validate\<close>, with the meaning their generated types document
  (\<open>web/lib/gen/buf/validate/validate_pb.ts\<close>): one record per type, one predicate per meaning. A rule
  that is not set is \<open>None\<close> or the empty list; a boolean rule that is not set is \<open>False\<close>.
  The \<open>example\<close> values are carried and have no influence on validation.

  Parameters: \<open>re\<close> matches a regular expression in RE2 syntax, \<open>known\<close> decides the well-known forms;
  neither occurs in the rules of this service.
\<close>

section \<open>Numbers, durations and points in time\<close>

text \<open>
  A double with its special values; the sign of a zero is not kept, since no rule can tell the two
  zeros apart. The order is the one of the language: nothing compares with a value that is no number.
\<close>

datatype flt = FNan | FInf bool | Fin rat

instantiation flt :: ord
begin

fun less_flt :: "flt \<Rightarrow> flt \<Rightarrow> bool" where
  "less_flt (Fin x) (Fin y) = (x < y)"
| "less_flt (Fin x) (FInf pos) = pos"
| "less_flt (FInf pos) (Fin y) = (\<not> pos)"
| "less_flt (FInf p) (FInf q) = (\<not> p \<and> q)"
| "less_flt _ _ = False"

definition less_eq_flt :: "flt \<Rightarrow> flt \<Rightarrow> bool" where
  "less_eq_flt a b \<longleftrightarrow> a < b \<or> (a = b \<and> a \<noteq> FNan)"

instance ..

end

datatype 'v less_than = Lt 'v | Lte 'v
datatype 'v greater_than = Gt 'v | Gte 'v

record 'v num_rules =
  ir_const :: "'v option"
  ir_lessThan :: "'v less_than option"
  ir_greaterThan :: "'v greater_than option"
  ir_in :: "'v list"
  ir_notIn :: "'v list"
  ir_example :: "'v list"

text \<open>The integer types differ in what a field can hold, not in their rules.\<close>

type_synonym int32_rules = "int num_rules"
type_synonym int64_rules = "int num_rules"
type_synonym uint32_rules = "int num_rules"
type_synonym uint64_rules = "int num_rules"
type_synonym sint32_rules = "int num_rules"
type_synonym sint64_rules = "int num_rules"
type_synonym fixed32_rules = "int num_rules"
type_synonym fixed64_rules = "int num_rules"
type_synonym sfixed32_rules = "int num_rules"
type_synonym sfixed64_rules = "int num_rules"

text \<open>Durations and points in time, in nanoseconds.\<close>

type_synonym duration_rules = "int num_rules"

record float_rules =
  fl_num :: "flt num_rules"
  fl_finite :: bool

type_synonym double_rules = float_rules

fun below :: "'v::ord less_than \<Rightarrow> 'v \<Rightarrow> bool" where
  "below (Lt v) n = (n < v)"
| "below (Lte v) n = (n \<le> v)"

fun above :: "'v::ord greater_than \<Rightarrow> 'v \<Rightarrow> bool" where
  "above (Gt v) n = (v < n)"
| "above (Gte v) n = (v \<le> n)"

fun lt_value :: "'v less_than \<Rightarrow> 'v" where
  "lt_value (Lt v) = v"
| "lt_value (Lte v) = v"

fun gt_value :: "'v greater_than \<Rightarrow> 'v" where
  "gt_value (Gt v) = v"
| "gt_value (Gte v) = v"

text \<open>With a lower bound larger than the upper one the range is reversed: the value is outside it.\<close>

fun in_range :: "'v::ord less_than option \<Rightarrow> 'v greater_than option \<Rightarrow> 'v \<Rightarrow> bool" where
  "in_range None None n = True"
| "in_range (Some l) None n = below l n"
| "in_range None (Some g) n = above g n"
| "in_range (Some l) (Some g) n =
     (if lt_value l < gt_value g then above g n \<or> below l n else above g n \<and> below l n)"

text \<open>Equality as the rules read it: a value that is no number equals nothing.\<close>

definition equals :: "'v::ord \<Rightarrow> 'v \<Rightarrow> bool" where
  "equals a b \<longleftrightarrow> a \<le> b \<and> b \<le> a"

definition holds_for :: "('r \<Rightarrow> bool) \<Rightarrow> 'r option \<Rightarrow> bool" where
  "holds_for P r \<longleftrightarrow> (case r of None \<Rightarrow> True | Some x \<Rightarrow> P x)"

definition num_rules_ok :: "'v::ord num_rules \<Rightarrow> 'v \<Rightarrow> bool" where
  "num_rules_ok r n \<longleftrightarrow>
     holds_for (equals n) (ir_const r) \<and>
     in_range (ir_lessThan r) (ir_greaterThan r) n \<and>
     (ir_in r = [] \<or> list_ex (equals n) (ir_in r)) \<and> \<not> list_ex (equals n) (ir_notIn r)"

definition float_rules_ok :: "float_rules \<Rightarrow> flt \<Rightarrow> bool" where
  "float_rules_ok r x \<longleftrightarrow>
     num_rules_ok (fl_num r) x \<and> (fl_finite r \<longrightarrow> (case x of Fin _ \<Rightarrow> True | _ \<Rightarrow> False))"

text \<open>The bounds of a point in time may be the current time.\<close>

datatype time_less = TLt "int less_than" | LtNow bool
datatype time_greater = TGt "int greater_than" | GtNow bool

record timestamp_rules =
  tr_const :: "int option"
  tr_lessThan :: "time_less option"
  tr_greaterThan :: "time_greater option"
  tr_within :: "int option"
  tr_example :: "int list"

fun plain_less :: "time_less option \<Rightarrow> int less_than option" where
  "plain_less (Some (TLt l)) = Some l"
| "plain_less _ = None"

fun plain_greater :: "time_greater option \<Rightarrow> int greater_than option" where
  "plain_greater (Some (TGt g)) = Some g"
| "plain_greater _ = None"

definition timestamp_rules_ok :: "int \<Rightarrow> timestamp_rules \<Rightarrow> int \<Rightarrow> bool" where
  "timestamp_rules_ok clock r t \<longleftrightarrow>
     holds_for (\<lambda>c. t = c) (tr_const r) \<and>
     in_range (plain_less (tr_lessThan r)) (plain_greater (tr_greaterThan r)) t \<and>
     (tr_lessThan r = Some (LtNow True) \<longrightarrow> t < clock) \<and>
     (tr_greaterThan r = Some (GtNow True) \<longrightarrow> clock < t) \<and>
     holds_for (\<lambda>d. clock - d \<le> t \<and> t \<le> clock + d) (tr_within r)"

section \<open>Booleans and enumerations\<close>

record bool_rules =
  bo_const :: "bool option"
  bo_example :: "bool list"

definition bool_rules_ok :: "bool_rules \<Rightarrow> bool \<Rightarrow> bool" where
  "bool_rules_ok r b \<longleftrightarrow> holds_for (\<lambda>c. b = c) (bo_const r)"

record enum_rules =
  er_const :: "int option"
  er_definedOnly :: bool
  er_in :: "int list"
  er_notIn :: "int list"
  er_example :: "int list"

text \<open>The numbers the enumeration defines are an argument.\<close>

definition enum_rules_ok :: "int list \<Rightarrow> enum_rules \<Rightarrow> int \<Rightarrow> bool" where
  "enum_rules_ok defined r n \<longleftrightarrow>
     holds_for (\<lambda>c. n = c) (er_const r) \<and> (er_definedOnly r \<longrightarrow> n \<in> set defined) \<and>
     (er_in r = [] \<or> n \<in> set (er_in r)) \<and> n \<notin> set (er_notIn r)"

section \<open>Strings\<close>

text \<open>Characters of a rule are Unicode code points: the bytes of a text that start one.\<close>

definition code_points :: "string \<Rightarrow> nat" where
  "code_points s = length (filter (\<lambda>c. \<not> (128 \<le> (of_char c :: nat) \<and> (of_char c :: nat) < 192)) s)"

datatype known_form =
    KEmail | KHostname | KIp | KIpv4 | KIpv6 | KUri | KUriRef | KAddress | KUuid | KTuuid
  | KIpWithPrefixlen | KIpv4WithPrefixlen | KIpv6WithPrefixlen | KIpPrefix | KIpv4Prefix | KIpv6Prefix
  | KHostAndPort | KUlid | KProtobufFqn | KProtobufDotFqn

datatype known_regex = REGEX_UNSPECIFIED | HTTP_HEADER_NAME | HTTP_HEADER_VALUE

datatype string_known = Form known_form bool | Regex known_regex

record string_rules =
  sr_const :: "string option"
  sr_len :: "int option"
  sr_minLen :: "int option"
  sr_maxLen :: "int option"
  sr_lenBytes :: "int option"
  sr_minBytes :: "int option"
  sr_maxBytes :: "int option"
  sr_pattern :: "string option"
  sr_prefix :: "string option"
  sr_suffix :: "string option"
  sr_contains :: "string option"
  sr_notContains :: "string option"
  sr_in :: "string list"
  sr_notIn :: "string list"
  sr_wellKnown :: "string_known option"
  sr_strict :: "bool option"
  sr_example :: "string list"

text \<open>A form applies when its flag is true; header validation is strict unless it is switched off.\<close>

fun string_known_ok ::
  "(known_form \<Rightarrow> string \<Rightarrow> bool) \<Rightarrow> (known_regex \<Rightarrow> bool \<Rightarrow> string \<Rightarrow> bool) \<Rightarrow> bool option \<Rightarrow> string_known \<Rightarrow>
   string \<Rightarrow> bool" where
  "string_known_ok known header strict (Form k b) s = (b \<longrightarrow> known k s)"
| "string_known_ok known header strict (Regex g) s = (g = REGEX_UNSPECIFIED \<or> header g (strict \<noteq> Some False) s)"

definition string_rules_ok ::
  "(string \<Rightarrow> string \<Rightarrow> bool) \<Rightarrow> (known_form \<Rightarrow> string \<Rightarrow> bool) \<Rightarrow> (known_regex \<Rightarrow> bool \<Rightarrow> string \<Rightarrow> bool) \<Rightarrow>
   string_rules \<Rightarrow> string \<Rightarrow> bool" where
  "string_rules_ok re known header r s \<longleftrightarrow>
     holds_for (\<lambda>c. s = c) (sr_const r) \<and>
     holds_for (\<lambda>n. int (code_points s) = n) (sr_len r) \<and>
     holds_for (\<lambda>n. n \<le> int (code_points s)) (sr_minLen r) \<and>
     holds_for (\<lambda>n. int (code_points s) \<le> n) (sr_maxLen r) \<and>
     holds_for (\<lambda>n. int (length s) = n) (sr_lenBytes r) \<and>
     holds_for (\<lambda>n. n \<le> int (length s)) (sr_minBytes r) \<and>
     holds_for (\<lambda>n. int (length s) \<le> n) (sr_maxBytes r) \<and>
     holds_for (\<lambda>p. re p s) (sr_pattern r) \<and>
     holds_for (\<lambda>p. starts_with s p) (sr_prefix r) \<and>
     holds_for (\<lambda>p. starts_with (rev s) (rev p)) (sr_suffix r) \<and>
     holds_for (\<lambda>p. str_includes s p) (sr_contains r) \<and>
     holds_for (\<lambda>p. \<not> str_includes s p) (sr_notContains r) \<and>
     (sr_in r = [] \<or> s \<in> set (sr_in r)) \<and> s \<notin> set (sr_notIn r) \<and>
     holds_for (\<lambda>k. string_known_ok known header (sr_strict r) k s) (sr_wellKnown r)"

section \<open>Bytes\<close>

datatype bytes_form = BIp | BIpv4 | BIpv6 | BUuid

record bytes_rules =
  br_const :: "string option"
  br_len :: "int option"
  br_minLen :: "int option"
  br_maxLen :: "int option"
  br_pattern :: "string option"
  br_prefix :: "string option"
  br_suffix :: "string option"
  br_contains :: "string option"
  br_in :: "string list"
  br_notIn :: "string list"
  br_wellKnown :: "(bytes_form \<times> bool) option"
  br_example :: "string list"

fun bytes_form_ok :: "bytes_form \<Rightarrow> string \<Rightarrow> bool" where
  "bytes_form_ok BIp b = (length b = 4 \<or> length b = 16)"
| "bytes_form_ok BIpv4 b = (length b = 4)"
| "bytes_form_ok BIpv6 b = (length b = 16)"
| "bytes_form_ok BUuid b = (length b = 16)"

definition bytes_rules_ok :: "(string \<Rightarrow> string \<Rightarrow> bool) \<Rightarrow> bytes_rules \<Rightarrow> string \<Rightarrow> bool" where
  "bytes_rules_ok re r b \<longleftrightarrow>
     holds_for (\<lambda>c. b = c) (br_const r) \<and>
     holds_for (\<lambda>n. int (length b) = n) (br_len r) \<and>
     holds_for (\<lambda>n. n \<le> int (length b)) (br_minLen r) \<and>
     holds_for (\<lambda>n. int (length b) \<le> n) (br_maxLen r) \<and>
     holds_for (\<lambda>p. re p b) (br_pattern r) \<and>
     holds_for (\<lambda>p. starts_with b p) (br_prefix r) \<and>
     holds_for (\<lambda>p. starts_with (rev b) (rev p)) (br_suffix r) \<and>
     holds_for (\<lambda>p. str_includes b p) (br_contains r) \<and>
     (br_in r = [] \<or> b \<in> set (br_in r)) \<and> b \<notin> set (br_notIn r) \<and>
     holds_for (\<lambda>(k, on). on \<longrightarrow> bytes_form_ok k b) (br_wellKnown r)"

section \<open>Well-known messages\<close>

record any_rules =
  ar_in :: "string list"
  ar_notIn :: "string list"

definition any_rules_ok :: "any_rules \<Rightarrow> string \<Rightarrow> bool" where
  "any_rules_ok r type_url \<longleftrightarrow> (ar_in r = [] \<or> type_url \<in> set (ar_in r)) \<and> type_url \<notin> set (ar_notIn r)"

record field_mask_rules =
  mr_const :: "string list option"
  mr_in :: "string list"
  mr_notIn :: "string list"
  mr_example :: "string list list"

text \<open>A path matches a value when it is the value or a path below it.\<close>

definition path_under :: "string list \<Rightarrow> string \<Rightarrow> bool" where
  "path_under ps p \<longleftrightarrow> list_ex (\<lambda>f. p = f \<or> starts_with p (f @ ''.'')) ps"

definition field_mask_rules_ok :: "field_mask_rules \<Rightarrow> string list \<Rightarrow> bool" where
  "field_mask_rules_ok r paths \<longleftrightarrow>
     holds_for (\<lambda>c. paths = c) (mr_const r) \<and>
     (mr_in r = [] \<or> list_all (path_under (mr_in r)) paths) \<and>
     \<not> list_ex (path_under (mr_notIn r)) paths"

section \<open>Repeated fields and maps\<close>

text \<open>The rules for the items, keys and values are rules of any kind: an argument of the record.\<close>

record 'f repeated_rules =
  rr_minItems :: "int option"
  rr_maxItems :: "int option"
  rr_unique :: bool
  rr_items :: "'f option"

definition repeated_rules_ok :: "('f \<Rightarrow> 'v \<Rightarrow> bool) \<Rightarrow> 'f repeated_rules \<Rightarrow> 'v list \<Rightarrow> bool" where
  "repeated_rules_ok ok r xs \<longleftrightarrow>
     holds_for (\<lambda>n. n \<le> int (length xs)) (rr_minItems r) \<and>
     holds_for (\<lambda>n. int (length xs) \<le> n) (rr_maxItems r) \<and>
     (rr_unique r \<longrightarrow> distinct xs) \<and>
     holds_for (\<lambda>i. list_all (ok i) xs) (rr_items r)"

record 'f map_rules =
  pr_minPairs :: "int option"
  pr_maxPairs :: "int option"
  pr_keys :: "'f option"
  pr_values :: "'f option"

definition map_rules_ok :: "('f \<Rightarrow> 'v \<Rightarrow> bool) \<Rightarrow> 'f map_rules \<Rightarrow> ('v \<times> 'v) list \<Rightarrow> bool" where
  "map_rules_ok ok r kvs \<longleftrightarrow>
     holds_for (\<lambda>n. n \<le> int (length kvs)) (pr_minPairs r) \<and>
     holds_for (\<lambda>n. int (length kvs) \<le> n) (pr_maxPairs r) \<and>
     holds_for (\<lambda>f. list_all (\<lambda>(k, v). ok f k) kvs) (pr_keys r) \<and>
     holds_for (\<lambda>f. list_all (\<lambda>(k, v). ok f v) kvs) (pr_values r)"

section \<open>Rules with nothing set but bounds\<close>

definition int_bounds :: "int less_than option \<Rightarrow> int greater_than option \<Rightarrow> int num_rules" where
  "int_bounds l g = \<lparr>ir_const = None, ir_lessThan = l, ir_greaterThan = g, ir_in = [], ir_notIn = [], ir_example = []\<rparr>"

definition string_bounds :: "int option \<Rightarrow> int option \<Rightarrow> string_rules" where
  "string_bounds mn mx =
     \<lparr>sr_const = None, sr_len = None, sr_minLen = mn, sr_maxLen = mx, sr_lenBytes = None, sr_minBytes = None,
      sr_maxBytes = None, sr_pattern = None, sr_prefix = None, sr_suffix = None, sr_contains = None,
      sr_notContains = None, sr_in = [], sr_notIn = [], sr_wellKnown = None,
      sr_strict = None, sr_example = []\<rparr>"

definition item_bounds :: "int option \<Rightarrow> int option \<Rightarrow> 'f repeated_rules" where
  "item_bounds mn mx = \<lparr>rr_minItems = mn, rr_maxItems = mx, rr_unique = False, rr_items = None\<rparr>"

lemma code_points_Nil [simp]: "code_points [] = 0"
  by (simp add: code_points_def)

lemma code_points_le: "code_points s \<le> length s"
  by (simp add: code_points_def)

lemma code_points_append: "code_points (s @ t) = code_points s + code_points t"
  by (simp add: code_points_def)

lemma holds_for_simps [simp]: "holds_for P None" "holds_for P (Some x) \<longleftrightarrow> P x"
  by (simp_all add: holds_for_def)

lemma string_bounds_ok:
  "string_rules_ok re known header (string_bounds mn mx) s \<longleftrightarrow>
     holds_for (\<lambda>n. n \<le> int (code_points s)) mn \<and> holds_for (\<lambda>n. int (code_points s) \<le> n) mx"
  by (simp add: string_rules_ok_def string_bounds_def)

lemma item_bounds_ok:
  "repeated_rules_ok ok (item_bounds mn mx) xs \<longleftrightarrow>
     holds_for (\<lambda>n. n \<le> int (length xs)) mn \<and> holds_for (\<lambda>n. int (length xs) \<le> n) mx"
  by (simp add: repeated_rules_ok_def item_bounds_def)

lemma int_bounds_ok: "num_rules_ok (int_bounds l g) n \<longleftrightarrow> in_range l g n"
  by (simp add: num_rules_ok_def int_bounds_def)

text \<open>
  The bounds as a set of numbers: an interval when they are in order, and what is left of an interval
  taken out of the integers when they are reversed.
\<close>

fun lowest :: "int greater_than \<Rightarrow> int" where
  "lowest (Gt v) = v + 1"
| "lowest (Gte v) = v"

fun highest :: "int less_than \<Rightarrow> int" where
  "highest (Lt v) = v - 1"
| "highest (Lte v) = v"

lemma range_as_set:
  "{n. in_range (Some l) (Some g) n} =
     (if gt_value g > lt_value l then - {highest l + 1 .. lowest g - 1} else {lowest g .. highest l})"
  by (cases l; cases g) auto

end
