(* ===== verification/Cel.thy ===== *)
theory Cel
  imports Rules
begin

text \<open>
  The expression language of the validation rules. The descriptor embedded in
  \<open>web/lib/gen/buf/validate/validate_pb.ts\<close> carries, for every rule of every rule type, expressions in
  the Common Expression Language (CEL) that decide the rule. This theory has the part of the language
  those expressions use: values, expressions and their evaluation, where an error is \<open>None\<close>. The
  conjunction and disjunction of the language absorb an error when the other side decides.

  Parameters (\<open>cel_lib\<close>): regular expressions, the validators of well-known forms and the printing of a
  value by \<open>format\<close>, which belong to the runtime.
\<close>

section \<open>Values\<close>

datatype cel_value =
    VBool bool
  | VInt int
  | VUint int
  | VDouble flt
  | VString string
  | VBytes string
  | VDuration int    \<comment> \<open>nanoseconds\<close>
  | VTime int
  | VList "cel_value list"
  | VMap "(cel_value \<times> cel_value) list"
  | VMessage "(string \<times> cel_value) list"    \<comment> \<open>the fields that are set\<close>

text \<open>Equality and order of scalars; a list of scalars is compared item by item.\<close>

fun cel_eq :: "cel_value \<Rightarrow> cel_value \<Rightarrow> bool" where
  "cel_eq (VDouble a) (VDouble b) = equals a b"
| "cel_eq (VList xs) (VList ys) = list_all2 cel_eq xs ys"
| "cel_eq a b = (a = b)"

fun cel_less :: "cel_value \<Rightarrow> cel_value \<Rightarrow> bool option" where
  "cel_less (VInt a) (VInt b) = Some (a < b)"
| "cel_less (VUint a) (VUint b) = Some (a < b)"
| "cel_less (VDouble a) (VDouble b) = Some (a < b)"
| "cel_less (VDuration a) (VDuration b) = Some (a < b)"
| "cel_less (VTime a) (VTime b) = Some (a < b)"
| "cel_less _ _ = None"

fun cel_le :: "cel_value \<Rightarrow> cel_value \<Rightarrow> bool option" where
  "cel_le (VInt a) (VInt b) = Some (a \<le> b)"
| "cel_le (VUint a) (VUint b) = Some (a \<le> b)"
| "cel_le (VDouble a) (VDouble b) = Some (a \<le> b)"
| "cel_le (VDuration a) (VDuration b) = Some (a \<le> b)"
| "cel_le (VTime a) (VTime b) = Some (a \<le> b)"
| "cel_le _ _ = None"

section \<open>Expressions\<close>

datatype cel_cmp = CEq | CNe | CLt | CLe | CGt | CGe

datatype cel_fun =
    FSize | FUint | FBytes | FString | FMatches | FStartsWith | FEndsWith | FContains | FUnique
  | FIsNan | FIsInf | FValid string    \<comment> \<open>a validator of the runtime, such as \<open>isEmail\<close>\<close>

text \<open>
  \<open>Select\<close> is both \<open>rules.lt\<close> and \<open>getField(rules, 'in')\<close>, which the schema uses for names that are
  words of the language. A method call has its receiver as first argument.
\<close>

datatype cel =
    Ident string
  | Lit cel_value
  | Select cel string
  | Has cel string
  | Neg cel
  | And cel cel
  | Or cel cel
  | Cond cel cel cel
  | Cmp cel_cmp cel cel
  | In cel cel
  | Add cel cel
  | Sub cel cel
  | Call cel_fun "cel list"
  | Format string "cel list"
  | AllOf cel string cel
  | SomeOf cel string cel

record cel_lib =
  lib_matches :: "string \<Rightarrow> string \<Rightarrow> bool"    \<comment> \<open>pattern, text\<close>
  lib_valid :: "string \<Rightarrow> string \<Rightarrow> cel_value list \<Rightarrow> bool"    \<comment> \<open>validator, text, further arguments\<close>
  lib_utf8 :: "string \<Rightarrow> bool"
  lib_show :: "char \<Rightarrow> cel_value \<Rightarrow> string"    \<comment> \<open>verb of \<open>format\<close>, value\<close>

section \<open>Evaluation\<close>

fun cel_format :: "(char \<Rightarrow> cel_value \<Rightarrow> string) \<Rightarrow> string \<Rightarrow> cel_value list \<Rightarrow> string option" where
  "cel_format sh [] vs = (if vs = [] then Some [] else None)"
| "cel_format sh [c] vs = (if c = CHR ''%'' \<or> vs \<noteq> [] then None else Some [c])"
| "cel_format sh (c # d # s) vs =
     (if c \<noteq> CHR ''%'' then map_option (Cons c) (cel_format sh (d # s) vs)
      else case vs of [] \<Rightarrow> None | v # vs' \<Rightarrow> map_option ((@) (sh d v)) (cel_format sh s vs'))"

fun bool_of :: "cel_value option \<Rightarrow> bool option" where
  "bool_of (Some (VBool b)) = Some b"
| "bool_of _ = None"

definition cel_and :: "bool option \<Rightarrow> bool option \<Rightarrow> bool option" where
  "cel_and a b =
     (if a = Some False \<or> b = Some False then Some False
      else if a = Some True \<and> b = Some True then Some True else None)"

definition cel_or :: "bool option \<Rightarrow> bool option \<Rightarrow> bool option" where
  "cel_or a b =
     (if a = Some True \<or> b = Some True then Some True
      else if a = Some False \<and> b = Some False then Some False else None)"

fun cel_compare :: "cel_cmp \<Rightarrow> cel_value \<Rightarrow> cel_value \<Rightarrow> bool option" where
  "cel_compare CEq a b = Some (cel_eq a b)"
| "cel_compare CNe a b = Some (\<not> cel_eq a b)"
| "cel_compare CLt a b = cel_less a b"
| "cel_compare CLe a b = cel_le a b"
| "cel_compare CGt a b = cel_less b a"
| "cel_compare CGe a b = cel_le b a"

fun cel_distinct :: "cel_value list \<Rightarrow> bool" where
  "cel_distinct [] = True"
| "cel_distinct (x # xs) = (\<not> list_ex (cel_eq x) xs \<and> cel_distinct xs)"

fun cel_size :: "cel_value \<Rightarrow> int option" where
  "cel_size (VString s) = Some (int (code_points s))"
| "cel_size (VBytes s) = Some (int (length s))"
| "cel_size (VList xs) = Some (int (length xs))"
| "cel_size (VMap kvs) = Some (int (length kvs))"
| "cel_size _ = None"

fun text_call :: "(string \<Rightarrow> string \<Rightarrow> bool) \<Rightarrow> cel_value \<Rightarrow> cel_value \<Rightarrow> bool option" where
  "text_call p (VString s) (VString t) = Some (p s t)"
| "text_call p (VBytes s) (VBytes t) = Some (p s t)"
| "text_call p _ _ = None"

fun cel_call1 :: "(cel_value \<Rightarrow> cel_value option) \<Rightarrow> cel_value list \<Rightarrow> cel_value option" where
  "cel_call1 f [a] = f a"
| "cel_call1 f _ = None"

fun cel_call2 :: "(cel_value \<Rightarrow> cel_value \<Rightarrow> cel_value option) \<Rightarrow> cel_value list \<Rightarrow> cel_value option" where
  "cel_call2 f [a, b] = f a b"
| "cel_call2 f _ = None"

primrec cel_call :: "cel_lib \<Rightarrow> cel_fun \<Rightarrow> cel_value list \<Rightarrow> cel_value option" where
  "cel_call lib FSize = cel_call1 (\<lambda>a. map_option VInt (cel_size a))"
| "cel_call lib FUint = cel_call1 (\<lambda>a. case a of VInt n \<Rightarrow> if 0 \<le> n then Some (VUint n) else None | _ \<Rightarrow> None)"
| "cel_call lib FBytes = cel_call1 (\<lambda>a. case a of VString s \<Rightarrow> Some (VBytes s) | _ \<Rightarrow> None)"
| "cel_call lib FString =
     cel_call1 (\<lambda>a. case a of VBytes s \<Rightarrow> if lib_utf8 lib s then Some (VString s) else None | _ \<Rightarrow> None)"
| "cel_call lib FMatches =
     cel_call2 (\<lambda>a b. case a of VString s \<Rightarrow> (case b of VString p \<Rightarrow> Some (VBool (lib_matches lib p s)) | _ \<Rightarrow> None)
                      | _ \<Rightarrow> None)"
| "cel_call lib FStartsWith = cel_call2 (\<lambda>a b. map_option VBool (text_call starts_with a b))"
| "cel_call lib FEndsWith = cel_call2 (\<lambda>a b. map_option VBool (text_call (\<lambda>s t. starts_with (rev s) (rev t)) a b))"
| "cel_call lib FContains = cel_call2 (\<lambda>a b. map_option VBool (text_call str_includes a b))"
| "cel_call lib FUnique = cel_call1 (\<lambda>a. case a of VList xs \<Rightarrow> Some (VBool (cel_distinct xs)) | _ \<Rightarrow> None)"
| "cel_call lib FIsNan = cel_call1 (\<lambda>a. case a of VDouble x \<Rightarrow> Some (VBool (x = FNan)) | _ \<Rightarrow> None)"
| "cel_call lib FIsInf =
     cel_call1 (\<lambda>a. case a of VDouble x \<Rightarrow> Some (VBool (x = FInf True \<or> x = FInf False)) | _ \<Rightarrow> None)"
| "cel_call lib (FValid f) =
     (\<lambda>as. case as of VString s # bs \<Rightarrow> Some (VBool (lib_valid lib f s bs)) | _ \<Rightarrow> None)"

fun cel_in :: "cel_value \<Rightarrow> cel_value \<Rightarrow> bool option" where
  "cel_in v (VList xs) = Some (list_ex (cel_eq v) xs)"
| "cel_in _ _ = None"

fun cel_plus :: "cel_value \<Rightarrow> cel_value \<Rightarrow> cel_value option" where
  "cel_plus (VString s) (VString t) = Some (VString (s @ t))"
| "cel_plus (VTime t) (VDuration d) = Some (VTime (t + d))"
| "cel_plus _ _ = None"

fun cel_minus :: "cel_value \<Rightarrow> cel_value \<Rightarrow> cel_value option" where
  "cel_minus (VTime t) (VDuration d) = Some (VTime (t - d))"
| "cel_minus _ _ = None"

fun cel_select :: "string \<Rightarrow> cel_value \<Rightarrow> cel_value option" where
  "cel_select f (VMessage m) = map_of m f"
| "cel_select _ _ = None"

fun cel_has :: "string \<Rightarrow> cel_value \<Rightarrow> bool option" where
  "cel_has f (VMessage m) = Some (map_of m f \<noteq> None)"
| "cel_has _ _ = None"

fun items_of :: "cel_value option \<Rightarrow> cel_value list option" where
  "items_of (Some (VList xs)) = Some xs"
| "items_of _ = None"

primrec cel_eval :: "cel_lib \<Rightarrow> cel \<Rightarrow> (string \<rightharpoonup> cel_value) \<Rightarrow> cel_value option" where
  "cel_eval lib (Ident x) \<sigma> = \<sigma> x"
| "cel_eval lib (Lit v) \<sigma> = Some v"
| "cel_eval lib (Select e f) \<sigma> = Option.bind (cel_eval lib e \<sigma>) (cel_select f)"
| "cel_eval lib (Has e f) \<sigma> = map_option VBool (Option.bind (cel_eval lib e \<sigma>) (cel_has f))"
| "cel_eval lib (Neg e) \<sigma> = map_option (\<lambda>b. VBool (\<not> b)) (bool_of (cel_eval lib e \<sigma>))"
| "cel_eval lib (And d e) \<sigma> = map_option VBool (cel_and (bool_of (cel_eval lib d \<sigma>)) (bool_of (cel_eval lib e \<sigma>)))"
| "cel_eval lib (Or d e) \<sigma> = map_option VBool (cel_or (bool_of (cel_eval lib d \<sigma>)) (bool_of (cel_eval lib e \<sigma>)))"
| "cel_eval lib (Cond b d e) \<sigma> =
     (case bool_of (cel_eval lib b \<sigma>) of None \<Rightarrow> None
      | Some t \<Rightarrow> if t then cel_eval lib d \<sigma> else cel_eval lib e \<sigma>)"
| "cel_eval lib (Cmp c d e) \<sigma> =
     map_option VBool (Option.bind (cel_eval lib d \<sigma>) (\<lambda>a. Option.bind (cel_eval lib e \<sigma>) (cel_compare c a)))"
| "cel_eval lib (In d e) \<sigma> =
     map_option VBool (Option.bind (cel_eval lib d \<sigma>) (\<lambda>a. Option.bind (cel_eval lib e \<sigma>) (cel_in a)))"
| "cel_eval lib (Add d e) \<sigma> = Option.bind (cel_eval lib d \<sigma>) (\<lambda>a. Option.bind (cel_eval lib e \<sigma>) (cel_plus a))"
| "cel_eval lib (Sub d e) \<sigma> = Option.bind (cel_eval lib d \<sigma>) (\<lambda>a. Option.bind (cel_eval lib e \<sigma>) (cel_minus a))"
| "cel_eval lib (Call f es) \<sigma> = Option.bind (those (map (\<lambda>g. g \<sigma>) (map (cel_eval lib) es))) (cel_call lib f)"
| "cel_eval lib (Format t es) \<sigma> =
     map_option VString (Option.bind (those (map (\<lambda>g. g \<sigma>) (map (cel_eval lib) es))) (cel_format (lib_show lib) t))"
| "cel_eval lib (AllOf e x p) \<sigma> =
     map_option VBool (Option.bind (items_of (cel_eval lib e \<sigma>))
       (\<lambda>xs. foldr (\<lambda>v. cel_and (bool_of (cel_eval lib p (\<sigma>(x \<mapsto> v))))) xs (Some True)))"
| "cel_eval lib (SomeOf e x p) \<sigma> =
     map_option VBool (Option.bind (items_of (cel_eval lib e \<sigma>))
       (\<lambda>xs. foldr (\<lambda>v. cel_or (bool_of (cel_eval lib p (\<sigma>(x \<mapsto> v))))) xs (Some False)))"

section \<open>Rules and their outcome\<close>

text \<open>
  A rule: an identifier, an optional message (empty when absent) and an expression, as text in the
  message type and as its syntax tree in the tables of this development.
\<close>

record 'e rule =
  rule_id :: string
  rule_message :: string
  rule_expression :: 'e

text \<open>
  An expression has to give a boolean or a string; false or a string that is not empty is a failure,
  and a message of the rule replaces the string.
\<close>

fun rule_failure :: "string \<Rightarrow> cel_value option \<Rightarrow> string option option" where
  "rule_failure msg (Some (VBool b)) = Some (if b then None else Some msg)"
| "rule_failure msg (Some (VString s)) = Some (if s = [] then None else Some (if msg = [] then s else msg))"
| "rule_failure msg _ = None"

text \<open>
  The rules of a rule message apply for the fields that are set in it. The result is the identifiers
  of the rules that failed with their messages, in order, or \<open>None\<close> when one could not be evaluated.
\<close>

type_synonym rule_table = "(string \<times> cel rule list) list"

definition rule_env :: "int \<Rightarrow> (string \<times> cel_value) list \<Rightarrow> cel_value \<Rightarrow> (string \<rightharpoonup> cel_value)" where
  "rule_env clock msg v = [''this'' \<mapsto> v, ''rules'' \<mapsto> VMessage msg, ''now'' \<mapsto> VTime clock]"

definition check_rule :: "cel_lib \<Rightarrow> (string \<rightharpoonup> cel_value) \<Rightarrow> cel rule \<Rightarrow> (string \<times> string) list option" where
  "check_rule lib \<sigma> r =
     map_option (\<lambda>f. case f of None \<Rightarrow> [] | Some m \<Rightarrow> [(rule_id r, m)])
       (rule_failure (rule_message r) (cel_eval lib (rule_expression r) \<sigma>))"

definition check_rules ::
  "cel_lib \<Rightarrow> int \<Rightarrow> rule_table \<Rightarrow> (string \<times> cel_value) list \<Rightarrow> cel_value \<Rightarrow> (string \<times> string) list option" where
  "check_rules lib clock tab msg v =
     map_option concat (those (map (check_rule lib (rule_env clock msg v))
       (concat (map snd (filter (\<lambda>(f, _). map_of msg f \<noteq> None) tab)))))"

text \<open>The two shapes the rules of the schema have.\<close>

definition fail_if :: "string \<Rightarrow> cel \<Rightarrow> string \<Rightarrow> cel list \<Rightarrow> cel rule" where
  "fail_if i b t es = \<lparr>rule_id = i, rule_message = [], rule_expression = Cond b (Format t es) (Lit (VString []))\<rparr>"

definition must :: "string \<Rightarrow> string \<Rightarrow> cel \<Rightarrow> cel rule" where
  "must i m e = \<lparr>rule_id = i, rule_message = m, rule_expression = e\<rparr>"

section \<open>Lemmas\<close>

lemma those_Some: "those xs = Some ys \<longleftrightarrow> xs = map Some ys"
  by (induction xs arbitrary: ys) (auto split: option.splits)

lemma those_None: "those xs = None \<longleftrightarrow> None \<in> set xs"
  by (induction xs) (auto split: option.splits)

lemma collect_none: "map_option concat (those (map f xs)) \<noteq> None \<longleftrightarrow> list_all (\<lambda>x. f x \<noteq> None) xs"
  unfolding option.map_disc_iff those_None list_all_iff set_map image_iff by metis

lemma collect_nil: "map_option concat (those (map f xs)) = Some [] \<longleftrightarrow> list_all (\<lambda>x. f x = Some []) xs"
proof (induction xs)
  case (Cons x xs)
  then show ?case by (cases "f x"; cases "those (map f xs)") (auto simp: list_all_iff)
qed simp

lemma check_rules_none:
  "check_rules lib clock tab msg v \<noteq> None \<longleftrightarrow>
     list_all (\<lambda>(f, rs). map_of msg f \<noteq> None \<longrightarrow> list_all (\<lambda>r. check_rule lib (rule_env clock msg v) r \<noteq> None) rs) tab"
  unfolding check_rules_def collect_none by (fastforce simp: list_all_iff)

lemma check_rules_nil:
  "check_rules lib clock tab msg v = Some [] \<longleftrightarrow>
     list_all (\<lambda>(f, rs). map_of msg f \<noteq> None \<longrightarrow> list_all (\<lambda>r. check_rule lib (rule_env clock msg v) r = Some []) rs) tab"
  unfolding check_rules_def collect_nil by (fastforce simp: list_all_iff)

text \<open>A template whose verbs are complete and which starts with text prints, and prints something.\<close>

fun verbs :: "string \<Rightarrow> nat option" where
  "verbs [] = Some 0"
| "verbs [c] = (if c = CHR ''%'' then None else Some 0)"
| "verbs (c # d # s) = (if c \<noteq> CHR ''%'' then verbs (d # s) else map_option Suc (verbs s))"

lemma cel_format_prints: "verbs t = Some n \<Longrightarrow> length vs = n \<Longrightarrow> cel_format sh t vs \<noteq> None"
proof (induction t arbitrary: n vs rule: verbs.induct)
  case (3 c d s)
  then show ?case by (cases vs) (auto split: if_splits)
qed (auto split: if_splits)

definition template :: "string \<Rightarrow> nat \<Rightarrow> bool" where
  "template t n \<longleftrightarrow> verbs t = Some n \<and> t \<noteq> [] \<and> hd t \<noteq> CHR ''%''"

lemma template_prints:
  assumes "template t n" "length vs = n"
  obtains c s where "cel_format sh t vs = Some (c # s)"
proof -
  obtain r where r: "cel_format sh t vs = Some r" using assms cel_format_prints[of t n vs sh] by (auto simp: template_def)
  then have "r \<noteq> []" using assms by (cases "(sh, t, vs)" rule: cel_format.cases) (auto simp: template_def split: if_splits)
  with r that show thesis by (cases r) auto
qed

lemma fail_if_decides:
  assumes b: "cel_eval lib b \<sigma> = Some (VBool x)" and t: "template t (length es)"
    and es: "list_all (\<lambda>e. cel_eval lib e \<sigma> \<noteq> None) es"
  shows "check_rule lib \<sigma> (fail_if i b t es) \<noteq> None \<and> (check_rule lib \<sigma> (fail_if i b t es) = Some [] \<longleftrightarrow> \<not> x)"
proof (cases x)
  case True
  have "those (map (\<lambda>g. g \<sigma>) (map (cel_eval lib) es)) \<noteq> None" using es by (auto simp: those_None list_all_iff)
  then obtain vs where vs: "those (map (\<lambda>g. g \<sigma>) (map (cel_eval lib) es)) = Some vs" by blast
  then have "length vs = length es" by (metis those_Some length_map)
  then obtain c s where "cel_format (lib_show lib) t vs = Some (c # s)" using template_prints[OF t] by metis
  with b True vs show ?thesis by (simp add: check_rule_def fail_if_def)
qed (use b in \<open>simp add: check_rule_def fail_if_def\<close>)

lemma must_decides:
  assumes "cel_eval lib e \<sigma> = Some (VBool x)"
  shows "check_rule lib \<sigma> (must i m e) \<noteq> None \<and> (check_rule lib \<sigma> (must i m e) = Some [] \<longleftrightarrow> x)"
  using assms by (simp add: check_rule_def must_def)

lemma cel_and_simps [simp]:
  "cel_and (Some a) (Some b) = Some (a \<and> b)" "cel_and (Some False) x = Some False" "cel_and x (Some False) = Some False"
  by (auto simp: cel_and_def)

lemma cel_or_simps [simp]:
  "cel_or (Some a) (Some b) = Some (a \<or> b)" "cel_or (Some True) x = Some True" "cel_or x (Some True) = Some True"
  by (auto simp: cel_or_def)

lemma env_simps [simp]:
  "rule_env clock msg v ''this'' = Some v" "rule_env clock msg v ''rules'' = Some (VMessage msg)"
  "rule_env clock msg v ''now'' = Some (VTime clock)"
  by (simp_all add: rule_env_def)

lemma bool_of_map [simp]: "bool_of (map_option VBool x) = x"
  by (cases x) auto

text \<open>A rule that fails under a condition, as two equations for the simplifier.\<close>

lemma fail_if_simps:
  assumes t: "template t (length es)"
  shows "check_rule lib \<sigma> (fail_if i b t es) = Some [] \<longleftrightarrow> bool_of (cel_eval lib b \<sigma>) = Some False"
    "check_rule lib \<sigma> (fail_if i b t es) = None \<longleftrightarrow>
       bool_of (cel_eval lib b \<sigma>) = None \<or>
       (bool_of (cel_eval lib b \<sigma>) = Some True \<and> list_ex (\<lambda>e. cel_eval lib e \<sigma> = None) es)"
proof -
  have decided: "cel_eval lib b \<sigma> = Some (VBool x)" if "bool_of (cel_eval lib b \<sigma>) = Some x" for x
    using that by (cases "cel_eval lib b \<sigma>" rule: bool_of.cases) auto
  have no_args: "check_rule lib \<sigma> (fail_if i b t es) = None"
    if "bool_of (cel_eval lib b \<sigma>) = Some True" "list_ex (\<lambda>e. cel_eval lib e \<sigma> = None) es"
  proof -
    have "those (map (\<lambda>g. g \<sigma>) (map (cel_eval lib) es)) = None"
      using that(2) by (auto simp: those_None list_ex_iff image_iff) metis
    then show ?thesis using decided[OF that(1)] by (simp add: check_rule_def fail_if_def)
  qed
  have undecided: "check_rule lib \<sigma> (fail_if i b t es) = None" if "bool_of (cel_eval lib b \<sigma>) = None"
    using that by (simp add: check_rule_def fail_if_def)
  have passes: "check_rule lib \<sigma> (fail_if i b t es) = Some []" if "bool_of (cel_eval lib b \<sigma>) = Some False"
    using decided[OF that] by (simp add: check_rule_def fail_if_def)
  have fails: "check_rule lib \<sigma> (fail_if i b t es) \<noteq> None \<and> check_rule lib \<sigma> (fail_if i b t es) \<noteq> Some []"
    if "bool_of (cel_eval lib b \<sigma>) = Some True" "\<not> list_ex (\<lambda>e. cel_eval lib e \<sigma> = None) es"
    using fail_if_decides[OF decided[OF that(1)] t, of i] that(2) by (auto simp: list_ex_iff list_all_iff)
  show "check_rule lib \<sigma> (fail_if i b t es) = Some [] \<longleftrightarrow> bool_of (cel_eval lib b \<sigma>) = Some False"
    using no_args undecided passes fails by (cases "bool_of (cel_eval lib b \<sigma>)") (auto, metis+)
  show "check_rule lib \<sigma> (fail_if i b t es) = None \<longleftrightarrow>
      bool_of (cel_eval lib b \<sigma>) = None \<or>
      (bool_of (cel_eval lib b \<sigma>) = Some True \<and> list_ex (\<lambda>e. cel_eval lib e \<sigma> = None) es)"
    using no_args undecided passes fails by (cases "bool_of (cel_eval lib b \<sigma>)") (auto, metis+)
qed

lemma must_simps:
  "check_rule lib \<sigma> (must i m e) = Some [] \<longleftrightarrow> rule_failure m (cel_eval lib e \<sigma>) = Some None"
  "check_rule lib \<sigma> (must i m e) = None \<longleftrightarrow> rule_failure m (cel_eval lib e \<sigma>) = None"
  by (cases "rule_failure m (cel_eval lib e \<sigma>)"; auto simp: check_rule_def must_def split: option.splits)+

text \<open>
  A table decides a condition for a rule message and a value: every rule that applies can be evaluated,
  and none fails exactly when the condition holds.
\<close>

definition decides ::
  "cel_lib \<Rightarrow> int \<Rightarrow> (string \<times> cel_value) list \<Rightarrow> cel_value \<Rightarrow> rule_table \<Rightarrow> bool \<Rightarrow> bool" where
  "decides lib clock msg v tab x \<longleftrightarrow>
     check_rules lib clock tab msg v \<noteq> None \<and> (check_rules lib clock tab msg v = Some [] \<longleftrightarrow> x)"

lemma decides_append:
  "decides lib clock msg v s x \<Longrightarrow> decides lib clock msg v t y \<Longrightarrow> decides lib clock msg v (s @ t) (x \<and> y)"
  unfolding decides_def check_rules_none check_rules_nil by simp

lemma decides_Cons:
  "decides lib clock msg v [s] x \<Longrightarrow> decides lib clock msg v t y \<Longrightarrow> decides lib clock msg v (s # t) (x \<and> y)"
  using decides_append[of lib clock msg v "[s]" x t y] by simp

lemma decides_Nil: "decides lib clock msg v [] True"
  by (simp add: decides_def check_rules_def)

lemma decides_field:
  "decides lib clock msg v [(f, rs)] x \<longleftrightarrow>
     (if map_of msg f = None then x
      else list_all (\<lambda>r. check_rule lib (rule_env clock msg v) r \<noteq> None) rs \<and>
           (list_all (\<lambda>r. check_rule lib (rule_env clock msg v) r = Some []) rs \<longleftrightarrow> x))"
  unfolding decides_def check_rules_none check_rules_nil by auto

lemma decides_iff:
  "decides lib clock msg v tab x \<longleftrightarrow>
     list_all (\<lambda>(f, rs). map_of msg f = None \<or> \<not> list_ex (\<lambda>r. check_rule lib (rule_env clock msg v) r = None) rs) tab \<and>
     (list_all (\<lambda>(f, rs). map_of msg f = None \<or> list_all (\<lambda>r. check_rule lib (rule_env clock msg v) r = Some []) rs) tab
        \<longleftrightarrow> x)"
  unfolding decides_def check_rules_none check_rules_nil by (auto simp: list_all_iff list_ex_iff)

lemma decides_cong: "decides lib clock msg v tab x \<Longrightarrow> x = y \<Longrightarrow> decides lib clock msg v tab y"
  by simp

text \<open>One optional rule at the head of a table, decided by what it says of its value.\<close>

lemma opt_decides:
  assumes "map_of msg f = map_option w c"
    and "\<And>x. map_of msg f = Some (w x) \<Longrightarrow>
      check_rule lib (rule_env clock msg v) r \<noteq> None \<and> (check_rule lib (rule_env clock msg v) r = Some [] \<longleftrightarrow> P x)"
    and "decides lib clock msg v tab y"
  shows "decides lib clock msg v ((f, [r]) # tab) (holds_for P c \<and> y)"
proof -
  have "decides lib clock msg v [(f, [r])] (holds_for P c)"
    using assms(1,2) by (cases c) (auto simp: decides_field holds_for_def)
  from decides_Cons[OF this assms(3)] show ?thesis .
qed

lemma list_opt_decides:
  assumes "map_of msg f = (if xs = [] then None else Some (VList (map w xs)))"
    and "map_of msg f = Some (VList (map w xs)) \<Longrightarrow> xs \<noteq> [] \<Longrightarrow>
      check_rule lib (rule_env clock msg v) r \<noteq> None \<and> (check_rule lib (rule_env clock msg v) r = Some [] \<longleftrightarrow> P)"
    and "decides lib clock msg v tab y"
  shows "decides lib clock msg v ((f, [r]) # tab) ((xs = [] \<or> P) \<and> y)"
proof -
  have "decides lib clock msg v [(f, [r])] (xs = [] \<or> P)"
    using assms(1,2) by (cases "xs = []") (auto simp: decides_field)
  from decides_Cons[OF this assms(3)] show ?thesis .
qed

lemma decides_insert:
  "decides lib clock msg v (s @ u) x \<Longrightarrow> decides lib clock msg v t y \<Longrightarrow> decides lib clock msg v (s @ t @ u) (x \<and> y)"
  unfolding decides_def check_rules_none check_rules_nil by auto

end
