(* ===== verification/Schema_Rules.thy ===== *)
theory Schema_Rules
  imports Cel
begin

text \<open>
  The rules of the schema, as the expressions its descriptor carries
  (\<open>file_buf_validate_validate\<close> in \<open>web/lib/gen/buf/validate/validate_pb.ts\<close>), and that they decide what
  the rule types document (theory \<open>Rules\<close>). A table lists, for each field of a rule type, the
  expressions that apply when the field is set, with their identifiers and messages.
\<close>

section \<open>Numbers, durations and points in time\<close>

abbreviation this :: cel where "this \<equiv> Ident ''this''"
abbreviation rules_at :: "string \<Rightarrow> cel" where "rules_at f \<equiv> Select (Ident ''rules'') f"
abbreviation rules_have :: "string \<Rightarrow> cel" where "rules_have f \<equiv> Has (Ident ''rules'') f"

text \<open>
  The integer types, durations and points in time share their expressions but for the prefix of the
  identifiers; those of \<open>float\<close> and \<open>double\<close> fail on a value that is no number first.
\<close>

definition nan_or :: "bool \<Rightarrow> cel \<Rightarrow> cel" where
  "nan_or nan e = (if nan then Or (Call FIsNan [this]) e else e)"

definition const_cel :: "string \<Rightarrow> string \<times> cel rule list" where
  "const_cel p =
     (''const'', [fail_if (p @ ''.const'') (Cmp CNe this (rules_at ''const'')) ''must equal %s'' [rules_at ''const'']])"

definition upper_cel :: "bool \<Rightarrow> string \<Rightarrow> rule_table" where
  "upper_cel nan p =
     [(''lt'', [fail_if (p @ ''.lt'')
         (And (And (Neg (rules_have ''gte'')) (Neg (rules_have ''gt''))) (nan_or nan (Cmp CGe this (rules_at ''lt''))))
         ''must be less than %s'' [rules_at ''lt'']]),
      (''lte'', [fail_if (p @ ''.lte'')
         (And (And (Neg (rules_have ''gte'')) (Neg (rules_have ''gt''))) (nan_or nan (Cmp CGt this (rules_at ''lte''))))
         ''must be less than or equal to %s'' [rules_at ''lte'']])]"

text \<open>The rules of \<open>gt\<close> and \<open>gte\<close> differ in the comparison that fails and in its name.\<close>

definition lower_cel :: "bool \<Rightarrow> string \<Rightarrow> string \<Rightarrow> cel_cmp \<Rightarrow> string \<Rightarrow> string \<times> cel rule list" where
  "lower_cel nan p f bad name =
     (f,
      [fail_if (p @ CHR ''.'' # f)
         (And (And (Neg (rules_have ''lt'')) (Neg (rules_have ''lte''))) (nan_or nan (Cmp bad this (rules_at f))))
         (''must be greater than'' @ name @ '' %s'') [rules_at f],
       fail_if (p @ CHR ''.'' # f @ ''_lt'')
         (And (And (rules_have ''lt'') (Cmp CGe (rules_at ''lt'') (rules_at f)))
           (nan_or nan (Or (Cmp CGe this (rules_at ''lt'')) (Cmp bad this (rules_at f)))))
         (''must be greater than'' @ name @ '' %s and less than %s'') [rules_at f, rules_at ''lt''],
       fail_if (p @ CHR ''.'' # f @ ''_lt_exclusive'')
         (And (And (rules_have ''lt'') (Cmp CLt (rules_at ''lt'') (rules_at f)))
           (nan_or nan (And (Cmp CLe (rules_at ''lt'') this) (Cmp bad this (rules_at f)))))
         (''must be greater than'' @ name @ '' %s or less than %s'') [rules_at f, rules_at ''lt''],
       fail_if (p @ CHR ''.'' # f @ ''_lte'')
         (And (And (rules_have ''lte'') (Cmp CGe (rules_at ''lte'') (rules_at f)))
           (nan_or nan (Or (Cmp CGt this (rules_at ''lte'')) (Cmp bad this (rules_at f)))))
         (''must be greater than'' @ name @ '' %s and less than or equal to %s'') [rules_at f, rules_at ''lte''],
       fail_if (p @ CHR ''.'' # f @ ''_lte_exclusive'')
         (And (And (rules_have ''lte'') (Cmp CLt (rules_at ''lte'') (rules_at f)))
           (nan_or nan (And (Cmp CLt (rules_at ''lte'') this) (Cmp bad this (rules_at f)))))
         (''must be greater than'' @ name @ '' %s or less than or equal to %s'') [rules_at f, rules_at ''lte'']])"

definition range_cel :: "bool \<Rightarrow> string \<Rightarrow> rule_table" where
  "range_cel nan p =
     upper_cel nan p @ [lower_cel nan p ''gt'' CLe [], lower_cel nan p ''gte'' CLt '' or equal to'']"

definition list_cel :: "string \<Rightarrow> rule_table" where
  "list_cel p =
     [(''in'', [fail_if (p @ ''.in'') (Neg (In this (rules_at ''in''))) ''must be in list %s'' [rules_at ''in'']]),
      (''not_in'', [fail_if (p @ ''.not_in'') (In this (rules_at ''not_in'')) ''must not be in list %s''
         [rules_at ''not_in'']])]"

definition example_cel :: "string \<Rightarrow> rule_table" where
  "example_cel p = [(''example'', [must (p @ ''.example'') [] (Lit (VBool True))])]"

definition num_cel :: "string \<Rightarrow> rule_table" where
  "num_cel p = const_cel p # range_cel False p @ list_cel p @ example_cel p"

definition float_cel :: "string \<Rightarrow> rule_table" where
  "float_cel p =
     const_cel p # range_cel True p @ list_cel p @
     [(''finite'', [must (p @ ''.finite'') []
         (Cond (rules_at ''finite'')
           (Cond (Or (Call FIsNan [this]) (Call FIsInf [this])) (Lit (VString ''must be finite'')) (Lit (VString [])))
           (Lit (VString [])))])] @ example_cel p"

definition timestamp_cel :: rule_table where
  "timestamp_cel =
     const_cel ''timestamp'' # upper_cel False ''timestamp'' @
     [(''lt_now'', [must ''timestamp.lt_now'' []
        (Cond (And (rules_at ''lt_now'') (Cmp CGt this (Ident ''now''))) (Lit (VString ''must be less than now''))
          (Lit (VString [])))]),
      lower_cel False ''timestamp'' ''gt'' CLe [], lower_cel False ''timestamp'' ''gte'' CLt '' or equal to'',
      (''gt_now'', [must ''timestamp.gt_now'' []
        (Cond (And (rules_at ''gt_now'') (Cmp CLt this (Ident ''now''))) (Lit (VString ''must be greater than now''))
          (Lit (VString [])))]),
      (''within'', [fail_if ''timestamp.within''
        (Or (Cmp CLt this (Sub (Ident ''now'') (rules_at ''within'')))
          (Cmp CGt this (Add (Ident ''now'') (rules_at ''within''))))
        ''must be within %s of now'' [rules_at ''within'']])] @ example_cel ''timestamp''"

section \<open>The rule messages of the records\<close>

definition set_field :: "string \<Rightarrow> cel_value option \<Rightarrow> (string \<times> cel_value) list" where
  "set_field f v = (case v of None \<Rightarrow> [] | Some x \<Rightarrow> [(f, x)])"

definition set_list :: "string \<Rightarrow> cel_value list \<Rightarrow> (string \<times> cel_value) list" where
  "set_list f vs = (if vs = [] then [] else [(f, VList vs)])"

definition set_flag :: "string \<Rightarrow> bool \<Rightarrow> (string \<times> cel_value) list" where
  "set_flag f b = (if b then [(f, VBool True)] else [])"

fun less_msg :: "('v \<Rightarrow> cel_value) \<Rightarrow> 'v less_than option \<Rightarrow> (string \<times> cel_value) list" where
  "less_msg w None = []"
| "less_msg w (Some (Lt v)) = [(''lt'', w v)]"
| "less_msg w (Some (Lte v)) = [(''lte'', w v)]"

fun greater_msg :: "('v \<Rightarrow> cel_value) \<Rightarrow> 'v greater_than option \<Rightarrow> (string \<times> cel_value) list" where
  "greater_msg w None = []"
| "greater_msg w (Some (Gt v)) = [(''gt'', w v)]"
| "greater_msg w (Some (Gte v)) = [(''gte'', w v)]"

definition num_msg :: "('v \<Rightarrow> cel_value) \<Rightarrow> 'v num_rules \<Rightarrow> (string \<times> cel_value) list" where
  "num_msg w r =
     set_field ''const'' (map_option w (ir_const r)) @ less_msg w (ir_lessThan r) @ greater_msg w (ir_greaterThan r) @
     set_list ''in'' (map w (ir_in r)) @ set_list ''not_in'' (map w (ir_notIn r)) @
     set_list ''example'' (map w (ir_example r))"

definition float_msg :: "float_rules \<Rightarrow> (string \<times> cel_value) list" where
  "float_msg r = num_msg VDouble (fl_num r) @ set_flag ''finite'' (fl_finite r)"

fun time_less_msg :: "time_less option \<Rightarrow> (string \<times> cel_value) list" where
  "time_less_msg (Some (LtNow b)) = [(''lt_now'', VBool b)]"
| "time_less_msg l = less_msg VTime (plain_less l)"

fun time_greater_msg :: "time_greater option \<Rightarrow> (string \<times> cel_value) list" where
  "time_greater_msg (Some (GtNow b)) = [(''gt_now'', VBool b)]"
| "time_greater_msg g = greater_msg VTime (plain_greater g)"

definition timestamp_msg :: "timestamp_rules \<Rightarrow> (string \<times> cel_value) list" where
  "timestamp_msg r =
     set_field ''const'' (map_option VTime (tr_const r)) @ time_less_msg (tr_lessThan r) @
     time_greater_msg (tr_greaterThan r) @ set_field ''within'' (map_option VDuration (tr_within r)) @
     set_list ''example'' (map VTime (tr_example r))"

section \<open>What the expressions decide\<close>

lemma find_field:
  "map_of (set_field f v @ m) g = (if f = g then (case v of None \<Rightarrow> map_of m g | Some x \<Rightarrow> Some x) else map_of m g)"
  "map_of (set_list f vs @ m) g = (if f = g \<and> vs \<noteq> [] then Some (VList vs) else map_of m g)"
  "map_of (set_flag f b @ m) g = (if f = g \<and> b then Some (VBool True) else map_of m g)"
  "map_of (set_field f v) g = (if f = g then v else None)"
  "map_of (set_list f vs) g = (if f = g \<and> vs \<noteq> [] then Some (VList vs) else None)"
  "map_of (set_flag f b) g = (if f = g \<and> b then Some (VBool True) else None)"
  by (auto simp: set_field_def set_list_def set_flag_def split: option.splits)

lemma or_else_None [simp]: "(case v of None \<Rightarrow> None | Some x \<Rightarrow> Some x) = v"
  by (cases v) auto

text \<open>The bounds of a message as the expressions find them.\<close>

definition bounds_in :: "('v \<Rightarrow> cel_value) \<Rightarrow> 'v less_than option \<Rightarrow> 'v greater_than option \<Rightarrow>
    (string \<times> cel_value) list \<Rightarrow> bool" where
  "bounds_in w l g msg \<longleftrightarrow>
     map_of msg ''lt'' = (case l of Some (Lt v) \<Rightarrow> Some (w v) | _ \<Rightarrow> None) \<and>
     map_of msg ''lte'' = (case l of Some (Lte v) \<Rightarrow> Some (w v) | _ \<Rightarrow> None) \<and>
     map_of msg ''gt'' = (case g of Some (Gt v) \<Rightarrow> Some (w v) | _ \<Rightarrow> None) \<and>
     map_of msg ''gte'' = (case g of Some (Gte v) \<Rightarrow> Some (w v) | _ \<Rightarrow> None)"

lemma templates [simp]:
  "template ''must equal %s'' (Suc 0)" "template ''must be less than %s'' (Suc 0)" "template ''must be less than or equal to %s'' (Suc 0)"
  "template ''must be greater than %s'' (Suc 0)" "template ''must be greater than %s and less than %s'' (Suc (Suc 0))"
  "template ''must be greater than %s or less than %s'' (Suc (Suc 0))"
  "template ''must be greater than %s and less than or equal to %s'' (Suc (Suc 0))"
  "template ''must be greater than %s or less than or equal to %s'' (Suc (Suc 0))"
  "template ''must be greater than or equal to %s'' (Suc 0)" "template ''must be greater than or equal to %s and less than %s'' (Suc (Suc 0))"
  "template ''must be greater than or equal to %s or less than %s'' (Suc (Suc 0))"
  "template ''must be greater than or equal to %s and less than or equal to %s'' (Suc (Suc 0))"
  "template ''must be greater than or equal to %s or less than or equal to %s'' (Suc (Suc 0))"
  "template ''must be in list %s'' (Suc 0)" "template ''must not be in list %s'' (Suc 0)" "template ''must be within %s of now'' (Suc 0)"
  by code_simp+

text \<open>
  The contract of an ordered kind of values: the comparisons of the language are those of the rules,
  two numbers are comparable, and only a value that is no number differs from itself.
\<close>

locale ordered_values =
  fixes nan :: bool and w :: "'v::ord \<Rightarrow> cel_value"
  assumes eq: "cel_eq (w a) (w b) \<longleftrightarrow> equals a b"
    and less: "cel_less (w a) (w b) = Some (a < b)"
    and le: "cel_le (w a) (w b) = Some (a \<le> b)"
    and number: "if nan then cel_call lib FIsNan [w a] = Some (VBool (\<not> a \<le> a)) else a \<le> a"
    and total: "a \<le> a \<Longrightarrow> b \<le> b \<Longrightarrow> a < b \<longleftrightarrow> \<not> b \<le> a"
    and strict: "a < b \<Longrightarrow> a \<le> a \<and> b \<le> b" "a \<le> b \<Longrightarrow> a \<le> a \<and> b \<le> b"
begin

lemma nan_or_eval:
  "bool_of (cel_eval lib (nan_or nan e) (rule_env clock msg (w n))) =
     (if n \<le> n then bool_of (cel_eval lib e (rule_env clock msg (w n))) else Some True)"
proof (cases nan)
  case True
  then have "cel_call lib FIsNan [w n] = Some (VBool (\<not> n \<le> n))" using number[of lib n] by simp
  with True show ?thesis
    by (cases "bool_of (cel_eval lib e (rule_env clock msg (w n)))") (auto simp: nan_or_def cel_or_def)
next
  case False
  then show ?thesis using number[of undefined n] by (simp add: nan_or_def)
qed

lemmas evaluates = fail_if_simps nan_or_eval less le eq

lemma range_decides:
  assumes b: "bounds_in w l g msg"
    and l: "\<forall>x. l = Some x \<longrightarrow> lt_value x \<le> lt_value x" and g: "\<forall>x. g = Some x \<longrightarrow> gt_value x \<le> gt_value x"
  shows "decides lib clock msg (w n) (range_cel nan p) (in_range l g n)"
proof (cases l)
  case None
  show ?thesis
  proof (cases g)
    case N: None
    with None b show ?thesis by (simp add: decides_iff range_cel_def upper_cel_def
       lower_cel_def bounds_in_def)
  next
    case (Some y)
    with None b g total[of "gt_value y" n] total[of n "gt_value y"] strict[of "gt_value y" n] show ?thesis
      by (cases y) (auto simp: decides_iff range_cel_def upper_cel_def
       lower_cel_def bounds_in_def evaluates simp del: not_None_eq)
  qed
next
  case (Some x)
  show ?thesis
  proof (cases g)
    case None
    with Some b l total[of "lt_value x" n] total[of n "lt_value x"] strict[of n "lt_value x"] show ?thesis
      by (cases x) (auto simp: decides_iff range_cel_def upper_cel_def
       lower_cel_def bounds_in_def evaluates simp del: not_None_eq)
  next
    case G: (Some y)
    have numbers: "lt_value x \<le> lt_value x" "gt_value y \<le> gt_value y" using Some G l g by auto
    have span: "lt_value x < gt_value y \<longleftrightarrow> \<not> gt_value y \<le> lt_value x" using total numbers by blast
    show ?thesis
    proof (cases "n \<le> n")
      case True
      then have "n < lt_value x \<longleftrightarrow> \<not> lt_value x \<le> n" "gt_value y < n \<longleftrightarrow> \<not> n \<le> gt_value y"
        "lt_value x < n \<longleftrightarrow> \<not> n \<le> lt_value x" "n < gt_value y \<longleftrightarrow> \<not> gt_value y \<le> n"
        using total numbers by blast+
      with True span Some G b show ?thesis
        by (cases x; cases y; cases "gt_value y \<le> lt_value x")
          (simp_all add: decides_iff range_cel_def upper_cel_def lower_cel_def bounds_in_def evaluates del: not_None_eq,
           blast+)
    next
      case False
      then have "\<not> n < lt_value x" "\<not> n \<le> lt_value x" "\<not> gt_value y < n" "\<not> gt_value y \<le> n" using strict by metis+
      with False span Some G b show ?thesis
        by (cases x; cases y; cases "gt_value y \<le> lt_value x")
          (simp_all add: decides_iff range_cel_def upper_cel_def lower_cel_def bounds_in_def evaluates del: not_None_eq)
    qed
  qed
qed

lemma const_decides:
  "map_of msg ''const'' = map_option w c \<Longrightarrow> decides lib clock msg (w n) [const_cel p] (holds_for (equals n) c)"
  by (cases c) (simp_all add: decides_iff const_cel_def evaluates del: not_None_eq)

lemma list_decides:
  assumes "map_of msg ''in'' = (if xs = [] then None else Some (VList (map w xs)))"
    "map_of msg ''not_in'' = (if ys = [] then None else Some (VList (map w ys)))"
  shows "decides lib clock msg (w n) (list_cel p)
     ((xs = [] \<or> list_ex (equals n) xs) \<and> \<not> list_ex (equals n) ys)"
  using assms by (auto simp: decides_iff list_cel_def evaluates list_ex_iff simp del: not_None_eq)

text \<open>The rules an ordered kind of values has in common, before those of its type.\<close>

lemma num_decides:
  assumes "map_of msg ''const'' = map_option w (ir_const r)" "bounds_in w (ir_lessThan r) (ir_greaterThan r) msg"
    "map_of msg ''in'' = (if ir_in r = [] then None else Some (VList (map w (ir_in r))))"
    "map_of msg ''not_in'' = (if ir_notIn r = [] then None else Some (VList (map w (ir_notIn r))))"
    and "\<forall>x. ir_lessThan r = Some x \<longrightarrow> lt_value x \<le> lt_value x" "\<forall>x. ir_greaterThan r = Some x \<longrightarrow> gt_value x \<le> gt_value x"
    and "decides lib clock msg (w n) tab y"
  shows "decides lib clock msg (w n) (const_cel p # range_cel nan p @ list_cel p @ tab) (num_rules_ok r n \<and> y)"
  by (rule decides_cong[OF decides_Cons[OF const_decides[OF assms(1)] decides_append[OF range_decides[OF assms(2,5,6)]
        decides_append[OF list_decides[OF assms(3,4)] assms(7)]]]])
    (simp add: num_rules_ok_def)

end

lemma example_decides: "decides lib clock msg v (example_cel p) True"
  by (simp add: decides_iff example_cel_def must_simps del: not_None_eq)

interpretation ints: ordered_values False VInt
  by unfold_locales (auto simp: equals_def)

interpretation uints: ordered_values False VUint
  by unfold_locales (auto simp: equals_def)

interpretation durations: ordered_values False VDuration
  by unfold_locales (auto simp: equals_def)

interpretation times: ordered_values False VTime
  by unfold_locales (auto simp: equals_def)

lemma flt_le_self: "x \<le> x \<longleftrightarrow> x \<noteq> FNan" for x :: flt
  by (cases x) (auto simp: less_eq_flt_def)

interpretation doubles: ordered_values True VDouble
proof unfold_locales
  show "cel_eq (VDouble a) (VDouble b) \<longleftrightarrow> equals a b" for a b by simp
  show "a \<le> a \<Longrightarrow> b \<le> b \<Longrightarrow> a < b \<longleftrightarrow> \<not> b \<le> a" for a b :: flt
    by (cases a; cases b) (auto simp: less_eq_flt_def)
  show "a < b \<Longrightarrow> a \<le> a \<and> b \<le> b" "a \<le> b \<Longrightarrow> a \<le> a \<and> b \<le> b" for a b :: flt
    by (cases a; cases b; auto simp: less_eq_flt_def)+
qed (auto simp: flt_le_self)

lemma num_fields:
  "map_of (num_msg w r) ''const'' = map_option w (ir_const r)"
  "bounds_in w (ir_lessThan r) (ir_greaterThan r) (num_msg w r)"
  "map_of (num_msg w r) ''in'' = (if ir_in r = [] then None else Some (VList (map w (ir_in r))))"
  "map_of (num_msg w r) ''not_in'' = (if ir_notIn r = [] then None else Some (VList (map w (ir_notIn r))))"
  by (cases "(w, ir_lessThan r)" rule: less_msg.cases; cases "(w, ir_greaterThan r)" rule: greater_msg.cases;
      simp add: num_msg_def find_field bounds_in_def del: map_of_append split: option.splits)+


lemma num_table_decides:
  assumes "ordered_values False (w :: int \<Rightarrow> cel_value)"
  shows "decides lib clock (num_msg w r) (w n) (num_cel p) (num_rules_ok r n)"
  using ordered_values.num_decides[OF assms num_fields, where y = True and tab = "example_cel p"] example_decides
  by (simp add: num_cel_def)

text \<open>A range of doubles needs bounds that are numbers.\<close>

definition float_bounds :: "float_rules \<Rightarrow> bool" where
  "float_bounds r \<longleftrightarrow>
     (\<forall>x. ir_lessThan (fl_num r) = Some x \<longrightarrow> lt_value x \<noteq> FNan) \<and>
     (\<forall>x. ir_greaterThan (fl_num r) = Some x \<longrightarrow> gt_value x \<noteq> FNan)"

lemma float_fields:
  "map_of (float_msg r) ''const'' = map_option VDouble (ir_const (fl_num r))"
  "bounds_in VDouble (ir_lessThan (fl_num r)) (ir_greaterThan (fl_num r)) (float_msg r)"
  "map_of (float_msg r) ''in'' = (if ir_in (fl_num r) = [] then None else Some (VList (map VDouble (ir_in (fl_num r)))))"
  "map_of (float_msg r) ''not_in'' =
     (if ir_notIn (fl_num r) = [] then None else Some (VList (map VDouble (ir_notIn (fl_num r)))))"
  "map_of (float_msg r) ''finite'' = (if fl_finite r then Some (VBool True) else None)"
proof -
  have other: "map_of (float_msg r) f = map_of (num_msg VDouble (fl_num r)) f" if "f \<noteq> ''finite''" for f
    using that by (auto simp: float_msg_def set_flag_def map_add_def split: option.splits)
  then show "map_of (float_msg r) ''const'' = map_option VDouble (ir_const (fl_num r))"
    "bounds_in VDouble (ir_lessThan (fl_num r)) (ir_greaterThan (fl_num r)) (float_msg r)"
    "map_of (float_msg r) ''in'' = (if ir_in (fl_num r) = [] then None else Some (VList (map VDouble (ir_in (fl_num r)))))"
    "map_of (float_msg r) ''not_in'' =
       (if ir_notIn (fl_num r) = [] then None else Some (VList (map VDouble (ir_notIn (fl_num r)))))"
    using num_fields[of VDouble "fl_num r"] by (simp_all add: bounds_in_def)
  have "map_of (num_msg VDouble (fl_num r)) ''finite'' = None"
    by (cases "(VDouble, ir_lessThan (fl_num r))" rule: less_msg.cases;
        cases "(VDouble, ir_greaterThan (fl_num r))" rule: greater_msg.cases;
        simp add: num_msg_def find_field del: map_of_append)
  then show "map_of (float_msg r) ''finite'' = (if fl_finite r then Some (VBool True) else None)"
    by (simp add: float_msg_def set_flag_def map_add_def)
qed

lemma finite_decides:
  "decides lib clock (float_msg r) (VDouble x)
     [(''finite'', [must (p @ ''.finite'') []
         (Cond (rules_at ''finite'')
           (Cond (Or (Call FIsNan [this]) (Call FIsInf [this])) (Lit (VString ''must be finite'')) (Lit (VString [])))
           (Lit (VString [])))])]
     (fl_finite r \<longrightarrow> (case x of Fin _ \<Rightarrow> True | _ \<Rightarrow> False))"
  by (cases x) (auto simp: decides_iff float_fields must_simps simp del: not_None_eq)

lemma float_decides:
  assumes "float_bounds r"
  shows "decides lib clock (float_msg r) (VDouble x) (float_cel p) (float_rules_ok r x)"
proof -
  have bounds: "\<forall>y. ir_lessThan (fl_num r) = Some y \<longrightarrow> lt_value y \<le> lt_value y"
    "\<forall>y. ir_greaterThan (fl_num r) = Some y \<longrightarrow> gt_value y \<le> gt_value y"
    using assms by (simp_all add: float_bounds_def flt_le_self)
  show ?thesis
    unfolding float_cel_def append_Cons append_Nil
    by (rule decides_cong[OF doubles.num_decides[OF float_fields(1-4) bounds decides_Cons[OF finite_decides example_decides]]])
      (simp add: float_rules_ok_def)
qed

text \<open>
  What the expressions ask of a point in time: as documented, except that the current time itself
  passes both \<open>lt_now\<close> and \<open>gt_now\<close>.
\<close>

definition timestamp_decided :: "int \<Rightarrow> timestamp_rules \<Rightarrow> int \<Rightarrow> bool" where
  "timestamp_decided clock r t \<longleftrightarrow>
     holds_for (\<lambda>c. t = c) (tr_const r) \<and>
     in_range (plain_less (tr_lessThan r)) (plain_greater (tr_greaterThan r)) t \<and>
     (tr_lessThan r = Some (LtNow True) \<longrightarrow> t \<le> clock) \<and>
     (tr_greaterThan r = Some (GtNow True) \<longrightarrow> clock \<le> t) \<and>
     holds_for (\<lambda>d. clock - d \<le> t \<and> t \<le> clock + d) (tr_within r)"

lemma time_fields:
  "map_of (timestamp_msg r) ''const'' = map_option VTime (tr_const r)"
  "bounds_in VTime (plain_less (tr_lessThan r)) (plain_greater (tr_greaterThan r)) (timestamp_msg r)"
  "map_of (timestamp_msg r) ''lt_now'' = (case tr_lessThan r of Some (LtNow b) \<Rightarrow> Some (VBool b) | _ \<Rightarrow> None)"
  "map_of (timestamp_msg r) ''gt_now'' = (case tr_greaterThan r of Some (GtNow b) \<Rightarrow> Some (VBool b) | _ \<Rightarrow> None)"
  "map_of (timestamp_msg r) ''within'' = map_option VDuration (tr_within r)"
proof -
  have less: "tr_lessThan r = None \<or> (\<exists>b. tr_lessThan r = Some (LtNow b)) \<or> (\<exists>v. tr_lessThan r = Some (TLt (Lt v))) \<or>
      (\<exists>v. tr_lessThan r = Some (TLt (Lte v)))" by (metis less_than.exhaust option.exhaust time_less.exhaust)
  have greater: "tr_greaterThan r = None \<or> (\<exists>b. tr_greaterThan r = Some (GtNow b)) \<or>
      (\<exists>v. tr_greaterThan r = Some (TGt (Gt v))) \<or> (\<exists>v. tr_greaterThan r = Some (TGt (Gte v)))"
    by (metis greater_than.exhaust option.exhaust time_greater.exhaust)
  show "map_of (timestamp_msg r) ''const'' = map_option VTime (tr_const r)"
    "bounds_in VTime (plain_less (tr_lessThan r)) (plain_greater (tr_greaterThan r)) (timestamp_msg r)"
    "map_of (timestamp_msg r) ''lt_now'' = (case tr_lessThan r of Some (LtNow b) \<Rightarrow> Some (VBool b) | _ \<Rightarrow> None)"
    "map_of (timestamp_msg r) ''gt_now'' = (case tr_greaterThan r of Some (GtNow b) \<Rightarrow> Some (VBool b) | _ \<Rightarrow> None)"
    "map_of (timestamp_msg r) ''within'' = map_option VDuration (tr_within r)"
    using less greater
    by (elim disjE exE; simp add: timestamp_msg_def find_field bounds_in_def del: map_of_append split: option.splits)+
qed

lemma now_decides:
  "decides lib clock (timestamp_msg r) (VTime t)
     [(''lt_now'', [must i [] (Cond (And (rules_at ''lt_now'') (Cmp CGt this (Ident ''now'')))
        (Lit (VString (c # s))) (Lit (VString [])))])]
     (tr_lessThan r = Some (LtNow True) \<longrightarrow> t \<le> clock)"
  "decides lib clock (timestamp_msg r) (VTime t)
     [(''gt_now'', [must i [] (Cond (And (rules_at ''gt_now'') (Cmp CLt this (Ident ''now'')))
        (Lit (VString (c # s))) (Lit (VString [])))])]
     (tr_greaterThan r = Some (GtNow True) \<longrightarrow> clock \<le> t)"
  by (auto simp: decides_iff time_fields must_simps simp del: not_None_eq split: option.splits time_less.splits time_greater.splits)

lemma within_decides:
  "decides lib clock (timestamp_msg r) (VTime t)
     [(''within'', [fail_if i
        (Or (Cmp CLt this (Sub (Ident ''now'') (rules_at ''within''))) (Cmp CGt this (Add (Ident ''now'') (rules_at ''within''))))
        ''must be within %s of now'' [rules_at ''within'']])]
     (holds_for (\<lambda>d. clock - d \<le> t \<and> t \<le> clock + d) (tr_within r))"
  by (cases "tr_within r") (auto simp: decides_iff time_fields fail_if_simps simp del: not_None_eq)

lemma timestamp_decides:
  "decides lib clock (timestamp_msg r) (VTime t) timestamp_cel (timestamp_decided clock r t)"
proof -
  let ?p = "''timestamp''"
  have range: "decides lib clock (timestamp_msg r) (VTime t) (upper_cel False ?p @
      [lower_cel False ?p ''gt'' CLe [], lower_cel False ?p ''gte'' CLt '' or equal to''])
      (in_range (plain_less (tr_lessThan r)) (plain_greater (tr_greaterThan r)) t)"
    using times.range_decides[OF time_fields(2), where lib = lib and clock = clock and n = t and p = ?p]
    by (simp add: range_cel_def)
  have "decides lib clock (timestamp_msg r) (VTime t)
      ([const_cel ?p] @ (upper_cel False ?p @
        [(''lt_now'', [must ''timestamp.lt_now'' []
          (Cond (And (rules_at ''lt_now'') (Cmp CGt this (Ident ''now''))) (Lit (VString ''must be less than now''))
            (Lit (VString [])))])] @
        [lower_cel False ?p ''gt'' CLe [], lower_cel False ?p ''gte'' CLt '' or equal to'']) @
       [(''gt_now'', [must ''timestamp.gt_now'' []
         (Cond (And (rules_at ''gt_now'') (Cmp CLt this (Ident ''now''))) (Lit (VString ''must be greater than now''))
           (Lit (VString [])))])] @
       [(''within'', [fail_if ''timestamp.within''
         (Or (Cmp CLt this (Sub (Ident ''now'') (rules_at ''within'')))
           (Cmp CGt this (Add (Ident ''now'') (rules_at ''within''))))
         ''must be within %s of now'' [rules_at ''within'']])] @ example_cel ?p)
      (timestamp_decided clock r t)"
    by (rule decides_cong[OF decides_append[OF times.const_decides[OF time_fields(1)] decides_append[OF
          decides_insert[OF range now_decides(1)] decides_append[OF now_decides(2) decides_append[OF within_decides
            example_decides]]]]])
      (auto simp: timestamp_decided_def equals_def holds_for_def split: option.splits)
  then show ?thesis by (simp add: timestamp_cel_def)
qed

end
