(* ===== verification/Schema_Texts.thy ===== *)
theory Schema_Texts
  imports Schema_Rules
begin

text \<open>
  The rules of the schema for booleans, enumerations, strings, bytes, lists, maps and field masks, as
  expressions (\<open>file_buf_validate_validate\<close> in \<open>web/lib/gen/buf/validate/validate_pb.ts\<close>), and what they
  decide.
\<close>

section \<open>Scalars, lists and maps\<close>

definition bool_cel :: rule_table where
  "bool_cel = const_cel ''bool'' # example_cel ''bool''"

definition enum_cel :: rule_table where
  "enum_cel = const_cel ''enum'' # list_cel ''enum'' @ example_cel ''enum''"

definition size_of :: "cel \<Rightarrow> cel" where
  "size_of e = Call FUint [Call FSize [e]]"

definition repeated_cel :: rule_table where
  "repeated_cel =
     [(''min_items'', [fail_if ''repeated.min_items'' (Cmp CLt (size_of this) (rules_at ''min_items''))
         ''must contain at least %d item(s)'' [rules_at ''min_items'']]),
      (''max_items'', [fail_if ''repeated.max_items'' (Cmp CGt (size_of this) (rules_at ''max_items''))
         ''must contain no more than %s item(s)'' [rules_at ''max_items'']]),
      (''unique'', [must ''repeated.unique'' ''repeated value must contain unique items''
         (Or (Neg (rules_at ''unique'')) (Call FUnique [this]))])]"

definition map_cel :: rule_table where
  "map_cel =
     [(''min_pairs'', [fail_if ''map.min_pairs'' (Cmp CLt (size_of this) (rules_at ''min_pairs''))
         ''map must be at least %d entries'' [rules_at ''min_pairs'']]),
      (''max_pairs'', [fail_if ''map.max_pairs'' (Cmp CGt (size_of this) (rules_at ''max_pairs''))
         ''map must be at most %d entries'' [rules_at ''max_pairs'']])]"

text \<open>The paths of a mask: one of the values or a path below one of them.\<close>

definition path_cel :: "string \<Rightarrow> cel" where
  "path_cel f =
     Or (In (Ident ''p'') (rules_at f))
        (SomeOf (rules_at f) ''f'' (Call FStartsWith [Ident ''p'', Add (Ident ''f'') (Lit (VString ''.''))]))"

definition field_mask_cel :: rule_table where
  "field_mask_cel =
     [(''const'', [fail_if ''field_mask.const'' (Cmp CNe (Select this ''paths'') (Select (rules_at ''const'') ''paths''))
         ''must equal paths %s'' [Select (rules_at ''const'') ''paths'']]),
      (''in'', [fail_if ''field_mask.in'' (Neg (AllOf (Select this ''paths'') ''p'' (path_cel ''in'')))
         ''must only contain paths in %s'' [rules_at ''in'']]),
      (''not_in'', [fail_if ''field_mask.not_in'' (Neg (AllOf (Select this ''paths'') ''p'' (Neg (path_cel ''not_in''))))
         ''must not contain any paths in %s'' [rules_at ''not_in'']])] @ example_cel ''field_mask''"

section \<open>Strings and bytes\<close>

definition quoted :: "string \<Rightarrow> string" where
  "quoted s = s @ '' '' @ [CHR 0x60] @ ''%s'' @ [CHR 0x60]"

definition string_plain_cel :: rule_table where
  "string_plain_cel =
     [(''const'', [fail_if ''string.const'' (Cmp CNe this (rules_at ''const'')) (quoted ''must equal'') [rules_at ''const'']]),
      (''len'', [fail_if ''string.len'' (Cmp CNe (size_of this) (rules_at ''len''))
         ''must be %s characters'' [rules_at ''len'']]),
      (''min_len'', [fail_if ''string.min_len'' (Cmp CLt (size_of this) (rules_at ''min_len''))
         ''must be at least %s characters'' [rules_at ''min_len'']]),
      (''max_len'', [fail_if ''string.max_len'' (Cmp CGt (size_of this) (rules_at ''max_len''))
         ''must be at most %s characters'' [rules_at ''max_len'']]),
      (''len_bytes'', [fail_if ''string.len_bytes'' (Cmp CNe (size_of (Call FBytes [this])) (rules_at ''len_bytes''))
         ''must be %s bytes'' [rules_at ''len_bytes'']]),
      (''min_bytes'', [fail_if ''string.min_bytes'' (Cmp CLt (size_of (Call FBytes [this])) (rules_at ''min_bytes''))
         ''must be at least %s bytes'' [rules_at ''min_bytes'']]),
      (''max_bytes'', [fail_if ''string.max_bytes'' (Cmp CGt (size_of (Call FBytes [this])) (rules_at ''max_bytes''))
         ''must be at most %s bytes'' [rules_at ''max_bytes'']]),
      (''pattern'', [fail_if ''string.pattern'' (Neg (Call FMatches [this, rules_at ''pattern'']))
         (quoted ''does not match regex pattern'') [rules_at ''pattern'']]),
      (''prefix'', [fail_if ''string.prefix'' (Neg (Call FStartsWith [this, rules_at ''prefix'']))
         (quoted ''does not have prefix'') [rules_at ''prefix'']]),
      (''suffix'', [fail_if ''string.suffix'' (Neg (Call FEndsWith [this, rules_at ''suffix'']))
         (quoted ''does not have suffix'') [rules_at ''suffix'']]),
      (''contains'', [fail_if ''string.contains'' (Neg (Call FContains [this, rules_at ''contains'']))
         (quoted ''does not contain substring'') [rules_at ''contains'']]),
      (''not_contains'', [fail_if ''string.not_contains'' (Call FContains [this, rules_at ''not_contains''])
         (quoted ''contains substring'') [rules_at ''not_contains'']])] @ list_cel ''string''"

text \<open>
  The well-known forms: the field of the rule type, what the messages call the form, and the test. Every
  form but a URI reference refuses the empty string with a message of its own.
\<close>

primrec form_field :: "known_form \<Rightarrow> string" where
  "form_field KEmail = ''email''" | "form_field KHostname = ''hostname''" | "form_field KIp = ''ip''"
| "form_field KIpv4 = ''ipv4''" | "form_field KIpv6 = ''ipv6''" | "form_field KUri = ''uri''"
| "form_field KUriRef = ''uri_ref''" | "form_field KAddress = ''address''" | "form_field KUuid = ''uuid''"
| "form_field KTuuid = ''tuuid''" | "form_field KIpWithPrefixlen = ''ip_with_prefixlen''"
| "form_field KIpv4WithPrefixlen = ''ipv4_with_prefixlen''" | "form_field KIpv6WithPrefixlen = ''ipv6_with_prefixlen''"
| "form_field KIpPrefix = ''ip_prefix''" | "form_field KIpv4Prefix = ''ipv4_prefix''"
| "form_field KIpv6Prefix = ''ipv6_prefix''" | "form_field KHostAndPort = ''host_and_port''"
| "form_field KUlid = ''ulid''" | "form_field KProtobufFqn = ''protobuf_fqn''"
| "form_field KProtobufDotFqn = ''protobuf_dot_fqn''"

primrec form_what :: "known_form \<Rightarrow> string" where
  "form_what KEmail = ''email address''" | "form_what KHostname = ''hostname''" | "form_what KIp = ''IP address''"
| "form_what KIpv4 = ''IPv4 address''" | "form_what KIpv6 = ''IPv6 address''" | "form_what KUri = ''URI''"
| "form_what KUriRef = ''URI Reference''" | "form_what KAddress = ''hostname, or ip address''" | "form_what KUuid = ''UUID''"
| "form_what KTuuid = ''trimmed UUID''" | "form_what KIpWithPrefixlen = ''IP prefix''"
| "form_what KIpv4WithPrefixlen = ''IPv4 address with prefix length''"
| "form_what KIpv6WithPrefixlen = ''IPv6 address with prefix length''"
| "form_what KIpPrefix = ''IP prefix''" | "form_what KIpv4Prefix = ''IPv4 prefix''"
| "form_what KIpv6Prefix = ''IPv6 prefix''" | "form_what KHostAndPort = ''host (hostname or IP address) and port pair''"
| "form_what KUlid = ''ULID''" | "form_what KProtobufFqn = ''fully-qualified Protobuf name''"
| "form_what KProtobufDotFqn = ''fully-qualified Protobuf name with a leading dot''"

definition valid :: "string \<Rightarrow> cel_value list \<Rightarrow> cel" where
  "valid f args = Call (FValid f) (this # map Lit args)"

definition matches_text :: "string \<Rightarrow> cel" where
  "matches_text p = Call FMatches [this, Lit (VString p)]"

definition name_pattern :: string where
  "name_pattern = ''[A-Za-z_][A-Za-z_0-9]*('' @ [CHR 0x5C] @ ''.[A-Za-z_][A-Za-z_0-9]*)*$''"

primrec form_test :: "known_form \<Rightarrow> cel" where
  "form_test KEmail = valid ''isEmail'' []" | "form_test KHostname = valid ''isHostname'' []"
| "form_test KIp = valid ''isIp'' []" | "form_test KIpv4 = valid ''isIp'' [VInt 4]"
| "form_test KIpv6 = valid ''isIp'' [VInt 6]" | "form_test KUri = valid ''isUri'' []"
| "form_test KUriRef = valid ''isUriRef'' []" | "form_test KAddress = Or (valid ''isHostname'' []) (valid ''isIp'' [])"
| "form_test KUuid = matches_text ''^[0-9a-fA-F]{8}-[0-9a-fA-F]{4}-[0-9a-fA-F]{4}-[0-9a-fA-F]{4}-[0-9a-fA-F]{12}$''"
| "form_test KTuuid = matches_text ''^[0-9a-fA-F]{32}$''"
| "form_test KIpWithPrefixlen = valid ''isIpPrefix'' []" | "form_test KIpv4WithPrefixlen = valid ''isIpPrefix'' [VInt 4]"
| "form_test KIpv6WithPrefixlen = valid ''isIpPrefix'' [VInt 6]" | "form_test KIpPrefix = valid ''isIpPrefix'' [VBool True]"
| "form_test KIpv4Prefix = valid ''isIpPrefix'' [VInt 4, VBool True]"
| "form_test KIpv6Prefix = valid ''isIpPrefix'' [VInt 6, VBool True]"
| "form_test KHostAndPort = valid ''isHostAndPort'' [VBool True]"
| "form_test KUlid = matches_text ''^[0-7][0-9A-HJKMNP-TV-Za-hjkmnp-tv-z]{25}$''"
| "form_test KProtobufFqn = matches_text (CHR ''^'' # name_pattern)"
| "form_test KProtobufDotFqn = matches_text (CHR ''^'' # CHR 0x5C # CHR ''.'' # name_pattern)"

definition empty_what :: "known_form \<Rightarrow> string" where
  "empty_what k = (if k = KHostAndPort then ''host and port pair'' else form_what k)"

definition form_cel :: "known_form \<Rightarrow> string \<times> cel rule list" where
  "form_cel k =
     (form_field k,
      (if k = KUriRef
       then [must (''string.'' @ form_field k) (''must be a valid '' @ form_what k)
               (Or (Neg (rules_at (form_field k))) (form_test k))]
       else [must (''string.'' @ form_field k) (''must be a valid '' @ form_what k)
               (Or (Or (Neg (rules_at (form_field k))) (Cmp CEq this (Lit (VString [])))) (form_test k)),
             must (''string.'' @ form_field k @ ''_empty'') (''value is empty, which is not a valid '' @ empty_what k)
               (Or (Neg (rules_at (form_field k))) (Cmp CNe this (Lit (VString []))))]))"

definition known_forms :: "known_form list" where
  "known_forms =
     [KEmail, KHostname, KIp, KIpv4, KIpv6, KUri, KUriRef, KAddress, KUuid, KTuuid, KIpWithPrefixlen,
      KIpv4WithPrefixlen, KIpv6WithPrefixlen, KIpPrefix, KIpv4Prefix, KIpv6Prefix, KHostAndPort, KUlid,
      KProtobufFqn, KProtobufDotFqn]"

text \<open>The patterns of HTTP headers, strict and loose.\<close>

definition header_name_pattern :: "bool \<Rightarrow> string" where
  "header_name_pattern strict =
     (if strict then ''^:?[0-9a-zA-Z!#$%&'' @ [CHR 0x27] @ ''*+-.^_|~'' @ [CHR 0x60] @ '']+$''
      else ''^[^'' @ [CHR 0x00, CHR 0x0A, CHR 0x0D] @ '']+$'')"

definition header_value_pattern :: "bool \<Rightarrow> string" where
  "header_value_pattern strict =
     (if strict
      then ''^[^'' @ [CHR 0x00] @ ''-'' @ [CHR 0x08, CHR 0x0A] @ ''-'' @ [CHR 0x1F, CHR 0x7F] @ '']*$''
      else ''^[^'' @ [CHR 0x00, CHR 0x0A, CHR 0x0D] @ '']*$'')"

definition header_test :: "(bool \<Rightarrow> string) \<Rightarrow> cel" where
  "header_test pat =
     Call FMatches [this, Cond (Or (Neg (rules_have ''strict'')) (rules_at ''strict''))
       (Lit (VString (pat True))) (Lit (VString (pat False)))]"

definition regex_cel :: "string \<times> cel rule list" where
  "regex_cel =
     (''well_known_regex'',
      [must ''string.well_known_regex.header_name'' ''must be a valid HTTP header name''
         (Or (Or (Cmp CNe (rules_at ''well_known_regex'') (Lit (VInt 1))) (Cmp CEq this (Lit (VString []))))
           (header_test header_name_pattern)),
       must ''string.well_known_regex.header_name_empty'' ''value is empty, which is not a valid HTTP header name''
         (Or (Cmp CNe (rules_at ''well_known_regex'') (Lit (VInt 1))) (Cmp CNe this (Lit (VString [])))),
       must ''string.well_known_regex.header_value'' ''must be a valid HTTP header value''
         (Or (Cmp CNe (rules_at ''well_known_regex'') (Lit (VInt 2))) (header_test header_value_pattern))])"

definition string_cel :: rule_table where
  "string_cel = string_plain_cel @ map form_cel known_forms @ regex_cel # example_cel ''string''"

definition bytes_plain_cel :: rule_table where
  "bytes_plain_cel =
     [(''const'', [fail_if ''bytes.const'' (Cmp CNe this (rules_at ''const'')) ''must be %x'' [rules_at ''const'']]),
      (''len'', [fail_if ''bytes.len'' (Cmp CNe (size_of this) (rules_at ''len'')) ''must be %s bytes'' [rules_at ''len'']]),
      (''min_len'', [fail_if ''bytes.min_len'' (Cmp CLt (size_of this) (rules_at ''min_len''))
         ''must be at least %s bytes'' [rules_at ''min_len'']]),
      (''max_len'', [fail_if ''bytes.max_len'' (Cmp CGt (size_of this) (rules_at ''max_len''))
         ''must be at most %s bytes'' [rules_at ''max_len'']]),
      (''pattern'', [fail_if ''bytes.pattern'' (Neg (Call FMatches [Call FString [this], rules_at ''pattern'']))
         (quoted ''must match regex pattern'') [rules_at ''pattern'']]),
      (''prefix'', [fail_if ''bytes.prefix'' (Neg (Call FStartsWith [this, rules_at ''prefix'']))
         ''does not have prefix %x'' [rules_at ''prefix'']]),
      (''suffix'', [fail_if ''bytes.suffix'' (Neg (Call FEndsWith [this, rules_at ''suffix'']))
         ''does not have suffix %x'' [rules_at ''suffix'']]),
      (''contains'', [fail_if ''bytes.contains'' (Neg (Call FContains [this, rules_at ''contains'']))
         ''does not contain %x'' [rules_at ''contains'']]),
      (''in'', [fail_if ''bytes.in''
         (And (Cmp CGt (Call FSize [rules_at ''in'']) (Lit (VInt 0))) (Neg (In this (rules_at ''in''))))
         ''must be in list %s'' [rules_at ''in'']]),
      (''not_in'', [fail_if ''bytes.not_in'' (In this (rules_at ''not_in'')) ''must not be in list %s''
         [rules_at ''not_in'']])]"

primrec bytes_field :: "bytes_form \<Rightarrow> string" where
  "bytes_field BIp = ''ip''" | "bytes_field BIpv4 = ''ipv4''" | "bytes_field BIpv6 = ''ipv6''" | "bytes_field BUuid = ''uuid''"

primrec bytes_what :: "bytes_form \<Rightarrow> string" where
  "bytes_what BIp = ''IP address''" | "bytes_what BIpv4 = ''IPv4 address''" | "bytes_what BIpv6 = ''IPv6 address''"
| "bytes_what BUuid = ''UUID''"

definition has_size :: "int \<Rightarrow> cel" where
  "has_size n = Cmp CEq (Call FSize [this]) (Lit (VInt n))"

primrec bytes_test :: "bytes_form \<Rightarrow> cel" where
  "bytes_test BIp = Or (has_size 4) (has_size 16)" | "bytes_test BIpv4 = has_size 4" | "bytes_test BIpv6 = has_size 16"
| "bytes_test BUuid = has_size 16"

definition bytes_form_cel :: "bytes_form \<Rightarrow> string \<times> cel rule list" where
  "bytes_form_cel k =
     (bytes_field k,
      [must (''bytes.'' @ bytes_field k) (''must be a valid '' @ bytes_what k)
         (Or (Or (Neg (rules_at (bytes_field k))) (has_size 0)) (bytes_test k)),
       must (''bytes.'' @ bytes_field k @ ''_empty'') (''value is empty, which is not a valid '' @ bytes_what k)
         (Or (Neg (rules_at (bytes_field k))) (Cmp CNe (Call FSize [this]) (Lit (VInt 0))))])"

definition bytes_cel :: rule_table where
  "bytes_cel = bytes_plain_cel @ map bytes_form_cel [BIp, BIpv4, BIpv6, BUuid] @ example_cel ''bytes''"

section \<open>The rule messages of the records\<close>

fun string_known_msg :: "string_known option \<Rightarrow> (string \<times> cel_value) list" where
  "string_known_msg None = []"
| "string_known_msg (Some (Form k b)) = [(form_field k, VBool b)]"
| "string_known_msg (Some (Regex g)) =
     [(''well_known_regex'', VInt (case g of REGEX_UNSPECIFIED \<Rightarrow> 0 | HTTP_HEADER_NAME \<Rightarrow> 1 | HTTP_HEADER_VALUE \<Rightarrow> 2))]"

definition string_msg :: "string_rules \<Rightarrow> (string \<times> cel_value) list" where
  "string_msg r =
     set_field ''const'' (map_option VString (sr_const r)) @ set_field ''len'' (map_option VUint (sr_len r)) @
     set_field ''min_len'' (map_option VUint (sr_minLen r)) @ set_field ''max_len'' (map_option VUint (sr_maxLen r)) @
     set_field ''len_bytes'' (map_option VUint (sr_lenBytes r)) @
     set_field ''min_bytes'' (map_option VUint (sr_minBytes r)) @
     set_field ''max_bytes'' (map_option VUint (sr_maxBytes r)) @
     set_field ''pattern'' (map_option VString (sr_pattern r)) @ set_field ''prefix'' (map_option VString (sr_prefix r)) @
     set_field ''suffix'' (map_option VString (sr_suffix r)) @ set_field ''contains'' (map_option VString (sr_contains r)) @
     set_field ''not_contains'' (map_option VString (sr_notContains r)) @ set_list ''in'' (map VString (sr_in r)) @
     set_list ''not_in'' (map VString (sr_notIn r)) @ set_field ''strict'' (map_option VBool (sr_strict r)) @
     set_list ''example'' (map VString (sr_example r)) @ string_known_msg (sr_wellKnown r)"

fun bytes_known_msg :: "(bytes_form \<times> bool) option \<Rightarrow> (string \<times> cel_value) list" where
  "bytes_known_msg None = []"
| "bytes_known_msg (Some (k, b)) = [(bytes_field k, VBool b)]"

definition bytes_msg :: "bytes_rules \<Rightarrow> (string \<times> cel_value) list" where
  "bytes_msg r =
     set_field ''const'' (map_option VBytes (br_const r)) @ set_field ''len'' (map_option VUint (br_len r)) @
     set_field ''min_len'' (map_option VUint (br_minLen r)) @ set_field ''max_len'' (map_option VUint (br_maxLen r)) @
     set_field ''pattern'' (map_option VString (br_pattern r)) @ set_field ''prefix'' (map_option VBytes (br_prefix r)) @
     set_field ''suffix'' (map_option VBytes (br_suffix r)) @ set_field ''contains'' (map_option VBytes (br_contains r)) @
     set_list ''in'' (map VBytes (br_in r)) @ set_list ''not_in'' (map VBytes (br_notIn r)) @
     set_list ''example'' (map VBytes (br_example r)) @ bytes_known_msg (br_wellKnown r)"

definition bool_msg :: "bool_rules \<Rightarrow> (string \<times> cel_value) list" where
  "bool_msg r = set_field ''const'' (map_option VBool (bo_const r)) @ set_list ''example'' (map VBool (bo_example r))"

definition enum_msg :: "enum_rules \<Rightarrow> (string \<times> cel_value) list" where
  "enum_msg r =
     set_field ''const'' (map_option VInt (er_const r)) @ set_flag ''defined_only'' (er_definedOnly r) @
     set_list ''in'' (map VInt (er_in r)) @ set_list ''not_in'' (map VInt (er_notIn r)) @
     set_list ''example'' (map VInt (er_example r))"

definition repeated_msg :: "'f repeated_rules \<Rightarrow> (string \<times> cel_value) list" where
  "repeated_msg r =
     set_field ''min_items'' (map_option VUint (rr_minItems r)) @
     set_field ''max_items'' (map_option VUint (rr_maxItems r)) @ set_flag ''unique'' (rr_unique r)"

definition map_msg :: "'f map_rules \<Rightarrow> (string \<times> cel_value) list" where
  "map_msg r =
     set_field ''min_pairs'' (map_option VUint (pr_minPairs r)) @
     set_field ''max_pairs'' (map_option VUint (pr_maxPairs r))"

definition mask_value :: "string list \<Rightarrow> cel_value" where
  "mask_value ps = VMessage [(''paths'', VList (map VString ps))]"

definition field_mask_msg :: "field_mask_rules \<Rightarrow> (string \<times> cel_value) list" where
  "field_mask_msg r =
     set_field ''const'' (map_option mask_value (mr_const r)) @ set_list ''in'' (map VString (mr_in r)) @
     set_list ''not_in'' (map VString (mr_notIn r)) @ set_list ''example'' (map mask_value (mr_example r))"

section \<open>Lemmas\<close>

lemma form_field_other [simp]:
  "form_field k \<notin> {''const'', ''len'', ''min_len'', ''max_len'', ''len_bytes'', ''min_bytes'', ''max_bytes'', ''pattern'',
     ''prefix'', ''suffix'', ''contains'', ''not_contains'', ''in'', ''not_in'', ''strict'', ''example'', ''well_known_regex''}"
  by (cases k) simp_all

lemma known_other:
  "f \<in> {''const'', ''len'', ''min_len'', ''max_len'', ''len_bytes'', ''min_bytes'', ''max_bytes'', ''pattern'',
     ''prefix'', ''suffix'', ''contains'', ''not_contains'', ''in'', ''not_in'', ''strict'', ''example''} \<Longrightarrow>
   map_of (string_known_msg k) f = None"
  using form_field_other by (cases k rule: string_known_msg.cases) auto

lemma string_fields:
  "map_of (string_msg r) ''const'' = map_option VString (sr_const r)"
  "map_of (string_msg r) ''len'' = map_option VUint (sr_len r)"
  "map_of (string_msg r) ''min_len'' = map_option VUint (sr_minLen r)"
  "map_of (string_msg r) ''max_len'' = map_option VUint (sr_maxLen r)"
  "map_of (string_msg r) ''len_bytes'' = map_option VUint (sr_lenBytes r)"
  "map_of (string_msg r) ''min_bytes'' = map_option VUint (sr_minBytes r)"
  "map_of (string_msg r) ''max_bytes'' = map_option VUint (sr_maxBytes r)"
  "map_of (string_msg r) ''pattern'' = map_option VString (sr_pattern r)"
  "map_of (string_msg r) ''prefix'' = map_option VString (sr_prefix r)"
  "map_of (string_msg r) ''suffix'' = map_option VString (sr_suffix r)"
  "map_of (string_msg r) ''contains'' = map_option VString (sr_contains r)"
  "map_of (string_msg r) ''not_contains'' = map_option VString (sr_notContains r)"
  "map_of (string_msg r) ''in'' = (if sr_in r = [] then None else Some (VList (map VString (sr_in r))))"
  "map_of (string_msg r) ''not_in'' = (if sr_notIn r = [] then None else Some (VList (map VString (sr_notIn r))))"
  "map_of (string_msg r) ''strict'' = map_option VBool (sr_strict r)"
  by (simp_all add: string_msg_def find_field known_other del: map_of_append split: option.splits)


lemma text_templates [simp]:
  "template (quoted ''must equal'') (Suc 0)" "template (quoted ''does not match regex pattern'') (Suc 0)"
  "template (quoted ''does not have prefix'') (Suc 0)" "template (quoted ''does not have suffix'') (Suc 0)"
  "template (quoted ''does not contain substring'') (Suc 0)" "template (quoted ''contains substring'') (Suc 0)"
  "template (quoted ''must match regex pattern'') (Suc 0)"
  "template ''must be %s characters'' (Suc 0)" "template ''must be at least %s characters'' (Suc 0)"
  "template ''must be at most %s characters'' (Suc 0)" "template ''must be %s bytes'' (Suc 0)"
  "template ''must be at least %s bytes'' (Suc 0)" "template ''must be at most %s bytes'' (Suc 0)"
  "template ''must be %x'' (Suc 0)" "template ''does not have prefix %x'' (Suc 0)"
  "template ''does not have suffix %x'' (Suc 0)" "template ''does not contain %x'' (Suc 0)"
  "template ''must contain at least %d item(s)'' (Suc 0)" "template ''must contain no more than %s item(s)'' (Suc 0)"
  "template ''map must be at least %d entries'' (Suc 0)" "template ''map must be at most %d entries'' (Suc 0)"
  "template ''must equal paths %s'' (Suc 0)" "template ''must only contain paths in %s'' (Suc 0)"
  "template ''must not contain any paths in %s'' (Suc 0)"
  by code_simp+

lemma size_of_eval:
  "cel_eval lib (size_of e) \<sigma> =
     (case Option.bind (cel_eval lib e \<sigma>) cel_size of None \<Rightarrow> None | Some n \<Rightarrow> if 0 \<le> n then Some (VUint n) else None)"
  by (cases "cel_eval lib e \<sigma>") (auto simp: size_of_def split: option.splits)

lemma list_ex_text: "list_ex (cel_eq (VString s)) (map VString xs) \<longleftrightarrow> s \<in> set xs"
  "list_ex (cel_eq (VBytes s)) (map VBytes xs) \<longleftrightarrow> s \<in> set xs"
  "list_ex (cel_eq (VInt n)) (map VInt ns) \<longleftrightarrow> n \<in> set ns"
  by (auto simp: list_ex_iff)

lemmas text_evaluates = fail_if_simps must_simps size_of_eval list_ex_text

lemmas then_text = opt_decides[where w = VString]
lemmas then_size = opt_decides[where w = VUint]
lemmas then_bytes = opt_decides[where w = VBytes]

lemma in_decides:
  assumes "map_of msg ''in'' = (if xs = [] then None else Some (VList (map w xs)))"
    "map_of msg ''not_in'' = (if ys = [] then None else Some (VList (map w ys)))"
    "\<And>zs. list_ex (cel_eq (w v)) (map w zs) \<longleftrightarrow> v \<in> set zs"
  shows "decides lib clock msg (w v) (list_cel p) ((xs = [] \<or> v \<in> set xs) \<and> v \<notin> set ys)"
  using assms by (auto simp: decides_iff list_cel_def text_evaluates simp del: not_None_eq)

lemma string_plain_decides:
  "decides lib clock (string_msg r) (VString s) string_plain_cel
     (holds_for (\<lambda>c. s = c) (sr_const r) \<and>
      holds_for (\<lambda>n. int (code_points s) = n) (sr_len r) \<and>
      holds_for (\<lambda>n. n \<le> int (code_points s)) (sr_minLen r) \<and>
      holds_for (\<lambda>n. int (code_points s) \<le> n) (sr_maxLen r) \<and>
      holds_for (\<lambda>n. int (length s) = n) (sr_lenBytes r) \<and>
      holds_for (\<lambda>n. n \<le> int (length s)) (sr_minBytes r) \<and>
      holds_for (\<lambda>n. int (length s) \<le> n) (sr_maxBytes r) \<and>
      holds_for (\<lambda>p. lib_matches lib p s) (sr_pattern r) \<and>
      holds_for (\<lambda>p. starts_with s p) (sr_prefix r) \<and>
      holds_for (\<lambda>p. starts_with (rev s) (rev p)) (sr_suffix r) \<and>
      holds_for (\<lambda>p. str_includes s p) (sr_contains r) \<and>
      holds_for (\<lambda>p. \<not> str_includes s p) (sr_notContains r) \<and>
      (sr_in r = [] \<or> s \<in> set (sr_in r)) \<and> s \<notin> set (sr_notIn r))"
  unfolding string_plain_cel_def append_Cons append_Nil
  by (rule then_text, rule string_fields, simp add: text_evaluates del: not_None_eq,
      rule then_size, rule string_fields, simp add: text_evaluates del: not_None_eq,
      rule then_size, rule string_fields, simp add: text_evaluates linorder_not_less del: not_None_eq,
      rule then_size, rule string_fields, simp add: text_evaluates linorder_not_less del: not_None_eq,
      rule then_size, rule string_fields, simp add: text_evaluates del: not_None_eq,
      rule then_size, rule string_fields, simp add: text_evaluates linorder_not_less del: not_None_eq,
      rule then_size, rule string_fields, simp add: text_evaluates linorder_not_less del: not_None_eq,
      (rule then_text, rule string_fields, simp add: text_evaluates del: not_None_eq)+,
      rule in_decides[where w = VString], (rule string_fields)+, rule list_ex_text)

text \<open>What a well-known form asks of a string: the test of the runtime, and for all but one that it is not empty.\<close>

definition form_ok :: "cel_lib \<Rightarrow> known_form \<Rightarrow> string \<Rightarrow> bool" where
  "form_ok lib k s \<longleftrightarrow>
     (k = KUriRef \<or> s \<noteq> []) \<and> cel_eval lib (form_test k) [''this'' \<mapsto> VString s] = Some (VBool True)"

primrec header_ok :: "cel_lib \<Rightarrow> known_regex \<Rightarrow> bool \<Rightarrow> string \<Rightarrow> bool" where
  "header_ok lib REGEX_UNSPECIFIED strict s = True"
| "header_ok lib HTTP_HEADER_NAME strict s = (s \<noteq> [] \<and> lib_matches lib (header_name_pattern strict) s)"
| "header_ok lib HTTP_HEADER_VALUE strict s = lib_matches lib (header_value_pattern strict) s"

lemma form_test_decides:
  obtains x where "cel_eval lib (form_test k) (rule_env clock msg (VString s)) = Some (VBool x)"
    "cel_eval lib (form_test k) [''this'' \<mapsto> VString s] = Some (VBool x)"
  by (cases k) (simp_all add: valid_def matches_text_def)

lemma form_field_inj: "form_field k = form_field l \<longleftrightarrow> k = l"
  by (cases k; cases l; simp)

lemma known_string_field:
  "map_of (string_msg r) (form_field k) =
     (case sr_wellKnown r of Some (Form l b) \<Rightarrow> if l = k then Some (VBool b) else None | _ \<Rightarrow> None)"
proof -
  have "map_of (string_msg r) (form_field k) = map_of (string_known_msg (sr_wellKnown r)) (form_field k)"
    by (cases k) (simp_all add: string_msg_def find_field del: map_of_append)
  also have "\<dots> = (case sr_wellKnown r of Some (Form l b) \<Rightarrow> if l = k then Some (VBool b) else None | _ \<Rightarrow> None)"
    using form_field_other[of k] by (cases "sr_wellKnown r" rule: string_known_msg.cases) (auto simp: form_field_inj)
  finally show ?thesis .
qed

lemma form_decides:
  "decides lib clock (string_msg r) (VString s) [form_cel k]
     (sr_wellKnown r = Some (Form k True) \<longrightarrow> form_ok lib k s)"
proof -
  obtain x where "cel_eval lib (form_test k) (rule_env clock (string_msg r) (VString s)) = Some (VBool x)"
    "cel_eval lib (form_test k) [''this'' \<mapsto> VString s] = Some (VBool x)"
    using form_test_decides .
  with known_string_field[of r k] show ?thesis
    by (cases "sr_wellKnown r" rule: string_known_msg.cases; cases "k = KUriRef")
      (auto simp: decides_iff form_cel_def must_simps form_ok_def simp del: not_None_eq form_field.simps form_test.simps)
qed

lemma forms_decide:
  "decides lib clock (string_msg r) (VString s) (map form_cel ks)
     (list_all (\<lambda>k. sr_wellKnown r = Some (Form k True) \<longrightarrow> form_ok lib k s) ks)"
  by (induction ks) (use decides_Cons[OF form_decides] in \<open>simp_all add: decides_Nil\<close>)

lemma regex_field:
  "map_of (string_msg r) ''well_known_regex'' =
     (case sr_wellKnown r of
        Some (Regex g) \<Rightarrow> Some (VInt (case g of REGEX_UNSPECIFIED \<Rightarrow> 0 | HTTP_HEADER_NAME \<Rightarrow> 1 | HTTP_HEADER_VALUE \<Rightarrow> 2))
      | _ \<Rightarrow> None)"
proof -
  have "map_of (string_msg r) ''well_known_regex'' = map_of (string_known_msg (sr_wellKnown r)) ''well_known_regex''"
    by (simp add: string_msg_def find_field del: map_of_append)
  moreover have "''well_known_regex'' \<noteq> form_field k" for k by (cases k) simp_all
  ultimately show ?thesis by (cases "sr_wellKnown r" rule: string_known_msg.cases) simp_all
qed

lemma header_test_eval:
  "cel_eval lib (header_test pat) (rule_env clock (string_msg r) (VString s)) =
     Some (VBool (lib_matches lib (pat (sr_strict r \<noteq> Some False)) s))"
  by (cases "sr_strict r") (auto simp: header_test_def string_fields)

lemma regex_decides:
  "decides lib clock (string_msg r) (VString s) [regex_cel]
     (\<forall>g. sr_wellKnown r = Some (Regex g) \<longrightarrow> header_ok lib g (sr_strict r \<noteq> Some False) s)"
proof (cases "\<exists>g. sr_wellKnown r = Some (Regex g)")
  case True
  then obtain g where g: "sr_wellKnown r = Some (Regex g)" by blast
  then show ?thesis
    by (cases g) (auto simp: decides_iff regex_cel_def regex_field must_simps header_test_eval simp del: not_None_eq)
next
  case False
  then show ?thesis
    by (cases "sr_wellKnown r" rule: string_known_msg.cases) (auto simp: decides_iff regex_cel_def regex_field)
qed

lemma all_forms: "k \<in> set known_forms"
  by (cases k) (simp_all add: known_forms_def)

lemma string_decides:
  "decides lib clock (string_msg r) (VString s) string_cel
     (string_rules_ok (lib_matches lib) (form_ok lib) (header_ok lib) r s)"
proof -
  have "list_all P known_forms \<longleftrightarrow> (\<forall>k. P k)" for P using all_forms by (auto simp: list_all_iff)
  then have forms: "decides lib clock (string_msg r) (VString s) (map form_cel known_forms)
      (\<forall>k. sr_wellKnown r = Some (Form k True) \<longrightarrow> form_ok lib k s)"
    using forms_decide[of lib clock r s known_forms] by simp
  have known: "holds_for (\<lambda>k. string_known_ok (form_ok lib) (header_ok lib) (sr_strict r) k s) (sr_wellKnown r) \<longleftrightarrow>
      (\<forall>k. sr_wellKnown r = Some (Form k True) \<longrightarrow> form_ok lib k s) \<and>
      (\<forall>g. sr_wellKnown r = Some (Regex g) \<longrightarrow> header_ok lib g (sr_strict r \<noteq> Some False) s)"
    by (cases "sr_wellKnown r" rule: string_known_msg.cases) (auto split: bool.splits)
  show ?thesis unfolding string_cel_def
    by (rule decides_cong[OF decides_append[OF string_plain_decides decides_append[OF forms
          decides_Cons[OF regex_decides example_decides]]]])
      (simp add: string_rules_ok_def known conj_ac)
qed

lemma bytes_field_cases: "bytes_field k \<in> {''ip'', ''ipv4'', ''ipv6'', ''uuid''}"
  by (cases k) simp_all

lemma bytes_known_other: "f \<notin> {''ip'', ''ipv4'', ''ipv6'', ''uuid''} \<Longrightarrow> map_of (bytes_known_msg k) f = None"
proof (cases k rule: bytes_known_msg.cases)
  case (2 l b)
  assume "f \<notin> {''ip'', ''ipv4'', ''ipv6'', ''uuid''}"
  then have "f \<noteq> bytes_field l" using bytes_field_cases[of l] by blast
  with 2 show ?thesis by simp
qed simp

lemma bytes_fields:
  "map_of (bytes_msg r) ''const'' = map_option VBytes (br_const r)"
  "map_of (bytes_msg r) ''len'' = map_option VUint (br_len r)"
  "map_of (bytes_msg r) ''min_len'' = map_option VUint (br_minLen r)"
  "map_of (bytes_msg r) ''max_len'' = map_option VUint (br_maxLen r)"
  "map_of (bytes_msg r) ''pattern'' = map_option VString (br_pattern r)"
  "map_of (bytes_msg r) ''prefix'' = map_option VBytes (br_prefix r)"
  "map_of (bytes_msg r) ''suffix'' = map_option VBytes (br_suffix r)"
  "map_of (bytes_msg r) ''contains'' = map_option VBytes (br_contains r)"
  "map_of (bytes_msg r) ''in'' = (if br_in r = [] then None else Some (VList (map VBytes (br_in r))))"
  "map_of (bytes_msg r) ''not_in'' = (if br_notIn r = [] then None else Some (VList (map VBytes (br_notIn r))))"
  by (simp_all add: bytes_msg_def find_field bytes_known_other del: map_of_append split: option.splits)

lemma bytes_known_field:
  "map_of (bytes_msg r) (bytes_field k) =
     (case br_wellKnown r of Some (l, b) \<Rightarrow> if l = k then Some (VBool b) else None | _ \<Rightarrow> None)"
proof -
  have "map_of (bytes_msg r) (bytes_field k) = map_of (bytes_known_msg (br_wellKnown r)) (bytes_field k)"
    by (cases k) (simp_all add: bytes_msg_def find_field del: map_of_append)
  moreover have "bytes_field k = bytes_field l \<longleftrightarrow> k = l" for l by (cases k; cases l; simp)
  ultimately show ?thesis by (cases "br_wellKnown r" rule: bytes_known_msg.cases) auto
qed

lemma bytes_form_decides:
  "decides lib clock (bytes_msg r) (VBytes b) [bytes_form_cel k]
     (br_wellKnown r = Some (k, True) \<longrightarrow> bytes_form_ok k b)"
proof -
  have test: "cel_eval lib (bytes_test k) (rule_env clock (bytes_msg r) (VBytes b)) = Some (VBool (bytes_form_ok k b))"
    by (cases k) (auto simp: has_size_def)
  have "bytes_form_ok k b \<Longrightarrow> b \<noteq> []" by (cases k) auto
  with test bytes_known_field[of r k] show ?thesis
    by (cases "br_wellKnown r" rule: bytes_known_msg.cases)
      (auto simp: decides_iff bytes_form_cel_def must_simps has_size_def
        simp del: not_None_eq bytes_field.simps bytes_test.simps)
qed

text \<open>A pattern is matched against the bytes read as text, which they have to be.\<close>

lemma bytes_plain_decides:
  assumes "br_pattern r \<noteq> None \<longrightarrow> lib_utf8 lib b"
  shows "decides lib clock (bytes_msg r) (VBytes b) bytes_plain_cel
     (holds_for (\<lambda>c. b = c) (br_const r) \<and>
      holds_for (\<lambda>n. int (length b) = n) (br_len r) \<and>
      holds_for (\<lambda>n. n \<le> int (length b)) (br_minLen r) \<and>
      holds_for (\<lambda>n. int (length b) \<le> n) (br_maxLen r) \<and>
      holds_for (\<lambda>p. lib_matches lib p b) (br_pattern r) \<and>
      holds_for (\<lambda>p. starts_with b p) (br_prefix r) \<and>
      holds_for (\<lambda>p. starts_with (rev b) (rev p)) (br_suffix r) \<and>
      holds_for (\<lambda>p. str_includes b p) (br_contains r) \<and>
      (br_in r = [] \<or> b \<in> set (br_in r)) \<and> (br_notIn r = [] \<or> b \<notin> set (br_notIn r)) \<and> True)"
  unfolding bytes_plain_cel_def
  by (rule then_bytes, rule bytes_fields, simp add: text_evaluates del: not_None_eq,
      rule then_size, rule bytes_fields, simp add: text_evaluates del: not_None_eq,
      rule then_size, rule bytes_fields, simp add: text_evaluates linorder_not_less del: not_None_eq,
      rule then_size, rule bytes_fields, simp add: text_evaluates linorder_not_less del: not_None_eq,
      rule then_text, rule bytes_fields, use assms in \<open>simp add: text_evaluates bytes_fields del: not_None_eq\<close>,
      (rule then_bytes, rule bytes_fields, simp add: text_evaluates del: not_None_eq)+,
      (rule list_opt_decides, rule bytes_fields, simp add: text_evaluates del: not_None_eq)+,
      rule decides_Nil)

lemma bytes_decides:
  assumes "br_pattern r \<noteq> None \<longrightarrow> lib_utf8 lib b"
  shows "decides lib clock (bytes_msg r) (VBytes b) bytes_cel (bytes_rules_ok (lib_matches lib) r b)"
proof -
  have known: "holds_for (\<lambda>(k, on). on \<longrightarrow> bytes_form_ok k b) (br_wellKnown r) \<longleftrightarrow>
      (br_wellKnown r = Some (BIp, True) \<longrightarrow> bytes_form_ok BIp b) \<and>
      (br_wellKnown r = Some (BIpv4, True) \<longrightarrow> bytes_form_ok BIpv4 b) \<and>
      (br_wellKnown r = Some (BIpv6, True) \<longrightarrow> bytes_form_ok BIpv6 b) \<and>
      (br_wellKnown r = Some (BUuid, True) \<longrightarrow> bytes_form_ok BUuid b)"
  proof (cases "br_wellKnown r")
    case (Some p)
    then show ?thesis by (cases p; cases "fst p") auto
  qed simp
  have no: "(br_notIn r = [] \<or> b \<notin> set (br_notIn r)) \<longleftrightarrow> b \<notin> set (br_notIn r)" by auto
  show ?thesis unfolding bytes_cel_def list.map append_Cons append_Nil
    by (rule decides_cong[OF decides_append[OF bytes_plain_decides[OF assms] decides_Cons[OF bytes_form_decides
          decides_Cons[OF bytes_form_decides decides_Cons[OF bytes_form_decides
            decides_Cons[OF bytes_form_decides example_decides]]]]]])
      (simp only: bytes_rules_ok_def known no simp_thms conj_assoc)
qed

lemma bool_decides: "decides lib clock (bool_msg r) (VBool b) bool_cel (bool_rules_ok r b)"
proof -
  have "map_of (bool_msg r) ''const'' = map_option VBool (bo_const r)"
    by (simp add: bool_msg_def find_field del: map_of_append split: option.splits)
  then have "decides lib clock (bool_msg r) (VBool b) bool_cel (holds_for (\<lambda>c. b = c) (bo_const r) \<and> True)"
    unfolding bool_cel_def const_cel_def
    by (rule opt_decides) (simp add: text_evaluates del: not_None_eq, rule example_decides)
  then show ?thesis by (simp add: bool_rules_ok_def)
qed

text \<open>That a number is defined is no expression of the schema: the runtime knows the enumeration.\<close>

lemma enum_decides:
  "decides lib clock (enum_msg r) (VInt n) enum_cel
     (holds_for (\<lambda>c. n = c) (er_const r) \<and> (er_in r = [] \<or> n \<in> set (er_in r)) \<and> n \<notin> set (er_notIn r))"
proof -
  have found: "map_of (enum_msg r) ''const'' = map_option VInt (er_const r)"
    "map_of (enum_msg r) ''in'' = (if er_in r = [] then None else Some (VList (map VInt (er_in r))))"
    "map_of (enum_msg r) ''not_in'' = (if er_notIn r = [] then None else Some (VList (map VInt (er_notIn r))))"
    by (simp_all add: enum_msg_def find_field del: map_of_append split: option.splits)
  have rest: "decides lib clock (enum_msg r) (VInt n) (list_cel ''enum'' @ example_cel ''enum'')
      ((er_in r = [] \<or> n \<in> set (er_in r)) \<and> n \<notin> set (er_notIn r))"
    using decides_append[OF in_decides[OF found(2,3) list_ex_text(3)] example_decides, of lib clock n] by simp
  show ?thesis unfolding enum_cel_def const_cel_def
    by (rule opt_decides[OF found(1) _ rest]) (simp add: text_evaluates del: not_None_eq)
qed

lemma list_size_decides:
  "decides lib clock (repeated_msg r) (VList xs) repeated_cel
     (holds_for (\<lambda>n. n \<le> int (length xs)) (rr_minItems r) \<and> holds_for (\<lambda>n. int (length xs) \<le> n) (rr_maxItems r) \<and>
      (rr_unique r \<longrightarrow> cel_distinct xs))"
proof -
  have found: "map_of (repeated_msg r) ''min_items'' = map_option VUint (rr_minItems r)"
    "map_of (repeated_msg r) ''max_items'' = map_option VUint (rr_maxItems r)"
    "map_of (repeated_msg r) ''unique'' = (if rr_unique r then Some (VBool True) else None)"
    by (simp_all add: repeated_msg_def find_field del: map_of_append split: option.splits)
  show ?thesis unfolding repeated_cel_def
    by (rule then_size, rule found, simp add: text_evaluates linorder_not_less del: not_None_eq,
        rule then_size, rule found, simp add: text_evaluates linorder_not_less del: not_None_eq)
      (auto simp: decides_field found must_simps simp del: not_None_eq)
qed

lemma map_size_decides:
  "decides lib clock (map_msg r) (VMap kvs) map_cel
     (holds_for (\<lambda>n. n \<le> int (length kvs)) (pr_minPairs r) \<and> holds_for (\<lambda>n. int (length kvs) \<le> n) (pr_maxPairs r))"
proof -
  have found: "map_of (map_msg r) ''min_pairs'' = map_option VUint (pr_minPairs r)"
    "map_of (map_msg r) ''max_pairs'' = map_option VUint (pr_maxPairs r)"
    by (simp_all add: map_msg_def find_field del: map_of_append split: option.splits)
  have "decides lib clock (map_msg r) (VMap kvs) map_cel
     (holds_for (\<lambda>n. n \<le> int (length kvs)) (pr_minPairs r) \<and> holds_for (\<lambda>n. int (length kvs) \<le> n) (pr_maxPairs r) \<and>
      True)"
    unfolding map_cel_def
    by (rule then_size, rule found, simp add: text_evaluates linorder_not_less del: not_None_eq,
        rule then_size, rule found, simp add: text_evaluates linorder_not_less del: not_None_eq, rule decides_Nil)
  then show ?thesis by simp
qed

text \<open>The loops over the paths of a mask.\<close>

lemma some_path:
  "foldr (\<lambda>v. cel_or (bool_of (cel_eval lib (Call FStartsWith [Ident ''p'', Add (Ident ''f'') (Lit (VString ''.''))])
       (\<sigma>(''p'' \<mapsto> VString q, ''f'' \<mapsto> v))))) (map VString fs) (Some False) =
     Some (list_ex (\<lambda>f. starts_with q (f @ ''.'')) fs)"
  by (induction fs) simp_all

lemma path_eval:
  assumes "map_of msg fld = Some (VList (map VString fs))"
  shows "cel_eval lib (path_cel fld) ((rule_env clock msg v)(''p'' \<mapsto> VString q)) = Some (VBool (path_under fs q))"
proof -
  have "((rule_env clock msg v)(''p'' \<mapsto> VString q)) ''rules'' = Some (VMessage msg)" by simp
  then have "cel_eval lib (path_cel fld) ((rule_env clock msg v)(''p'' \<mapsto> VString q)) =
      Some (VBool (q \<in> set fs \<or> list_ex (\<lambda>f. starts_with q (f @ ''.'')) fs))"
    unfolding path_cel_def using assms by (simp add: list_ex_text some_path del: cel_eval.simps(13))
  then show ?thesis by (auto simp: path_under_def list_ex_iff)
qed

lemma every_path:
  assumes "map_of msg fld = Some (VList (map VString fs))"
  shows "foldr (\<lambda>u. cel_and (bool_of (cel_eval lib (path_cel fld) ((rule_env clock msg v)(''p'' \<mapsto> u))))) (map VString ps)
       (Some True) = Some (list_all (path_under fs) ps)"
    "foldr (\<lambda>u. cel_and (bool_of (map_option (\<lambda>b. VBool (\<not> b))
         (bool_of (cel_eval lib (path_cel fld) ((rule_env clock msg v)(''p'' \<mapsto> u))))))) (map VString ps)
       (Some True) = Some (list_all (\<lambda>q. \<not> path_under fs q) ps)"
  using path_eval[OF assms] by (induction ps) simp_all

lemma mask_eq: "cel_eq (VList (map VString ps)) (VList (map VString qs)) \<longleftrightarrow> ps = qs"
  by (auto simp: list_all2_conv_all_nth list_eq_iff_nth_eq)

lemma field_mask_decides:
  "decides lib clock (field_mask_msg r) (mask_value ps) field_mask_cel (field_mask_rules_ok r ps)"
proof -
  have found: "map_of (field_mask_msg r) ''const'' = map_option mask_value (mr_const r)"
    "map_of (field_mask_msg r) ''in'' = (if mr_in r = [] then None else Some (VList (map VString (mr_in r))))"
    "map_of (field_mask_msg r) ''not_in'' = (if mr_notIn r = [] then None else Some (VList (map VString (mr_notIn r))))"
    by (simp_all add: field_mask_msg_def find_field del: map_of_append split: option.splits)
  have "decides lib clock (field_mask_msg r) (mask_value ps) field_mask_cel
     (holds_for (\<lambda>c. ps = c) (mr_const r) \<and>
      (mr_in r = [] \<or> list_all (path_under (mr_in r)) ps) \<and>
      (mr_notIn r = [] \<or> list_all (\<lambda>q. \<not> path_under (mr_notIn r) q) ps) \<and> True)"
    unfolding field_mask_cel_def append_Cons append_Nil
    by (rule opt_decides[OF found(1)], simp add: text_evaluates mask_value_def mask_eq del: not_None_eq cel_eq.simps,
        rule list_opt_decides, rule found,
        simp add: text_evaluates mask_value_def every_path del: not_None_eq,
        rule list_opt_decides, rule found,
        simp add: text_evaluates mask_value_def every_path del: not_None_eq,
        rule example_decides)
  moreover have "path_under [] q \<longleftrightarrow> False" for q by (simp add: path_under_def)
  ultimately show ?thesis
    by (elim decides_cong) (auto simp: field_mask_rules_ok_def list_all_iff list_ex_iff)
qed

end
