(* ===== verification/Wire.thy ===== *)
theory Wire
  imports Prelude
begin

text \<open>
  Descriptions of the service's messages and methods, and how they are embedded in the generated
  code. \<open>protoc-gen-es\<close> writes one descriptor per file: the file description in the protobuf wire
  format, in base64 without padding (\<open>web/lib/gen/hivebook/**/*_pb.ts\<close>, \<open>fileDesc("...")\<close>). The
  message types, schemas and service tables beside it are the readable side of the same data.

  Here are the data types of such descriptions and the encoding: the wire format of the fields of
  \<open>FileDescriptorProto\<close> that occur, the options of \<open>buf.validate\<close> (extension 1159 of a field's
  options) and base64. The theory \<open>Service\<close> uses it to show that what the types say is what the
  descriptor holds.
\<close>

section \<open>Descriptions\<close>

datatype wire_type =
    TInt32 | TBool | TString | TMessage string | TBytes | TUint32 | TEnum string

datatype field_label = Singular | Optional | Repeated

datatype field_rules =
    NoRules
  | StringRules "int option" "int option"   \<comment> \<open>\<open>min_len\<close>, \<open>max_len\<close>\<close>
  | Int32Rules "int option" "int option"    \<comment> \<open>\<open>lte\<close>, \<open>gte\<close>\<close>
  | Uint32Rules "int option"                \<comment> \<open>\<open>lte\<close>\<close>
  | RepeatedRules "int option"              \<comment> \<open>\<open>max_items\<close>\<close>

record field_desc =
  f_name :: string
  f_number :: int
  f_type :: wire_type
  f_label :: field_label
  f_rules :: field_rules

record message_desc =
  m_name :: string
  m_fields :: "field_desc list"

datatype method_kind = Unary | ServerStreaming

record method_desc =
  me_name :: string
  me_kind :: method_kind
  me_input :: message_desc
  me_output :: message_desc

record enum_desc =
  en_name :: string
  en_values :: "(string \<times> int) list"

record service_desc =
  sv_name :: string
  sv_methods :: "method_desc list"

record file_desc =
  fi_name :: string
  fi_package :: string
  fi_messages :: "message_desc list"
  fi_enums :: "enum_desc list"
  fi_services :: "service_desc list"

text \<open>A field as the schemas write it.\<close>

definition field :: "wire_type \<Rightarrow> string \<Rightarrow> int \<Rightarrow> field_desc" where
  "field ty n k = \<lparr>f_name = n, f_number = k, f_type = ty, f_label = Singular, f_rules = NoRules\<rparr>"

definition optional :: "field_desc \<Rightarrow> field_desc" where
  "optional f = f\<lparr>f_label := Optional\<rparr>"

definition repeated :: "field_desc \<Rightarrow> field_desc" where
  "repeated f = f\<lparr>f_label := Repeated\<rparr>"

definition ruled :: "field_rules \<Rightarrow> field_desc \<Rightarrow> field_desc" where
  "ruled r f = f\<lparr>f_rules := r\<rparr>"

definition message_of :: "string \<Rightarrow> field_desc list \<Rightarrow> message_desc" where
  "message_of n fs = \<lparr>m_name = n, m_fields = fs\<rparr>"

section \<open>The wire format\<close>

text \<open>A byte is a \<open>char\<close>, a byte string a \<open>string\<close>.\<close>

function varint :: "int \<Rightarrow> string" where
  "varint n = (if n < 128 then [char_of n] else char_of (128 + n mod 128) # varint (n div 128))"
  by pat_completeness auto
termination
  by (relation "measure nat") auto

declare varint.simps [simp del]

primrec byte_count :: "string \<Rightarrow> int \<Rightarrow> int" where
  "byte_count [] n = n"
| "byte_count (c # s) n = byte_count s (n + 1)"

text \<open>A field with a number, and a field with a length and bytes.\<close>

definition num_field :: "int \<Rightarrow> int \<Rightarrow> string" where
  "num_field k v = varint (8 * k) @ varint v"

definition bytes_field :: "int \<Rightarrow> string \<Rightarrow> string" where
  "bytes_field k s = varint (8 * k + 2) @ varint (byte_count s 0) @ s"

definition opt_num :: "int \<Rightarrow> int option \<Rightarrow> string" where
  "opt_num k v = (case v of None \<Rightarrow> [] | Some n \<Rightarrow> num_field k n)"

text \<open>\<open>buf.validate.field\<close>: the rules for strings, 32-bit integers and repeated fields.\<close>

fun rules_bytes :: "field_rules \<Rightarrow> string" where
  "rules_bytes NoRules = []"
| "rules_bytes (StringRules mn mx) = bytes_field 14 (opt_num 2 mn @ opt_num 3 mx)"
| "rules_bytes (Int32Rules le ge) = bytes_field 3 (opt_num 3 le @ opt_num 5 ge)"
| "rules_bytes (Uint32Rules le) = bytes_field 5 (opt_num 3 le)"
| "rules_bytes (RepeatedRules mx) = bytes_field 18 (opt_num 2 mx)"

fun type_number :: "wire_type \<Rightarrow> int" where
  "type_number TInt32 = 5"
| "type_number TBool = 8"
| "type_number TString = 9"
| "type_number (TMessage n) = 11"
| "type_number TBytes = 12"
| "type_number TUint32 = 13"
| "type_number (TEnum n) = 14"

fun type_name :: "wire_type \<Rightarrow> string" where
  "type_name (TMessage n) = bytes_field 6 (CHR ''.'' # n)"
| "type_name (TEnum n) = bytes_field 6 (CHR ''.'' # n)"
| "type_name ty = []"

text \<open>An optional field of \<open>proto3\<close> is alone in a oneof of its own, numbered in order.\<close>

definition field_bytes :: "int \<Rightarrow> field_desc \<Rightarrow> string" where
  "field_bytes oneof f =
     bytes_field 1 (f_name f) @ num_field 3 (f_number f) @
     num_field 4 (if f_label f = Repeated then 3 else 1) @
     num_field 5 (type_number (f_type f)) @ type_name (f_type f) @
     (if f_rules f = NoRules then [] else bytes_field 8 (bytes_field 1159 (rules_bytes (f_rules f)))) @
     (if f_label f = Optional then num_field 9 oneof @ num_field 17 1 else [])"

fun fields_bytes :: "int \<Rightarrow> field_desc list \<Rightarrow> string" where
  "fields_bytes oneof [] = []"
| "fields_bytes oneof (f # fs) =
     bytes_field 2 (field_bytes oneof f) @ fields_bytes (if f_label f = Optional then oneof + 1 else oneof) fs"

definition message_bytes :: "message_desc \<Rightarrow> string" where
  "message_bytes m =
     bytes_field 1 (m_name m) @ fields_bytes 0 (m_fields m) @
     concat (map (\<lambda>f. bytes_field 8 (bytes_field 1 (CHR ''_'' # f_name f)))
       (filter (\<lambda>f. f_label f = Optional) (m_fields m)))"

definition enum_bytes :: "enum_desc \<Rightarrow> string" where
  "enum_bytes e =
     bytes_field 1 (en_name e) @
     concat (map (\<lambda>(n, k). bytes_field 2 (bytes_field 1 n @ num_field 2 k)) (en_values e))"

definition method_bytes :: "string \<Rightarrow> method_desc \<Rightarrow> string" where
  "method_bytes pkg me =
     bytes_field 1 (me_name me) @
     bytes_field 2 (CHR ''.'' # pkg @ CHR ''.'' # m_name (me_input me)) @
     bytes_field 3 (CHR ''.'' # pkg @ CHR ''.'' # m_name (me_output me)) @
     (if me_kind me = ServerStreaming then num_field 6 1 else [])"

definition service_bytes :: "string \<Rightarrow> service_desc \<Rightarrow> string" where
  "service_bytes pkg s =
     bytes_field 1 (sv_name s) @ concat (map (\<lambda>me. bytes_field 2 (method_bytes pkg me)) (sv_methods s))"

definition file_bytes :: "file_desc \<Rightarrow> string" where
  "file_bytes f =
     bytes_field 1 (fi_name f) @ bytes_field 2 (fi_package f) @
     concat (map (\<lambda>m. bytes_field 4 (message_bytes m)) (fi_messages f)) @
     concat (map (\<lambda>e. bytes_field 5 (enum_bytes e)) (fi_enums f)) @
     concat (map (\<lambda>s. bytes_field 6 (service_bytes (fi_package f) s)) (fi_services f)) @
     bytes_field 12 ''proto3''"

section \<open>Base64\<close>

definition b64_0 :: "bool \<Rightarrow> bool \<Rightarrow> bool \<Rightarrow> char" where
  "b64_0 c b a =
     (if c then (if b then (if a then CHR ''H'' else CHR ''G'') else (if a then CHR ''F'' else CHR ''E'')) else (if b then (if a then CHR ''D'' else CHR ''C'') else (if a then CHR ''B'' else CHR ''A'')))"

definition b64_1 :: "bool \<Rightarrow> bool \<Rightarrow> bool \<Rightarrow> char" where
  "b64_1 c b a =
     (if c then (if b then (if a then CHR ''P'' else CHR ''O'') else (if a then CHR ''N'' else CHR ''M'')) else (if b then (if a then CHR ''L'' else CHR ''K'') else (if a then CHR ''J'' else CHR ''I'')))"

definition b64_2 :: "bool \<Rightarrow> bool \<Rightarrow> bool \<Rightarrow> char" where
  "b64_2 c b a =
     (if c then (if b then (if a then CHR ''X'' else CHR ''W'') else (if a then CHR ''V'' else CHR ''U'')) else (if b then (if a then CHR ''T'' else CHR ''S'') else (if a then CHR ''R'' else CHR ''Q'')))"

definition b64_3 :: "bool \<Rightarrow> bool \<Rightarrow> bool \<Rightarrow> char" where
  "b64_3 c b a =
     (if c then (if b then (if a then CHR ''f'' else CHR ''e'') else (if a then CHR ''d'' else CHR ''c'')) else (if b then (if a then CHR ''b'' else CHR ''a'') else (if a then CHR ''Z'' else CHR ''Y'')))"

definition b64_4 :: "bool \<Rightarrow> bool \<Rightarrow> bool \<Rightarrow> char" where
  "b64_4 c b a =
     (if c then (if b then (if a then CHR ''n'' else CHR ''m'') else (if a then CHR ''l'' else CHR ''k'')) else (if b then (if a then CHR ''j'' else CHR ''i'') else (if a then CHR ''h'' else CHR ''g'')))"

definition b64_5 :: "bool \<Rightarrow> bool \<Rightarrow> bool \<Rightarrow> char" where
  "b64_5 c b a =
     (if c then (if b then (if a then CHR ''v'' else CHR ''u'') else (if a then CHR ''t'' else CHR ''s'')) else (if b then (if a then CHR ''r'' else CHR ''q'') else (if a then CHR ''p'' else CHR ''o'')))"

definition b64_6 :: "bool \<Rightarrow> bool \<Rightarrow> bool \<Rightarrow> char" where
  "b64_6 c b a =
     (if c then (if b then (if a then CHR ''3'' else CHR ''2'') else (if a then CHR ''1'' else CHR ''0'')) else (if b then (if a then CHR ''z'' else CHR ''y'') else (if a then CHR ''x'' else CHR ''w'')))"

definition b64_7 :: "bool \<Rightarrow> bool \<Rightarrow> bool \<Rightarrow> char" where
  "b64_7 c b a =
     (if c then (if b then (if a then CHR ''/'' else CHR ''+'') else (if a then CHR ''9'' else CHR ''8'')) else (if b then (if a then CHR ''7'' else CHR ''6'') else (if a then CHR ''5'' else CHR ''4'')))"

definition b64 :: "bool \<Rightarrow> bool \<Rightarrow> bool \<Rightarrow> bool \<Rightarrow> bool \<Rightarrow> bool \<Rightarrow> char" where
  "b64 f e d c b a =
     (if f then (if e then (if d then b64_7 c b a else b64_6 c b a) else (if d then b64_5 c b a else b64_4 c b a))
      else (if e then (if d then b64_3 c b a else b64_2 c b a) else (if d then b64_1 c b a else b64_0 c b a)))"

text \<open>Three bytes are four characters of six bits each, the highest bits first; no padding.\<close>

fun base64 :: "string \<Rightarrow> string" where
  "base64 (Char a0 a1 a2 a3 a4 a5 a6 a7 # Char b0 b1 b2 b3 b4 b5 b6 b7 # Char c0 c1 c2 c3 c4 c5 c6 c7 # s) =
     b64 a7 a6 a5 a4 a3 a2 # b64 a1 a0 b7 b6 b5 b4 # b64 b3 b2 b1 b0 c7 c6 # b64 c5 c4 c3 c2 c1 c0 # base64 s"
| "base64 [Char a0 a1 a2 a3 a4 a5 a6 a7, Char b0 b1 b2 b3 b4 b5 b6 b7] =
     [b64 a7 a6 a5 a4 a3 a2, b64 a1 a0 b7 b6 b5 b4, b64 b3 b2 b1 b0 False False]"
| "base64 [Char a0 a1 a2 a3 a4 a5 a6 a7] =
     [b64 a7 a6 a5 a4 a3 a2, b64 a1 a0 False False False False]"
| "base64 [] = []"

end
