(* ===== verification/Service.thy ===== *)
theory Service
  imports Wire
begin

text \<open>
  The two services of the API as the generated client code declares them
  (\<open>web/lib/gen/hivebook/integration/v1/integration_pb.ts\<close>, \<open>tenant/v1/tenant_pb.ts\<close>): one schema
  per message, in the order of \<open>messageDesc(file, i)\<close>, the service tables with the kind of every
  method, and the descriptors the files embed. The validation rules of the fields stand in the
  descriptors only (and in \<open>src/proto\<close>); a schema carries them with its fields.

  The theorem: the embedded descriptors are the encodings of these schemas and tables, so the
  declared types, the rules and what the Connect runtime works with agree.
\<close>

section \<open>The integration service: messages\<close>

definition ConnectorSchema :: message_desc where
  "ConnectorSchema = message_of ''Connector''
     [field TString ''id'' 1,
      field TString ''name'' 2,
      field TString ''archetype'' 3]"

definition ConnectionSchema :: message_desc where
  "ConnectionSchema = message_of ''Connection''
     [field TString ''id'' 1,
      field TString ''connector_id'' 2,
      field (TEnum ''hivebook.integration.v1.ConnectionStatus'') ''status'' 3,
      field TString ''account'' 4,
      field (TMessage ''google.protobuf.Timestamp'') ''last_synced_at'' 5,
      field TString ''last_error'' 6,
      field (TMessage ''google.protobuf.Timestamp'') ''catalog_discovered_at'' 7,
      field TBool ''onboarded'' 8,
      field TBool ''auto_sync_enabled'' 9,
      field TInt32 ''sync_interval_seconds'' 10]"

definition ListConnectorsRequestSchema :: message_desc where
  "ListConnectorsRequestSchema = message_of ''ListConnectorsRequest'' []"

definition ListConnectorsResponseSchema :: message_desc where
  "ListConnectorsResponseSchema = message_of ''ListConnectorsResponse''
     [repeated (field (TMessage ''hivebook.integration.v1.Connector'') ''connectors'' 1)]"

definition ListConnectionsRequestSchema :: message_desc where
  "ListConnectionsRequestSchema = message_of ''ListConnectionsRequest'' []"

definition ListConnectionsResponseSchema :: message_desc where
  "ListConnectionsResponseSchema = message_of ''ListConnectionsResponse''
     [repeated (field (TMessage ''hivebook.integration.v1.Connection'') ''connections'' 1)]"

definition GetAuthorizeUrlRequestSchema :: message_desc where
  "GetAuthorizeUrlRequestSchema = message_of ''GetAuthorizeUrlRequest''
     [ruled (StringRules (Some 1) None) (field TString ''connector_id'' 1)]"

definition GetAuthorizeUrlResponseSchema :: message_desc where
  "GetAuthorizeUrlResponseSchema = message_of ''GetAuthorizeUrlResponse''
     [field TString ''url'' 1]"

definition ConnectWithTokenRequestSchema :: message_desc where
  "ConnectWithTokenRequestSchema = message_of ''ConnectWithTokenRequest''
     [ruled (StringRules (Some 1) None) (field TString ''connector_id'' 1),
      ruled (StringRules (Some 1) None) (field TString ''token'' 2),
      ruled (StringRules None (Some 100)) (field TString ''name'' 3)]"

definition ConnectWithTokenResponseSchema :: message_desc where
  "ConnectWithTokenResponseSchema = message_of ''ConnectWithTokenResponse''
     [field (TMessage ''hivebook.integration.v1.Connection'') ''connection'' 1]"

definition TriggerSyncRequestSchema :: message_desc where
  "TriggerSyncRequestSchema = message_of ''TriggerSyncRequest''
     [ruled (StringRules (Some 1) None) (field TString ''connection_id'' 1)]"

definition TriggerSyncResponseSchema :: message_desc where
  "TriggerSyncResponseSchema = message_of ''TriggerSyncResponse'' []"

definition StopSyncRequestSchema :: message_desc where
  "StopSyncRequestSchema = message_of ''StopSyncRequest''
     [ruled (StringRules (Some 1) None) (field TString ''connection_id'' 1)]"

definition StopSyncResponseSchema :: message_desc where
  "StopSyncResponseSchema = message_of ''StopSyncResponse'' []"

definition DisconnectRequestSchema :: message_desc where
  "DisconnectRequestSchema = message_of ''DisconnectRequest''
     [ruled (StringRules (Some 1) None) (field TString ''connection_id'' 1)]"

definition DisconnectResponseSchema :: message_desc where
  "DisconnectResponseSchema = message_of ''DisconnectResponse'' []"

definition WatchConnectionsRequestSchema :: message_desc where
  "WatchConnectionsRequestSchema = message_of ''WatchConnectionsRequest'' []"

definition WatchConnectionsResponseSchema :: message_desc where
  "WatchConnectionsResponseSchema = message_of ''WatchConnectionsResponse''
     [repeated (field (TMessage ''hivebook.integration.v1.Connection'') ''connections'' 1)]"

definition ArtifactSchema :: message_desc where
  "ArtifactSchema = message_of ''Artifact''
     [field TString ''id'' 1,
      field TString ''connector_id'' 2,
      field TString ''source_native_kind'' 3,
      field TString ''container_name'' 4,
      field TString ''external_id'' 5,
      field TString ''source_url'' 6,
      field (TMessage ''google.protobuf.Timestamp'') ''ingested_at'' 7,
      field TString ''connection_id'' 8]"

definition ListArtifactsRequestSchema :: message_desc where
  "ListArtifactsRequestSchema = message_of ''ListArtifactsRequest''
     [ruled (Uint32Rules (Some 200)) (field TUint32 ''limit'' 1),
      field TUint32 ''offset'' 2,
      field TString ''connection_id'' 3]"

definition ListArtifactsResponseSchema :: message_desc where
  "ListArtifactsResponseSchema = message_of ''ListArtifactsResponse''
     [repeated (field (TMessage ''hivebook.integration.v1.Artifact'') ''artifacts'' 1),
      field TUint32 ''total'' 2]"

definition GetArtifactContentRequestSchema :: message_desc where
  "GetArtifactContentRequestSchema = message_of ''GetArtifactContentRequest''
     [ruled (StringRules (Some 1) None) (field TString ''id'' 1)]"

definition GetArtifactContentResponseSchema :: message_desc where
  "GetArtifactContentResponseSchema = message_of ''GetArtifactContentResponse''
     [field TBytes ''data'' 1,
      field TString ''content_type'' 2,
      field TString ''filename'' 3]"

definition ProjectSchema :: message_desc where
  "ProjectSchema = message_of ''Project''
     [field TString ''id'' 1,
      field TString ''name'' 2,
      field TBool ''selected'' 3,
      field TString ''status'' 4,
      field (TMessage ''google.protobuf.Timestamp'') ''last_synced_at'' 5,
      field TUint32 ''artifact_count'' 6,
      field TString ''last_error'' 7,
      field TUint32 ''total_estimate'' 8,
      field (TMessage ''google.protobuf.Timestamp'') ''total_estimate_at'' 9]"

definition ListProjectsRequestSchema :: message_desc where
  "ListProjectsRequestSchema = message_of ''ListProjectsRequest''
     [ruled (StringRules (Some 1) None) (field TString ''connection_id'' 1),
      field TString ''query'' 2]"

definition ListProjectsResponseSchema :: message_desc where
  "ListProjectsResponseSchema = message_of ''ListProjectsResponse''
     [repeated (field (TMessage ''hivebook.integration.v1.Project'') ''projects'' 1)]"

definition SetProjectSelectionRequestSchema :: message_desc where
  "SetProjectSelectionRequestSchema = message_of ''SetProjectSelectionRequest''
     [ruled (StringRules (Some 1) None) (field TString ''connection_id'' 1),
      repeated (field TString ''selected_ids'' 2)]"

definition SetProjectSelectionResponseSchema :: message_desc where
  "SetProjectSelectionResponseSchema = message_of ''SetProjectSelectionResponse'' []"

definition UpdateSyncScheduleRequestSchema :: message_desc where
  "UpdateSyncScheduleRequestSchema = message_of ''UpdateSyncScheduleRequest''
     [ruled (StringRules (Some 1) None) (field TString ''connection_id'' 1),
      field TBool ''enabled'' 2,
      field TInt32 ''interval_seconds'' 3]"

definition UpdateSyncScheduleResponseSchema :: message_desc where
  "UpdateSyncScheduleResponseSchema = message_of ''UpdateSyncScheduleResponse'' []"

definition WatchProjectsRequestSchema :: message_desc where
  "WatchProjectsRequestSchema = message_of ''WatchProjectsRequest''
     [ruled (StringRules (Some 1) None) (field TString ''connection_id'' 1)]"

definition WatchProjectsResponseSchema :: message_desc where
  "WatchProjectsResponseSchema = message_of ''WatchProjectsResponse''
     [repeated (field (TMessage ''hivebook.integration.v1.Project'') ''projects'' 1)]"

definition ConnectionStatusSchema :: enum_desc where
  "ConnectionStatusSchema = \<lparr>en_name = ''ConnectionStatus'',
     en_values = [(''CONNECTION_STATUS_UNSPECIFIED'', 0),
       (''CONNECTION_STATUS_CONNECTED'', 1),
       (''CONNECTION_STATUS_SYNCING'', 2),
       (''CONNECTION_STATUS_ERROR'', 3),
       (''CONNECTION_STATUS_NEEDS_REAUTH'', 4),
       (''CONNECTION_STATUS_STOPPING'', 5)]\<rparr>"

section \<open>The integration service: methods\<close>

definition IntegrationService :: service_desc where
  "IntegrationService = \<lparr>sv_name = ''IntegrationService'',
     sv_methods = map (\<lambda>(n, k, i, out). \<lparr>me_name = n, me_kind = k, me_input = i, me_output = out\<rparr>)
       [(''ListConnectors'', Unary, ListConnectorsRequestSchema, ListConnectorsResponseSchema),
        (''ListConnections'', Unary, ListConnectionsRequestSchema, ListConnectionsResponseSchema),
        (''GetAuthorizeUrl'', Unary, GetAuthorizeUrlRequestSchema, GetAuthorizeUrlResponseSchema),
        (''ConnectWithToken'', Unary, ConnectWithTokenRequestSchema, ConnectWithTokenResponseSchema),
        (''TriggerSync'', Unary, TriggerSyncRequestSchema, TriggerSyncResponseSchema),
        (''StopSync'', Unary, StopSyncRequestSchema, StopSyncResponseSchema),
        (''Disconnect'', Unary, DisconnectRequestSchema, DisconnectResponseSchema),
        (''ListArtifacts'', Unary, ListArtifactsRequestSchema, ListArtifactsResponseSchema),
        (''GetArtifactContent'', Unary, GetArtifactContentRequestSchema, GetArtifactContentResponseSchema),
        (''ListProjects'', Unary, ListProjectsRequestSchema, ListProjectsResponseSchema),
        (''SetProjectSelection'', Unary, SetProjectSelectionRequestSchema, SetProjectSelectionResponseSchema),
        (''UpdateSyncSchedule'', Unary, UpdateSyncScheduleRequestSchema, UpdateSyncScheduleResponseSchema),
        (''WatchConnections'', ServerStreaming, WatchConnectionsRequestSchema, WatchConnectionsResponseSchema),
        (''WatchProjects'', ServerStreaming, WatchProjectsRequestSchema, WatchProjectsResponseSchema)]\<rparr>"

definition integration_file :: file_desc where
  "integration_file = \<lparr>fi_name = ''hivebook/integration/v1/integration.proto'', fi_package = ''hivebook.integration.v1'',
     fi_messages =
       [ConnectorSchema, ConnectionSchema, ListConnectorsRequestSchema, ListConnectorsResponseSchema,
        ListConnectionsRequestSchema, ListConnectionsResponseSchema, GetAuthorizeUrlRequestSchema,
        GetAuthorizeUrlResponseSchema, ConnectWithTokenRequestSchema, ConnectWithTokenResponseSchema,
        TriggerSyncRequestSchema, TriggerSyncResponseSchema, StopSyncRequestSchema,
        StopSyncResponseSchema, DisconnectRequestSchema, DisconnectResponseSchema,
        WatchConnectionsRequestSchema, WatchConnectionsResponseSchema, ArtifactSchema,
        ListArtifactsRequestSchema, ListArtifactsResponseSchema, GetArtifactContentRequestSchema,
        GetArtifactContentResponseSchema, ProjectSchema, ListProjectsRequestSchema,
        ListProjectsResponseSchema, SetProjectSelectionRequestSchema,
        SetProjectSelectionResponseSchema, UpdateSyncScheduleRequestSchema,
        UpdateSyncScheduleResponseSchema, WatchProjectsRequestSchema, WatchProjectsResponseSchema],
     fi_enums = [ConnectionStatusSchema], fi_services = [IntegrationService]\<rparr>"

definition file_hivebook_integration_v1_integration :: string where
  "file_hivebook_integration_v1_integration =
     ''CiloaXZlYm9vay9pbnRlZ3JhdGlvbi92MS9pbnRlZ3JhdGlvbi5wcm90bxIXaGl2ZWJvb2suaW50ZWdyYXRpb24udjEiOAoJ'' @
     ''Q29ubmVjdG9yEgoKAmlkGAEgASgJEgwKBG5hbWUYAiABKAkSEQoJYXJjaGV0eXBlGAMgASgJIsoCCgpDb25uZWN0aW9uEgoK'' @
     ''AmlkGAEgASgJEhQKDGNvbm5lY3Rvcl9pZBgCIAEoCRI5CgZzdGF0dXMYAyABKA4yKS5oaXZlYm9vay5pbnRlZ3JhdGlvbi52'' @
     ''MS5Db25uZWN0aW9uU3RhdHVzEg8KB2FjY291bnQYBCABKAkSMgoObGFzdF9zeW5jZWRfYXQYBSABKAsyGi5nb29nbGUucHJv'' @
     ''dG9idWYuVGltZXN0YW1wEhIKCmxhc3RfZXJyb3IYBiABKAkSOQoVY2F0YWxvZ19kaXNjb3ZlcmVkX2F0GAcgASgLMhouZ29v'' @
     ''Z2xlLnByb3RvYnVmLlRpbWVzdGFtcBIRCglvbmJvYXJkZWQYCCABKAgSGQoRYXV0b19zeW5jX2VuYWJsZWQYCSABKAgSHQoV'' @
     ''c3luY19pbnRlcnZhbF9zZWNvbmRzGAogASgFIhcKFUxpc3RDb25uZWN0b3JzUmVxdWVzdCJQChZMaXN0Q29ubmVjdG9yc1Jl'' @
     ''c3BvbnNlEjYKCmNvbm5lY3RvcnMYASADKAsyIi5oaXZlYm9vay5pbnRlZ3JhdGlvbi52MS5Db25uZWN0b3IiGAoWTGlzdENv'' @
     ''bm5lY3Rpb25zUmVxdWVzdCJTChdMaXN0Q29ubmVjdGlvbnNSZXNwb25zZRI4Cgtjb25uZWN0aW9ucxgBIAMoCzIjLmhpdmVi'' @
     ''b29rLmludGVncmF0aW9uLnYxLkNvbm5lY3Rpb24iNwoWR2V0QXV0aG9yaXplVXJsUmVxdWVzdBIdCgxjb25uZWN0b3JfaWQY'' @
     ''ASABKAlCB7pIBHICEAEiJgoXR2V0QXV0aG9yaXplVXJsUmVzcG9uc2USCwoDdXJsGAEgASgJImcKF0Nvbm5lY3RXaXRoVG9r'' @
     ''ZW5SZXF1ZXN0Eh0KDGNvbm5lY3Rvcl9pZBgBIAEoCUIHukgEcgIQARIWCgV0b2tlbhgCIAEoCUIHukgEcgIQARIVCgRuYW1l'' @
     ''GAMgASgJQge6SARyAhhkIlMKGENvbm5lY3RXaXRoVG9rZW5SZXNwb25zZRI3Cgpjb25uZWN0aW9uGAEgASgLMiMuaGl2ZWJv'' @
     ''b2suaW50ZWdyYXRpb24udjEuQ29ubmVjdGlvbiI0ChJUcmlnZ2VyU3luY1JlcXVlc3QSHgoNY29ubmVjdGlvbl9pZBgBIAEo'' @
     ''CUIHukgEcgIQASIVChNUcmlnZ2VyU3luY1Jlc3BvbnNlIjEKD1N0b3BTeW5jUmVxdWVzdBIeCg1jb25uZWN0aW9uX2lkGAEg'' @
     ''ASgJQge6SARyAhABIhIKEFN0b3BTeW5jUmVzcG9uc2UiMwoRRGlzY29ubmVjdFJlcXVlc3QSHgoNY29ubmVjdGlvbl9pZBgB'' @
     ''IAEoCUIHukgEcgIQASIUChJEaXNjb25uZWN0UmVzcG9uc2UiGQoXV2F0Y2hDb25uZWN0aW9uc1JlcXVlc3QiVAoYV2F0Y2hD'' @
     ''b25uZWN0aW9uc1Jlc3BvbnNlEjgKC2Nvbm5lY3Rpb25zGAEgAygLMiMuaGl2ZWJvb2suaW50ZWdyYXRpb24udjEuQ29ubmVj'' @
     ''dGlvbiLRAQoIQXJ0aWZhY3QSCgoCaWQYASABKAkSFAoMY29ubmVjdG9yX2lkGAIgASgJEhoKEnNvdXJjZV9uYXRpdmVfa2lu'' @
     ''ZBgDIAEoCRIWCg5jb250YWluZXJfbmFtZRgEIAEoCRITCgtleHRlcm5hbF9pZBgFIAEoCRISCgpzb3VyY2VfdXJsGAYgASgJ'' @
     ''Ei8KC2luZ2VzdGVkX2F0GAcgASgLMhouZ29vZ2xlLnByb3RvYnVmLlRpbWVzdGFtcBIVCg1jb25uZWN0aW9uX2lkGAggASgJ'' @
     ''IlYKFExpc3RBcnRpZmFjdHNSZXF1ZXN0EhcKBWxpbWl0GAEgASgNQgi6SAUqAxjIARIOCgZvZmZzZXQYAiABKA0SFQoNY29u'' @
     ''bmVjdGlvbl9pZBgDIAEoCSJcChVMaXN0QXJ0aWZhY3RzUmVzcG9uc2USNAoJYXJ0aWZhY3RzGAEgAygLMiEuaGl2ZWJvb2su'' @
     ''aW50ZWdyYXRpb24udjEuQXJ0aWZhY3QSDQoFdG90YWwYAiABKA0iMAoZR2V0QXJ0aWZhY3RDb250ZW50UmVxdWVzdBITCgJp'' @
     ''ZBgBIAEoCUIHukgEcgIQASJSChpHZXRBcnRpZmFjdENvbnRlbnRSZXNwb25zZRIMCgRkYXRhGAEgASgMEhQKDGNvbnRlbnRf'' @
     ''dHlwZRgCIAEoCRIQCghmaWxlbmFtZRgDIAEoCSL0AQoHUHJvamVjdBIKCgJpZBgBIAEoCRIMCgRuYW1lGAIgASgJEhAKCHNl'' @
     ''bGVjdGVkGAMgASgIEg4KBnN0YXR1cxgEIAEoCRIyCg5sYXN0X3N5bmNlZF9hdBgFIAEoCzIaLmdvb2dsZS5wcm90b2J1Zi5U'' @
     ''aW1lc3RhbXASFgoOYXJ0aWZhY3RfY291bnQYBiABKA0SEgoKbGFzdF9lcnJvchgHIAEoCRIWCg50b3RhbF9lc3RpbWF0ZRgI'' @
     ''IAEoDRI1ChF0b3RhbF9lc3RpbWF0ZV9hdBgJIAEoCzIaLmdvb2dsZS5wcm90b2J1Zi5UaW1lc3RhbXAiRAoTTGlzdFByb2pl'' @
     ''Y3RzUmVxdWVzdBIeCg1jb25uZWN0aW9uX2lkGAEgASgJQge6SARyAhABEg0KBXF1ZXJ5GAIgASgJIkoKFExpc3RQcm9qZWN0'' @
     ''c1Jlc3BvbnNlEjIKCHByb2plY3RzGAEgAygLMiAuaGl2ZWJvb2suaW50ZWdyYXRpb24udjEuUHJvamVjdCJSChpTZXRQcm9q'' @
     ''ZWN0U2VsZWN0aW9uUmVxdWVzdBIeCg1jb25uZWN0aW9uX2lkGAEgASgJQge6SARyAhABEhQKDHNlbGVjdGVkX2lkcxgCIAMo'' @
     ''CSIdChtTZXRQcm9qZWN0U2VsZWN0aW9uUmVzcG9uc2UiZgoZVXBkYXRlU3luY1NjaGVkdWxlUmVxdWVzdBIeCg1jb25uZWN0'' @
     ''aW9uX2lkGAEgASgJQge6SARyAhABEg8KB2VuYWJsZWQYAiABKAgSGAoQaW50ZXJ2YWxfc2Vjb25kcxgDIAEoBSIcChpVcGRh'' @
     ''dGVTeW5jU2NoZWR1bGVSZXNwb25zZSI2ChRXYXRjaFByb2plY3RzUmVxdWVzdBIeCg1jb25uZWN0aW9uX2lkGAEgASgJQge6'' @
     ''SARyAhABIksKFVdhdGNoUHJvamVjdHNSZXNwb25zZRIyCghwcm9qZWN0cxgBIAMoCzIgLmhpdmVib29rLmludGVncmF0aW9u'' @
     ''LnYxLlByb2plY3Qq1gEKEENvbm5lY3Rpb25TdGF0dXMSIQodQ09OTkVDVElPTl9TVEFUVVNfVU5TUEVDSUZJRUQQABIfChtD'' @
     ''T05ORUNUSU9OX1NUQVRVU19DT05ORUNURUQQARIdChlDT05ORUNUSU9OX1NUQVRVU19TWU5DSU5HEAISGwoXQ09OTkVDVElP'' @
     ''Tl9TVEFUVVNfRVJST1IQAxIiCh5DT05ORUNUSU9OX1NUQVRVU19ORUVEU19SRUFVVEgQBBIeChpDT05ORUNUSU9OX1NUQVRV'' @
     ''U19TVE9QUElORxAFMukMChJJbnRlZ3JhdGlvblNlcnZpY2UScQoOTGlzdENvbm5lY3RvcnMSLi5oaXZlYm9vay5pbnRlZ3Jh'' @
     ''dGlvbi52MS5MaXN0Q29ubmVjdG9yc1JlcXVlc3QaLy5oaXZlYm9vay5pbnRlZ3JhdGlvbi52MS5MaXN0Q29ubmVjdG9yc1Jl'' @
     ''c3BvbnNlEnQKD0xpc3RDb25uZWN0aW9ucxIvLmhpdmVib29rLmludGVncmF0aW9uLnYxLkxpc3RDb25uZWN0aW9uc1JlcXVl'' @
     ''c3QaMC5oaXZlYm9vay5pbnRlZ3JhdGlvbi52MS5MaXN0Q29ubmVjdGlvbnNSZXNwb25zZRJ0Cg9HZXRBdXRob3JpemVVcmwS'' @
     ''Ly5oaXZlYm9vay5pbnRlZ3JhdGlvbi52MS5HZXRBdXRob3JpemVVcmxSZXF1ZXN0GjAuaGl2ZWJvb2suaW50ZWdyYXRpb24u'' @
     ''djEuR2V0QXV0aG9yaXplVXJsUmVzcG9uc2USdwoQQ29ubmVjdFdpdGhUb2tlbhIwLmhpdmVib29rLmludGVncmF0aW9uLnYx'' @
     ''LkNvbm5lY3RXaXRoVG9rZW5SZXF1ZXN0GjEuaGl2ZWJvb2suaW50ZWdyYXRpb24udjEuQ29ubmVjdFdpdGhUb2tlblJlc3Bv'' @
     ''bnNlEmgKC1RyaWdnZXJTeW5jEisuaGl2ZWJvb2suaW50ZWdyYXRpb24udjEuVHJpZ2dlclN5bmNSZXF1ZXN0GiwuaGl2ZWJv'' @
     ''b2suaW50ZWdyYXRpb24udjEuVHJpZ2dlclN5bmNSZXNwb25zZRJfCghTdG9wU3luYxIoLmhpdmVib29rLmludGVncmF0aW9u'' @
     ''LnYxLlN0b3BTeW5jUmVxdWVzdBopLmhpdmVib29rLmludGVncmF0aW9uLnYxLlN0b3BTeW5jUmVzcG9uc2USZQoKRGlzY29u'' @
     ''bmVjdBIqLmhpdmVib29rLmludGVncmF0aW9uLnYxLkRpc2Nvbm5lY3RSZXF1ZXN0GisuaGl2ZWJvb2suaW50ZWdyYXRpb24u'' @
     ''djEuRGlzY29ubmVjdFJlc3BvbnNlEm4KDUxpc3RBcnRpZmFjdHMSLS5oaXZlYm9vay5pbnRlZ3JhdGlvbi52MS5MaXN0QXJ0'' @
     ''aWZhY3RzUmVxdWVzdBouLmhpdmVib29rLmludGVncmF0aW9uLnYxLkxpc3RBcnRpZmFjdHNSZXNwb25zZRJ9ChJHZXRBcnRp'' @
     ''ZmFjdENvbnRlbnQSMi5oaXZlYm9vay5pbnRlZ3JhdGlvbi52MS5HZXRBcnRpZmFjdENvbnRlbnRSZXF1ZXN0GjMuaGl2ZWJv'' @
     ''b2suaW50ZWdyYXRpb24udjEuR2V0QXJ0aWZhY3RDb250ZW50UmVzcG9uc2USawoMTGlzdFByb2plY3RzEiwuaGl2ZWJvb2su'' @
     ''aW50ZWdyYXRpb24udjEuTGlzdFByb2plY3RzUmVxdWVzdBotLmhpdmVib29rLmludGVncmF0aW9uLnYxLkxpc3RQcm9qZWN0'' @
     ''c1Jlc3BvbnNlEoABChNTZXRQcm9qZWN0U2VsZWN0aW9uEjMuaGl2ZWJvb2suaW50ZWdyYXRpb24udjEuU2V0UHJvamVjdFNl'' @
     ''bGVjdGlvblJlcXVlc3QaNC5oaXZlYm9vay5pbnRlZ3JhdGlvbi52MS5TZXRQcm9qZWN0U2VsZWN0aW9uUmVzcG9uc2USfQoS'' @
     ''VXBkYXRlU3luY1NjaGVkdWxlEjIuaGl2ZWJvb2suaW50ZWdyYXRpb24udjEuVXBkYXRlU3luY1NjaGVkdWxlUmVxdWVzdBoz'' @
     ''LmhpdmVib29rLmludGVncmF0aW9uLnYxLlVwZGF0ZVN5bmNTY2hlZHVsZVJlc3BvbnNlEnkKEFdhdGNoQ29ubmVjdGlvbnMS'' @
     ''MC5oaXZlYm9vay5pbnRlZ3JhdGlvbi52MS5XYXRjaENvbm5lY3Rpb25zUmVxdWVzdBoxLmhpdmVib29rLmludGVncmF0aW9u'' @
     ''LnYxLldhdGNoQ29ubmVjdGlvbnNSZXNwb25zZTABEnAKDVdhdGNoUHJvamVjdHMSLS5oaXZlYm9vay5pbnRlZ3JhdGlvbi52'' @
     ''MS5XYXRjaFByb2plY3RzUmVxdWVzdBouLmhpdmVib29rLmludGVncmF0aW9uLnYxLldhdGNoUHJvamVjdHNSZXNwb25zZTAB'' @
     ''YgZwcm90bzM''"

section \<open>The tenant service: messages\<close>

definition UserSchema :: message_desc where
  "UserSchema = message_of ''User''
     [field TString ''id'' 1,
      field TString ''name'' 2,
      field TString ''email'' 3]"

definition TenantSchema :: message_desc where
  "TenantSchema = message_of ''Tenant''
     [field TString ''id'' 1,
      optional (field TString ''name'' 2),
      optional (field TString ''size'' 3),
      optional (field TString ''region'' 4),
      repeated (field TString ''use_cases'' 5),
      optional (field TString ''use_case_other'' 6),
      field TBool ''onboarded'' 7]"

definition GetSessionRequestSchema :: message_desc where
  "GetSessionRequestSchema = message_of ''GetSessionRequest'' []"

definition GetSessionResponseSchema :: message_desc where
  "GetSessionResponseSchema = message_of ''GetSessionResponse''
     [field (TMessage ''hivebook.tenant.v1.User'') ''user'' 1,
      field (TMessage ''hivebook.tenant.v1.Tenant'') ''tenant'' 2]"

definition CompleteOnboardingRequestSchema :: message_desc where
  "CompleteOnboardingRequestSchema = message_of ''CompleteOnboardingRequest''
     [ruled (StringRules (Some 1) (Some 50)) (field TString ''region'' 1),
      ruled (StringRules None (Some 200)) (field TString ''name'' 2),
      ruled (StringRules None (Some 50)) (field TString ''size'' 3),
      ruled (RepeatedRules (Some 32)) (repeated (field TString ''use_cases'' 4)),
      ruled (StringRules None (Some 500)) (field TString ''use_case_other'' 5)]"

definition CompleteOnboardingResponseSchema :: message_desc where
  "CompleteOnboardingResponseSchema = message_of ''CompleteOnboardingResponse''
     [field (TMessage ''hivebook.tenant.v1.Tenant'') ''tenant'' 1]"

definition UpdateTenantRequestSchema :: message_desc where
  "UpdateTenantRequestSchema = message_of ''UpdateTenantRequest''
     [ruled (StringRules (Some 1) (Some 200)) (field TString ''name'' 1),
      ruled (StringRules None (Some 50)) (field TString ''size'' 2),
      ruled (RepeatedRules (Some 32)) (repeated (field TString ''use_cases'' 3)),
      ruled (StringRules None (Some 500)) (field TString ''use_case_other'' 4)]"

definition UpdateTenantResponseSchema :: message_desc where
  "UpdateTenantResponseSchema = message_of ''UpdateTenantResponse''
     [field (TMessage ''hivebook.tenant.v1.Tenant'') ''tenant'' 1]"

definition MemberSchema :: message_desc where
  "MemberSchema = message_of ''Member''
     [field TString ''id'' 1,
      field TString ''name'' 2,
      field TString ''email'' 3,
      repeated (field TString ''roles'' 4)]"

definition ListMembersRequestSchema :: message_desc where
  "ListMembersRequestSchema = message_of ''ListMembersRequest'' []"

definition ListMembersResponseSchema :: message_desc where
  "ListMembersResponseSchema = message_of ''ListMembersResponse''
     [repeated (field (TMessage ''hivebook.tenant.v1.Member'') ''members'' 1),
      field TBool ''configured'' 2]"

definition AuditEventSchema :: message_desc where
  "AuditEventSchema = message_of ''AuditEvent''
     [field TString ''id'' 1,
      field (TMessage ''google.protobuf.Timestamp'') ''occurred_at'' 2,
      field TString ''actor_id'' 3,
      field TString ''actor_email'' 4,
      field TString ''action'' 5,
      field TString ''target'' 6]"

definition ListAuditEventsRequestSchema :: message_desc where
  "ListAuditEventsRequestSchema = message_of ''ListAuditEventsRequest''
     [ruled (Int32Rules (Some 200) (Some 0)) (field TInt32 ''limit'' 1),
      ruled (Int32Rules None (Some 0)) (field TInt32 ''offset'' 2)]"

definition ListAuditEventsResponseSchema :: message_desc where
  "ListAuditEventsResponseSchema = message_of ''ListAuditEventsResponse''
     [repeated (field (TMessage ''hivebook.tenant.v1.AuditEvent'') ''events'' 1),
      field TInt32 ''total'' 2]"

definition FeatureFlagSchema :: message_desc where
  "FeatureFlagSchema = message_of ''FeatureFlag''
     [field TString ''key'' 1,
      field TString ''name'' 2,
      field TString ''description'' 3,
      field TBool ''enabled'' 4]"

definition ListFeatureFlagsRequestSchema :: message_desc where
  "ListFeatureFlagsRequestSchema = message_of ''ListFeatureFlagsRequest'' []"

definition ListFeatureFlagsResponseSchema :: message_desc where
  "ListFeatureFlagsResponseSchema = message_of ''ListFeatureFlagsResponse''
     [repeated (field (TMessage ''hivebook.tenant.v1.FeatureFlag'') ''flags'' 1)]"

definition SetFeatureFlagRequestSchema :: message_desc where
  "SetFeatureFlagRequestSchema = message_of ''SetFeatureFlagRequest''
     [ruled (StringRules (Some 1) (Some 100)) (field TString ''key'' 1),
      field TBool ''enabled'' 2]"

definition SetFeatureFlagResponseSchema :: message_desc where
  "SetFeatureFlagResponseSchema = message_of ''SetFeatureFlagResponse''
     [field (TMessage ''hivebook.tenant.v1.FeatureFlag'') ''flag'' 1]"

section \<open>The tenant service: methods\<close>

definition TenantService :: service_desc where
  "TenantService = \<lparr>sv_name = ''TenantService'',
     sv_methods = map (\<lambda>(n, k, i, out). \<lparr>me_name = n, me_kind = k, me_input = i, me_output = out\<rparr>)
       [(''GetSession'', Unary, GetSessionRequestSchema, GetSessionResponseSchema),
        (''CompleteOnboarding'', Unary, CompleteOnboardingRequestSchema, CompleteOnboardingResponseSchema),
        (''UpdateTenant'', Unary, UpdateTenantRequestSchema, UpdateTenantResponseSchema),
        (''ListMembers'', Unary, ListMembersRequestSchema, ListMembersResponseSchema),
        (''ListAuditEvents'', Unary, ListAuditEventsRequestSchema, ListAuditEventsResponseSchema),
        (''ListFeatureFlags'', Unary, ListFeatureFlagsRequestSchema, ListFeatureFlagsResponseSchema),
        (''SetFeatureFlag'', Unary, SetFeatureFlagRequestSchema, SetFeatureFlagResponseSchema)]\<rparr>"

definition tenant_file :: file_desc where
  "tenant_file = \<lparr>fi_name = ''hivebook/tenant/v1/tenant.proto'', fi_package = ''hivebook.tenant.v1'',
     fi_messages =
       [UserSchema, TenantSchema, GetSessionRequestSchema, GetSessionResponseSchema,
        CompleteOnboardingRequestSchema, CompleteOnboardingResponseSchema, UpdateTenantRequestSchema,
        UpdateTenantResponseSchema, MemberSchema, ListMembersRequestSchema, ListMembersResponseSchema,
        AuditEventSchema, ListAuditEventsRequestSchema, ListAuditEventsResponseSchema,
        FeatureFlagSchema, ListFeatureFlagsRequestSchema, ListFeatureFlagsResponseSchema,
        SetFeatureFlagRequestSchema, SetFeatureFlagResponseSchema],
     fi_enums = [], fi_services = [TenantService]\<rparr>"

definition file_hivebook_tenant_v1_tenant :: string where
  "file_hivebook_tenant_v1_tenant =
     ''Ch9oaXZlYm9vay90ZW5hbnQvdjEvdGVuYW50LnByb3RvEhJoaXZlYm9vay50ZW5hbnQudjEiLwoEVXNlchIKCgJpZBgBIAEo'' @
     ''CRIMCgRuYW1lGAIgASgJEg0KBWVtYWlsGAMgASgJIsIBCgZUZW5hbnQSCgoCaWQYASABKAkSEQoEbmFtZRgCIAEoCUgAiAEB'' @
     ''EhEKBHNpemUYAyABKAlIAYgBARITCgZyZWdpb24YBCABKAlIAogBARIRCgl1c2VfY2FzZXMYBSADKAkSGwoOdXNlX2Nhc2Vf'' @
     ''b3RoZXIYBiABKAlIA4gBARIRCglvbmJvYXJkZWQYByABKAhCBwoFX25hbWVCBwoFX3NpemVCCQoHX3JlZ2lvbkIRCg9fdXNl'' @
     ''X2Nhc2Vfb3RoZXIiEwoRR2V0U2Vzc2lvblJlcXVlc3QiaAoSR2V0U2Vzc2lvblJlc3BvbnNlEiYKBHVzZXIYASABKAsyGC5o'' @
     ''aXZlYm9vay50ZW5hbnQudjEuVXNlchIqCgZ0ZW5hbnQYAiABKAsyGi5oaXZlYm9vay50ZW5hbnQudjEuVGVuYW50IqQBChlD'' @
     ''b21wbGV0ZU9uYm9hcmRpbmdSZXF1ZXN0EhkKBnJlZ2lvbhgBIAEoCUIJukgGcgQQARgyEhYKBG5hbWUYAiABKAlCCLpIBXID'' @
     ''GMgBEhUKBHNpemUYAyABKAlCB7pIBHICGDISGwoJdXNlX2Nhc2VzGAQgAygJQgi6SAWSAQIQIBIgCg51c2VfY2FzZV9vdGhl'' @
     ''chgFIAEoCUIIukgFcgMY9AMiSAoaQ29tcGxldGVPbmJvYXJkaW5nUmVzcG9uc2USKgoGdGVuYW50GAEgASgLMhouaGl2ZWJv'' @
     ''b2sudGVuYW50LnYxLlRlbmFudCKFAQoTVXBkYXRlVGVuYW50UmVxdWVzdBIYCgRuYW1lGAEgASgJQgq6SAdyBRABGMgBEhUK'' @
     ''BHNpemUYAiABKAlCB7pIBHICGDISGwoJdXNlX2Nhc2VzGAMgAygJQgi6SAWSAQIQIBIgCg51c2VfY2FzZV9vdGhlchgEIAEo'' @
     ''CUIIukgFcgMY9AMiQgoUVXBkYXRlVGVuYW50UmVzcG9uc2USKgoGdGVuYW50GAEgASgLMhouaGl2ZWJvb2sudGVuYW50LnYx'' @
     ''LlRlbmFudCJACgZNZW1iZXISCgoCaWQYASABKAkSDAoEbmFtZRgCIAEoCRINCgVlbWFpbBgDIAEoCRINCgVyb2xlcxgEIAMo'' @
     ''CSIUChJMaXN0TWVtYmVyc1JlcXVlc3QiVgoTTGlzdE1lbWJlcnNSZXNwb25zZRIrCgdtZW1iZXJzGAEgAygLMhouaGl2ZWJv'' @
     ''b2sudGVuYW50LnYxLk1lbWJlchISCgpjb25maWd1cmVkGAIgASgIIpABCgpBdWRpdEV2ZW50EgoKAmlkGAEgASgJEi8KC29j'' @
     ''Y3VycmVkX2F0GAIgASgLMhouZ29vZ2xlLnByb3RvYnVmLlRpbWVzdGFtcBIQCghhY3Rvcl9pZBgDIAEoCRITCgthY3Rvcl9l'' @
     ''bWFpbBgEIAEoCRIOCgZhY3Rpb24YBSABKAkSDgoGdGFyZ2V0GAYgASgJIkwKFkxpc3RBdWRpdEV2ZW50c1JlcXVlc3QSGQoF'' @
     ''bGltaXQYASABKAVCCrpIBxoFGMgBKAASFwoGb2Zmc2V0GAIgASgFQge6SAQaAigAIlgKF0xpc3RBdWRpdEV2ZW50c1Jlc3Bv'' @
     ''bnNlEi4KBmV2ZW50cxgBIAMoCzIeLmhpdmVib29rLnRlbmFudC52MS5BdWRpdEV2ZW50Eg0KBXRvdGFsGAIgASgFIk4KC0Zl'' @
     ''YXR1cmVGbGFnEgsKA2tleRgBIAEoCRIMCgRuYW1lGAIgASgJEhMKC2Rlc2NyaXB0aW9uGAMgASgJEg8KB2VuYWJsZWQYBCAB'' @
     ''KAgiGQoXTGlzdEZlYXR1cmVGbGFnc1JlcXVlc3QiSgoYTGlzdEZlYXR1cmVGbGFnc1Jlc3BvbnNlEi4KBWZsYWdzGAEgAygL'' @
     ''Mh8uaGl2ZWJvb2sudGVuYW50LnYxLkZlYXR1cmVGbGFnIkAKFVNldEZlYXR1cmVGbGFnUmVxdWVzdBIWCgNrZXkYASABKAlC'' @
     ''CbpIBnIEEAEYZBIPCgdlbmFibGVkGAIgASgIIkcKFlNldEZlYXR1cmVGbGFnUmVzcG9uc2USLQoEZmxhZxgBIAEoCzIfLmhp'' @
     ''dmVib29rLnRlbmFudC52MS5GZWF0dXJlRmxhZzLoBQoNVGVuYW50U2VydmljZRJbCgpHZXRTZXNzaW9uEiUuaGl2ZWJvb2su'' @
     ''dGVuYW50LnYxLkdldFNlc3Npb25SZXF1ZXN0GiYuaGl2ZWJvb2sudGVuYW50LnYxLkdldFNlc3Npb25SZXNwb25zZRJzChJD'' @
     ''b21wbGV0ZU9uYm9hcmRpbmcSLS5oaXZlYm9vay50ZW5hbnQudjEuQ29tcGxldGVPbmJvYXJkaW5nUmVxdWVzdBouLmhpdmVi'' @
     ''b29rLnRlbmFudC52MS5Db21wbGV0ZU9uYm9hcmRpbmdSZXNwb25zZRJhCgxVcGRhdGVUZW5hbnQSJy5oaXZlYm9vay50ZW5h'' @
     ''bnQudjEuVXBkYXRlVGVuYW50UmVxdWVzdBooLmhpdmVib29rLnRlbmFudC52MS5VcGRhdGVUZW5hbnRSZXNwb25zZRJeCgtM'' @
     ''aXN0TWVtYmVycxImLmhpdmVib29rLnRlbmFudC52MS5MaXN0TWVtYmVyc1JlcXVlc3QaJy5oaXZlYm9vay50ZW5hbnQudjEu'' @
     ''TGlzdE1lbWJlcnNSZXNwb25zZRJqCg9MaXN0QXVkaXRFdmVudHMSKi5oaXZlYm9vay50ZW5hbnQudjEuTGlzdEF1ZGl0RXZl'' @
     ''bnRzUmVxdWVzdBorLmhpdmVib29rLnRlbmFudC52MS5MaXN0QXVkaXRFdmVudHNSZXNwb25zZRJtChBMaXN0RmVhdHVyZUZs'' @
     ''YWdzEisuaGl2ZWJvb2sudGVuYW50LnYxLkxpc3RGZWF0dXJlRmxhZ3NSZXF1ZXN0GiwuaGl2ZWJvb2sudGVuYW50LnYxLkxp'' @
     ''c3RGZWF0dXJlRmxhZ3NSZXNwb25zZRJnCg5TZXRGZWF0dXJlRmxhZxIpLmhpdmVib29rLnRlbmFudC52MS5TZXRGZWF0dXJl'' @
     ''RmxhZ1JlcXVlc3QaKi5oaXZlYm9vay50ZW5hbnQudjEuU2V0RmVhdHVyZUZsYWdSZXNwb25zZWIGcHJvdG8z''"

section \<open>The generated query functions\<close>

text \<open>
  \<open>*_connectquery.ts\<close> exports one constant per method, \<open>listConnectors = IntegrationService.method.listConnectors\<close>
  and so on; the runtime keys the methods of a service by their names with a lower-case initial.
\<close>

definition method_key :: "string \<Rightarrow> string" where
  "method_key n = (case n of [] \<Rightarrow> [] | c # cs \<Rightarrow> ascii_lower_char c # cs)"

definition service_method :: "service_desc \<Rightarrow> string \<Rightarrow> method_desc option" where
  "service_method s key = find (\<lambda>me. method_key (me_name me) = key) (sv_methods s)"

definition integration_connectquery :: "(string \<times> method_desc option) list" where
  "integration_connectquery =
     map (\<lambda>n. (n, service_method IntegrationService n))
       [''listConnectors'', ''listConnections'', ''getAuthorizeUrl'', ''connectWithToken'', ''triggerSync'',
        ''stopSync'', ''disconnect'', ''listArtifacts'', ''getArtifactContent'', ''listProjects'',
        ''setProjectSelection'', ''updateSyncSchedule'']"

definition tenant_connectquery :: "(string \<times> method_desc option) list" where
  "tenant_connectquery =
     map (\<lambda>n. (n, service_method TenantService n))
       [''getSession'', ''completeOnboarding'', ''updateTenant'', ''listMembers'', ''listAuditEvents'',
        ''listFeatureFlags'', ''setFeatureFlag'']"

section \<open>Properties\<close>

text \<open>What the runtime may rely on: distinct field names and numbers, methods over messages of the file.\<close>

definition well_formed_message :: "message_desc \<Rightarrow> bool" where
  "well_formed_message m \<longleftrightarrow>
     distinct (map f_name (m_fields m)) \<and> distinct (map f_number (m_fields m)) \<and>
     list_all (\<lambda>f. 0 < f_number f) (m_fields m)"

definition well_formed_file :: "file_desc \<Rightarrow> bool" where
  "well_formed_file f \<longleftrightarrow>
     distinct (map m_name (fi_messages f)) \<and> list_all well_formed_message (fi_messages f) \<and>
     list_all (\<lambda>s. distinct (map me_name (sv_methods s)) \<and>
         list_all (\<lambda>me. me_input me \<in> set (fi_messages f) \<and> me_output me \<in> set (fi_messages f)) (sv_methods s))
       (fi_services f)"

lemma tenant_descriptor: "base64 (file_bytes tenant_file) = file_hivebook_tenant_v1_tenant"
  by code_simp

lemma integration_descriptor:
  "base64 (file_bytes integration_file) = file_hivebook_integration_v1_integration"
  by code_simp

lemma files_well_formed: "well_formed_file tenant_file" "well_formed_file integration_file"
  by code_simp+

lemma exported_unary:
  "list_all (\<lambda>(n, me). case me of None \<Rightarrow> False | Some d \<Rightarrow> me_kind d = Unary)
     (integration_connectquery @ tenant_connectquery)"
  by code_simp

lemma streaming_methods:
  "map me_name (filter (\<lambda>me. me_kind me = ServerStreaming) (sv_methods IntegrationService @ sv_methods TenantService)) =
     [''WatchConnections'', ''WatchProjects'']"
  by code_simp


end
