(* ===== verification/Proto.thy ===== *)
theory Proto
  imports Prelude
begin

text \<open>
  The messages of the Connect API the web client exchanges with the server
  (\<open>web/lib/gen/hivebook/**/*_pb.ts\<close>): one record per message, the status enum, and one
  constructor per remote call the user interface makes.

  Conventions. A \<open>uint32\<close> field is a \<open>nat\<close>, an \<open>int32\<close> field an \<open>int\<close>, a repeated field
  a list, an optional field an \<open>option\<close>. A protobuf timestamp is the epoch time in
  milliseconds its \<open>timestampDate\<close> conversion yields.
\<close>

type_synonym timestamp = int

section \<open>Integration service\<close>

text \<open>Protobuf enums are open: a newer server may send a number this client has no name for.\<close>

datatype ConnectionStatus =
    UNSPECIFIED
  | CONNECTED
  | SYNCING
  | ERROR
  | NEEDS_REAUTH
  | STOPPING
  | UNRECOGNIZED nat

record Connector =
  connector_key :: string
  connector_name :: string
  archetype :: string

record Connection =
  conn_id :: string
  conn_connectorId :: string
  conn_status :: ConnectionStatus
  conn_account :: string
  conn_lastSyncedAt :: "timestamp option"
  conn_lastError :: string
  conn_catalogDiscoveredAt :: "timestamp option"
  conn_onboarded :: bool
  conn_autoSyncEnabled :: bool
  conn_syncIntervalSeconds :: int

record Project =
  proj_id :: string
  proj_name :: string
  proj_selected :: bool
  proj_status :: string
  proj_lastSyncedAt :: "timestamp option"
  proj_artifactCount :: nat
  proj_lastError :: string
  proj_totalEstimate :: nat
  proj_totalEstimateAt :: "timestamp option"

record Artifact =
  art_id :: string
  art_connectorId :: string
  art_sourceNativeKind :: string
  art_containerName :: string
  art_externalId :: string
  art_sourceUrl :: string
  art_ingestedAt :: "timestamp option"
  art_connectionId :: string

section \<open>Tenant service\<close>

record User =
  user_id :: string
  user_name :: string
  user_email :: string

record Tenant =
  tenant_id :: string
  tenant_name :: "string option"
  tenant_size :: "string option"
  tenant_region :: "string option"
  tenant_useCases :: "string list"
  tenant_useCaseOther :: "string option"
  tenant_onboarded :: bool

record GetSessionResponse =
  session_user :: "User option"
  session_tenant :: "Tenant option"

record CompleteOnboardingRequest =
  onb_region :: string
  onb_name :: string
  onb_size :: string
  onb_useCases :: "string list"
  onb_useCaseOther :: string

record UpdateTenantRequest =
  upd_name :: string
  upd_size :: string
  upd_useCases :: "string list"
  upd_useCaseOther :: string

record Member =
  member_id :: string
  member_name :: string
  member_email :: string
  member_roles :: "string list"

record ListMembersResponse =
  lm_members :: "Member list"
  lm_configured :: bool

record AuditEvent =
  ev_id :: string
  ev_occurredAt :: "timestamp option"
  ev_actorId :: string
  ev_actorEmail :: string
  ev_action :: string
  ev_target :: string

record ListAuditEventsResponse =
  la_events :: "AuditEvent list"
  la_total :: int

record FeatureFlag =
  flag_key :: string
  flag_name :: string
  flag_description :: string
  flag_enabled :: bool

record ListArtifactsResponse =
  lar_artifacts :: "Artifact list"
  lar_total :: nat

section \<open>The remote calls that change state\<close>

datatype rpc =
    CompleteOnboarding CompleteOnboardingRequest
  | UpdateTenant UpdateTenantRequest
  | SetFeatureFlag string bool
  | GetAuthorizeUrl string
  | ConnectWithToken string string string \<comment> \<open>connector, token, name\<close>
  | TriggerSync string
  | StopSync string
  | Disconnect string
  | SetProjectSelection string "string list"
  | UpdateSyncSchedule string bool int

text \<open>The connection a remote call of the integration service acts on.\<close>

fun rpc_connection :: "rpc \<Rightarrow> string option" where
  "rpc_connection (TriggerSync c) = Some c"
| "rpc_connection (StopSync c) = Some c"
| "rpc_connection (Disconnect c) = Some c"
| "rpc_connection (SetProjectSelection c ids) = Some c"
| "rpc_connection (UpdateSyncSchedule c e n) = Some c"
| "rpc_connection r = None"

end
