(* ===== verification/Doubles.thy ===== *)
theory Doubles
  imports Complex_Main "HOL-Library.Log_Nat"
begin

text \<open>
  The floating-point arithmetic the pages format numbers with.

  A JavaScript number is the exact rational value of an IEEE 754 double. \<open>dbl\<close> rounds a
  rational to the nearest double with a 53-bit significand, ties to even; the exponent range is
  not bounded, since every number here lies far inside it. \<open>js_div\<close> and \<open>js_mul\<close> are the
  rounded operations, \<open>Math_round\<close> and \<open>toFixed_scaled\<close> follow ECMAScript on the exact value
  of the double. The lemmas bound the error of each.
\<close>

section \<open>Definitions\<close>

definition dbl_exp :: "rat \<Rightarrow> int" where
  "dbl_exp x =
     (let (n, d) = quotient_of x;
          k = bitlen n - bitlen d
      in if 2 powi k \<le> x then k else k - 1)"

text \<open>Round to the nearest integer, ties to even.\<close>

definition rne :: "rat \<Rightarrow> int" where
  "rne x =
     (let f = \<lfloor>x\<rfloor>; r = x - of_int f
      in if r < 1 / 2 then f else if 1 / 2 < r then f + 1 else if even f then f else f + 1)"

definition dbl :: "rat \<Rightarrow> rat" where
  "dbl x =
     (if x = 0 then 0
      else (let y = \<bar>x\<bar>; e = dbl_exp y
            in sgn x * (of_int (rne (y * 2 powi (52 - e))) * 2 powi (e - 52))))"

definition js_div :: "rat \<Rightarrow> rat \<Rightarrow> rat" where
  "js_div a b = dbl (a / b)"

definition js_mul :: "rat \<Rightarrow> rat \<Rightarrow> rat" where
  "js_mul a b = dbl (a * b)"

definition js_add :: "rat \<Rightarrow> rat \<Rightarrow> rat" where
  "js_add a b = dbl (a + b)"

definition Math_round :: "rat \<Rightarrow> int" where
  "Math_round x = \<lfloor>x + 1 / 2\<rfloor>"

text \<open>
  \<open>x.toFixed(f)\<close> prints the integer \<open>n\<close> for which \<open>n / 10^f\<close> is nearest to \<open>x\<close>, the larger of
  two, with a decimal point before its last \<open>f\<close> digits. This is \<open>n\<close>.
\<close>

definition toFixed_scaled :: "nat \<Rightarrow> rat \<Rightarrow> int" where
  "toFixed_scaled f x = \<lfloor>x * 10 ^ f + 1 / 2\<rfloor>"

section \<open>Rounding errors\<close>

lemma rne_error: "\<bar>of_int (rne x) - x\<bar> \<le> 1 / 2"
proof -
  have "of_int \<lfloor>x\<rfloor> \<le> x" "x < of_int \<lfloor>x\<rfloor> + 1" by linarith+
  then show ?thesis by (auto simp: rne_def Let_def)
qed

lemma rne_between:
  assumes "of_int a \<le> x" "x \<le> of_int b"
  shows "a \<le> rne x" "rne x \<le> b"
proof -
  have e: "\<bar>of_int (rne x) - x\<bar> \<le> 1 / 2" by (rule rne_error)
  from e assms(1) have "of_int a - (1 :: rat) < of_int (rne x)" by linarith
  then show "a \<le> rne x" by linarith
  from e assms(2) have "of_int (rne x) < of_int b + (1 :: rat)" by linarith
  then show "rne x \<le> b" by linarith
qed

lemma floorlog_bounds:
  assumes "0 < n"
  shows "(2 :: rat) powi (int (floorlog 2 n) - 1) \<le> of_nat n"
    and "of_nat n < (2 :: rat) powi (int (floorlog 2 n))"
proof -
  have pos: "0 < floorlog 2 n" using assms by (simp add: floorlog_def)
  have b: "2 ^ (floorlog 2 n - 1) \<le> n \<and> n < 2 ^ floorlog 2 n"
    using floorlog_bounds[of n 2] assms by simp
  have "int (floorlog 2 n) - 1 = int (floorlog 2 n - 1)" using pos by simp
  then have "(2 :: rat) powi (int (floorlog 2 n) - 1) = of_nat (2 ^ (floorlog 2 n - 1))"
    by (simp only: power_int_of_nat of_nat_power of_nat_numeral)
  with b show "(2 :: rat) powi (int (floorlog 2 n) - 1) \<le> of_nat n"
    by (metis of_nat_le_iff)
  have "(2 :: rat) powi (int (floorlog 2 n)) = of_nat (2 ^ floorlog 2 n)"
    by (simp only: power_int_of_nat of_nat_power of_nat_numeral)
  with b show "of_nat n < (2 :: rat) powi (int (floorlog 2 n))"
    by (metis of_nat_less_iff)
qed

lemma dbl_exp_bounds:
  assumes "0 < x"
  shows "2 powi (dbl_exp x) \<le> x" and "x < 2 powi (dbl_exp x + 1)"
proof -
  obtain n d where q: "quotient_of x = (n, d)" by (cases "quotient_of x")
  have d: "0 < d" and x: "x = of_int n / of_int d"
    using quotient_of_denom_pos[OF q] quotient_of_div[OF q] by auto
  have n: "0 < n" using assms d x by (simp add: zero_less_divide_iff)
  define a where "a = int (floorlog 2 (nat n))"
  define b where "b = int (floorlog 2 (nat d))"
  have nb: "2 powi (a - 1) \<le> (of_int n :: rat)" "(of_int n :: rat) < 2 powi a"
    using floorlog_bounds[of "nat n"] n by (simp_all add: a_def)
  have db: "2 powi (b - 1) \<le> (of_int d :: rat)" "(of_int d :: rat) < 2 powi b"
    using floorlog_bounds[of "nat d"] d by (simp_all add: b_def)
  have dp: "(0 :: rat) < of_int d" using d by simp
  have lo: "2 powi (a - b - 1) \<le> x"
  proof -
    have "2 powi (a - b - 1) * (of_int d :: rat) \<le> 2 powi (a - b - 1) * 2 powi b"
      using db(2) by (intro mult_left_mono) auto
    also have "\<dots> = 2 powi (a - 1)" by (simp flip: power_int_add)
    also have "\<dots> \<le> of_int n" by (rule nb(1))
    finally show ?thesis using dp by (simp add: x pos_le_divide_eq)
  qed
  have hi: "x < 2 powi (a - b + 1)"
  proof -
    have "(of_int n :: rat) < 2 powi a" by (rule nb(2))
    also have "\<dots> = 2 powi (a - b + 1) * 2 powi (b - 1)" by (simp flip: power_int_add)
    also have "\<dots> \<le> 2 powi (a - b + 1) * of_int d"
      using db(1) by (intro mult_left_mono) auto
    finally show ?thesis using dp by (simp add: x pos_divide_less_eq)
  qed
  have e: "dbl_exp x = (if 2 powi (a - b) \<le> x then a - b else a - b - 1)"
    by (simp add: dbl_exp_def q a_def b_def bitlen_def)
  show "2 powi (dbl_exp x) \<le> x" "x < 2 powi (dbl_exp x + 1)"
    using lo hi by (auto simp: e)
qed

lemma dbl_pos:
  assumes "0 < x"
  shows "dbl x = of_int (rne (x * 2 powi (52 - dbl_exp x))) * 2 powi (dbl_exp x - 52)"
  using assms by (simp add: dbl_def Let_def)

lemma dbl_0 [simp]: "dbl 0 = 0"
  by (simp add: dbl_def)

lemma powi_cancel: "(2 :: rat) powi (52 - e) * 2 powi (e - 52) = 1"
  by (simp flip: power_int_add)

text \<open>The relative error of rounding to a double is at most \<open>2^-53\<close>.\<close>

lemma dbl_error:
  assumes "0 \<le> x"
  shows "\<bar>dbl x - x\<bar> \<le> x / 2 ^ 53"
proof (cases "x = 0")
  case False
  with assms have pos: "0 < x" by simp
  let ?e = "dbl_exp x"
  let ?y = "x * 2 powi (52 - ?e)"
  have "dbl x - x = (of_int (rne ?y) - ?y) * 2 powi (?e - 52)"
    using powi_cancel[of ?e] by (simp add: dbl_pos[OF pos] algebra_simps)
  then have "\<bar>dbl x - x\<bar> = \<bar>of_int (rne ?y) - ?y\<bar> * 2 powi (?e - 52)"
    by (simp add: abs_mult)
  also have "\<dots> \<le> 1 / 2 * 2 powi (?e - 52)"
    using rne_error[of ?y] by (intro mult_right_mono) auto
  also have "\<dots> = 2 powi ?e / 2 ^ 53"
    by (simp add: power_int_diff)
  also have "\<dots> \<le> x / 2 ^ 53"
    using dbl_exp_bounds(1)[OF pos] by (intro divide_right_mono) auto
  finally show ?thesis .
qed simp

lemma dbl_nonneg: "0 \<le> x \<Longrightarrow> 0 \<le> dbl x"
proof (cases "x = 0")
  case False
  assume "0 \<le> x"
  with False have pos: "0 < x" by simp
  have "0 \<le> rne (x * 2 powi (52 - dbl_exp x))"
    using rne_between(1)[of 0 "x * 2 powi (52 - dbl_exp x)"
        "\<lceil>x * 2 powi (52 - dbl_exp x)\<rceil>"] pos by simp
  then show ?thesis by (simp add: dbl_pos[OF pos])
qed simp

lemma dbl_le_1:
  assumes "0 \<le> x" "x \<le> 1"
  shows "dbl x \<le> 1"
proof (cases "x = 0 \<or> x = 1")
  case True
  have "dbl 1 = 1" by code_simp
  with True show ?thesis by auto
next
  case False
  with assms have pos: "0 < x" and lt: "x < 1" by auto
  let ?e = "dbl_exp x"
  have "2 powi ?e < (2 :: rat) powi 0" using dbl_exp_bounds(1)[OF pos] lt by simp
  then have "\<not> 0 \<le> ?e" using one_le_power_int[of "2 :: rat" ?e] by (simp add: not_le[symmetric]) blast
  then have neg: "?e + 1 \<le> 0" by simp
  have "x * 2 powi (52 - ?e) \<le> 2 powi (?e + 1) * 2 powi (52 - ?e)"
    using dbl_exp_bounds(2)[OF pos] by (intro mult_right_mono) auto
  also have "\<dots> = of_int (2 ^ 53)" by (simp flip: power_int_add)
  finally have "rne (x * 2 powi (52 - ?e)) \<le> 2 ^ 53"
    using rne_between(2)[of 0 "x * 2 powi (52 - ?e)" "2 ^ 53"] pos by simp
  then have "(of_int (rne (x * 2 powi (52 - ?e))) :: rat) \<le> of_int (2 ^ 53)"
    by (simp only: of_int_le_iff)
  then have "dbl x \<le> of_int (2 ^ 53) * 2 powi (?e - 52)"
    unfolding dbl_pos[OF pos] by (intro mult_right_mono) auto
  also have "\<dots> = 2 powi (?e + 1)"
    using power_int_add[of "2 :: rat" 53 "?e - 52"] by (simp add: add.commute)
  also have "\<dots> \<le> 2 powi 0" using neg by (intro power_int_increasing) auto
  finally show ?thesis by simp
qed

lemma toFixed_scaled_error: "\<bar>of_int (toFixed_scaled f x) - x * 10 ^ f\<bar> \<le> 1 / 2"
  unfolding toFixed_scaled_def by linarith

lemma Math_round_error: "\<bar>of_int (Math_round x) - x\<bar> \<le> 1 / 2"
  unfolding Math_round_def by linarith

text \<open>
  A count divided by a power of ten and printed with fewer decimals is off by at most half a
  unit of the last decimal: the error of the division never reaches the next integer.
\<close>

lemma toFixed_div_accurate:
  fixes n k f :: nat
  assumes "f \<le> k" and "n < 2 ^ 52"
  shows "2 * \<bar>10 ^ (k - f) * toFixed_scaled f (js_div (of_nat n) (10 ^ k)) - int n\<bar> \<le> 10 ^ (k - f)"
proof -
  let ?d = "js_div (of_nat n) (10 ^ k) :: rat"
  let ?t = "toFixed_scaled f ?d"
  let ?p = "10 ^ (k - f) :: rat"
  have pf: "?p * 10 ^ f = 10 ^ k" using assms(1) by (simp flip: power_add)
  have t: "\<bar>of_int ?t - ?d * 10 ^ f\<bar> \<le> 1 / 2" by (rule toFixed_scaled_error)
  have d: "\<bar>?d - of_nat n / 10 ^ k\<bar> \<le> of_nat n / 10 ^ k / 2 ^ 53"
    unfolding js_div_def by (rule dbl_error) simp
  have "\<bar>?p * of_int ?t - ?d * 10 ^ k\<bar> = ?p * \<bar>of_int ?t - ?d * 10 ^ f\<bar>"
  proof -
    have "?p * of_int ?t - ?d * 10 ^ k = ?p * (of_int ?t - ?d * 10 ^ f)"
      by (simp add: right_diff_distrib flip: pf)
    then show ?thesis by (simp add: abs_mult)
  qed
  also have "\<dots> \<le> ?p * (1 / 2)" using t by (intro mult_left_mono) auto
  finally have a: "\<bar>?p * of_int ?t - ?d * 10 ^ k\<bar> \<le> ?p / 2" by simp
  have "\<bar>?d * 10 ^ k - of_nat n\<bar> = \<bar>?d - of_nat n / 10 ^ k\<bar> * 10 ^ k"
  proof -
    have "?d * 10 ^ k - of_nat n = (?d - of_nat n / 10 ^ k) * 10 ^ k"
      by (simp add: left_diff_distrib)
    then show ?thesis by (simp add: abs_mult)
  qed
  also have "\<dots> \<le> of_nat n / 10 ^ k / 2 ^ 53 * 10 ^ k" using d by (intro mult_right_mono) auto
  also have "\<dots> = of_nat n / 2 ^ 53" by simp
  also have "\<dots> < 1 / 2"
  proof -
    have "(of_nat n :: rat) < of_nat (2 ^ 52)" using assms(2) by (simp only: of_nat_less_iff)
    then show ?thesis by simp
  qed
  finally have b: "\<bar>?d * 10 ^ k - of_nat n\<bar> < 1 / 2" .
  have "\<bar>u - w\<bar> < q / 2 + 1 / 2" if "\<bar>u - v\<bar> \<le> q / 2" "\<bar>v - w\<bar> < 1 / 2" for u v w q :: rat
    using that by linarith
  from this[OF a b] have "2 * \<bar>?p * of_int ?t - of_nat n\<bar> < ?p + 1" by simp
  then have "of_int (2 * \<bar>10 ^ (k - f) * ?t - int n\<bar>) < (of_int (10 ^ (k - f) + 1) :: rat)"
    by simp
  then have "2 * \<bar>10 ^ (k - f) * ?t - int n\<bar> < 10 ^ (k - f) + 1" by (simp only: of_int_less_iff)
  then show ?thesis by simp
qed

end
