(* ===== verification/Schedule.thy ===== *)
theory Schedule
  imports Prelude Doubles
begin

text \<open>
  The auto-sync schedule editor (\<open>web/components/app/sync-schedule.tsx\<close>) and the sentence that
  shows a saved interval (\<open>humanizeInterval\<close> in \<open>web/app/(app)/sources/[id]/page.tsx\<close>).

  Numbers typed by the user are rationals: \<open>Number\<close> reads the decimal notation a number input
  delivers (digits, a fraction, an exponent; the empty string is zero) and is \<open>None\<close> where
  JavaScript gives NaN. Rounding of decimals to doubles and overflow beyond the double range
  are not modelled.
\<close>

section \<open>Numbers as text\<close>

definition is_digit :: "char \<Rightarrow> bool" where
  "is_digit c \<longleftrightarrow> 48 \<le> (of_char c :: nat) \<and> (of_char c :: nat) \<le> 57"

definition digits_val :: "string \<Rightarrow> nat" where
  "digits_val s = foldl (\<lambda>a c. 10 * a + (of_char c - 48)) 0 s"

text \<open>The exponent part, after the \<open>e\<close>: the power of ten as a rational.\<close>

definition exponent :: "string \<Rightarrow> rat option" where
  "exponent s =
     (let neg = starts_with s ''-'';
          d = (if neg \<or> starts_with s ''+'' then drop 1 s else s)
      in if d = [] \<or> \<not> list_all is_digit d then None
         else Some (if neg then 1 / 10 ^ digits_val d else 10 ^ digits_val d))"

definition parse_unsigned :: "string \<Rightarrow> rat option" where
  "parse_unsigned s =
     (let ip = takeWhile is_digit s; r = dropWhile is_digit s;
          dot = starts_with r ''.'';
          fp = (if dot then takeWhile is_digit (drop 1 r) else []);
          r2 = (if dot then dropWhile is_digit (drop 1 r) else r);
          m = of_nat (digits_val (ip @ fp)) / 10 ^ length fp
      in if ip = [] \<and> fp = [] then None
         else if r2 = [] then Some m
         else if starts_with r2 ''e'' \<or> starts_with r2 ''E''
         then map_option (\<lambda>x. m * x) (exponent (drop 1 r2))
         else None)"

definition Number :: "string \<Rightarrow> rat option" where
  "Number s0 =
     (let s = trim s0
      in if s = [] then Some 0
         else if starts_with s ''-'' then map_option uminus (parse_unsigned (drop 1 s))
         else if starts_with s ''+'' then parse_unsigned (drop 1 s)
         else parse_unsigned s)"

section \<open>Presets and units\<close>

definition MIN_SECONDS :: int where "MIN_SECONDS = 60"

definition PRESETS :: "(string \<times> int) list" where
  "PRESETS = [(''15 min'', 900), (''1 hour'', 3600), (''6 hours'', 21600), (''24 hours'', 86400)]"

definition UNITS :: "(string \<times> int) list" where
  "UNITS = [(''min'', 60), (''hr'', 3600), (''day'', 86400)]"

text \<open>Value and unit for the custom editor: the largest unit that divides evenly.\<close>

definition decompose :: "int \<Rightarrow> int \<times> int" where
  "decompose seconds =
     (case find (\<lambda>u. seconds mod snd u = 0) (rev UNITS) of
        Some u \<Rightarrow> (seconds div snd u, snd u)
      | None \<Rightarrow> (max 1 (round_div seconds 60), 60))"

definition humanizeInterval :: "int \<Rightarrow> string" where
  "humanizeInterval seconds =
     (case find (\<lambda>u. seconds mod fst u = 0) [(86400, ''day''), (3600, ''hour''), (60, ''min'')] of
        Some (unit, label) \<Rightarrow>
          (let n = seconds div unit
           in if label = ''min'' then show_int n @ '' min''
              else show_int n @ '' '' @ label @ (if n = 1 then [] else ''s''))
      | None \<Rightarrow> show_int (round_div seconds 60) @ '' min'')"

section \<open>The editor\<close>

record schedule =
  sch_custom :: bool
  sch_value :: string
  sch_unit :: int

definition schedule_init :: "int \<Rightarrow> schedule" where
  "schedule_init intervalSeconds =
     \<lparr>sch_custom = (find (\<lambda>p. snd p = intervalSeconds) PRESETS = None),
      sch_value = show_int (fst (decompose intervalSeconds)),
      sch_unit = snd (decompose intervalSeconds)\<rparr>"

text \<open>The new state, and the argument of \<open>onIntervalChange\<close> when it is called.\<close>

definition applyCustom :: "string \<Rightarrow> int \<Rightarrow> schedule \<Rightarrow> schedule \<times> int option" where
  "applyCustom rawValue unitSeconds s =
     (s\<lparr>sch_value := rawValue, sch_unit := unitSeconds\<rparr>,
      (case Number rawValue of
         None \<Rightarrow> None
       | Some n \<Rightarrow>
           if n \<le> 0 then None
           else (let seconds = Math_round (n * of_int unitSeconds)
                 in if seconds < MIN_SECONDS then None else Some seconds)))"

definition customSeconds :: "schedule \<Rightarrow> int option" where
  "customSeconds s = map_option (\<lambda>n. Math_round (n * of_int (sch_unit s))) (Number (sch_value s))"

definition belowMin :: "schedule \<Rightarrow> bool" where
  "belowMin s \<longleftrightarrow> sch_custom s \<and> (case customSeconds s of None \<Rightarrow> True | Some n \<Rightarrow> n < MIN_SECONDS)"

datatype freq = Every int | Custom

definition freqOptions :: "(string \<times> freq) list" where
  "freqOptions = map (\<lambda>p. (fst p, Every (snd p))) PRESETS @ [(''Custom'', Custom)]"

datatype sched_event = ChooseFreq freq | TypeValue string | ChooseUnit int

fun schedule_step :: "int \<Rightarrow> sched_event \<Rightarrow> schedule \<Rightarrow> schedule \<times> int option" where
  "schedule_step intervalSeconds (ChooseFreq Custom) s =
     (s\<lparr>sch_value := show_int (fst (decompose intervalSeconds)),
        sch_unit := snd (decompose intervalSeconds), sch_custom := True\<rparr>, None)"
| "schedule_step intervalSeconds (ChooseFreq (Every v)) s = (s\<lparr>sch_custom := False\<rparr>, Some v)"
| "schedule_step intervalSeconds (TypeValue t) s = applyCustom t (sch_unit s) s"
| "schedule_step intervalSeconds (ChooseUnit u) s = applyCustom (sch_value s) u s"

definition Segmented :: "(string \<times> 'v) list \<Rightarrow> 'v \<Rightarrow> ('v \<Rightarrow> 'a) \<Rightarrow> string \<Rightarrow> 'a node" where
  "Segmented options value onChange ariaLabel =
     El ''div'' [AStr ''role'' ''radiogroup'', AStr ''aria-label'' ariaLabel]
       (map (\<lambda>opt. El ''button''
           [AStr ''role'' ''radio'', ABool ''aria-checked'' (snd opt = value), On ''click'' (onChange (snd opt))]
           [Txt (fst opt)]) options)"

datatype sched_action = SetEnabled bool | Sched sched_event

definition SyncSchedule :: "bool \<Rightarrow> int \<Rightarrow> schedule \<Rightarrow> sched_action node" where
  "SyncSchedule enabled intervalSeconds s =
     El ''div'' []
       (El ''div'' []
          [El ''div'' []
            [El ''p'' [] [Txt ''Auto-sync''],
             El ''p'' [] [Txt (''Check for new items on a schedule. Off '' @ rarrow @
               '' this source syncs only when you click Sync now.'')]],
           El ''Switch'' [ABool ''checked'' enabled, OnFlag ''checkedchange'' SetEnabled,
                          AStr ''aria-label'' ''Auto-sync''] []] #
        shown_if enabled
          [El ''div'' []
            ([El ''p'' [] [Txt ''Frequency''],
              Segmented freqOptions (if sch_custom s then Custom else Every intervalSeconds)
                (\<lambda>v. Sched (ChooseFreq v)) ''Sync frequency''] @
             shown_if (sch_custom s)
               [El ''div'' []
                 [El ''span'' [] [Txt ''Every''],
                  El ''Input'' [AStr ''type'' ''number'', ANum ''min'' 1, AStr ''value'' (sch_value s),
                                OnValue ''change'' (\<lambda>v. Sched (TypeValue v)), AStr ''aria-label'' ''Interval value''] [],
                  Segmented UNITS (sch_unit s) (\<lambda>u. Sched (ChooseUnit u)) ''Interval unit'',
                  El ''span'' [ABool ''destructive'' (belowMin s)] [Txt ''Minimum 1 minute.'']]])])"

section \<open>Reading back printed numbers\<close>

lemma digit_char: "n < 10 \<Longrightarrow> is_digit (char_of (48 + n)) \<and> (of_char (char_of (48 + n :: nat) :: char) :: nat) = 48 + n"
  by (simp add: is_digit_def)

lemma digits_val_snoc: "digits_val (s @ [c]) = 10 * digits_val s + (of_char c - 48)"
  by (simp add: digits_val_def)

lemma nat_digits_read:
  "list_all is_digit (nat_digits n) \<and> digits_val (nat_digits n) = n \<and> nat_digits n \<noteq> []"
proof (induction n rule: nat_digits.induct)
  case (1 n)
  show ?case
  proof (cases "n < 10")
    case True
    then show ?thesis
      using digit_char[of n] by (simp add: nat_digits.simps[of n] digits_val_def)
  next
    case False
    have "n mod 10 < 10" by simp
    with 1 False digit_char[of "n mod 10"] show ?thesis
      by (simp add: nat_digits.simps[of n] digits_val_snoc)
  qed
qed

lemma digit_not_space: "is_digit c \<Longrightarrow> \<not> is_space c"
  by (auto simp: is_digit_def is_space_def Let_def)

lemma dropWhile_none: "(\<And>x. x \<in> set xs \<Longrightarrow> \<not> P x) \<Longrightarrow> dropWhile P xs = xs"
  by (cases xs) auto

lemma trim_digits:
  assumes "list_all is_digit s"
  shows "trim s = s"
proof -
  have n: "\<And>x. x \<in> set s \<Longrightarrow> \<not> is_space x" using assms by (auto simp: list_all_iff digit_not_space)
  have "dropWhile is_space s = s" by (rule dropWhile_none) (rule n)
  moreover have "dropWhile is_space (rev s) = rev s" by (rule dropWhile_none) (simp add: n)
  ultimately show ?thesis by (simp add: trim_def)
qed

lemma digits_no_sign: "list_all is_digit s \<Longrightarrow> \<not> starts_with s ''-'' \<and> \<not> starts_with s ''+''"
  by (cases s) (auto simp: is_digit_def)

lemma parse_unsigned_digits:
  assumes "list_all is_digit s" "s \<noteq> []"
  shows "parse_unsigned s = Some (of_nat (digits_val s))"
proof -
  have "takeWhile is_digit s = s" "dropWhile is_digit s = []"
    using assms(1) by (simp_all add: list_all_iff)
  then show ?thesis using assms(2)
    by (simp add: parse_unsigned_def del: takeWhile_eq_all_conv dropWhile_eq_Nil_conv)
qed

lemma Number_show_int:
  assumes "0 \<le> n"
  shows "Number (show_int n) = Some (of_int n)"
proof -
  have d: "list_all is_digit (nat_digits (nat n))" "digits_val (nat_digits (nat n)) = nat n"
    "nat_digits (nat n) \<noteq> []"
    using nat_digits_read[of "nat n"] by auto
  have "Number (nat_digits (nat n)) = parse_unsigned (nat_digits (nat n))"
    using d by (simp add: Number_def trim_digits digits_no_sign Let_def)
  also have "\<dots> = Some (of_int n)" using d assms by (simp add: parse_unsigned_digits)
  finally show ?thesis using assms by (simp add: show_int_def)
qed

lemma Math_round_of_int [simp]: "Math_round (of_int n) = n"
  by (simp add: Math_round_def floor_unique)

lemma Math_round_nonpos: "x \<le> 0 \<Longrightarrow> Math_round x \<le> 0"
proof -
  assume "x \<le> 0"
  then have "x + 1 / 2 < of_int 1" by simp
  then show ?thesis by (simp add: Math_round_def floor_less_iff)
qed

section \<open>Decomposition\<close>

lemma decompose_cases:
  "decompose s = (if s mod 86400 = 0 then (s div 86400, 86400)
                  else if s mod 3600 = 0 then (s div 3600, 3600)
                  else if s mod 60 = 0 then (s div 60, 60)
                  else (max 1 (round_div s 60), 60))"
  by (simp add: decompose_def UNITS_def)

lemma decompose_exact: "s mod 60 = 0 \<Longrightarrow> fst (decompose s) * snd (decompose s) = s"
  by (auto simp: decompose_cases mod_eq_0_iff_dvd)

lemma decompose_near: "60 \<le> s \<Longrightarrow> \<bar>fst (decompose s) * snd (decompose s) - s\<bar> \<le> 30"
proof (cases "s mod 60 = 0")
  case True
  then show ?thesis by (simp add: decompose_exact)
next
  case False
  assume s: "60 \<le> s"
  have m: "s mod 3600 \<noteq> 0" "s mod 86400 \<noteq> 0"
    using False dvd_trans[of 60 3600 s] dvd_trans[of 60 86400 s] by (auto simp: mod_eq_0_iff_dvd)
  have r: "2 * \<bar>60 * round_div s 60 - s\<bar> \<le> 60" by (rule round_div_nearest) simp
  then have "1 \<le> round_div s 60" using s by (simp add: abs_le_iff)
  with r m False show ?thesis by (simp add: decompose_cases mult.commute)
qed

lemma decompose_pos: "60 \<le> s \<Longrightarrow> 0 < fst (decompose s) \<and> 60 \<le> snd (decompose s)"
proof -
  assume s: "60 \<le> s"
  have "0 < s div k" if "s mod k = 0" "0 < k" for k :: int
  proof -
    have "s = k * (s div k)" using that(1) by auto
    then have "0 < k * (s div k)" using s by linarith
    then show ?thesis using that(2) by (simp add: zero_less_mult_iff)
  qed
  then show ?thesis by (simp add: decompose_cases less_max_iff_disj)
qed

lemma custom_choice:
  assumes "60 \<le> iv"
  shows "customSeconds (fst (schedule_step iv (ChooseFreq Custom) s))
           = Some (fst (decompose iv) * snd (decompose iv))"
proof -
  have "0 \<le> fst (decompose iv)" using decompose_pos[OF assms] by simp
  moreover have "Math_round (of_int a * of_int b) = a * b" for a b
    using Math_round_of_int[of "a * b"] by simp
  ultimately show ?thesis by (simp add: customSeconds_def Number_show_int)
qed

lemma applyCustom_floor: "snd (applyCustom r u s) = Some n \<Longrightarrow> MIN_SECONDS \<le> n"
  by (auto simp: applyCustom_def Let_def split: option.splits if_splits)

text \<open>The events the editor offers: presets for the frequency, any text and unit.\<close>

fun sched_offered :: "sched_event \<Rightarrow> bool" where
  "sched_offered (ChooseFreq (Every v)) = (v \<in> snd ` set PRESETS)"
| "sched_offered _ = True"

lemma schedule_step_floor:
  "sched_offered e \<Longrightarrow> snd (schedule_step iv e s) = Some n \<Longrightarrow> MIN_SECONDS \<le> n"
  by (cases "(iv, e, s)" rule: schedule_step.cases)
     (auto simp: PRESETS_def MIN_SECONDS_def dest: applyCustom_floor[unfolded MIN_SECONDS_def])

section \<open>Properties\<close>



text \<open>
  C26. Opening the custom editor does not change the schedule: for a whole number of minutes the
  value and unit it shows stand for exactly the current interval, with the largest unit that
  divides it; for any other interval of at least a minute they are at most thirty seconds off.
  Neither is flagged as too short.
\<close>

theorem custom_editor_keeps_interval:
  assumes "60 \<le> iv"
  shows "\<exists>n. customSeconds (fst (schedule_step iv (ChooseFreq Custom) s)) = Some n \<and>
             \<bar>n - iv\<bar> \<le> 30 \<and> (iv mod 60 = 0 \<longrightarrow> n = iv) \<and>
             list_all (\<lambda>(l, u). iv mod u = 0 \<longrightarrow> u \<le> sch_unit (fst (schedule_step iv (ChooseFreq Custom) s))) UNITS \<and>
             \<not> belowMin (fst (schedule_step iv (ChooseFreq Custom) s))"
proof -
  let ?n = "fst (decompose iv) * snd (decompose iv)"
  have n: "60 \<le> ?n"
    using decompose_pos[OF assms] mult_mono[of 1 "fst (decompose iv)" 60 "snd (decompose iv)"] by simp
  have u: "list_all (\<lambda>(l, u). iv mod u = 0 \<longrightarrow> u \<le> snd (decompose iv)) UNITS"
    by (simp add: UNITS_def decompose_cases)
  show ?thesis
    using custom_choice[OF assms, of s] decompose_near[OF assms] decompose_exact[of iv] n u
    by (intro exI[of _ ?n]) (simp add: belowMin_def MIN_SECONDS_def)
qed

theorem custom_editor_keeps_interval_witness:
  "customSeconds (fst (schedule_step 5400 (ChooseFreq Custom) (schedule_init 900))) = Some 5400"
  using custom_editor_keeps_interval[of 5400 "schedule_init 900"] by auto

end
