(* ===== verification/Confirm.thy ===== *)
theory Confirm
  imports Prelude
begin

text \<open>
  The dialog that gates a destructive action behind typing a word
  (\<open>web/components/app/confirm-dialog.tsx\<close>). \<open>openProp\<close> is the optional controlled state;
  \<open>onOpenChange\<close> and \<open>onConfirm\<close> are outputs. A trigger, when given, opens the dialog through
  \<open>DOpenChange\<close>; the dialog library closes through \<open>DOpenChange False\<close> on Cancel.
\<close>

record dialog =
  dlg_internalOpen :: bool
  dlg_typed :: string

definition dialog_init :: dialog where
  "dialog_init = \<lparr>dlg_internalOpen = False, dlg_typed = []\<rparr>"

datatype dialog_out = OpenChanged bool | Confirmed

definition dialog_open :: "bool option \<Rightarrow> dialog \<Rightarrow> bool" where
  "dialog_open openProp d = nullish openProp (dlg_internalOpen d)"

definition setOpen :: "bool option \<Rightarrow> bool \<Rightarrow> dialog \<Rightarrow> dialog \<times> dialog_out list" where
  "setOpen openProp o' d =
     (if openProp = None then d\<lparr>dlg_internalOpen := o'\<rparr> else d, [OpenChanged o'])"

definition armed :: "string \<Rightarrow> bool \<Rightarrow> dialog \<Rightarrow> bool" where
  "armed confirmWord pending d \<longleftrightarrow> trim (dlg_typed d) = confirmWord \<and> \<not> pending"

datatype dialog_event = DOpenChange bool | DType string | DKey string | DConfirm

fun dialog_step :: "bool option \<Rightarrow> string \<Rightarrow> bool \<Rightarrow> dialog_event \<Rightarrow> dialog \<Rightarrow> dialog \<times> dialog_out list" where
  "dialog_step openProp word pending (DOpenChange o') d =
     (let (d', outs) = setOpen openProp o' d
      in (if o' then d' else d'\<lparr>dlg_typed := []\<rparr>, outs))"
| "dialog_step openProp word pending (DType t) d = (d\<lparr>dlg_typed := t\<rparr>, [])"
| "dialog_step openProp word pending (DKey k) d =
     (d, if k = ''Enter'' \<and> armed word pending d then [Confirmed] else [])"
| "dialog_step openProp word pending DConfirm d = (d, [Confirmed])"

definition ConfirmDestructiveDialog ::
  "string \<Rightarrow> string \<Rightarrow> string \<Rightarrow> string option \<Rightarrow> bool \<Rightarrow> bool option \<Rightarrow> dialog \<Rightarrow> dialog_event node" where
  "ConfirmDestructiveDialog title description confirmWord confirmLabel pending openProp d =
     El ''AlertDialog'' [ABool ''open'' (dialog_open openProp d), OnFlag ''openchange'' DOpenChange]
       [El ''AlertDialogContent'' []
         [El ''AlertDialogHeader'' []
            [El ''AlertDialogTitle'' [] [Txt title], El ''AlertDialogDescription'' [] [Txt description]],
          El ''div'' []
            [El ''label'' [] [Txt ''Type '', El ''span'' [] [Txt confirmWord], Txt '' to confirm''],
             El ''Input'' [AStr ''id'' ''confirm-word'', AStr ''value'' (dlg_typed d),
                           OnValue ''change'' DType, OnValue ''keydown'' DKey] []],
          El ''AlertDialogFooter'' []
            [El ''AlertDialogCancel'' [On ''click'' (DOpenChange False)] [Txt ''Cancel''],
             El ''AlertDialogAction'' [ABool ''disabled'' (\<not> armed confirmWord pending d), On ''click'' DConfirm]
               (shown_if pending [El ''AnimatedSpinner'' [] []] @
                [Txt (nullish confirmLabel ''Delete'')])]]]"

section \<open>Lemmas\<close>

lemma dropWhile_idem [simp]: "dropWhile P (dropWhile P xs) = dropWhile P xs"
  by (induction xs) auto

text \<open>Dropping at the end keeps the first character when it is not dropped itself.\<close>

lemma dropWhile_rev_hd:
  assumes "dropWhile P xs = xs"
  shows "dropWhile P (rev (dropWhile P (rev xs))) = rev (dropWhile P (rev xs))"
proof (cases xs)
  case Nil
  then show ?thesis by simp
next
  case (Cons a as)
  have a: "\<not> P a"
  proof
    assume "P a"
    then have "dropWhile P as = a # as" using assms Cons by simp
    then have "length (a # as) \<le> length as" by (metis length_dropWhile_le)
    then show False by simp
  qed
  have "dropWhile P (rev as @ [a]) = dropWhile P (rev as) @ [a]"
    using a by (induction as rule: rev_induct) (auto simp: dropWhile_append3)
  then show ?thesis using Cons a by simp
qed

lemma trim_idem [simp]: "trim (trim s) = trim s"
proof -
  let ?t = "dropWhile is_space s"
  have "dropWhile is_space (trim s) = trim s"
    using dropWhile_rev_hd[of is_space ?t] by (simp add: trim_def)
  then have "trim (trim s) = rev (dropWhile is_space (rev (trim s)))" by (simp add: trim_def)
  also have "\<dots> = trim s" by (simp add: trim_def)
  finally show ?thesis .
qed

section \<open>Properties\<close>

text \<open>
  The destructive action cannot run by accident: the confirm button reacts to a click, and
  Enter confirms, exactly when the typed text without surrounding space is the confirm word and
  no run is pending; closing the dialog forgets the typed text.
\<close>

theorem confirm_needs_the_word:
  "(DConfirm \<in> set (clicks (ConfirmDestructiveDialog t dsc w l pending op d)) \<longleftrightarrow>
      trim (dlg_typed d) = w \<and> \<not> pending) \<and>
   (Confirmed \<in> set (snd (dialog_step op w pending (DKey k) d)) \<longleftrightarrow>
      k = ''Enter'' \<and> trim (dlg_typed d) = w \<and> \<not> pending) \<and>
   dlg_typed (fst (dialog_step op w pending (DOpenChange False) d)) = []"
  by (auto simp: ConfirmDestructiveDialog_def armed_def setOpen_def shown_if_def)

text \<open>
  A confirm word with surrounding white space can never be typed: some text arms the dialog
  if and only if the word equals its own trimmed form. The typed text is trimmed, the word is
  not, so a source whose account name ends in a space cannot be deleted.
\<close>

lemma confirm_word_typable_iff:
  "(\<exists>d. armed w False d) \<longleftrightarrow> trim w = w"
proof
  assume "\<exists>d. armed w False d"
  then show "trim w = w" by (auto simp: armed_def)
next
  assume "trim w = w"
  then have "armed w False (dialog_init\<lparr>dlg_typed := w\<rparr>)" by (simp add: armed_def)
  then show "\<exists>d. armed w False d" by blast
qed

end
