(* ===== verification/Api_Client.thy ===== *)
theory Api_Client
  imports Prelude
begin

text \<open>
  The OIDC configuration and access token (\<open>web/lib/auth.ts\<close>) and the transport's two
  interceptors with their renew-on-401 policy (\<open>web/lib/api/client.ts\<close>).

  The policy is modelled twice. \<open>renewSession\<close> and \<open>renewOnce\<close> are the code run by one
  request with nothing else in flight, as state-passing functions over the world they
  read. \<open>client_step\<close> is the same code with any number of requests interleaved at its
  \<open>await\<close> points: the shared module variables \<open>renewing\<close> and \<open>lastRenewMs\<close> are fields of
  the state, and each event is one uninterrupted run of JavaScript between two awaits.
  The identity provider (\<open>signinSilent\<close>) and the server are the environment: they choose
  the events.
\<close>

section \<open>Configuration and access token\<close>

definition requireEnv :: "string \<Rightarrow> string option \<Rightarrow> thrown + string" where
  "requireEnv name value =
     (case value of
        None \<Rightarrow> Inl (OtherError (''missing required env '' @ name))
      | Some v \<Rightarrow> if v = [] then Inl (OtherError (''missing required env '' @ name)) else Inr v)"

record oidc_env =
  NEXT_PUBLIC_OIDC_ISSUER :: "string option"
  NEXT_PUBLIC_OIDC_CLIENT_ID :: "string option"
  NEXT_PUBLIC_OIDC_PROJECT_ID :: "string option"

record manager_settings =
  authority :: string
  client_id :: string
  redirect_uri :: string
  post_logout_redirect_uri :: string
  response_type :: string
  scope :: string
  automaticSilentRenew :: bool
  silent_redirect_uri :: string

definition scopes :: "string option \<Rightarrow> string list" where
  "scopes projectId =
     [''openid'', ''profile'', ''email'', ''urn:zitadel:iam:user:resourceowner''] @
     (if truthy_str projectId
      then [''urn:zitadel:iam:org:project:id:'' @ the projectId @ '':aud''] else [])"

text \<open>
  \<open>manager\<close> is the module variable: a second call returns the first call's instance.
  \<open>origin\<close> is \<open>window.location.origin\<close>. The result pairs the outcome with the variable.
\<close>

definition userManager ::
  "oidc_env \<Rightarrow> string \<Rightarrow> manager_settings option \<Rightarrow>
   (thrown + manager_settings) \<times> manager_settings option" where
  "userManager env origin manager =
     (case manager of
        Some m \<Rightarrow> (Inr m, manager)
      | None \<Rightarrow>
          (case requireEnv ''NEXT_PUBLIC_OIDC_ISSUER'' (NEXT_PUBLIC_OIDC_ISSUER env) of
             Inl e \<Rightarrow> (Inl e, None)
           | Inr issuer \<Rightarrow>
               (case requireEnv ''NEXT_PUBLIC_OIDC_CLIENT_ID'' (NEXT_PUBLIC_OIDC_CLIENT_ID env) of
                  Inl e \<Rightarrow> (Inl e, None)
                | Inr clientId \<Rightarrow>
                    let m = \<lparr>authority = issuer, client_id = clientId,
                             redirect_uri = origin @ ''/callback'',
                             post_logout_redirect_uri = origin @ ''/'',
                             response_type = ''code'',
                             scope = join_with '' '' (scopes (NEXT_PUBLIC_OIDC_PROJECT_ID env)),
                             automaticSilentRenew = True,
                             silent_redirect_uri = origin @ ''/silent-renew''\<rparr>
                    in (Inr m, Some m))))"

record oidc_user =
  access_token :: string
  expired :: bool

definition accessToken :: "oidc_user option \<Rightarrow> string option" where
  "accessToken u = (case u of None \<Rightarrow> None | Some v \<Rightarrow> if expired v then None else Some (access_token v))"

section \<open>One request at a time\<close>

definition renewCooldownMs :: int where "renewCooldownMs = 10000"

text \<open>The \<open>auth\<close> interceptor: the Authorization header a request leaves with.\<close>

definition auth :: "oidc_user option \<Rightarrow> string option" where
  "auth u = (case accessToken u of
               None \<Rightarrow> None
             | Some t \<Rightarrow> if t = [] then None else Some (''Bearer '' @ t))"

definition isUnauthenticated :: "thrown \<Rightarrow> bool" where
  "isUnauthenticated e \<longleftrightarrow> (case e of ConnectError c _ _ \<Rightarrow> c = Unauthenticated | _ \<Rightarrow> False)"

text \<open>
  The world one request sees: the clock, the module variable \<open>lastRenewMs\<close>, the stored
  user, and how often \<open>signinSilent\<close> was called.
\<close>

record world =
  w_now :: int
  w_lastRenewMs :: int
  w_user :: "oidc_user option"
  w_renewals :: nat

text \<open>
  \<open>signinSilent\<close> is the identity library's: it takes some time and either rejects or
  resolves with the renewed user, which it also stores.
\<close>

type_synonym signin = "world \<Rightarrow> nat \<times> (thrown + oidc_user)"

definition renewSession :: "signin \<Rightarrow> world \<Rightarrow> (thrown + unit) \<times> world" where
  "renewSession signinSilent w =
     (if w_now w - w_lastRenewMs w < renewCooldownMs
      then (Inl (OtherError ''token renewal on cooldown''), w)
      else
        let (d, r) = signinSilent w;
            w' = w\<lparr>w_now := w_now w + int d, w_lastRenewMs := w_now w + int d,
                   w_renewals := Suc (w_renewals w)\<rparr>
        in case r of
             Inl e \<Rightarrow> (Inl e, w')
           | Inr u \<Rightarrow> (Inr (), w'\<lparr>w_user := Some u\<rparr>))"

type_synonym 'r sender = "string option \<Rightarrow> world \<Rightarrow> (thrown + 'r) \<times> world"

text \<open>The transport: \<open>renewOnce\<close> outside \<open>auth\<close>; \<open>send\<close> is the rest of the chain.\<close>

definition auth_next :: "'r sender \<Rightarrow> world \<Rightarrow> (thrown + 'r) \<times> world" where
  "auth_next send w = send (auth (w_user w)) w"

definition renewOnce :: "signin \<Rightarrow> 'r sender \<Rightarrow> world \<Rightarrow> (thrown + 'r) \<times> world" where
  "renewOnce signinSilent send w =
     (case auth_next send w of
        (Inr r, w1) \<Rightarrow> (Inr r, w1)
      | (Inl err, w1) \<Rightarrow>
          if isUnauthenticated err then
            (case renewSession signinSilent w1 of
               (Inl _, w2) \<Rightarrow> (Inl err, w2)
             | (Inr _, w2) \<Rightarrow> auth_next send w2)
          else (Inl err, w1))"

section \<open>Requests interleaved\<close>

datatype phase =
    Idle
  | Sent bool "string option"   \<comment> \<open>whether it is the retry; the header it carries\<close>
  | Waiting thrown              \<comment> \<open>awaits the shared renewal; the error to rethrow\<close>
  | Resuming bool thrown        \<comment> \<open>the renewal settled, its continuation is queued\<close>
  | Done "thrown option"        \<comment> \<open>resolved, or rejected with the error\<close>

record client =
  now :: int
  renewing :: bool              \<comment> \<open>\<open>renewing !== null\<close>\<close>
  lastRenewMs :: int
  user :: "oidc_user option"
  reqs :: "nat \<Rightarrow> phase"
  inflight :: nat               \<comment> \<open>outstanding \<open>signinSilent\<close> calls\<close>
  log :: "(int \<times> int) list"     \<comment> \<open>start time and previous settle time of each renewal, newest first\<close>

datatype event =
    Tick nat                    \<comment> \<open>time passes\<close>
  | Start nat                   \<comment> \<open>a call site issues the request\<close>
  | Reply nat "thrown option"   \<comment> \<open>the server answers the request in flight\<close>
  | RenewOk oidc_user           \<comment> \<open>\<open>signinSilent\<close> resolves\<close>
  | RenewFail thrown            \<comment> \<open>\<open>signinSilent\<close> rejects\<close>
  | Resume nat                  \<comment> \<open>an awaiting request continues\<close>

definition init_client :: "int \<Rightarrow> oidc_user option \<Rightarrow> client" where
  "init_client t u = \<lparr>now = t, renewing = False, lastRenewMs = 0, user = u,
                      reqs = (\<lambda>_. Idle), inflight = 0, log = []\<rparr>"

definition settle :: "bool \<Rightarrow> phase \<Rightarrow> phase" where
  "settle ok p = (case p of Waiting e \<Rightarrow> Resuming ok e | _ \<Rightarrow> p)"

definition set_req :: "nat \<Rightarrow> phase \<Rightarrow> client \<Rightarrow> client" where
  "set_req i p s = s\<lparr>reqs := (reqs s)(i := p)\<rparr>"

text \<open>\<open>renewSession\<close> up to its await, called by request \<open>i\<close> whose first attempt got \<open>err\<close>.\<close>

definition begin_renew :: "nat \<Rightarrow> thrown \<Rightarrow> client \<Rightarrow> client" where
  "begin_renew i err s =
     (if now s - lastRenewMs s < renewCooldownMs then set_req i (Done (Some err)) s
      else if renewing s then set_req i (Waiting err) s
      else set_req i (Waiting err)
             (s\<lparr>renewing := True, inflight := Suc (inflight s),
                log := (now s, lastRenewMs s) # log s\<rparr>))"

definition finish_renew :: "bool \<Rightarrow> client \<Rightarrow> client" where
  "finish_renew ok s = s\<lparr>lastRenewMs := now s, renewing := False, inflight := inflight s - 1,
                          reqs := (\<lambda>j. settle ok (reqs s j))\<rparr>"

fun client_step :: "event \<Rightarrow> client \<Rightarrow> client option" where
  "client_step (Tick d) s = Some (s\<lparr>now := now s + int d\<rparr>)"
| "client_step (Start i) s =
     (case reqs s i of Idle \<Rightarrow> Some (set_req i (Sent False (auth (user s))) s) | _ \<Rightarrow> None)"
| "client_step (Reply i r) s =
     (case reqs s i of
        Sent retry h \<Rightarrow>
          (case r of
             None \<Rightarrow> Some (set_req i (Done None) s)
           | Some err \<Rightarrow>
               if \<not> retry \<and> isUnauthenticated err then Some (begin_renew i err s)
               else Some (set_req i (Done (Some err)) s))
      | _ \<Rightarrow> None)"
| "client_step (RenewOk u) s =
     (if renewing s then Some (finish_renew True (s\<lparr>user := Some u\<rparr>)) else None)"
| "client_step (RenewFail e) s = (if renewing s then Some (finish_renew False s) else None)"
| "client_step (Resume i) s =
     (case reqs s i of
        Resuming ok err \<Rightarrow>
          Some (set_req i (if ok then Sent True (auth (user s)) else Done (Some err)) s)
      | _ \<Rightarrow> None)"

fun client_run :: "event list \<Rightarrow> client \<Rightarrow> client option" where
  "client_run [] s = Some s"
| "client_run (e # es) s = (case client_step e s of None \<Rightarrow> None | Some t \<Rightarrow> client_run es t)"

inductive client_reach :: "int \<Rightarrow> oidc_user option \<Rightarrow> client \<Rightarrow> bool" for t u where
  reach_init: "client_reach t u (init_client t u)"
| reach_step: "client_reach t u s \<Longrightarrow> client_step e s = Some s' \<Longrightarrow> client_reach t u s'"

text \<open>
  How often a request may have been put on the wire: once when it is issued and once more
  when it continues after a renewal (a failed renewal counts although nothing is sent).
\<close>

definition attempts :: "event list \<Rightarrow> nat \<Rightarrow> nat" where
  "attempts es i = length (filter (\<lambda>e. e = Start i \<or> e = Resume i) es)"

section \<open>Invariants\<close>

definition renew_inv :: "client \<Rightarrow> bool" where
  "renew_inv s \<longleftrightarrow>
     inflight s = (if renewing s then 1 else 0) \<and>
     (renewing s \<longrightarrow> renewCooldownMs \<le> now s - lastRenewMs s) \<and>
     (\<not> renewing s \<longrightarrow> (\<forall>i e. reqs s i \<noteq> Waiting e)) \<and>
     (\<forall>(a, b) \<in> set (log s). renewCooldownMs \<le> a - b)"

lemma renew_inv_init: "renew_inv (init_client t u)"
  by (simp add: renew_inv_def init_client_def)

lemma settle_not_Waiting [simp]: "settle ok p \<noteq> Waiting e"
  by (cases p) (auto simp: settle_def)

lemma set_req_inv: "renew_inv s \<Longrightarrow> \<forall>e. p \<noteq> Waiting e \<Longrightarrow> renew_inv (set_req i p s)"
  by (simp add: renew_inv_def set_req_def)

lemma begin_renew_inv: "renew_inv s \<Longrightarrow> renew_inv (begin_renew i err s)"
  by (auto simp: renew_inv_def begin_renew_def set_req_def)

lemma finish_renew_inv: "renew_inv s \<Longrightarrow> renewing s \<Longrightarrow> renew_inv (finish_renew ok s)"
  by (auto simp: renew_inv_def finish_renew_def)

lemma client_step_renew_inv:
  assumes "client_step e s = Some s'" and "renew_inv s"
  shows "renew_inv s'"
proof (cases e)
  case (Tick d)
  with assms show ?thesis by (auto simp: renew_inv_def)
next
  case (Start i)
  with assms show ?thesis by (auto intro: set_req_inv split: phase.splits)
next
  case (Reply i r)
  with assms show ?thesis
    by (auto intro: begin_renew_inv set_req_inv split: phase.splits option.splits if_splits)
next
  case (RenewOk u)
  have "renew_inv (s\<lparr>user := Some u\<rparr>)" using assms(2) by (simp add: renew_inv_def)
  with RenewOk assms show ?thesis by (auto simp: finish_renew_inv split: if_splits)
next
  case (RenewFail x)
  with assms show ?thesis by (auto simp: finish_renew_inv split: if_splits)
next
  case (Resume i)
  with assms show ?thesis by (auto intro: set_req_inv split: phase.splits)
qed

lemma client_reach_renew_inv: "client_reach t u s \<Longrightarrow> renew_inv s"
  by (induction rule: client_reach.induct) (auto intro: renew_inv_init client_step_renew_inv)

lemma client_run_reach:
  "client_reach t u s \<Longrightarrow> client_run es s = Some s' \<Longrightarrow> client_reach t u s'"
  by (induction es arbitrary: s) (auto intro: reach_step split: option.splits)

text \<open>
  How far a request has come: every step that sends it moves it strictly up, no step
  moves it down, and it is sent at two places of this order only.
\<close>

fun rank :: "phase \<Rightarrow> nat" where
  "rank Idle = 0"
| "rank (Sent retry h) = (if retry then 2 else 1)"
| "rank (Waiting e) = 1"
| "rank (Resuming ok e) = 1"
| "rank (Done r) = 2"

lemma rank_settle [simp]: "rank (settle ok p) = rank p"
  by (cases p) (auto simp: settle_def)

lemma rank_begin_renew:
  "rank (reqs s i) = 1 \<Longrightarrow> rank (reqs s j) \<le> rank (reqs (begin_renew i e s) j)"
  by (auto simp: begin_renew_def set_req_def)

lemma client_step_rank:
  "client_step e s = Some s' \<Longrightarrow>
   rank (reqs s i) + (if e = Start i \<or> e = Resume i then 1 else 0) \<le> rank (reqs s' i)"
  by (cases e)
     (auto simp: set_req_def finish_renew_def rank_begin_renew
           split: phase.splits option.splits if_splits)

lemma client_run_rank:
  "client_run es s = Some s' \<Longrightarrow> rank (reqs s i) + attempts es i \<le> rank (reqs s' i)"
proof (induction es arbitrary: s)
  case Nil
  then show ?case by (simp add: attempts_def)
next
  case (Cons e es)
  then obtain t where t: "client_step e s = Some t" "client_run es t = Some s'"
    by (auto split: option.splits)
  from Cons.IH[OF t(2)] client_step_rank[OF t(1), of i] show ?case
    by (auto simp: attempts_def split: if_splits)
qed

lemma auth_header_prefix: "auth u = Some h \<Longrightarrow> \<exists>t. h = ''Bearer '' @ t \<and> t \<noteq> []"
  by (auto simp: auth_def split: option.splits if_splits)

lemma userManager_singleton:
  "userManager env origin m = (Inr c, m') \<Longrightarrow> userManager env' origin' m' = (Inr c, m')"
  by (auto simp: userManager_def Let_def split: option.splits sum.splits)

section \<open>Properties\<close>



text \<open>
  C16. Bounded retry: however requests and renewals interleave, a request is put on the wire
  at most twice.
\<close>

theorem request_sent_at_most_twice:
  assumes "client_run es (init_client t u) = Some s"
  shows "attempts es i \<le> 2"
proof -
  have "rank (reqs s i) \<le> 2" by (cases "reqs s i") auto
  with client_run_rank[OF assms, of i] show ?thesis by (simp add: init_client_def)
qed

theorem request_sent_at_most_twice_witness:
  "\<exists>es s. client_run es (init_client 20000 None) = Some s \<and> attempts es 0 = 2 \<and>
     attempts es 0 \<le> 2"
proof -
  let ?es = "[Start 0, Reply 0 (Some (ConnectError Unauthenticated [] [])),
              RenewOk \<lparr>access_token = ''t'', expired = False\<rparr>, Resume 0]"
  obtain s where s: "client_run ?es (init_client 20000 None) = Some s"
    by (simp add: init_client_def set_req_def begin_renew_def finish_renew_def settle_def
        isUnauthenticated_def renewCooldownMs_def)
  moreover have "attempts ?es 0 = 2" by (simp add: attempts_def)
  ultimately show ?thesis using request_sent_at_most_twice[OF s, of 0] by blast
qed

text \<open>
  C18. No waiter is stranded: a request that waits for the shared renewal does so while a
  renewal is really in flight; when that renewal succeeds the request is sent again with the
  renewed user's token, and when it fails the request is rejected with its own original error.
\<close>

theorem waiting_request_resumes:
  assumes "client_reach t u s" and "reqs s i = Waiting e"
  shows "inflight s = 1 \<and>
         map_option (\<lambda>s'. reqs s' i) (client_run [RenewOk v, Resume i] s)
           = Some (Sent True (auth (Some v))) \<and>
         map_option (\<lambda>s'. reqs s' i) (client_run [RenewFail x, Resume i] s)
           = Some (Done (Some e))"
proof -
  have inv: "renew_inv s" using assms(1) by (rule client_reach_renew_inv)
  with assms(2) have r: "renewing s" by (auto simp: renew_inv_def)
  with inv assms(2) show ?thesis
    by (auto simp: renew_inv_def finish_renew_def settle_def set_req_def)
qed

theorem waiting_request_resumes_witness:
  "\<exists>s. client_reach 20000 None s \<and> reqs s 0 = Waiting (ConnectError Unauthenticated [] []) \<and>
       inflight s = 1 \<and>
       map_option (\<lambda>s'. reqs s' 0)
         (client_run [RenewOk \<lparr>access_token = ''t'', expired = False\<rparr>, Resume 0] s)
         = Some (Sent True (Some ''Bearer t''))"
proof -
  let ?e = "ConnectError Unauthenticated [] []"
  obtain s where s: "client_run [Start 0, Reply 0 (Some ?e)] (init_client 20000 None) = Some s"
    and w: "reqs s 0 = Waiting ?e"
    by (simp add: init_client_def set_req_def begin_renew_def isUnauthenticated_def renewCooldownMs_def)
  have re: "client_reach 20000 None s" by (rule client_run_reach[OF reach_init s])
  have a: "auth (Some \<lparr>access_token = ''t'', expired = False\<rparr>) = Some ''Bearer t''"
    by (simp add: auth_def accessToken_def)
  show ?thesis
    using waiting_request_resumes[OF re w, of "\<lparr>access_token = ''t'', expired = False\<rparr>"
            "OtherError []", unfolded a] re w by blast
qed

text \<open>
  The renewal policy never invents an error: when a request sent through \<open>renewOnce\<close>
  fails, the error is one the server returned for it (to the first or the second attempt), not
  the cooldown error or the identity provider's; and it renews at most once.
\<close>

theorem renewOnce_error_from_server:
  assumes "\<And>h w'. w_renewals (snd (send h w')) = w_renewals w'"
    and "renewOnce signinSilent send w = (Inl e, w')"
  shows "(\<exists>w0. fst (send (auth (w_user w0)) w0) = Inl e) \<and> w_renewals w' \<le> Suc (w_renewals w)"
proof -
  obtain r1 w1 where 1: "send (auth (w_user w)) w = (r1, w1)" by fastforce
  have w1: "w_renewals w1 = w_renewals w" using assms(1)[of "auth (w_user w)" w] 1 by simp
  show ?thesis
  proof (cases r1)
    case (Inr r)
    with 1 assms(2) show ?thesis by (simp add: renewOnce_def auth_next_def)
  next
    case (Inl err)
    obtain q w2 where 2: "renewSession signinSilent w1 = (q, w2)" by fastforce
    have w2: "w_renewals w2 \<le> Suc (w_renewals w1)"
      using 2 by (auto simp: renewSession_def Let_def split: if_splits prod.splits sum.splits)
    obtain r3 w3 where 3: "send (auth (w_user w2)) w2 = (r3, w3)" by fastforce
    have w3: "w_renewals w3 = w_renewals w2" using assms(1)[of "auth (w_user w2)" w2] 3 by simp
    show ?thesis
    proof (cases "isUnauthenticated err \<and> (\<exists>x. q = Inr x)")
      case True
      with 1 2 3 Inl assms(2) have "r3 = Inl e" "w' = w3"
        by (auto simp: renewOnce_def auth_next_def)
      with 3 w1 w2 w3 show ?thesis by (metis fst_conv)
    next
      case False
      with 1 2 Inl assms(2) have "err = e" "w' = w1 \<or> w' = w2"
        by (cases q; auto simp: renewOnce_def auth_next_def split: if_splits)+
      with 1 Inl w1 w2 show ?thesis by (metis fst_conv le_Suc_eq order_refl)
    qed
  qed
qed

definition example_world :: world where
  "example_world = \<lparr>w_now = 20000, w_lastRenewMs = 15000, w_user = None, w_renewals = 0\<rparr>"

definition rejecting_send :: "unit sender" where
  "rejecting_send h w = (Inl (ConnectError Unauthenticated ''no'' ''[16] no''), w)"

theorem renewOnce_error_from_server_witness:
  "\<exists>w0. fst (rejecting_send (auth (w_user w0)) w0)
        = Inl (ConnectError Unauthenticated ''no'' ''[16] no'')"
proof -
  let ?s = "\<lambda>w. (5, Inl (OtherError ''no session''))"
  have "renewOnce ?s rejecting_send example_world
          = (Inl (ConnectError Unauthenticated ''no'' ''[16] no''), example_world)"
    by (simp add: renewOnce_def auth_next_def rejecting_send_def isUnauthenticated_def
        renewSession_def example_world_def renewCooldownMs_def)
  from renewOnce_error_from_server[OF _ this] show ?thesis by (simp add: rejecting_send_def)
qed


end
