(* ===== verification/Session.thy ===== *)
theory Session
  imports Proto Api_Client
begin

text \<open>
  Who is signed in, and what that lets them see: the session policy (\<open>web/lib/session.ts\<close>),
  browser telemetry (\<open>web/lib/telemetry.ts\<close>), the gate around the application shell
  (\<open>web/components/app/app-gate.tsx\<close>), the public entry page (\<open>web/app/page.tsx\<close>) and the
  OIDC pages (\<open>web/app/callback\<close>, \<open>signed-out\<close>, \<open>silent-renew\<close>), and the root error boundary
  (\<open>web/app/error.tsx\<close>).

  A component is a view function of its props and state, and one function per effect or
  handler that returns the new state and the effects on the outside world.
\<close>

section \<open>Session policy\<close>

definition isAuthError :: "thrown \<Rightarrow> bool" where
  "isAuthError e \<longleftrightarrow>
     (case e of ConnectError c _ _ \<Rightarrow> c = Unauthenticated \<or> c = PermissionDenied
              | OtherError _ \<Rightarrow> False)"

type_synonym session_query = "GetSessionResponse query"

text \<open>\<open>data?.tenant?.onboarded === true\<close>.\<close>

definition session_onboarded :: "session_query \<Rightarrow> bool" where
  "session_onboarded q \<longleftrightarrow>
     (case q_data q of None \<Rightarrow> False
      | Some d \<Rightarrow> (case session_tenant d of None \<Rightarrow> False | Some t \<Rightarrow> tenant_onboarded t))"

section \<open>Telemetry\<close>

datatype TelemetryEvent =
    page_view | login_start | login_success | login_error | logout
  | onboarding_complete | app_error

fun event_name :: "TelemetryEvent \<Rightarrow> string" where
  "event_name page_view = ''page_view''"
| "event_name login_start = ''login_start''"
| "event_name login_success = ''login_success''"
| "event_name login_error = ''login_error''"
| "event_name logout = ''logout''"
| "event_name onboarding_complete = ''onboarding_complete''"
| "event_name app_error = ''app_error''"

text \<open>
  \<open>track\<close> posts the event and swallows every failure: whatever \<open>fetch\<close> does (throw, reject,
  resolve), the caller only sees that the call returned.
\<close>

datatype fetch_outcome = FetchThrows thrown | FetchRejects thrown | FetchResolves

definition track ::
  "(string \<Rightarrow> (string \<times> string) list \<Rightarrow> fetch_outcome) \<Rightarrow> TelemetryEvent \<Rightarrow>
   (string \<times> string) list \<Rightarrow> thrown + effect" where
  "track fetch type props =
     (case fetch (event_name type) props of
        FetchThrows _ \<Rightarrow> Inr (Track (event_name type) props)
      | FetchRejects _ \<Rightarrow> Inr (Track (event_name type) props)
      | FetchResolves \<Rightarrow> Inr (Track (event_name type) props))"

abbreviation tracked :: "TelemetryEvent \<Rightarrow> (string \<times> string) list \<Rightarrow> effect" where
  "tracked type props \<equiv> Track (event_name type) props"

section \<open>The application gate\<close>

definition AppGate_effect :: "session_query \<Rightarrow> effect list" where
  "AppGate_effect q =
     (if q_isPending q then []
      else case q_error q of
        Some e \<Rightarrow> if isAuthError e then [RemoveUser, RouterReplace ''/''] else []
      | None \<Rightarrow> if q_data q \<noteq> None \<and> \<not> session_onboarded q then [RouterReplace ''/onboarding''] else [])"

definition AppGate :: "'a \<Rightarrow> session_query \<Rightarrow> 'a node list \<Rightarrow> 'a node list" where
  "AppGate refetch q children =
     (if (case q_error q of Some e \<Rightarrow> \<not> isAuthError e | None \<Rightarrow> False)
      then [El ''div'' [AStr ''role'' ''alert'', AStr ''aria-live'' ''polite'']
             [El ''p'' [] [Txt (''Couldn'' @ rsquo @ ''t reach the server.'')],
              El ''button'' [On ''click'' refetch] [Txt ''Try again'']]]
      else if q_isPending q \<or> \<not> session_onboarded q then [El ''LoadingScreen'' [] []]
      else children)"

section \<open>The public entry page\<close>

text \<open>
  On mount the page asks the user manager for the stored user; \<open>userManager()\<close> itself throws
  when the build is misconfigured.
\<close>

definition Home_mount :: "thrown + manager_settings \<Rightarrow> effect list \<times> thrown option" where
  "Home_mount manager =
     ([tracked page_view [(''path'', ''/'')]],
      case manager of Inl e \<Rightarrow> Some e | Inr _ \<Rightarrow> None)"

definition Home_getUser :: "thrown + oidc_user option \<Rightarrow> bool \<Rightarrow> bool \<times> effect list" where
  "Home_getUser r checked =
     (case r of
        Inl _ \<Rightarrow> (True, [])
      | Inr u \<Rightarrow> (case u of
           Some v \<Rightarrow> if \<not> expired v then (checked, [RouterReplace ''/book'']) else (True, [])
         | None \<Rightarrow> (True, [])))"

datatype home_action = SignIn

fun Home_signIn :: "home_action \<Rightarrow> effect list" where
  "Home_signIn SignIn = [tracked login_start [], SigninRedirect]"

definition Home :: "bool \<Rightarrow> home_action node" where
  "Home checked =
     (if \<not> checked then El ''LoadingScreen'' [] []
      else El ''main'' []
        [El ''div'' []
          [El ''div'' [] [El ''Logo'' [AStr ''size'' ''lg''] []],
           El ''h1'' [] [Txt ''Sign in to Hivebook''],
           El ''p'' [] [Txt (''Your company'' @ rsquo @ ''s brain.'')],
           El ''Button'' [On ''click'' SignIn] [Txt ''Continue with ZITADEL'']]])"

section \<open>The sign-in callback\<close>

record callback_state =
  cb_ran :: bool
  cb_error :: "string option"

definition callback_init :: callback_state where
  "callback_init = \<lparr>cb_ran = False, cb_error = None\<rparr>"

text \<open>The mount effect: the second component says whether the code exchange is started.\<close>

definition Callback_effect :: "callback_state \<Rightarrow> callback_state \<times> bool" where
  "Callback_effect s = (if cb_ran s then (s, False) else (s\<lparr>cb_ran := True\<rparr>, True))"

text \<open>The exchanges started by a number of runs of the mount effect (Strict Mode runs it twice).\<close>

fun callback_mounts :: "nat \<Rightarrow> callback_state \<Rightarrow> bool list" where
  "callback_mounts 0 s = []"
| "callback_mounts (Suc n) s = (let (s', b) = Callback_effect s in b # callback_mounts n s')"

definition Callback_settle :: "thrown option \<Rightarrow> callback_state \<Rightarrow> callback_state \<times> effect list" where
  "Callback_settle r s =
     (case r of
        None \<Rightarrow> (s, [tracked login_success [], LocationAssign ''/''])
      | Some e \<Rightarrow> (s\<lparr>cb_error := Some (message e)\<rparr>,
                   [tracked login_error [(''message'', message e)]]))"

definition Callback :: "callback_state \<Rightarrow> 'a node" where
  "Callback s =
     El ''main'' []
       [El ''Logo'' [AStr ''size'' ''lg''] [],
        (if truthy_str (cb_error s)
         then El ''p'' [AStr ''role'' ''alert''] [Txt ''Sign-in failed: '', Txt (the (cb_error s))]
         else El ''p'' [] [Txt (''Completing sign-in'' @ ellipsis)])]"

section \<open>Signed out, silent renew, error boundary\<close>

definition SignedOut_effect :: "effect list" where
  "SignedOut_effect = [tracked logout [], SignoutRedirect]"

definition SignedOut_settle :: "thrown option \<Rightarrow> effect list" where
  "SignedOut_settle r = (case r of None \<Rightarrow> [] | Some _ \<Rightarrow> [LocationAssign ''/''])"

definition SignedOut :: "'a node" where
  "SignedOut = El ''main'' [] [Txt (''Signing out'' @ ellipsis)]"

text \<open>The silent-renew page shows nothing and swallows a failed callback.\<close>

definition SilentRenew :: "thrown option \<Rightarrow> 'a node list \<times> effect list" where
  "SilentRenew r = ([], [])"

record boundary_error =
  be_message :: string
  be_digest :: "string option"

definition Error_effect :: "boundary_error \<Rightarrow> effect list" where
  "Error_effect e =
     [ConsoleError (be_message e),
      tracked app_error ((''message'', be_message e) #
        (case be_digest e of None \<Rightarrow> [] | Some d \<Rightarrow> [(''digest'', d)]))]"

definition Error_view :: "'a \<Rightarrow> 'a node" where
  "Error_view reset =
     El ''main'' []
       [El ''h1'' [] [Txt ''Something went wrong''],
        El ''p'' [] [Txt ''An unexpected error occurred. Try again, or reload the page.''],
        El ''Button'' [On ''click'' reset] [Txt ''Try again'']]"

section \<open>Interface: classifying credential failures\<close>

text \<open>
  Three places of the client decide whether a failure ends the session. The contract they
  share: exactly the two credential codes of a Connect error do.
\<close>

locale credential_failure =
  fixes is_auth :: "thrown \<Rightarrow> bool"
  assumes auth_codes:
    "is_auth (ConnectError c r m) \<longleftrightarrow> c = Unauthenticated \<or> c = PermissionDenied"
  and not_connect: "\<not> is_auth (OtherError x)"
begin

lemma agrees: "is_auth e \<longleftrightarrow> (\<exists>c r m. e = ConnectError c r m \<and> c \<in> {Unauthenticated, PermissionDenied})"
  by (cases e) (auto simp: auth_codes not_connect)

lemma unauthenticated: "isUnauthenticated e \<Longrightarrow> is_auth e"
  by (cases e) (auto simp: auth_codes isUnauthenticated_def)

end

interpretation session_policy: credential_failure isAuthError
  by unfold_locales (simp_all add: isAuthError_def)

lemmas gate_defs = AppGate_def AppGate_effect_def

lemma callback_mounts_ran: "cb_ran s \<Longrightarrow> callback_mounts n s = replicate n False"
  by (induction n) (simp_all add: Callback_effect_def)

section \<open>Properties\<close>

text \<open>
  The shell is shown to signed-in, onboarded tenants only: the gate renders its children
  exactly when the session query is settled, has no transient error and its tenant is
  onboarded; otherwise it renders one placeholder of its own.
\<close>

theorem AppGate_children_iff:
  "AppGate refetch q [El ''AppShell'' [] []] = [El ''AppShell'' [] []] \<longleftrightarrow>
     \<not> q_isPending q \<and> session_onboarded q \<and>
     (case q_error q of None \<Rightarrow> True | Some e \<Rightarrow> isAuthError e)"
  by (auto simp: AppGate_def split: option.splits)

text \<open>
  C3. Only a credential failure signs the user out: the gate drops the stored user, and leaves
  for the sign-in page, exactly when the settled session query failed with Unauthenticated or
  PermissionDenied; any other failure changes nothing and shows the retry view.
\<close>

theorem AppGate_signs_out_iff:
  "(RemoveUser \<in> set (AppGate_effect q) \<longleftrightarrow>
     \<not> q_isPending q \<and>
     (\<exists>c r m. q_error q = Some (ConnectError c r m) \<and> c \<in> {Unauthenticated, PermissionDenied})) \<and>
   (RouterReplace ''/'' \<in> set (AppGate_effect q) \<longleftrightarrow> RemoveUser \<in> set (AppGate_effect q))"
  by (auto simp: AppGate_effect_def session_policy.agrees split: option.splits)

text \<open>
  The single-use authorization code is exchanged once: however often React runs the
  callback page's mount effect, the exchange is started by the first run only.
\<close>

theorem Callback_exchanges_once:
  "callback_mounts (Suc n) callback_init = True # replicate n False"
  by (simp add: callback_mounts_ran callback_init_def Callback_effect_def)

text \<open>
  A failed exchange whose exception has an empty message is invisible: the callback page
  keeps saying that sign-in is completing, with no alert.
\<close>

lemma Callback_hides_empty_error:
  "fst (Callback_settle (Some (OtherError [])) (fst (Callback_effect callback_init)))
     = \<lparr>cb_ran = True, cb_error = Some []\<rparr> \<and>
   texts (Callback \<lparr>cb_ran = True, cb_error = Some []\<rparr>) = [''Completing sign-in'' @ ellipsis] \<and>
   texts (Callback \<lparr>cb_ran = True, cb_error = Some (c # cs)\<rparr>) = [''Sign-in failed: '', c # cs]"
  by (simp add: Callback_settle_def Callback_effect_def callback_init_def Callback_def truthy_str_def)

end
