(* ===== verification/Streams.thy ===== *)
theory Streams
  imports Session
begin

text \<open>
  The two server-streamed subscriptions: connection snapshots
  (\<open>web/lib/api/use-connections-stream.ts\<close>) and per-project status
  (\<open>web/lib/api/use-projects-stream.ts\<close>).

  Each hook runs one asynchronous loop. Its state is the hook's React state, the loop's
  \<open>attempt\<close> counter, whether the component has unmounted (\<open>ac.signal.aborted\<close>) and where the
  loop is: reading the stream, sleeping before a reconnect, or left. The events are what
  the loop awaits: a message, the end of the stream, a thrown error, the timer, and the
  unmount. \<open>reconnecting\<close> states the contract both loops keep; its lemmas are proved once.
\<close>

section \<open>The loops\<close>

datatype mode = Streaming | Sleeping nat | Stopped

datatype 'd stream_event =
    Message 'd
  | StreamEnd
  | StreamThrow thrown
  | TimerFired
  | Unmount

text \<open>\<open>Math.min(30_000, 1_000 * 2 ** attempt)\<close>\<close>

definition backoff :: "nat \<Rightarrow> nat" where
  "backoff attempt = min 30000 (1000 * 2 ^ attempt)"

text \<open>The copy of the classifier in \<open>use-connections-stream.ts\<close>.\<close>

definition stream_isAuthError :: "thrown \<Rightarrow> bool" where
  "stream_isAuthError e \<longleftrightarrow>
     (case e of ConnectError c _ _ \<Rightarrow> c = Unauthenticated \<or> c = PermissionDenied
              | OtherError _ \<Rightarrow> False)"

record conn_stream =
  cs_connections :: "Connection list option"
  cs_error :: "thrown option"
  cs_attempt :: nat
  cs_aborted :: bool
  cs_mode :: mode

definition conn_init :: conn_stream where
  "conn_init = \<lparr>cs_connections = None, cs_error = None, cs_attempt = 0,
                cs_aborted = False, cs_mode = Streaming\<rparr>"

text \<open>Below the \<open>try\<close>: leave when unmounted, else sleep and count the attempt.\<close>

definition conn_retry :: "conn_stream \<Rightarrow> conn_stream" where
  "conn_retry s =
     (if cs_aborted s then s\<lparr>cs_mode := Stopped\<rparr>
      else s\<lparr>cs_mode := Sleeping (backoff (cs_attempt s)), cs_attempt := Suc (cs_attempt s)\<rparr>)"

fun conn_step :: "Connection list stream_event \<Rightarrow> conn_stream \<Rightarrow> conn_stream" where
  "conn_step (Message d) s =
     (case cs_mode s of
        Streaming \<Rightarrow> s\<lparr>cs_attempt := 0, cs_connections := Some d, cs_error := None\<rparr>
      | _ \<Rightarrow> s)"
| "conn_step StreamEnd s = (case cs_mode s of Streaming \<Rightarrow> conn_retry s | _ \<Rightarrow> s)"
| "conn_step (StreamThrow e) s =
     (case cs_mode s of
        Streaming \<Rightarrow>
          if cs_aborted s then s\<lparr>cs_mode := Stopped\<rparr>
          else if stream_isAuthError e then s\<lparr>cs_error := Some e, cs_mode := Stopped\<rparr>
          else conn_retry s
      | _ \<Rightarrow> s)"
| "conn_step TimerFired s =
     (case cs_mode s of
        Sleeping _ \<Rightarrow> s\<lparr>cs_mode := if cs_aborted s then Stopped else Streaming\<rparr>
      | _ \<Rightarrow> s)"
| "conn_step Unmount s = s\<lparr>cs_aborted := True\<rparr>"

fun conn_run :: "Connection list stream_event list \<Rightarrow> conn_stream \<Rightarrow> conn_stream" where
  "conn_run [] s = s"
| "conn_run (e # es) s = conn_run es (conn_step e s)"

text \<open>The test written inline in \<open>use-projects-stream.ts\<close>.\<close>

definition projects_isAuthError :: "thrown \<Rightarrow> bool" where
  "projects_isAuthError e \<longleftrightarrow>
     (case e of ConnectError c _ _ \<Rightarrow> c = Unauthenticated \<or> c = PermissionDenied
              | OtherError _ \<Rightarrow> False)"

record proj_stream =
  ps_projects :: "Project list option"
  ps_attempt :: nat
  ps_aborted :: bool
  ps_mode :: mode

text \<open>The hook stays idle without a connection id (\<open>null\<close> and the empty string are falsy).\<close>

definition proj_init :: "string option \<Rightarrow> proj_stream" where
  "proj_init connectionId =
     \<lparr>ps_projects = None, ps_attempt = 0, ps_aborted = False,
      ps_mode = (if truthy_str connectionId then Streaming else Stopped)\<rparr>"

definition proj_retry :: "proj_stream \<Rightarrow> proj_stream" where
  "proj_retry s =
     (if ps_aborted s then s\<lparr>ps_mode := Stopped\<rparr>
      else s\<lparr>ps_mode := Sleeping (backoff (ps_attempt s)), ps_attempt := Suc (ps_attempt s)\<rparr>)"

fun proj_step :: "Project list stream_event \<Rightarrow> proj_stream \<Rightarrow> proj_stream" where
  "proj_step (Message d) s =
     (case ps_mode s of
        Streaming \<Rightarrow> s\<lparr>ps_attempt := 0, ps_projects := Some d\<rparr>
      | _ \<Rightarrow> s)"
| "proj_step StreamEnd s = (case ps_mode s of Streaming \<Rightarrow> proj_retry s | _ \<Rightarrow> s)"
| "proj_step (StreamThrow e) s =
     (case ps_mode s of
        Streaming \<Rightarrow>
          if ps_aborted s then s\<lparr>ps_mode := Stopped\<rparr>
          else if projects_isAuthError e then s\<lparr>ps_mode := Stopped\<rparr>
          else proj_retry s
      | _ \<Rightarrow> s)"
| "proj_step TimerFired s =
     (case ps_mode s of
        Sleeping _ \<Rightarrow> s\<lparr>ps_mode := if ps_aborted s then Stopped else Streaming\<rparr>
      | _ \<Rightarrow> s)"
| "proj_step Unmount s = s\<lparr>ps_aborted := True\<rparr>"

fun proj_run :: "Project list stream_event list \<Rightarrow> proj_stream \<Rightarrow> proj_stream" where
  "proj_run [] s = s"
| "proj_run (e # es) s = proj_run es (proj_step e s)"

section \<open>Interface: a reconnecting subscription\<close>

lemma backoff_bounds: "1000 \<le> backoff n \<and> backoff n \<le> 30000"
  by (simp add: backoff_def)

lemma backoff_mono: "m \<le> n \<Longrightarrow> backoff m \<le> backoff n"
  by (auto simp: backoff_def min_def intro: order_trans power_increasing)

lemma backoff_saturates: "5 \<le> n \<Longrightarrow> backoff n = 30000"
proof -
  assume "5 \<le> n"
  then have "(2::nat) ^ 5 \<le> 2 ^ n" by (intro power_increasing) auto
  then show ?thesis by (simp add: backoff_def)
qed

locale reconnecting = credential_failure is_auth
  for is_auth :: "thrown \<Rightarrow> bool" +
  fixes step :: "'d stream_event \<Rightarrow> 's \<Rightarrow> 's"
    and run :: "'d stream_event list \<Rightarrow> 's \<Rightarrow> 's"
    and latest :: "'s \<Rightarrow> 'd option"
    and attempt :: "'s \<Rightarrow> nat"
    and aborted :: "'s \<Rightarrow> bool"
    and mode :: "'s \<Rightarrow> mode"
  assumes run_Nil: "run [] s = s"
    and run_Cons: "run (e # es) s = run es (step e s)"
    and message: "mode s = Streaming \<Longrightarrow>
          latest (step (Message d) s) = Some d \<and> attempt (step (Message d) s) = 0 \<and>
          aborted (step (Message d) s) = aborted s \<and> mode (step (Message d) s) = Streaming"
    and transient: "mode s = Streaming \<Longrightarrow> \<not> aborted s \<Longrightarrow>
          e = StreamEnd \<or> (\<exists>x. e = StreamThrow x \<and> \<not> is_auth x) \<Longrightarrow>
          mode (step e s) = Sleeping (backoff (attempt s)) \<and> attempt (step e s) = Suc (attempt s) \<and>
          \<not> aborted (step e s) \<and> latest (step e s) = latest s"
    and rejected: "mode s = Streaming \<Longrightarrow> is_auth x \<Longrightarrow> mode (step (StreamThrow x) s) = Stopped"
    and timer: "mode s = Sleeping k \<Longrightarrow>
          mode (step TimerFired s) = (if aborted s then Stopped else Streaming) \<and>
          attempt (step TimerFired s) = attempt s \<and> aborted (step TimerFired s) = aborted s \<and>
          latest (step TimerFired s) = latest s"
    and stopped: "mode s = Stopped \<Longrightarrow> mode (step e s) = Stopped \<and> latest (step e s) = latest s"
    and leave: "mode s = Streaming \<Longrightarrow> aborted s \<Longrightarrow>
          e = StreamEnd \<or> (\<exists>x. e = StreamThrow x) \<Longrightarrow> mode (step e s) = Stopped"
begin

lemma run_append: "run (es @ fs) s = run fs (run es s)"
  by (induction es arbitrary: s) (simp_all add: run_Nil run_Cons)

lemma stays_stopped: "mode s = Stopped \<Longrightarrow> mode (run es s) = Stopped \<and> latest (run es s) = latest s"
  by (induction es arbitrary: s) (simp_all add: run_Nil run_Cons stopped)

text \<open>\<open>n\<close> failed connections in a row, each followed by its timer.\<close>

lemma outage:
  assumes "mode s = Streaming" "\<not> aborted s" "\<not> is_auth x"
  shows "mode (run (concat (replicate n [StreamThrow x, TimerFired])) s) = Streaming \<and>
         attempt (run (concat (replicate n [StreamThrow x, TimerFired])) s) = attempt s + n \<and>
         \<not> aborted (run (concat (replicate n [StreamThrow x, TimerFired])) s) \<and>
         latest (run (concat (replicate n [StreamThrow x, TimerFired])) s) = latest s"
  using assms(1,2)
proof (induction n arbitrary: s)
  case 0
  then show ?case by (simp add: run_Nil)
next
  case (Suc n)
  let ?t = "step (StreamThrow x) s"
  have t: "mode ?t = Sleeping (backoff (attempt s))" "attempt ?t = Suc (attempt s)"
    "\<not> aborted ?t" "latest ?t = latest s"
    using transient[OF Suc.prems(1,2), of "StreamThrow x"] assms(3) by auto
  have u: "mode (step TimerFired ?t) = Streaming" "attempt (step TimerFired ?t) = Suc (attempt s)"
    "\<not> aborted (step TimerFired ?t)" "latest (step TimerFired ?t) = latest s"
    using timer[OF t(1)] t by auto
  show ?case using Suc.IH[OF u(1,3)] u by (simp add: run_Cons)
qed

lemma nth_delay:
  assumes "mode s = Streaming" "\<not> aborted s" "\<not> is_auth x"
  shows "mode (run (Message d # concat (replicate n [StreamThrow x, TimerFired]) @ [StreamThrow x]) s)
           = Sleeping (backoff n)"
proof -
  let ?m = "step (Message d) s"
  have m: "mode ?m = Streaming" "\<not> aborted ?m" "attempt ?m = 0"
    using message[OF assms(1), of d] assms(2) by auto
  let ?o = "run (concat (replicate n [StreamThrow x, TimerFired])) ?m"
  have "mode ?o = Streaming" "attempt ?o = n" "\<not> aborted ?o"
    using outage[OF m(1,2) assms(3), of n] m(3) by auto
  then show ?thesis
    using transient[of ?o "StreamThrow x"] assms(3) by (simp add: run_Cons run_append run_Nil)
qed

end

lemmas conn_defs = conn_init_def conn_retry_def stream_isAuthError_def
lemmas proj_defs = proj_init_def proj_retry_def projects_isAuthError_def

interpretation connections: reconnecting stream_isAuthError conn_step conn_run
  cs_connections cs_attempt cs_aborted cs_mode
proof
  fix e :: "Connection list stream_event" and s
  show "cs_mode s = Stopped \<Longrightarrow>
        cs_mode (conn_step e s) = Stopped \<and> cs_connections (conn_step e s) = cs_connections s"
    by (cases e) auto
qed (auto simp: conn_defs split: mode.splits)

interpretation projects: reconnecting projects_isAuthError proj_step proj_run
  ps_projects ps_attempt ps_aborted ps_mode
proof
  fix e :: "Project list stream_event" and s
  show "ps_mode s = Stopped \<Longrightarrow>
        ps_mode (proj_step e s) = Stopped \<and> ps_projects (proj_step e s) = ps_projects s"
    by (cases e) auto
qed (auto simp: proj_defs split: mode.splits)

section \<open>The surfaced error\<close>

definition error_inv :: "conn_stream \<Rightarrow> bool" where
  "error_inv s \<longleftrightarrow> (\<forall>e. cs_error s = Some e \<longrightarrow> stream_isAuthError e \<and> cs_mode s = Stopped)"

lemma conn_step_error_inv: "error_inv s \<Longrightarrow> error_inv (conn_step e s)"
  by (cases e) (auto simp: error_inv_def conn_retry_def split: mode.splits)

lemma conn_run_error_inv: "error_inv s \<Longrightarrow> error_inv (conn_run es s)"
  by (induction es arbitrary: s) (auto simp: conn_step_error_inv)

section \<open>Properties\<close>

text \<open>
  C19. Capped exponential backoff: after a healthy message, the \<open>n\<close>-th transient failure in a
  row (counting from 0) makes the connections loop sleep \<open>min 30000 (1000 * 2 ^ n)\<close>
  milliseconds, so every sleep is between one and thirty seconds.
\<close>

theorem connections_backoff_schedule:
  assumes "cs_mode s = Streaming" and "\<not> cs_aborted s" and "\<not> stream_isAuthError x"
  shows "cs_mode (conn_run (Message d # concat (replicate n [StreamThrow x, TimerFired])
                            @ [StreamThrow x]) s)
           = Sleeping (min 30000 (1000 * 2 ^ n)) \<and>
         1000 \<le> min 30000 (1000 * 2 ^ n :: nat)"
  using connections.nth_delay[OF assms, of d n] backoff_bounds[of n] by (simp add: backoff_def)

theorem connections_backoff_schedule_witness:
  "cs_mode (conn_run (Message [] # concat (replicate 3 [StreamThrow (OtherError []), TimerFired])
                      @ [StreamThrow (OtherError [])]) conn_init) = Sleeping 8000"
  using connections_backoff_schedule[of conn_init "OtherError []" "[]" 3]
  by (simp add: conn_defs)

text \<open>
  C23. The connections hook reports an error only when it has given up: in every run from the
  start, a reported error is a credential failure and the loop has stopped for good, keeping
  the last snapshot; transient failures never set it.
\<close>

theorem connections_error_is_final:
  assumes "cs_error (conn_run es conn_init) = Some e"
  shows "(\<exists>c r m. e = ConnectError c r m \<and> c \<in> {Unauthenticated, PermissionDenied}) \<and>
         cs_mode (conn_run (es @ fs) conn_init) = Stopped \<and>
         cs_connections (conn_run (es @ fs) conn_init) = cs_connections (conn_run es conn_init)"
proof -
  have "error_inv (conn_run es conn_init)"
    by (intro conn_run_error_inv) (simp add: error_inv_def conn_init_def)
  with assms have "stream_isAuthError e" and m: "cs_mode (conn_run es conn_init) = Stopped"
    by (auto simp: error_inv_def)
  then show ?thesis
    using connections.stays_stopped[OF m, of fs] by (simp add: connections.agrees connections.run_append)
qed

theorem connections_error_is_final_witness:
  "cs_error (conn_run [Message [], StreamThrow (ConnectError PermissionDenied [] [])] conn_init)
     = Some (ConnectError PermissionDenied [] []) \<and>
   cs_mode (conn_run ([Message [], StreamThrow (ConnectError PermissionDenied [] [])] @
                      [TimerFired, Message []]) conn_init) = Stopped"
proof -
  have h: "cs_error (conn_run [Message [], StreamThrow (ConnectError PermissionDenied [] [])] conn_init)
             = Some (ConnectError PermissionDenied [] [])"
    by (simp add: conn_defs)
  from connections_error_is_final[OF h, of "[TimerFired, Message []]"] h show ?thesis by blast
qed

text \<open>
  The projects hook follows the same schedule, and stops for good, with its last snapshot
  kept, on the first credential failure; without a connection id it never leaves its idle
  state and never has data.
\<close>

theorem projects_stream_stops:
  assumes "ps_mode (proj_run es (proj_init c)) = Streaming" and "projects_isAuthError x"
  shows "ps_mode (proj_run (es @ StreamThrow x # fs) (proj_init c)) = Stopped \<and>
         ps_projects (proj_run fs (proj_init None)) = None \<and>
         ps_mode (proj_run fs (proj_init (Some []))) = Stopped"
proof -
  have "ps_mode (proj_step (StreamThrow x) (proj_run es (proj_init c))) = Stopped"
    by (rule projects.rejected[OF assms])
  moreover have "ps_mode (proj_init None) = Stopped" "ps_mode (proj_init (Some [])) = Stopped"
    by (simp_all add: proj_init_def truthy_str_def)
  moreover have "ps_projects (proj_init None) = None" by (simp add: proj_init_def)
  ultimately show ?thesis
    using projects.stays_stopped projects.run_append projects.run_Cons by metis
qed

theorem projects_stream_stops_witness:
  "ps_mode (proj_run ([Message []] @ StreamThrow (ConnectError Unauthenticated [] []) # [TimerFired])
              (proj_init (Some ''c1''))) = Stopped"
  using projects_stream_stops[of "[Message []]" "Some ''c1''" "ConnectError Unauthenticated [] []"]
  by (simp add: proj_defs truthy_str_def)

end
