(* ===== verification/Selection.thy ===== *)
theory Selection
  imports Proto Schedule Confirm Streams "HOL-Library.Multiset"
begin

text \<open>
  Choosing the projects a source syncs: the settings panel
  (\<open>web/components/app/connector-projects.tsx\<close>), the status cells
  (\<open>web/components/app/project-status.tsx\<close>, \<open>connection-status.tsx\<close>) and the manage page
  (\<open>web/app/(app)/sources/[id]/manage/page.tsx\<close>).

  Unsaved toggles are a map from project ids to booleans layered over the saved selection
  (\<open>pending\<close>). \<open>fmt\<close> is \<open>toLocaleString\<close> on counts and \<open>lc\<close> is \<open>localeCompare\<close>: both depend on
  the browser's locale and are parameters, with no assumption on them.
\<close>

type_synonym pending = "string \<rightharpoonup> bool"

section \<open>Status cells\<close>

definition progressLabel :: "(nat \<Rightarrow> string) \<Rightarrow> Project \<Rightarrow> string" where
  "progressLabel fmt p =
     (if proj_totalEstimate p > 0 then fmt (proj_artifactCount p) @ '' / '' @ fmt (proj_totalEstimate p)
      else if proj_artifactCount p > 0 then fmt (proj_artifactCount p) @ '' synced''
      else ''0 items'')"

definition ProjectStatus :: "(nat \<Rightarrow> string) \<Rightarrow> Project \<Rightarrow> 'a node" where
  "ProjectStatus fmt p =
     (if proj_status p = ''queued'' then El ''span'' [] [El ''RiTimeLine'' [] [], Txt (progressLabel fmt p)]
      else if proj_status p = ''syncing'' then El ''span'' [] [El ''AnimatedSpinner'' [] [], Txt (progressLabel fmt p)]
      else if proj_status p = ''error'' then El ''span'' [AStr ''title'' (proj_lastError p)] [Txt ''Error'']
      else El ''span'' [] [Txt (progressLabel fmt p)])"

text \<open>The panel's own variant of the status cell.\<close>

definition PanelProjectStatus :: "Project \<Rightarrow> 'a node" where
  "PanelProjectStatus p =
     (if proj_status p = ''queued'' then El ''span'' [] [El ''RiTimeLine'' [] [], Txt ''Queued'']
      else if proj_status p = ''syncing''
      then El ''span'' [] [El ''AnimatedSpinner'' [] [],
             Txt (if proj_artifactCount p > 0 then show_nat (proj_artifactCount p) @ '' synced'' else ''Syncing'' @ ellipsis)]
      else if proj_status p = ''synced'' then El ''span'' [] [Txt (show_nat (proj_artifactCount p) @ '' synced'')]
      else if proj_status p = ''error'' then El ''span'' [AStr ''title'' (proj_lastError p)] [Txt ''Error'']
      else El ''span'' [] [Txt ''Idle''])"

datatype tone = ToneOk | ToneMuted | ToneError

fun connectionStatus_of :: "ConnectionStatus \<Rightarrow> string \<Rightarrow> string \<times> tone" where
  "connectionStatus_of CONNECTED lastError = (''Connected'', ToneOk)"
| "connectionStatus_of SYNCING lastError = (''Updating'' @ ellipsis, ToneMuted)"
| "connectionStatus_of STOPPING lastError = (''Stopping'' @ ellipsis, ToneMuted)"
| "connectionStatus_of NEEDS_REAUTH lastError = (''Disconnected '' @ emdash @ '' reconnect needed'', ToneError)"
| "connectionStatus_of ERROR lastError =
     ((if lastError \<noteq> [] then ''Error '' @ middot @ '' '' @ lastError else ''Error''), ToneError)"
| "connectionStatus_of _ lastError = (''Connected'', ToneOk)"

definition connectionStatus :: "Connection \<Rightarrow> string \<times> tone" where
  "connectionStatus c = connectionStatus_of (conn_status c) (conn_lastError c)"

definition ConnectionStatusText :: "Connection \<Rightarrow> 'a node" where
  "ConnectionStatusText c =
     El ''span'' [ABool ''destructive'' (snd (connectionStatus c) = ToneError)] [Txt (fst (connectionStatus c))]"

section \<open>The selection\<close>

definition isSelected :: "pending \<Rightarrow> Project \<Rightarrow> bool" where
  "isSelected pend p = nullish (pend (proj_id p)) (proj_selected p)"

definition is_dirty :: "pending \<Rightarrow> Project \<Rightarrow> bool" where
  "is_dirty pend p \<longleftrightarrow> pend (proj_id p) \<noteq> None \<and> pend (proj_id p) \<noteq> Some (proj_selected p)"

definition selectedCount :: "pending \<Rightarrow> Project list \<Rightarrow> nat" where
  "selectedCount pend ps = length (filter (isSelected pend) ps)"

definition allSelected :: "pending \<Rightarrow> Project list \<Rightarrow> bool" where
  "allSelected pend ps \<longleftrightarrow> length ps > 0 \<and> selectedCount pend ps = length ps"

definition someSelected :: "pending \<Rightarrow> Project list \<Rightarrow> bool" where
  "someSelected pend ps \<longleftrightarrow> selectedCount pend ps > 0 \<and> \<not> allSelected pend ps"

definition toggle :: "string \<Rightarrow> bool \<Rightarrow> pending \<Rightarrow> pending" where
  "toggle pid checked pend = pend(pid \<mapsto> checked)"

text \<open>\<open>Object.fromEntries(ps.map((p) => [p.id, target]))\<close>\<close>

definition fromEntries :: "bool \<Rightarrow> Project list \<Rightarrow> pending" where
  "fromEntries target ps = map_of (rev (map (\<lambda>p. (proj_id p, target)) ps))"

section \<open>ConnectorProjects\<close>

text \<open>The stream's snapshot wins over the query's answer.\<close>

definition panel_projects :: "Project list option \<Rightarrow> Project list query \<Rightarrow> Project list option" where
  "panel_projects streamed discover =
     (case streamed of Some ps \<Rightarrow> Some ps | None \<Rightarrow> q_data discover)"

definition panel_dirty :: "pending \<Rightarrow> Project list \<Rightarrow> bool" where
  "panel_dirty pend ps = list_ex (is_dirty pend) ps"

definition panel_toggleAll :: "Project list \<Rightarrow> pending \<Rightarrow> pending" where
  "panel_toggleAll ps pend = fromEntries (\<not> allSelected pend ps) ps"

definition panel_onSave :: "string \<Rightarrow> pending \<Rightarrow> Project list \<Rightarrow> rpc" where
  "panel_onSave connectionId pend ps =
     SetProjectSelection connectionId (map proj_id (filter (isSelected pend) ps))"

text \<open>After the save: an error keeps the edits, success refetches and then clears them.\<close>

fun panel_saved :: "thrown option \<Rightarrow> Project list query \<Rightarrow> pending \<Rightarrow> Project list query \<Rightarrow>
    (pending \<times> Project list query) \<times> effect list" where
  "panel_saved (Some e) refetched pend discover =
     ((pend, discover), [ToastError (''Couldn'' @ squote @ ''t save selection: '' @ rawMessage e)])"
| "panel_saved None refetched pend discover = ((Map.empty, refetched), [])"

datatype panel_action = PToggleAll | PToggle string bool | PSave

definition project_row :: "pending \<Rightarrow> Project \<Rightarrow> panel_action node" where
  "project_row pend p =
     El ''li'' [AStr ''key'' (proj_id p)]
       [El ''input'' [AStr ''type'' ''checkbox'', ABool ''checked'' (isSelected pend p),
                      OnFlag ''change'' (PToggle (proj_id p)),
                      AStr ''aria-label'' (''Sync '' @ str_or (proj_name p) (proj_id p))] [],
        El ''span'' [] [Txt (str_or (proj_name p) (proj_id p))],
        PanelProjectStatus p]"

definition ConnectorProjects ::
  "Project list option \<Rightarrow> Project list query \<Rightarrow> bool \<Rightarrow> pending \<Rightarrow> panel_action node" where
  "ConnectorProjects streamed discover savePending pend =
     (case panel_projects streamed discover of
        None \<Rightarrow> El ''div'' [] [El ''AnimatedSpinner'' [] [], Txt (''Discovering projects'' @ ellipsis)]
      | Some ps \<Rightarrow>
          if q_isPending discover \<and> ps = []
          then El ''div'' [] [El ''AnimatedSpinner'' [] [], Txt (''Discovering projects'' @ ellipsis)]
          else if ps = []
          then El ''div'' [] [Txt ''No projects available for this account. If your repos live in an organization, make sure the GitHub App is installed on it with repo access.'']
          else
            let syncing = length (filter (\<lambda>p. proj_status p = ''syncing'') ps);
                queued = length (filter (\<lambda>p. proj_status p = ''queued'') ps);
                anyActive = (syncing > 0 \<or> queued > 0)
            in El ''div'' []
              ([El ''div'' []
                 ([El ''label'' []
                    [El ''input'' [AStr ''type'' ''checkbox'', ABool ''checked'' (allSelected pend ps),
                                   ABool ''indeterminate'' (someSelected pend ps), On ''change'' PToggleAll,
                                   AStr ''aria-label'' ''Select all projects''] [],
                     Txt (show_nat (selectedCount pend ps) @ '' of '' @ show_nat (length ps) @ '' selected'')]] @
                  (if panel_dirty pend ps
                   then [El ''Button'' [On ''click'' PSave, ABool ''disabled'' savePending]
                          [Txt (if savePending then ''Saving'' @ ellipsis else ''Save selection'')]]
                   else shown_if anyActive
                          [El ''span'' [] [El ''AnimatedSpinner'' [] [],
                             Txt (if syncing > 0 then ''Syncing'' @ ellipsis else ''Preparing'' @ ellipsis)]]))] @
               shown_if anyActive [El ''div'' [] [El ''div'' [] []]] @
               [El ''ul'' [] (map (project_row pend) ps)]))"

section \<open>The manage page: data\<close>

record manage_props =
  mp_connectionId :: string
  mp_connectorId :: string
  mp_account :: string
  mp_connectorName :: string
  mp_title :: string
  mp_onboarded :: bool
  mp_catalogDiscovered :: bool
  mp_autoSyncEnabled :: bool
  mp_syncIntervalSeconds :: int

text \<open>What the hooks deliver: the projects stream, the full list and the search results.\<close>

record manage_env =
  env_streamed :: "Project list option"
  env_discover :: "Project list query"
  env_search :: "Project list query"

record manage =
  mg_searchInput :: string
  mg_query :: string
  mg_pending :: pending
  mg_schedEnabled :: bool
  mg_schedInterval :: int
  mg_schedule :: schedule
  mg_inflight :: "(bool \<times> nat \<times> bool) option"
    \<comment> \<open>a save under way: its captured \<open>firstTime\<close>, the requests without an answer, whether one failed\<close>
  mg_settling :: "bool list"  \<comment> \<open>succeeded saves that await the refetch, with their \<open>firstTime\<close>\<close>
  mg_dialog :: dialog
  mg_removing :: bool

definition manage_init :: "manage_props \<Rightarrow> manage" where
  "manage_init p =
     \<lparr>mg_searchInput = [], mg_query = [], mg_pending = Map.empty,
      mg_schedEnabled = mp_autoSyncEnabled p, mg_schedInterval = mp_syncIntervalSeconds p,
      mg_schedule = schedule_init (mp_syncIntervalSeconds p), mg_inflight = None, mg_settling = [],
      mg_dialog = dialog_init, mg_removing = False\<rparr>"

definition allProjects :: "manage_env \<Rightarrow> Project list option" where
  "allProjects env = (case env_streamed env of Some ps \<Rightarrow> Some ps | None \<Rightarrow> q_data (env_discover env))"

definition searching :: "manage \<Rightarrow> bool" where
  "searching s \<longleftrightarrow> length (mg_query s) > 0"

definition shown_projects :: "manage_env \<Rightarrow> manage \<Rightarrow> Project list option" where
  "shown_projects env s =
     (if searching s then (case q_data (env_search env) of Some ps \<Rightarrow> Some ps | None \<Rightarrow> allProjects env)
      else allProjects env)"

definition isSelectable :: "Project \<Rightarrow> bool" where
  "isSelectable p \<longleftrightarrow> proj_totalEstimate p > 0"

definition selectable :: "manage_env \<Rightarrow> manage \<Rightarrow> Project list" where
  "selectable env s = filter isSelectable (nullish (shown_projects env s) [])"

definition selectionDirty :: "manage_env \<Rightarrow> manage \<Rightarrow> bool" where
  "selectionDirty env s =
     list_ex (\<lambda>p. isSelectable p \<and> is_dirty (mg_pending s) p) (nullish (allProjects env) [])"

definition scheduleDirty :: "manage_props \<Rightarrow> manage \<Rightarrow> bool" where
  "scheduleDirty p s \<longleftrightarrow>
     mg_schedEnabled s \<noteq> mp_autoSyncEnabled p \<or> mg_schedInterval s \<noteq> mp_syncIntervalSeconds p"

definition dirty :: "manage_props \<Rightarrow> manage_env \<Rightarrow> manage \<Rightarrow> bool" where
  "dirty p env s \<longleftrightarrow> selectionDirty env s \<or> scheduleDirty p s"

text \<open>\<open>sel\<close> are the selectable projects among those shown.\<close>

definition merge_toggleAll :: "Project list \<Rightarrow> pending \<Rightarrow> pending" where
  "merge_toggleAll sel pend = pend ++ fromEntries (\<not> allSelected pend sel) sel"

definition selectedIds :: "manage_env \<Rightarrow> manage \<Rightarrow> string list" where
  "selectedIds env s =
     map proj_id (filter (isSelected (mg_pending s)) (filter isSelectable (nullish (allProjects env) [])))"

text \<open>The requests \<open>onSave\<close> issues.\<close>

definition onSave :: "manage_props \<Rightarrow> manage_env \<Rightarrow> manage \<Rightarrow> rpc list" where
  "onSave p env s =
     (if \<not> mp_onboarded p \<or> selectionDirty env s
      then [SetProjectSelection (mp_connectionId p) (selectedIds env s)] else []) @
     (if scheduleDirty p s
      then [UpdateSyncSchedule (mp_connectionId p) (mg_schedEnabled s) (mg_schedInterval s)] else [])"

text \<open>
  One answer to a request of the save: \<open>Promise.all\<close> rejects with the first failure and resolves
  with the last answer when none failed; \<open>saving\<close> lasts until every request is answered.
\<close>

definition save_reply :: "thrown option \<Rightarrow> manage \<Rightarrow> manage \<times> effect list" where
  "save_reply r s =
     (case mg_inflight s of
        None \<Rightarrow> (s, [])
      | Some (firstTime, n, failed) \<Rightarrow>
          (let failed' = (failed \<or> r \<noteq> None);
               s' = s\<lparr>mg_inflight := (if n \<le> 1 then None else Some (firstTime, n - 1, failed'))\<rparr>
           in case r of
                Some e \<Rightarrow>
                  (s', if failed then [] else
                     [ToastError (''Couldn'' @ squote @ ''t save: '' @
                        (case e of ConnectError c raw m \<Rightarrow> raw | OtherError m \<Rightarrow> ''please try again''))])
              | None \<Rightarrow>
                  if n \<le> 1 \<and> \<not> failed then (s'\<lparr>mg_settling := mg_settling s @ [firstTime]\<rparr>, [Refetch])
                  else (s', [])))"

text \<open>After the awaited refetch.\<close>

definition save_refetched :: "manage_props \<Rightarrow> manage \<Rightarrow> manage \<times> effect list" where
  "save_refetched p s =
     (case mg_settling s of
        [] \<Rightarrow> (s, [])
      | firstTime # rest \<Rightarrow>
          (s\<lparr>mg_settling := rest, mg_pending := Map.empty\<rparr>,
           ToastSuccess ''Saved'' #
           (if firstTime then [RouterPush (''/sources/'' @ mp_connectionId p)] else [])))"

section \<open>The manage page: the order of the list\<close>

text \<open>A stable sort by a comparison function, as \<open>Array.prototype.sort\<close>.\<close>

fun insert_by :: "('a \<Rightarrow> 'a \<Rightarrow> int) \<Rightarrow> 'a \<Rightarrow> 'a list \<Rightarrow> 'a list" where
  "insert_by cmp x [] = [x]"
| "insert_by cmp x (y # ys) = (if cmp x y \<le> 0 then x # y # ys else y # insert_by cmp x ys)"

definition sort_by :: "('a \<Rightarrow> 'a \<Rightarrow> int) \<Rightarrow> 'a list \<Rightarrow> 'a list" where
  "sort_by cmp xs = foldr (insert_by cmp) xs []"

definition heavier :: "(string \<Rightarrow> string \<Rightarrow> int) \<Rightarrow> Project \<Rightarrow> Project \<Rightarrow> int" where
  "heavier lc a b =
     (let d1 = int (proj_totalEstimate b) - int (proj_totalEstimate a);
          d2 = int (proj_artifactCount b) - int (proj_artifactCount a)
      in if d1 \<noteq> 0 then d1 else if d2 \<noteq> 0 then d2
         else lc (str_or (proj_name a) (proj_id a)) (str_or (proj_name b) (proj_id b)))"

definition ordered :: "(string \<Rightarrow> string \<Rightarrow> int) \<Rightarrow> manage_env \<Rightarrow> manage \<Rightarrow> Project list" where
  "ordered lc env s = sort_by (heavier lc) (nullish (shown_projects env s) [])"

section \<open>The manage page: events\<close>

datatype manage_event =
    MSearch string
  | MDebounce                     \<comment> \<open>250 ms after the last change of the search text\<close>
  | MToggle string bool
  | MToggleAll
  | MSched sched_action
  | MSave
  | MReply "thrown option"        \<comment> \<open>an answer to one request of the save\<close>
  | MRefetched
  | MCancel
  | MDialog dialog_event
  | MRemoved "thrown option"

fun manage_step ::
  "manage_props \<Rightarrow> manage_env \<Rightarrow> manage_event \<Rightarrow> manage \<Rightarrow> manage \<times> rpc list \<times> effect list" where
  "manage_step p env (MSearch t) s = (s\<lparr>mg_searchInput := t\<rparr>, [], [])"
| "manage_step p env MDebounce s = (s\<lparr>mg_query := trim (mg_searchInput s)\<rparr>, [], [])"
| "manage_step p env (MToggle pid c) s = (s\<lparr>mg_pending := toggle pid c (mg_pending s)\<rparr>, [], [])"
| "manage_step p env MToggleAll s =
     (s\<lparr>mg_pending := merge_toggleAll (selectable env s) (mg_pending s)\<rparr>, [], [])"
| "manage_step p env (MSched (SetEnabled b)) s = (s\<lparr>mg_schedEnabled := b\<rparr>, [], [])"
| "manage_step p env (MSched (Sched e)) s =
     (let (sch, oc) = schedule_step (mg_schedInterval s) e (mg_schedule s)
      in (s\<lparr>mg_schedule := sch, mg_schedInterval := nullish oc (mg_schedInterval s)\<rparr>, [], []))"
| "manage_step p env MSave s =
     (let ops = onSave p env s
      in if ops = [] then (s\<lparr>mg_settling := mg_settling s @ [\<not> mp_onboarded p]\<rparr>, [], [Refetch])
         else (s\<lparr>mg_inflight := Some (\<not> mp_onboarded p, length ops, False)\<rparr>, ops, []))"
| "manage_step p env (MReply r) s = (let (s', effs) = save_reply r s in (s', [], effs))"
| "manage_step p env MRefetched s = (let (s', effs) = save_refetched p s in (s', [], effs))"
| "manage_step p env MCancel s =
     (s, [], [RouterPush (if mp_onboarded p then ''/sources/'' @ mp_connectionId p else ''/sources'')])"
| "manage_step p env (MDialog e) s =
     (let (d, outs) = dialog_step None (mp_title p) (mg_removing s) e (mg_dialog s)
      in if Confirmed \<in> set outs
         then (s\<lparr>mg_dialog := d, mg_removing := True\<rparr>, [Disconnect (mp_connectionId p)], [])
         else (s\<lparr>mg_dialog := d\<rparr>, [], []))"
| "manage_step p env (MRemoved None) s = (s\<lparr>mg_removing := False\<rparr>, [], [RouterReplace ''/sources''])"
| "manage_step p env (MRemoved (Some e)) s =
     (s\<lparr>mg_removing := False\<rparr>, [],
      [ToastError (''Couldn'' @ squote @ ''t delete source: '' @ rawMessage e)])"

fun manage_run :: "manage_props \<Rightarrow> manage_env \<Rightarrow> manage_event list \<Rightarrow> manage \<Rightarrow> manage" where
  "manage_run p env [] s = s"
| "manage_run p env (e # es) s = manage_run p env es (fst (manage_step p env e s))"

section \<open>The manage page: views\<close>

definition discovering :: "manage_props \<Rightarrow> manage_env \<Rightarrow> manage \<Rightarrow> bool" where
  "discovering p env s \<longleftrightarrow>
     (case shown_projects env s of None \<Rightarrow> True | Some ps \<Rightarrow> \<not> mp_catalogDiscovered p \<and> ps = [])"

text \<open>Lifting a view's actions into the page's.\<close>

fun map_attr' :: "('a \<Rightarrow> 'b) \<Rightarrow> 'a attr \<Rightarrow> 'b attr" where
  "map_attr' f (AStr n v) = AStr n v"
| "map_attr' f (ABool n v) = ABool n v"
| "map_attr' f (ANum n v) = ANum n v"
| "map_attr' f (On n a) = On n (f a)"
| "map_attr' f (OnValue n h) = OnValue n (\<lambda>v. f (h v))"
| "map_attr' f (OnFlag n h) = OnFlag n (\<lambda>v. f (h v))"

fun lift_node :: "('a \<Rightarrow> 'b) \<Rightarrow> 'a node \<Rightarrow> 'b node" where
  "lift_node f (Txt s) = Txt s"
| "lift_node f (El t as cs) = El t (map (map_attr' f) as) (map (lift_node f) cs)"

definition manage_header :: "manage_props \<Rightarrow> manage_env \<Rightarrow> manage \<Rightarrow> manage_event node" where
  "manage_header p env s =
     El ''PageHeader''
       [AStr ''back'' ''/sources'', AStr ''backLabel'' ''Back to sources'',
        AStr ''title'' (if mp_onboarded p then ''Manage '' @ mp_title p
                        else ''Set up '' @ mp_title p @ '' as a data source''),
        AStr ''subtitle'' (''Connected'' @ (if mp_account p \<noteq> [] then '' as '' @ mp_account p else []) @
                           '' '' @ middot @ '' '' @ mp_connectorName p)]
       (El ''ConnectorIcon'' [AStr ''connectorId'' (mp_connectorId p)] [] #
        shown_if (\<not> discovering p env s)
          [El ''Button'' [On ''click'' MCancel]
             [Txt (if mp_onboarded p then ''Cancel'' else ''I'' @ squote @ ''ll do this later'')],
           El ''Button'' [On ''click'' MSave, ABool ''disabled'' (\<not> dirty p env s \<or> mg_inflight s \<noteq> None)]
             [Txt (if mg_inflight s \<noteq> None then ''Saving'' @ ellipsis
                   else if mp_onboarded p then ''Save'' else ''Continue'')]])"

definition manage_row :: "(nat \<Rightarrow> string) \<Rightarrow> manage \<Rightarrow> Project \<Rightarrow> manage_event node" where
  "manage_row fmt s p =
     El ''li'' [AStr ''key'' (proj_id p)]
       [El ''Checkbox'' [AStr ''id'' (''unit-'' @ proj_id p),
                         ABool ''checked'' (isSelectable p \<and> isSelected (mg_pending s) p),
                         ABool ''disabled'' (\<not> isSelectable p), OnFlag ''checkedchange'' (MToggle (proj_id p)),
                         AStr ''aria-label'' (''Sync '' @ str_or (proj_name p) (proj_id p))] [],
        El ''label'' [AStr ''htmlFor'' (''unit-'' @ proj_id p)] [Txt (str_or (proj_name p) (proj_id p))],
        El ''span'' [] [ProjectStatus fmt p]]"

definition manage_list ::
  "(nat \<Rightarrow> string) \<Rightarrow> (string \<Rightarrow> string \<Rightarrow> int) \<Rightarrow> manage_props \<Rightarrow> manage_env \<Rightarrow> manage \<Rightarrow> manage_event node" where
  "manage_list fmt lc p env s =
     (let empty = (nullish (shown_projects env s) [] = []); sel = selectable env s; pend = mg_pending s
      in El ''div'' []
        [if discovering p env s
         then El ''div'' [] [El ''p'' [] [Txt (''Finding your projects'' @ ellipsis @
                '' this can take up to a minute right after connecting.'')], El ''LineLoader'' [] []]
         else if empty \<and> \<not> searching s
         then El ''div'' [] [Txt ''No projects available for this account. If your repos live in an organization, make sure the GitHub App is installed on it with repo access.'']
         else El ''div'' []
           [El ''div'' []
              [El ''div'' []
                [El ''Checkbox'' [AStr ''id'' ''select-all-projects'', ABool ''checked'' (allSelected pend sel),
                                  ABool ''indeterminate'' (someSelected pend sel), On ''checkedchange'' MToggleAll,
                                  AStr ''aria-label'' ''Select all projects''] [],
                 El ''label'' [] [Txt (show_nat (selectedCount pend sel) @ '' of '' @
                                      show_nat (length sel) @ '' selected'')]],
               El ''div'' [] [El ''RiSearchLine'' [] [],
                 El ''Input'' [AStr ''value'' (mg_searchInput s), OnValue ''change'' MSearch,
                               AStr ''placeholder'' (''Search projects'' @ ellipsis),
                               AStr ''aria-label'' ''Search projects''] []]],
            if empty
            then El ''div'' [] [Txt (''No projects match '' @ ldquo @ mg_query s @ rdquo @ ''.'')]
            else El ''ul'' [] (map (manage_row fmt s) (ordered lc env s))]])"

definition ManagePanel ::
  "(nat \<Rightarrow> string) \<Rightarrow> (string \<Rightarrow> string \<Rightarrow> int) \<Rightarrow> manage_props \<Rightarrow> manage_env \<Rightarrow> manage \<Rightarrow> manage_event node" where
  "ManagePanel fmt lc p env s =
     El ''PageShell'' []
       ([manage_header p env s] @
        shown_if (\<not> discovering p env s)
          [El ''p'' [] [Txt ''Schedule''],
           El ''div'' [] [lift_node MSched (SyncSchedule (mg_schedEnabled s) (mg_schedInterval s) (mg_schedule s))]] @
        [El ''p'' [] [Txt ''Projects to sync''],
         El ''p'' [] [Txt ''Choose which projects to sync. You can change this anytime.''],
         manage_list fmt lc p env s] @
        shown_if (\<not> discovering p env s)
          [El ''p'' [] [Txt ''Danger zone''],
           El ''div'' []
             [El ''div'' [] [El ''p'' [] [Txt ''Delete source''],
                El ''p'' [] [Txt (''Disconnects '' @ mp_title p @ '' and schedules its synced files for deletion.'')]],
              lift_node MDialog (ConfirmDestructiveDialog (''Delete '' @ mp_title p @ ''?'')
                (''This disconnects the source and schedules its synced files for deletion. You can reconnect later, but you'' @
                 rsquo @ ''ll re-authorize.'')
                (mp_title p) (Some ''Delete source'') (mg_removing s) None (mg_dialog s))]])"

text \<open>The page around the panel: what the connections stream has delivered decides.\<close>

datatype manage_page =
    ManageFailed
  | ManageLoading
  | ManageGone
  | Manage manage_props

definition connectorNameOf :: "Connector list query \<Rightarrow> Connection option \<Rightarrow> string" where
  "connectorNameOf connectors conn =
     (case q_data connectors of None \<Rightarrow> ''Source''
      | Some cs \<Rightarrow>
          (case find (\<lambda>c. Some (connector_key c) = map_option conn_connectorId conn) cs of
             None \<Rightarrow> ''Source'' | Some c \<Rightarrow> connector_name c))"

definition manage_leaf :: "Connector list query \<Rightarrow> Connection option \<Rightarrow> string option" where
  "manage_leaf connectors conn =
     map_option (\<lambda>c. connectorNameOf connectors conn @
        (if conn_account c \<noteq> [] then '' '' @ middot @ '' '' @ conn_account c else [])) conn"

definition ManageConnectionPage ::
  "string \<Rightarrow> Connector list query \<Rightarrow> Connection list option \<Rightarrow> thrown option \<Rightarrow> bool \<Rightarrow> manage_page" where
  "ManageConnectionPage cid connectors connections streamError graceElapsed =
     (let conn = (case connections of None \<Rightarrow> None | Some cs \<Rightarrow> find (\<lambda>c. conn_id c = cid) cs);
          name = connectorNameOf connectors conn
      in if streamError \<noteq> None then ManageFailed
         else if connections = None \<or> (conn = None \<and> \<not> graceElapsed) then ManageLoading
         else (case conn of
            None \<Rightarrow> ManageGone
          | Some c \<Rightarrow> Manage
              \<lparr>mp_connectionId = conn_id c, mp_connectorId = conn_connectorId c, mp_account = conn_account c,
               mp_connectorName = name, mp_title = str_or (conn_account c) name,
               mp_onboarded = conn_onboarded c, mp_catalogDiscovered = (conn_catalogDiscoveredAt c \<noteq> None),
               mp_autoSyncEnabled = conn_autoSyncEnabled c,
               mp_syncIntervalSeconds = conn_syncIntervalSeconds c\<rparr>))"

section \<open>Lemmas\<close>

lemma is_dirty_iff: "is_dirty pend p \<longleftrightarrow> isSelected pend p \<noteq> proj_selected p"
  by (cases "pend (proj_id p)") (auto simp: is_dirty_def isSelected_def)

lemma fromEntries_mem: "p \<in> set ps \<Longrightarrow> fromEntries t ps (proj_id p) = Some t"
proof -
  assume "p \<in> set ps"
  then have "proj_id p \<in> dom (fromEntries t ps)"
    by (auto simp: fromEntries_def dom_map_of_conv_image_fst image_image)
  then obtain v where v: "fromEntries t ps (proj_id p) = Some v" by auto
  then have "(proj_id p, v) \<in> set (rev (map (\<lambda>p. (proj_id p, t)) ps))"
    unfolding fromEntries_def by (rule map_of_SomeD)
  with v show ?thesis by auto
qed

lemma fromEntries_other: "i \<notin> proj_id ` set ps \<Longrightarrow> fromEntries t ps i = None"
  by (auto simp: fromEntries_def map_of_eq_None_iff image_iff)

lemma selectedCount_const:
  "(\<And>p. p \<in> set ps \<Longrightarrow> isSelected pend p = b) \<Longrightarrow> selectedCount pend ps = (if b then length ps else 0)"
  by (auto simp: selectedCount_def filter_empty_conv)

lemma allSelected_iff: "allSelected pend ps \<longleftrightarrow> ps \<noteq> [] \<and> (\<forall>p \<in> set ps. isSelected pend p)"
proof -
  have "length (filter (isSelected pend) ps) = length ps \<longleftrightarrow> (\<forall>p \<in> set ps. isSelected pend p)"
    by (metis filter_True length_filter_less less_irrefl)
  then show ?thesis by (auto simp: allSelected_def selectedCount_def)
qed

text \<open>
  A select-all control over a list of projects: it gives every listed project the same new
  state, the opposite of "all selected".
\<close>

locale select_all =
  fixes toggle_all :: "Project list \<Rightarrow> pending \<Rightarrow> pending"
  assumes hits: "p \<in> set ps \<Longrightarrow> toggle_all ps pend (proj_id p) = Some (\<not> allSelected pend ps)"
begin

lemma uniform: "p \<in> set ps \<Longrightarrow> isSelected (toggle_all ps pend) p = (\<not> allSelected pend ps)"
  by (simp add: isSelected_def hits)

lemma flips:
  assumes "ps \<noteq> []"
  shows "allSelected (toggle_all ps pend) ps = (\<not> allSelected pend ps)"
proof -
  have "allSelected (toggle_all ps pend) ps \<longleftrightarrow> (\<forall>p \<in> set ps. \<not> allSelected pend ps)"
    unfolding allSelected_iff[of "toggle_all ps pend" ps] using assms uniform by blast
  then show ?thesis using assms by (cases ps) auto
qed

lemma counts: "selectedCount (toggle_all ps pend) ps = (if allSelected pend ps then 0 else length ps)"
  by (subst selectedCount_const[OF uniform]) auto

lemma not_partial: "\<not> someSelected (toggle_all ps pend) ps"
  using counts[of ps pend] flips[of ps pend]
  by (cases "ps = []") (auto simp: someSelected_def split: if_splits)

end

interpretation panel: select_all panel_toggleAll
  by unfold_locales (simp add: panel_toggleAll_def fromEntries_mem)

interpretation merging: select_all merge_toggleAll
  by unfold_locales (simp add: merge_toggleAll_def fromEntries_mem)

text \<open>The stable sort.\<close>

lemma mset_insert_by: "mset (insert_by cmp x xs) = add_mset x (mset xs)"
  by (induction xs) auto

lemma mset_sort_by: "mset (sort_by cmp xs) = mset xs"
  by (induction xs) (simp_all add: sort_by_def mset_insert_by)

lemma sorted_insert_by:
  assumes "sorted_wrt R xs" "\<And>a b. cmp a b \<le> 0 \<Longrightarrow> R a b" "\<And>a b. \<not> cmp a b \<le> 0 \<Longrightarrow> R b a"
    and "\<And>a b c. R a b \<Longrightarrow> R b c \<Longrightarrow> R a c"
  shows "sorted_wrt R (insert_by cmp x xs)"
  using assms(1)
proof (induction xs)
  case (Cons y ys)
  have "set (insert_by cmp x ys) = insert x (set ys)"
    using mset_insert_by[of cmp x ys] by (metis set_mset_add_mset_insert set_mset_mset)
  moreover have "R x z" if "cmp x y \<le> 0" "z \<in> set ys" for z
    using Cons.prems assms(2)[OF that(1)] assms(4)[of x y z] that(2) by simp
  ultimately show ?case using Cons assms(2,3) by simp
qed simp

lemma heavier_estimate:
  "heavier lc a b \<le> 0 \<Longrightarrow> proj_totalEstimate b \<le> proj_totalEstimate a"
  "\<not> heavier lc a b \<le> 0 \<Longrightarrow> proj_totalEstimate a \<le> proj_totalEstimate b"
  by (auto simp: heavier_def Let_def split: if_splits)

lemma sort_by_heavier:
  "sorted_wrt (\<lambda>a b. proj_totalEstimate b \<le> proj_totalEstimate a) (sort_by (heavier lc) xs)"
proof (induction xs)
  case (Cons x xs)
  show ?case
    using sorted_insert_by[OF Cons, where cmp = "heavier lc" and x = x]
    by (simp add: sort_by_def heavier_estimate)
qed (simp add: sort_by_def)

text \<open>Searching does not touch the edits.\<close>

fun is_search :: "manage_event \<Rightarrow> bool" where
  "is_search (MSearch t) = True"
| "is_search MDebounce = True"
| "is_search _ = False"

lemma search_keeps_pending:
  "list_all is_search es \<Longrightarrow> mg_pending (manage_run p env es s) = mg_pending s"
proof (induction es arbitrary: s)
  case (Cons e es)
  then show ?case by (cases e) auto
qed simp

section \<open>Properties\<close>

text \<open>
  C2. Saving writes exactly the checked boxes: the request carries a project of the full list
  if and only if its checkbox is checked (selectable and selected), whatever the search
  currently shows; for an onboarded source, there is something to save exactly when the button
  is enabled, and a selection request is sent exactly when some selectable box differs from the
  saved selection.
\<close>

theorem manage_save_writes_checked:
  assumes "allProjects env = Some ps" and "distinct (map proj_id ps)" and "q \<in> set ps"
  shows "(proj_id q \<in> set (selectedIds env s) \<longleftrightarrow> isSelectable q \<and> isSelected (mg_pending s) q) \<and>
         (mp_onboarded p \<longrightarrow>
            (onSave p env s = [] \<longleftrightarrow> \<not> dirty p env s) \<and>
            (SetProjectSelection (mp_connectionId p) (selectedIds env s) \<in> set (onSave p env s) \<longleftrightarrow>
               list_ex (\<lambda>r. isSelectable r \<and> isSelected (mg_pending s) r \<noteq> proj_selected r) ps))"
proof -
  have "proj_id q \<in> set (selectedIds env s) \<longleftrightarrow> isSelectable q \<and> isSelected (mg_pending s) q"
    using assms inj_on_eq_iff[of proj_id "set ps"] by (auto simp: selectedIds_def distinct_map)
  moreover have "selectionDirty env s \<longleftrightarrow>
      list_ex (\<lambda>r. isSelectable r \<and> isSelected (mg_pending s) r \<noteq> proj_selected r) ps"
    using assms(1) by (simp add: selectionDirty_def is_dirty_iff)
  ultimately show ?thesis by (simp add: onSave_def dirty_def)
qed

definition ex_project :: "string \<Rightarrow> bool \<Rightarrow> nat \<Rightarrow> Project" where
  "ex_project i sel tot =
     \<lparr>proj_id = i, proj_name = i, proj_selected = sel, proj_status = ''idle'', proj_lastSyncedAt = None,
      proj_artifactCount = 0, proj_lastError = [], proj_totalEstimate = tot, proj_totalEstimateAt = None\<rparr>"

definition ex_env :: manage_env where
  "ex_env = \<lparr>env_streamed = Some [ex_project ''a'' True 5, ex_project ''b'' False 7, ex_project ''c'' True 0],
             env_discover = \<lparr>q_data = None, q_isPending = True, q_error = None\<rparr>,
             env_search = \<lparr>q_data = None, q_isPending = False, q_error = None\<rparr>\<rparr>"

definition ex_props :: "bool \<Rightarrow> manage_props" where
  "ex_props onboarded =
     \<lparr>mp_connectionId = ''c1'', mp_connectorId = ''github'', mp_account = ''acme'', mp_connectorName = ''GitHub'',
      mp_title = ''acme'', mp_onboarded = onboarded, mp_catalogDiscovered = True, mp_autoSyncEnabled = True,
      mp_syncIntervalSeconds = 3600\<rparr>"

theorem manage_save_writes_checked_witness:
  "''a'' \<in> set (selectedIds ex_env (manage_init (ex_props True))) \<and>
   ''c'' \<notin> set (selectedIds ex_env (manage_init (ex_props True)))"
proof -
  let ?ps = "[ex_project ''a'' True 5, ex_project ''b'' False 7, ex_project ''c'' True 0]"
  let ?s = "manage_init (ex_props True)"
  have ps: "allProjects ex_env = Some ?ps" "distinct (map proj_id ?ps)"
    by (simp_all add: allProjects_def ex_env_def ex_project_def)
  have "isSelectable (ex_project ''a'' True 5) \<and> isSelected (mg_pending ?s) (ex_project ''a'' True 5)"
    "\<not> isSelectable (ex_project ''c'' True 0)"
    by (simp_all add: isSelectable_def isSelected_def manage_init_def ex_project_def)
  moreover have "proj_id (ex_project ''a'' True 5) = ''a''" "proj_id (ex_project ''c'' True 0) = ''c''"
    by (simp_all add: ex_project_def)
  ultimately show ?thesis
    using manage_save_writes_checked[OF ps, of "ex_project ''a'' True 5" ?s]
      manage_save_writes_checked[OF ps, of "ex_project ''c'' True 0" ?s]
    by simp
qed

text \<open>
  Edits survive searching: after ticking or clearing a selectable project, any sequence of
  searches leaves it in (or out of) what a save would write.
\<close>

theorem manage_edits_survive_search:
  assumes "allProjects env = Some ps" and "distinct (map proj_id ps)" and "q \<in> set ps" and "isSelectable q"
    and "list_all is_search es"
  shows "proj_id q \<in> set (selectedIds env (manage_run p env (MToggle (proj_id q) c # es) s)) \<longleftrightarrow> c"
proof -
  let ?s = "manage_run p env (MToggle (proj_id q) c # es) s"
  have "mg_pending ?s = (mg_pending s)(proj_id q \<mapsto> c)"
    using search_keeps_pending[OF assms(5)] by (simp add: toggle_def)
  then have "isSelected (mg_pending ?s) q = c" by (simp add: isSelected_def)
  then show ?thesis
    using assms inj_on_eq_iff[of proj_id "set ps"] by (auto simp: selectedIds_def distinct_map)
qed

theorem manage_edits_survive_search_witness:
  "''b'' \<in> set (selectedIds ex_env (manage_run (ex_props True) ex_env
      [MToggle ''b'' True, MSearch ''zzz'', MDebounce] (manage_init (ex_props True))))"
proof -
  let ?ps = "[ex_project ''a'' True 5, ex_project ''b'' False 7, ex_project ''c'' True 0]"
  have "allProjects ex_env = Some ?ps" "distinct (map proj_id ?ps)" "ex_project ''b'' False 7 \<in> set ?ps"
    "isSelectable (ex_project ''b'' False 7)" "list_all is_search [MSearch ''zzz'', MDebounce]"
    by (simp_all add: allProjects_def ex_env_def ex_project_def isSelectable_def)
  from manage_edits_survive_search[OF this, of "ex_props True" True "manage_init (ex_props True)"]
  show ?thesis by (simp add: ex_project_def)
qed

text \<open>
  Select-all is two-valued, in the panel and on the manage page: a click selects every
  listed project unless all were selected, in which case it clears them all; the box never
  stays half-checked, and on the manage page projects that are not listed keep their state.
\<close>

theorem select_all_flips:
  assumes "ps \<noteq> []"
  shows "allSelected (panel_toggleAll ps pend) ps = (\<not> allSelected pend ps) \<and>
         allSelected (merge_toggleAll ps pend) ps = (\<not> allSelected pend ps) \<and>
         selectedCount (merge_toggleAll ps pend) ps = (if allSelected pend ps then 0 else length ps) \<and>
         \<not> someSelected (panel_toggleAll ps pend) ps \<and> \<not> someSelected (merge_toggleAll ps pend) ps \<and>
         (proj_id q \<notin> proj_id ` set ps \<longrightarrow> isSelected (merge_toggleAll ps pend) q = isSelected pend q)"
  using panel.flips[OF assms] merging.flips[OF assms] merging.counts merging.not_partial panel.not_partial
    fromEntries_other[of "proj_id q" ps]
  by (simp add: isSelected_def merge_toggleAll_def map_add_def)

theorem select_all_flips_witness:
  "allSelected (merge_toggleAll [ex_project ''a'' True 5, ex_project ''b'' False 7] Map.empty)
     [ex_project ''a'' True 5, ex_project ''b'' False 7]"
  using select_all_flips[of "[ex_project ''a'' True 5, ex_project ''b'' False 7]" Map.empty "ex_project ''a'' True 5"]
  by (simp add: allSelected_iff isSelected_def ex_project_def)

text \<open>
  The manage list shows every project once, heaviest first: it is a permutation of the
  projects to show, in descending order of their estimated total, whatever the locale's string
  comparison does.
\<close>

theorem manage_list_ordered:
  "mset (ordered lc env s) = mset (nullish (shown_projects env s) []) \<and>
   sorted_wrt (\<lambda>a b. proj_totalEstimate b \<le> proj_totalEstimate a) (ordered lc env s)"
  by (simp add: ordered_def mset_sort_by sort_by_heavier)


text \<open>
  First-time setup cannot be finished with the selection as discovered: on the page of a
  source that is not onboarded, nothing edited, a save would write the selection, but no click
  reaches it because the Continue button is disabled.
\<close>

theorem manage_first_time_blocked:
  "let p = ex_props False; s = manage_init p in
     onSave p ex_env s = [SetProjectSelection ''c1'' [''a'']] \<and>
     MSave \<notin> set (clicks (manage_header p ex_env s))"
  by (simp add: Let_def ex_props_def ex_env_def ex_project_def manage_init_def onSave_def selectionDirty_def
      scheduleDirty_def selectedIds_def allProjects_def isSelectable_def isSelected_def is_dirty_def
      manage_header_def dirty_def discovering_def shown_projects_def searching_def)

end
