(* ===== verification/Onboarding.thy ===== *)
theory Onboarding
  imports Complex_Main Session
begin

text \<open>
  The onboarding wizard: its options (\<open>web/lib/onboarding-options.ts\<close>), its step registry
  (\<open>web/lib/onboarding-steps.ts\<close>), the flow's state (\<open>web/components/onboarding/onboarding-flow.tsx\<close>),
  the shared shell, form and top bar (\<open>onboarding-shell.tsx\<close>, \<open>onboarding-form.tsx\<close>,
  \<open>onboarding-topbar.tsx\<close>), the layout that gates and seeds the flow
  (\<open>web/app/onboarding/layout.tsx\<close>) and the four step pages.
\<close>

section \<open>Options\<close>

record Option_item =
  opt_id :: string
  opt_label :: string
  opt_detail :: "string option"
  opt_leading :: "string option"  \<comment> \<open>the flag code shown in front\<close>

definition simple_option :: "string \<Rightarrow> string \<Rightarrow> Option_item" where
  "simple_option i l = \<lparr>opt_id = i, opt_label = l, opt_detail = None, opt_leading = None\<rparr>"

definition companySizes :: "Option_item list" where
  "companySizes =
    [simple_option ''1-10'' (''1 '' @ endash @ '' 10''),
     simple_option ''11-50'' (''11 '' @ endash @ '' 50''),
     simple_option ''51-200'' (''51 '' @ endash @ '' 200''),
     simple_option ''201-500'' (''201 '' @ endash @ '' 500''),
     simple_option ''501-2000'' (''501 '' @ endash @ '' 2,000''),
     simple_option ''2001-5000'' (''2,001 '' @ endash @ '' 5,000''),
     simple_option ''5000+'' ''5,000+'']"

definition useCases :: "Option_item list" where
  "useCases =
    [simple_option ''support'' ''Customer support knowledge'',
     simple_option ''engineering'' ''Engineering runbooks & incidents'',
     simple_option ''product'' ''Product decisions & specs'',
     simple_option ''sales'' ''Sales playbooks & objection handling'',
     simple_option ''operations'' ''Operational policies & SOPs'',
     simple_option ''people'' ''People onboarding & policies'',
     simple_option ''finance'' ''Finance approvals & exceptions'',
     simple_option ''security'' ''Security & incident response'',
     simple_option ''compliance'' ''Compliance & legal'',
     simple_option ''marketing'' ''Brand voice & marketing rules'',
     simple_option ''other'' ''Something else'']"

record Region =
  reg_id :: string
  reg_country :: string
  reg_code :: string
  reg_city :: string
  reg_label :: string
  reg_recommended :: bool

definition regions :: "Region list" where
  "regions =
    [\<lparr>reg_id = ''us-east'', reg_country = ''United States'', reg_code = ''US'',
      reg_city = ''Washington DC'', reg_label = ''us-east'', reg_recommended = True\<rparr>,
     \<lparr>reg_id = ''us-west'', reg_country = ''United States'', reg_code = ''US'',
      reg_city = ''San Francisco'', reg_label = ''us-west'', reg_recommended = False\<rparr>,
     \<lparr>reg_id = ''eu-central'', reg_country = ''European Union'', reg_code = ''DE'',
      reg_city = ''Frankfurt'', reg_label = ''eu-central'', reg_recommended = False\<rparr>,
     \<lparr>reg_id = ''eu-west'', reg_country = ''United Kingdom'', reg_code = ''GBR'',
      reg_city = ''London'', reg_label = ''eu-west'', reg_recommended = False\<rparr>,
     \<lparr>reg_id = ''asia-south'', reg_country = ''India'', reg_code = ''IN'',
      reg_city = ''Mumbai'', reg_label = ''asia-south'', reg_recommended = False\<rparr>,
     \<lparr>reg_id = ''asia-east'', reg_country = ''Japan'', reg_code = ''JP'',
      reg_city = ''Tokyo'', reg_label = ''asia-east'', reg_recommended = False\<rparr>,
     \<lparr>reg_id = ''asia-southeast'', reg_country = ''Singapore'', reg_code = ''SG'',
      reg_city = ''Singapore'', reg_label = ''asia-southeast'', reg_recommended = False\<rparr>,
     \<lparr>reg_id = ''oceania'', reg_country = ''Australia'', reg_code = ''AU'',
      reg_city = ''Sydney'', reg_label = ''oceania'', reg_recommended = False\<rparr>]"

text \<open>A stable sort that puts recommended regions first, as the page's comparator does.\<close>

definition REGION_OPTIONS :: "Option_item list" where
  "REGION_OPTIONS =
     map (\<lambda>r. \<lparr>opt_id = reg_id r, opt_label = reg_country r,
               opt_detail = Some (reg_city r @ '' '' @ middot @ '' '' @ reg_label r @
                 (if reg_recommended r then '' '' @ middot @ '' Recommended'' else [])),
               opt_leading = Some (reg_code r)\<rparr>)
       (sort_key (\<lambda>r. if reg_recommended r then 0 else (1::nat)) regions)"

section \<open>Steps and paths\<close>

record OnboardingStep =
  slug :: string
  title :: string
  why :: "string option"

definition ONBOARDING_STEPS :: "OnboardingStep list" where
  "ONBOARDING_STEPS =
    [\<lparr>slug = ''organization'', title = ''Your organization'',
      why = Some ''Names your workspace and scopes what we bring in.''\<rparr>,
     \<lparr>slug = ''use-case'', title = ''What you'' @ squote @ ''ll use it for'',
      why = Some ''These areas become the first chapters of your brain.''\<rparr>,
     \<lparr>slug = ''region'', title = ''Where your data lives'',
      why = Some ''The storage region is fixed after setup.''\<rparr>,
     \<lparr>slug = ''complete'', title = ''You'' @ squote @ ''re all set'', why = None\<rparr>]"

definition BASE :: string where "BASE = ''/onboarding''"

definition slugFromPath :: "string \<Rightarrow> string" where
  "slugFromPath pathname =
     (let segs = filter (\<lambda>w. w \<noteq> []) (split_char (CHR ''/'') pathname)
      in if segs = [] then [] else last segs)"

definition stepIndex :: "string \<Rightarrow> int" where
  "stepIndex pathname = find_index (\<lambda>s. slug s = slugFromPath pathname) ONBOARDING_STEPS"

definition currentStep :: "string \<Rightarrow> OnboardingStep option" where
  "currentStep pathname = js_nth ONBOARDING_STEPS (stepIndex pathname)"

definition progress :: "string \<Rightarrow> rat" where
  "progress pathname =
     (let i = stepIndex pathname
      in if i < 0 then 0 else (of_int i + 1) / of_nat (length ONBOARDING_STEPS))"

definition step_path :: "OnboardingStep \<Rightarrow> string" where
  "step_path s = BASE @ ''/'' @ slug s"

definition nextPath :: "string \<Rightarrow> string option" where
  "nextPath pathname =
     (let i = stepIndex pathname;
          next = if 0 \<le> i then js_nth ONBOARDING_STEPS (i + 1) else None
      in map_option step_path next)"

definition prevPath :: "string \<Rightarrow> string option" where
  "prevPath pathname =
     (let i = stepIndex pathname;
          prev = if 0 < i then js_nth ONBOARDING_STEPS (i - 1) else None
      in map_option step_path prev)"

section \<open>Flow state\<close>

record OnboardingState =
  orgName :: string
  orgSize :: "string option"
  flow_useCases :: "string list"
  flow_useCaseOther :: string
  region :: string

text \<open>The patches the pages pass to \<open>set\<close>; each carries one key.\<close>

datatype flow_patch =
    PatchOrgName string
  | PatchOrgSize "string option"
  | PatchUseCaseOther string
  | PatchRegion string

fun flow_set :: "flow_patch \<Rightarrow> OnboardingState \<Rightarrow> OnboardingState" where
  "flow_set (PatchOrgName v) s = s\<lparr>orgName := v\<rparr>"
| "flow_set (PatchOrgSize v) s = s\<lparr>orgSize := v\<rparr>"
| "flow_set (PatchUseCaseOther v) s = s\<lparr>flow_useCaseOther := v\<rparr>"
| "flow_set (PatchRegion v) s = s\<lparr>region := v\<rparr>"

definition toggleUseCase :: "string \<Rightarrow> OnboardingState \<Rightarrow> OnboardingState" where
  "toggleUseCase i s =
     s\<lparr>flow_useCases :=
         (if i \<in> set (flow_useCases s) then filter (\<lambda>x. x \<noteq> i) (flow_useCases s)
          else flow_useCases s @ [i])\<rparr>"

text \<open>\<open>useOnboardingFlow\<close> throws outside its provider.\<close>

definition useOnboardingFlow :: "OnboardingState option \<Rightarrow> thrown + OnboardingState" where
  "useOnboardingFlow ctx =
     (case ctx of
        None \<Rightarrow> Inl (OtherError ''useOnboardingFlow must be used within OnboardingFlowProvider'')
      | Some s \<Rightarrow> Inr s)"

section \<open>Layout: gate and seed\<close>

text \<open>
  \<open>email.split("@")[1]\<close> and \<open>domain.split(".")[0]\<close>, the first letter capitalised.
\<close>

definition orgNameFromEmail :: "string \<Rightarrow> string" where
  "orgNameFromEmail email =
     (let parts = split_char (CHR ''@'') email;
          domain = nullish (js_nth parts 1) [];
          base = nullish (js_nth (split_char (CHR ''.'') domain) 0) []
      in case base of [] \<Rightarrow> [] | c # cs \<Rightarrow> ascii_upper_char c # cs)"

definition OnboardingLayout_effect :: "session_query \<Rightarrow> effect list" where
  "OnboardingLayout_effect q =
     (if q_isPending q then []
      else case q_error q of
        Some e \<Rightarrow> if isAuthError e then [RouterReplace ''/''] else []
      | None \<Rightarrow> if session_onboarded q then [RouterReplace ''/book''] else [])"

definition flow_initial :: "Tenant \<Rightarrow> User \<Rightarrow> OnboardingState" where
  "flow_initial t u =
     \<lparr>orgName = opt_str_or (tenant_name t) (orgNameFromEmail (user_email u)),
      orgSize = tenant_size t,
      flow_useCases = tenant_useCases t,
      flow_useCaseOther = nullish (tenant_useCaseOther t) [],
      region = nullish (tenant_region t) []\<rparr>"

text \<open>
  The layout's early return, then the seeded provider around the top bar, the progress line
  and the step. \<open>None\<close> renders nothing. The progress line's width is \<open>pct * 100\<close> percent.
\<close>

definition OnboardingLayout ::
  "string \<Rightarrow> session_query \<Rightarrow> (OnboardingState \<times> rat) option" where
  "OnboardingLayout pathname q =
     (if q_isPending q \<or> q_error q \<noteq> None \<or> session_onboarded q then None
      else case q_data q of None \<Rightarrow> None
        | Some d \<Rightarrow> (case (session_tenant d, session_user d) of
            (Some t, Some u) \<Rightarrow> Some (flow_initial t u, progress pathname * 100)
          | _ \<Rightarrow> None))"

section \<open>Shell, form and top bar\<close>

datatype onb_action =
    GoNext | GoBack | Finish
  | Patch flow_patch
  | ToggleSize string
  | ToggleUseCase string

text \<open>\<open>OnboardingShell\<close> with its optional footer actions.\<close>

definition OnboardingShell ::
  "string \<Rightarrow> 'a node list \<Rightarrow> 'a node list \<Rightarrow> 'a node list \<Rightarrow> 'a node" where
  "OnboardingShell pathname secondaryAction primaryAction children =
     (let step = currentStep pathname in
      El ''div'' []
       ([El ''div'' [] [El ''div'' []
          (El ''h1'' [] (case step of None \<Rightarrow> [] | Some s \<Rightarrow> [Txt (title s)]) #
           shown_if (truthy_str (case step of None \<Rightarrow> None | Some s \<Rightarrow> why s))
             [El ''p'' [] [Txt (case step of None \<Rightarrow> [] | Some s \<Rightarrow> nullish (why s) [])]])],
         El ''div'' [] [El ''div'' [] children]] @
        shown_if (secondaryAction \<noteq> [] \<or> primaryAction \<noteq> [])
          [El ''div'' [] [El ''div'' []
            [El ''div'' [] secondaryAction, El ''div'' [] primaryAction]]]))"

definition OnboardingBack :: "'a \<Rightarrow> 'a node" where
  "OnboardingBack onClick =
     El ''Button'' [AStr ''type'' ''button'', On ''click'' onClick] [Txt ''Back'']"

definition OnboardingContinue :: "'a \<Rightarrow> bool \<Rightarrow> 'a node" where
  "OnboardingContinue onClick disabled =
     El ''Button'' [AStr ''type'' ''button'', On ''click'' onClick, ABool ''disabled'' disabled]
       [Txt ''Continue'', El ''PlayGlyph'' [] []]"

definition Field :: "string \<Rightarrow> string option \<Rightarrow> 'a node list \<Rightarrow> 'a node list \<Rightarrow> 'a node list \<Rightarrow> 'a node" where
  "Field label htmlFor hint trailing children =
     El ''div'' []
       (shown_if (label \<noteq> [] \<or> trailing \<noteq> [])
          [El ''div'' []
            (shown_if (label \<noteq> [])
               [El ''label'' (case htmlFor of None \<Rightarrow> [] | Some h \<Rightarrow> [AStr ''for'' h]) [Txt label]] @
             trailing)] @
        children @
        shown_if (hint \<noteq> []) [El ''p'' [] hint])"

definition OptionGrid :: "Option_item list \<Rightarrow> (string \<Rightarrow> bool) \<Rightarrow> (string \<Rightarrow> 'a) \<Rightarrow> 'a node" where
  "OptionGrid options selected onSelect =
     El ''div'' []
       (map (\<lambda>o'. El ''button''
              [AStr ''type'' ''button'', ABool ''aria-pressed'' (selected (opt_id o')),
               On ''click'' (onSelect (opt_id o'))]
              ((case opt_leading o' of None \<Rightarrow> []
                | Some c \<Rightarrow> [El ''span'' [] [El ''Flag'' [AStr ''code'' c] []]]) @
               [El ''span'' []
                 (El ''span'' [] [Txt (opt_label o')] #
                  (case opt_detail o' of None \<Rightarrow> []
                   | Some d \<Rightarrow> shown_if (d \<noteq> []) [El ''span'' [] [Txt d]])),
                El ''RiCheckLine'' [] []]))
          options)"

text \<open>The account menu of the top bar.\<close>

definition OnboardingProfileMenu :: "GetSessionResponse option \<Rightarrow> 'a node" where
  "OnboardingProfileMenu data =
     (let u = (case data of None \<Rightarrow> None | Some d \<Rightarrow> session_user d);
          name = map_option user_name u; email = map_option user_email u
      in El ''DropdownMenu'' []
        [El ''DropdownMenuTrigger'' [] [El ''RiUser6Fill'' [] []],
         El ''DropdownMenuContent'' []
           (shown_if (truthy_str name \<or> truthy_str email)
              [El ''div'' []
                 (shown_if (truthy_str name) [El ''p'' [] [Txt (the name)]] @
                  shown_if (truthy_str email) [El ''p'' [] [Txt (the email)]]),
               El ''DropdownMenuSeparator'' [] []] @
            [El ''DropdownMenuItem'' []
              [El ''Link'' [AStr ''href'' ''/signed-out'']
                [El ''RiLogoutBoxRLine'' [] [], Txt ''Sign out'']]])])"

section \<open>Step pages\<close>

definition canContinue :: "OnboardingState \<Rightarrow> bool" where
  "canContinue s \<longleftrightarrow> length (trim (orgName s)) > 0"

definition OrganizationPage :: "string \<Rightarrow> OnboardingState \<Rightarrow> onb_action node" where
  "OrganizationPage pathname s =
     OnboardingShell pathname [] [OnboardingContinue GoNext (\<not> canContinue s)]
       [El ''div'' []
         [Field ''Organization name'' (Some ''org'') [] []
            [El ''Input'' [AStr ''id'' ''org'', AStr ''value'' (orgName s),
               OnValue ''change'' (\<lambda>v. Patch (PatchOrgName v)),
               AStr ''placeholder'' ''Acme Inc.''] []],
          Field ''Company size'' None [] []
            [OptionGrid companySizes (\<lambda>i. orgSize s = Some i) ToggleSize]]]"

definition UseCasePage :: "string \<Rightarrow> OnboardingState \<Rightarrow> onb_action node" where
  "UseCasePage pathname s =
     OnboardingShell pathname [OnboardingBack GoBack] [OnboardingContinue GoNext False]
       [El ''div'' []
         (OptionGrid useCases (\<lambda>i. i \<in> set (flow_useCases s)) ToggleUseCase #
          shown_if (''other'' \<in> set (flow_useCases s))
            [Field ''Tell us what else'' (Some ''use-case-other'') [] []
               [El ''Input'' [AStr ''id'' ''use-case-other'', AStr ''value'' (flow_useCaseOther s),
                  OnValue ''change'' (\<lambda>v. Patch (PatchUseCaseOther v)),
                  AStr ''placeholder'' ''e.g. Field service procedures''] []]])]"

definition RegionPage :: "string \<Rightarrow> OnboardingState \<Rightarrow> onb_action node" where
  "RegionPage pathname s =
     OnboardingShell pathname [OnboardingBack GoBack] [OnboardingContinue GoNext (region s = [])]
       [OptionGrid REGION_OPTIONS (\<lambda>i. region s = i) (\<lambda>i. Patch (PatchRegion i))]"

text \<open>\<open>NEXT\<close>, the preview of what comes after setup.\<close>

definition NEXT :: "(string \<times> string) list" where
  "NEXT =
    [(''Connect your first source'', ''Slack, Notion, GitHub'' @ ellipsis @ '' ingestion starts the moment you do.''),
     (''Set chapter access'', ''Decide who can read what.''),
     (''Invite your team'', ''Bring the people who'' @ squote @ ''ll use it.'')]"

definition finish_request :: "OnboardingState \<Rightarrow> CompleteOnboardingRequest" where
  "finish_request s =
     \<lparr>onb_region = region s, onb_name = orgName s, onb_size = nullish (orgSize s) [],
      onb_useCases = flow_useCases s,
      onb_useCaseOther = (if ''other'' \<in> set (flow_useCases s) then trim (flow_useCaseOther s) else [])\<rparr>"

text \<open>After the mutation settles: on success the session is re-read before the navigation.\<close>

definition finish_settle :: "OnboardingState \<Rightarrow> thrown option \<Rightarrow> effect list" where
  "finish_settle s r =
     (case r of
        None \<Rightarrow> [InvalidateQueries,
                 tracked onboarding_complete
                   [(''areas'', show_nat (length (flow_useCases s))), (''region'', region s)],
                 RouterPush ''/book'']
      | Some _ \<Rightarrow> [])"

definition CompletePage ::
  "string \<Rightarrow> bool \<Rightarrow> thrown option \<Rightarrow> OnboardingState \<Rightarrow> onb_action node" where
  "CompletePage pathname isPending error s =
     (let n = length (flow_useCases s) in
      OnboardingShell pathname []
       [El ''Button'' [On ''click'' Finish, ABool ''disabled'' isPending]
          [Txt (if isPending then ''Setting up'' @ ellipsis else ''Open your workspace'')]]
       [El ''div'' []
         ([El ''p'' []
            [Txt (str_or (orgName s) ''Your workspace'' @ '' is ready'' @
                  (if n > 0 then '', with '' @ show_nat n @ '' area'' @ (if n > 1 then ''s'' else []) @
                                 '' to organize'' else []) @
                  ''. Here'' @ rsquo @ ''s what'' @ rsquo @ ''s coming next.'')]] @
          (case error of None \<Rightarrow> []
           | Some e \<Rightarrow> [El ''p'' [AStr ''role'' ''alert''] [Txt (rawMessage e)]]) @
          [El ''div'' []
            (map (\<lambda>(t, d). El ''div'' []
                    [El ''div'' [] [El ''p'' [] [Txt t], El ''p'' [] [Txt d]],
                     El ''span'' [] [Txt ''Soon'']]) NEXT)])])"

text \<open>
  The handlers. \<open>router.push(nextPath(pathname)!)\<close> on a path with no next step would push
  \<open>null\<close>, an exception.
\<close>

definition push_path :: "string option \<Rightarrow> thrown + effect list" where
  "push_path p = (case p of None \<Rightarrow> Inl (OtherError ''router.push(null)'') | Some q \<Rightarrow> Inr [RouterPush q])"

fun onb_handle ::
  "string \<Rightarrow> onb_action \<Rightarrow> OnboardingState \<Rightarrow> thrown + (OnboardingState \<times> effect list \<times> rpc list)" where
  "onb_handle pathname GoNext s =
     (case push_path (nextPath pathname) of Inl e \<Rightarrow> Inl e | Inr es \<Rightarrow> Inr (s, es, []))"
| "onb_handle pathname GoBack s =
     (case push_path (prevPath pathname) of Inl e \<Rightarrow> Inl e | Inr es \<Rightarrow> Inr (s, es, []))"
| "onb_handle pathname Finish s = Inr (s, [], [CompleteOnboarding (finish_request s)])"
| "onb_handle pathname (Patch p) s = Inr (flow_set p s, [], [])"
| "onb_handle pathname (ToggleSize i) s =
     Inr (flow_set (PatchOrgSize (if orgSize s = Some i then None else Some i)) s, [], [])"
| "onb_handle pathname (ToggleUseCase i) s = Inr (toggleUseCase i s, [], [])"

text \<open>The page a path shows.\<close>

definition onb_page :: "string \<Rightarrow> bool \<Rightarrow> thrown option \<Rightarrow> OnboardingState \<Rightarrow> onb_action node option" where
  "onb_page pathname isPending error s =
     (if pathname = ''/onboarding/organization'' then Some (OrganizationPage pathname s)
      else if pathname = ''/onboarding/use-case'' then Some (UseCasePage pathname s)
      else if pathname = ''/onboarding/region'' then Some (RegionPage pathname s)
      else if pathname = ''/onboarding/complete'' then Some (CompletePage pathname isPending error s)
      else None)"

text \<open>\<open>/onboarding\<close> itself enters at the first step.\<close>

definition OnboardingIndex :: effect where
  "OnboardingIndex = RouterReplace ''/onboarding/organization''"

section \<open>Interface: a wizard over a step registry\<close>

text \<open>
  A registry of steps with distinct keys whose paths decode to their keys. Forward and
  backward navigation by index then invert each other.
\<close>

locale wizard =
  fixes steps :: "'s list"
    and key :: "'s \<Rightarrow> string"
    and decode :: "string \<Rightarrow> string"
    and path_of :: "'s \<Rightarrow> string"
  assumes distinct_keys: "distinct (map key steps)"
    and decode_path: "s \<in> set steps \<Longrightarrow> decode (path_of s) = key s"
begin

lemma index_of_path:
  "i < length steps \<Longrightarrow> find_index (\<lambda>s. key s = decode (path_of (steps ! i))) steps = int i"
  by (simp add: decode_path distinct_keys find_index_key)

lemma path_inject:
  "i < length steps \<Longrightarrow> j < length steps \<Longrightarrow> path_of (steps ! i) = path_of (steps ! j) \<Longrightarrow> i = j"
  by (metis index_of_path of_nat_eq_iff)

end

lemma slugFromPath_step_path:
  assumes "CHR ''/'' \<notin> set (slug s)" and "slug s \<noteq> []"
  shows "slugFromPath (step_path s) = slug s"
proof -
  have "step_path s = [] @ CHR ''/'' # ''onboarding'' @ CHR ''/'' # slug s"
    by (simp add: step_path_def BASE_def)
  then have "split_char (CHR ''/'') (step_path s) = [[], ''onboarding'', slug s]"
    using assms(1) by (simp add: split_char_no_sep)
  with assms(2) show ?thesis by (simp add: slugFromPath_def)
qed

lemma steps_well_formed:
  "list_all (\<lambda>s. CHR ''/'' \<notin> set (slug s) \<and> slug s \<noteq> []) ONBOARDING_STEPS"
  by (simp add: ONBOARDING_STEPS_def)

interpretation onboarding: wizard ONBOARDING_STEPS slug slugFromPath step_path
proof
  show "distinct (map slug ONBOARDING_STEPS)" by (simp add: ONBOARDING_STEPS_def)
  show "slugFromPath (step_path s) = slug s" if "s \<in> set ONBOARDING_STEPS" for s
    using that steps_well_formed slugFromPath_step_path by (simp add: list_all_iff)
qed

lemma length_steps [simp]: "length ONBOARDING_STEPS = 4"
  by (simp add: ONBOARDING_STEPS_def)

lemma stepIndex_step_path: "i < 4 \<Longrightarrow> stepIndex (step_path (ONBOARDING_STEPS ! i)) = int i"
  using onboarding.index_of_path[of i] by (simp add: stepIndex_def)

lemma stepIndex_range: "-1 \<le> stepIndex p \<and> stepIndex p < 4"
  using find_index_ge find_index_less[of _ ONBOARDING_STEPS] by (simp add: stepIndex_def)

lemma nextPath_cases:
  assumes "nextPath p = Some q"
  obtains i where "i < 3" "stepIndex p = int i" "q = step_path (ONBOARDING_STEPS ! Suc i)"
proof -
  from assms have a: "0 \<le> stepIndex p" "nat (stepIndex p + 1) < 4"
    "q = step_path (ONBOARDING_STEPS ! nat (stepIndex p + 1))"
    by (auto simp: nextPath_def js_nth_def Let_def split: if_splits)
  show ?thesis
    by (rule that[of "nat (stepIndex p)"]) (use a in \<open>auto simp: nat_add_distrib\<close>)
qed

lemma progress_index: "stepIndex p = int i \<Longrightarrow> progress p = (of_nat i + 1) / 4"
  by (simp add: progress_def)

lemma nextPath_own:
  "stepIndex p = int i \<Longrightarrow> i < 3 \<Longrightarrow> nextPath p = Some (step_path (ONBOARDING_STEPS ! Suc i))"
  by (simp add: nextPath_def js_nth_def Let_def nat_add_distrib)

lemma prevPath_own:
  "stepIndex p = int (Suc i) \<Longrightarrow> i < 3 \<Longrightarrow> prevPath p = Some (step_path (ONBOARDING_STEPS ! i))"
  by (simp add: prevPath_def js_nth_def)

section \<open>Lemmas on the flow and the pages\<close>

lemma toggleUseCase_distinct:
  "distinct (flow_useCases s) \<Longrightarrow> distinct (flow_useCases (toggleUseCase i s))"
  by (auto simp: toggleUseCase_def)

lemma set_toggleUseCase:
  "set (flow_useCases (toggleUseCase i s)) =
     (if i \<in> set (flow_useCases s) then set (flow_useCases s) - {i} else insert i (set (flow_useCases s)))"
  by (auto simp: toggleUseCase_def)

lemma clicks_OptionGrid: "clicks (OptionGrid os sel f) = map (\<lambda>o'. f (opt_id o')) os"
  by (induction os) (auto simp: OptionGrid_def shown_if_def split: option.splits)

lemma clicks_Shell:
  "clicks (OnboardingShell p sec pri cs) =
     concat (map clicks cs) @ concat (map clicks sec) @ concat (map clicks pri)"
  by (auto simp: OnboardingShell_def Let_def shown_if_def split: option.splits)

lemma clicks_Continue: "clicks (OnboardingContinue a d) = (if d then [] else [a])"
  by (simp add: OnboardingContinue_def)

lemma clicks_Back: "clicks (OnboardingBack a) = [a]"
  by (simp add: OnboardingBack_def)

lemma clicks_Field:
  "clicks (Field l h hint tr cs) =
     (if l \<noteq> [] \<or> tr \<noteq> [] then concat (map clicks tr) else []) @ concat (map clicks cs) @
     concat (map clicks hint)"
  by (auto simp: Field_def shown_if_def split: option.splits)

lemmas page_defs = OrganizationPage_def UseCasePage_def RegionPage_def CompletePage_def
lemmas page_clicks = clicks_OptionGrid clicks_Shell clicks_Continue clicks_Back clicks_Field

section \<open>Properties\<close>

text \<open>
  Continue and Back invert each other along the step registry: the page Continue leads to
  is the next step of the registry, its Back leads to the page one came from, and the
  progress line grows by one quarter.
\<close>

theorem nextPath_prevPath_inverse:
  assumes "nextPath p = Some q"
  shows "stepIndex q = stepIndex p + 1 \<and> prevPath q = map_option step_path (currentStep p) \<and>
         progress q = progress p + 1 / 4 \<and> progress q \<le> 1"
proof -
  obtain i where i: "i < 3" "stepIndex p = int i" "q = step_path (ONBOARDING_STEPS ! Suc i)"
    using nextPath_cases[OF assms] .
  have q: "stepIndex q = int (Suc i)" using i by (simp add: stepIndex_step_path)
  have "progress q = progress p + 1 / 4"
    using progress_index[OF i(2)] progress_index[OF q] by (simp add: field_simps)
  moreover have "progress q \<le> 1"
    using progress_index[OF q] i(1) by (simp add: field_simps)
  ultimately show ?thesis
    using i q prevPath_own[OF q i(1)] by (simp add: currentStep_def js_nth_def)
qed

theorem nextPath_prevPath_inverse_witness:
  "nextPath ''/onboarding/organization'' = Some ''/onboarding/use-case'' \<and>
   prevPath ''/onboarding/use-case'' = Some ''/onboarding/organization''"
proof -
  have h: "nextPath ''/onboarding/organization'' = Some ''/onboarding/use-case''"
    by (simp add: nextPath_def stepIndex_def slugFromPath_def ONBOARDING_STEPS_def js_nth_def
        step_path_def BASE_def Let_def)
  have "currentStep ''/onboarding/organization'' = Some (ONBOARDING_STEPS ! 0)"
    by (simp add: currentStep_def stepIndex_def slugFromPath_def ONBOARDING_STEPS_def js_nth_def Let_def)
  with nextPath_prevPath_inverse[OF h] h show ?thesis
    by (simp add: step_path_def BASE_def ONBOARDING_STEPS_def)
qed

text \<open>
  No click of the wizard crashes: on each of the four step pages every action a click can
  cause is handled without an exception (in particular no page pushes a missing next or
  previous path).
\<close>

theorem onboarding_clicks_never_crash:
  assumes "onb_page p isPending err s = Some page" and "a \<in> set (clicks page)"
  shows "\<exists>r. onb_handle p a s = Inr r"
proof -
  have paths: "step_path (ONBOARDING_STEPS ! 0) = ''/onboarding/organization''"
    "step_path (ONBOARDING_STEPS ! 1) = ''/onboarding/use-case''"
    "step_path (ONBOARDING_STEPS ! 2) = ''/onboarding/region''"
    "step_path (ONBOARDING_STEPS ! 3) = ''/onboarding/complete''"
    by (simp_all add: step_path_def BASE_def ONBOARDING_STEPS_def)
  have idx: "stepIndex ''/onboarding/organization'' = int 0" "stepIndex ''/onboarding/use-case'' = int 1"
    "stepIndex ''/onboarding/region'' = int 2" "stepIndex ''/onboarding/complete'' = int 3"
    using stepIndex_step_path[of 0] stepIndex_step_path[of 1] stepIndex_step_path[of 2]
      stepIndex_step_path[of 3] unfolding paths by simp_all
  have "a = GoNext \<Longrightarrow> stepIndex p \<in> {0, 1, 2}" "a = GoBack \<Longrightarrow> stepIndex p \<in> {1, 2}"
    using assms idx
    by (auto simp: onb_page_def page_defs page_clicks Let_def NEXT_def split: if_splits option.splits)
  then show ?thesis
    using nextPath_own[of p 0] nextPath_own[of p 1] nextPath_own[of p 2]
      prevPath_own[of p 0] prevPath_own[of p 1]
    by (cases a) (auto simp: push_path_def)
qed

theorem onboarding_clicks_never_crash_witness:
  "\<exists>r. onb_handle ''/onboarding/use-case'' GoBack
       \<lparr>orgName = [], orgSize = None, flow_useCases = [], flow_useCaseOther = [], region = []\<rparr> = Inr r"
proof -
  let ?p = "''/onboarding/use-case''"
  let ?s = "\<lparr>orgName = [], orgSize = None, flow_useCases = [], flow_useCaseOther = [], region = []\<rparr>"
  have "onb_page ?p False None ?s = Some (UseCasePage ?p ?s)" by (simp add: onb_page_def)
  moreover have "GoBack \<in> set (clicks (UseCasePage ?p ?s))"
    by (simp add: page_defs page_clicks)
  ultimately show ?thesis by (rule onboarding_clicks_never_crash)
qed

text \<open>
  The organization step lets one continue exactly with a name that is not blank, the
  region step exactly with a chosen region; a tenant without a region starts with none chosen.
\<close>

theorem onboarding_step_guards:
  "(GoNext \<in> set (clicks (OrganizationPage p s)) \<longleftrightarrow> trim (orgName s) \<noteq> []) \<and>
   (GoNext \<in> set (clicks (RegionPage p s)) \<longleftrightarrow> region s \<noteq> []) \<and>
   (tenant_region t = None \<longrightarrow> GoNext \<notin> set (clicks (RegionPage p (flow_initial t u))))"
  by (auto simp: page_defs page_clicks canContinue_def flow_initial_def)

theorem onboarding_step_guards_witness:
  "GoNext \<notin> set (clicks (RegionPage ''/onboarding/region''
     (flow_initial \<lparr>tenant_id = ''t'', tenant_name = None, tenant_size = None, tenant_region = None,
                    tenant_useCases = [], tenant_useCaseOther = None, tenant_onboarded = False\<rparr>
                   \<lparr>user_id = ''u'', user_name = [], user_email = ''a@acme.io''\<rparr>)))"
  by (rule onboarding_step_guards[THEN conjunct2, THEN conjunct2, rule_format]) simp

text \<open>
  Use cases behave as a set: toggling one adds it when absent and removes it when present,
  twice restores the selection, and a list without duplicates stays so. The free text is sent
  only with the use case "other", trimmed, and is empty otherwise.
\<close>

lemma toggleUseCase_set:
  "set (flow_useCases (toggleUseCase i (toggleUseCase i s))) = set (flow_useCases s) \<and>
   (distinct (flow_useCases s) \<longrightarrow> distinct (flow_useCases (toggleUseCase i s))) \<and>
   (i \<in> set (flow_useCases (toggleUseCase i s)) \<longleftrightarrow> i \<notin> set (flow_useCases s)) \<and>
   onb_useCaseOther (finish_request s) =
     (if ''other'' \<in> set (onb_useCases (finish_request s)) then trim (flow_useCaseOther s) else [])"
  by (auto simp: set_toggleUseCase toggleUseCase_distinct finish_request_def)

text \<open>
  The two gates never send a user back and forth: on the same session result at most one
  of the application gate and the onboarding gate redirects into the other's territory, and
  once settled without error exactly one of them renders its content (when the session carries
  a user).
\<close>

theorem gates_do_not_loop:
  "\<not> (RouterReplace ''/onboarding'' \<in> set (AppGate_effect q) \<and>
      RouterReplace ''/book'' \<in> set (OnboardingLayout_effect q)) \<and>
   (\<not> q_isPending q \<and> q_error q = None \<and> q_data q = Some \<lparr>session_user = Some u, session_tenant = Some t\<rparr>
     \<longrightarrow> (OnboardingLayout p q = None \<longleftrightarrow>
           AppGate refetch q [El ''AppShell'' [] []] = [El ''AppShell'' [] []]))"
  by (auto simp: AppGate_effect_def OnboardingLayout_effect_def OnboardingLayout_def AppGate_def
      session_onboarded_def split: option.splits if_splits)

theorem gates_do_not_loop_witness:
  "let q = \<lparr>q_data = Some \<lparr>session_user = Some \<lparr>user_id = [], user_name = [], user_email = []\<rparr>,
              session_tenant = Some \<lparr>tenant_id = [], tenant_name = None, tenant_size = None,
                tenant_region = None, tenant_useCases = [], tenant_useCaseOther = None,
                tenant_onboarded = False\<rparr>\<rparr>, q_isPending = False, q_error = None\<rparr>
   in OnboardingLayout ''/onboarding/region'' q \<noteq> None \<and>
      AppGate () q [El ''AppShell'' [] []] \<noteq> [El ''AppShell'' [] []]"
proof -
  let ?u = "\<lparr>user_id = [], user_name = [], user_email = []\<rparr>"
  let ?t = "\<lparr>tenant_id = [], tenant_name = None, tenant_size = None, tenant_region = None,
             tenant_useCases = [], tenant_useCaseOther = None, tenant_onboarded = False\<rparr>"
  let ?q = "\<lparr>q_data = Some \<lparr>session_user = Some ?u, session_tenant = Some ?t\<rparr>,
             q_isPending = False, q_error = None\<rparr>"
  have "OnboardingLayout ''/onboarding/region'' ?q \<noteq> None"
    by (simp add: OnboardingLayout_def session_onboarded_def)
  with gates_do_not_loop[of ?q ?u ?t "''/onboarding/region''" "()"] show ?thesis
    unfolding Let_def by auto
qed

end
