(* ===== verification/Sources.thy ===== *)
theory Sources
  imports Selection Onboarding
begin

text \<open>
  The sources pages: the list with its one-shot redirect (\<open>web/app/(app)/sources/page.tsx\<close>),
  the gallery (\<open>sources/new/page.tsx\<close>), the token form (\<open>sources/new/[connector]/page.tsx\<close>) and
  a source's details (\<open>sources/[id]/page.tsx\<close>), with the relative times shown there
  (\<open>web/components/app/relative-time.tsx\<close>).

  Parameters: \<open>fmt\<close> and \<open>lc\<close> as in the selection theory; \<open>exact\<close> is \<open>formatExact\<close>, the browser's
  own date formatting. Timestamps are milliseconds. \<open>pending\<close> flags are those of the mutations.
\<close>

section \<open>The list\<close>

definition connectionHref :: "Connection \<Rightarrow> string" where
  "connectionHref c =
     (if conn_onboarded c then ''/sources/'' @ conn_id c else ''/sources/'' @ conn_id c @ ''/manage'')"

text \<open>The redirect effect: \<open>connectedId\<close> is the marker in the address, the flag the latch.\<close>

definition autoOpen_effect ::
  "string option \<Rightarrow> Connection list \<Rightarrow> bool \<Rightarrow> bool \<times> effect list" where
  "autoOpen_effect connectedId conns autoOpened =
     (if autoOpened \<or> \<not> truthy_str connectedId then (autoOpened, [])
      else (case find (\<lambda>c. Some (conn_id c) = connectedId) conns of
              None \<Rightarrow> (autoOpened, [])
            | Some c \<Rightarrow>
                if conn_catalogDiscoveredAt c = None then (autoOpened, [])
                else (True, [RouterReplace (connectionHref c)])))"

text \<open>The effect runs after every render whose snapshot differs.\<close>

fun autoOpen_run :: "string option \<Rightarrow> Connection list list \<Rightarrow> bool \<Rightarrow> effect list" where
  "autoOpen_run cid [] opened = []"
| "autoOpen_run cid (cs # rest) opened =
     (let (opened', effs) = autoOpen_effect cid cs opened in effs @ autoOpen_run cid rest opened')"

definition SourceCard :: "Connection \<Rightarrow> string \<Rightarrow> 'a node" where
  "SourceCard c connectorName =
     El ''Link'' [AStr ''href'' (connectionHref c)]
       [El ''ConnectorIcon'' [AStr ''connectorId'' (conn_connectorId c)] [],
        El ''div'' []
          [El ''p'' [] [Txt (str_or (conn_account c) connectorName)],
           if conn_catalogDiscoveredAt c = None
           then El ''div'' [] [El ''p'' [] [Txt (''Getting your data'' @ ellipsis)], El ''LineLoader'' [] []]
           else El ''p'' [] [Txt (connectorName @ '' '' @ middot @ '' ''),
                  El ''span'' [ABool ''destructive'' (snd (connectionStatus c) = ToneError)]
                    [Txt (fst (connectionStatus c))]]]]"

datatype sources_body = SourcesFailed | SourcesLoading | SourcesEmpty | SourcesGrid "(Connection \<times> string) list"

definition SourcesView ::
  "Connector list query \<Rightarrow> Connection list option \<Rightarrow> thrown option \<Rightarrow> bool \<times> sources_body" where
  "SourcesView connectors connections error =
     (let conns = nullish connections [];
          name = map_of (rev (map (\<lambda>c. (connector_key c, connector_name c)) (nullish (q_data connectors) [])));
          failed = (error \<noteq> None \<or> q_isError connectors);
          loading = (\<not> failed \<and> (connections = None \<or> q_isPending connectors))
      in (conns \<noteq> [],
          if failed then SourcesFailed
          else if loading then SourcesLoading
          else if conns = [] then SourcesEmpty
          else SourcesGrid (map (\<lambda>c. (c, nullish (name (conn_connectorId c)) (conn_connectorId c))) conns)))"

definition SourcesView_view ::
  "Connector list query \<Rightarrow> Connection list option \<Rightarrow> thrown option \<Rightarrow> 'a node" where
  "SourcesView_view connectors connections error =
     (let (add, body) = SourcesView connectors connections error
      in El ''PageShell'' []
        (shown_if add [El ''ChromeActions'' [] [El ''Link'' [AStr ''href'' ''/sources/new''] [Txt ''Add source'']]] @
         [El ''PageHeader'' [AStr ''title'' ''Sources'', AStr ''subtitle'' ''The systems your knowledge is pulled from.''] [],
          (case body of
             SourcesFailed \<Rightarrow> El ''div'' []
               [El ''p'' [] [Txt (''Couldn'' @ rsquo @ ''t load your sources'')],
                El ''p'' [] [Txt (''Something went wrong reaching the sync service. Refresh to try again '' @ emdash @
                  '' if it persists, you may need to sign in again.'')]]
           | SourcesLoading \<Rightarrow> El ''div'' [] (replicate 3 (El ''Skeleton'' [] []))
           | SourcesEmpty \<Rightarrow> El ''div'' []
               [El ''p'' [] [Txt ''No sources connected''],
                El ''p'' [] [Txt (''Connect the systems where your knowledge lives '' @ emdash @ '' GitHub, Google Docs '' @
                  emdash @ '' and they'' @ rsquo @ ''re kept in sync.'')],
                El ''Link'' [AStr ''href'' ''/sources/new''] [Txt ''Add source'']]
           | SourcesGrid cs \<Rightarrow> El ''div'' [] (map (\<lambda>(c, n). SourceCard c n) cs))]))"

section \<open>The gallery\<close>

definition TOKEN_CONNECTORS :: "string list" where
  "TOKEN_CONNECTORS = [''github_pat'']"

definition flag_on :: "string \<Rightarrow> FeatureFlag list query \<Rightarrow> bool" where
  "flag_on key flags =
     (case q_data flags of None \<Rightarrow> False
      | Some fs \<Rightarrow> (case find (\<lambda>f. flag_key f = key) fs of None \<Rightarrow> False | Some f \<Rightarrow> flag_enabled f))"

definition gallery_all :: "Connector list query \<Rightarrow> FeatureFlag list query \<Rightarrow> Connector list" where
  "gallery_all connectors flags =
     filter (\<lambda>c. connector_key c \<noteq> ''github_pat'' \<or> flag_on ''github_pat'' flags) (nullish (q_data connectors) [])"

text \<open>The default sort of strings.\<close>

fun str_less_eq :: "string \<Rightarrow> string \<Rightarrow> bool" where
  "str_less_eq [] t = True"
| "str_less_eq (a # s) [] = False"
| "str_less_eq (a # s) (b # t) =
     ((of_char a :: nat) < of_char b \<or> (a = b \<and> str_less_eq s t))"

definition js_sort_strings :: "string list \<Rightarrow> string list" where
  "js_sort_strings = sort_by (\<lambda>a b. if str_less_eq a b then 0 else 1)"

definition categories :: "Connector list \<Rightarrow> string list" where
  "categories cs = ''all'' # js_sort_strings (js_set [] (map archetype cs))"

definition gallery_shown :: "string \<Rightarrow> string \<Rightarrow> Connector list \<Rightarrow> Connector list" where
  "gallery_shown category query cs =
     filter (\<lambda>c. (category = ''all'' \<or> archetype c = category) \<and>
                 str_includes (toLowerCase (connector_name c)) (toLowerCase (trim query))) cs"

definition gallery_connect :: "Connector \<Rightarrow> rpc list \<times> effect list" where
  "gallery_connect c =
     (if connector_key c \<in> set TOKEN_CONNECTORS
      then ([], [RouterPush (''/sources/new/'' @ connector_key c)])
      else ([GetAuthorizeUrl (connector_key c)], []))"

definition authorize_settled :: "thrown + string \<Rightarrow> effect list" where
  "authorize_settled r =
     (case r of Inr url \<Rightarrow> [LocationAssign url]
      | Inl e \<Rightarrow> [ToastError (''Couldn'' @ squote @ ''t start authorization: '' @ message e)])"

datatype gallery_action = GQuery string | GCategory string | GConnect Connector

definition AddSourcePage ::
  "Connector list query \<Rightarrow> FeatureFlag list query \<Rightarrow> bool \<Rightarrow> string \<Rightarrow> string \<Rightarrow> gallery_action node" where
  "AddSourcePage connectors flags authorizing query category =
     (let all = gallery_all connectors flags; shown = gallery_shown category query all
      in El ''PageShell'' []
        ([El ''div'' []
           [El ''Link'' [AStr ''href'' ''/sources'', AStr ''aria-label'' ''Back to sources''] [],
            El ''h1'' [] [Txt ''Add a source''],
            El ''p'' [] [Txt ''Connect a system to sync from. You can add more than one of the same type.'']],
          El ''div'' []
           [El ''Input'' [AStr ''value'' query, OnValue ''change'' GQuery, AStr ''placeholder'' ''Search sources''] [],
            El ''DropdownMenu'' []
              [El ''Button'' [] [Txt (if category = ''all'' then ''All categories'' else category)],
               El ''DropdownMenuRadioGroup'' [AStr ''value'' category]
                 (map (\<lambda>cat. El ''DropdownMenuRadioItem'' [AStr ''value'' cat, On ''click'' (GCategory cat)]
                         [Txt (if cat = ''all'' then ''All categories'' else cat)]) (categories all))]],
          El ''div'' []
            (map (\<lambda>c. El ''button'' [On ''click'' (GConnect c), ABool ''disabled'' authorizing]
                [El ''ConnectorIcon'' [AStr ''connectorId'' (connector_key c)] [],
                 El ''p'' [] [Txt (connector_name c)], El ''p'' [] [Txt (archetype c)]]) shown)] @
         shown_if (q_isPending connectors) [El ''p'' [] [Txt (''Loading sources'' @ ellipsis)]] @
         shown_if (\<not> q_isPending connectors \<and> shown = []) [El ''p'' [] [Txt ''No sources match.'']]))"

section \<open>The token form\<close>

record token_guide =
  guide_flag :: string
  tokenUrl :: string
  tokenUrlLabel :: string
  guide_placeholder :: string
  guide_steps :: nat   \<comment> \<open>how many steps; their prose is left out\<close>

definition GUIDE :: "string \<rightharpoonup> token_guide" where
  "GUIDE = map_of [(''github_pat'',
     \<lparr>guide_flag = ''github_pat'', tokenUrl = ''https://github.com/settings/personal-access-tokens/new'',
      tokenUrlLabel = ''Open GitHub token settings'', guide_placeholder = ''github_pat_'' @ ellipsis,
      guide_steps = 5\<rparr>)]"

definition token_enabled :: "string \<Rightarrow> FeatureFlag list query \<Rightarrow> bool" where
  "token_enabled connector flags =
     (case GUIDE connector of None \<Rightarrow> True | Some g \<Rightarrow> flag_on (guide_flag g) flags)"

record token_form =
  tf_name :: string
  tf_token :: string
  tf_pending :: bool   \<comment> \<open>the mutation's \<open>isPending\<close>\<close>

definition onConnect :: "string \<Rightarrow> token_form \<Rightarrow> rpc list" where
  "onConnect connector f =
     (if trim (tf_name f) = [] \<or> trim (tf_token f) = [] then []
      else [ConnectWithToken connector (trim (tf_token f)) (trim (tf_name f))])"

datatype token_event =
    TName string | TToken string | TKey string | TConnect
  | TSettled "thrown + string option"  \<comment> \<open>the new connection's id, if the answer has one\<close>

definition token_fire :: "string \<Rightarrow> token_form \<Rightarrow> token_form \<times> rpc list \<times> effect list" where
  "token_fire connector f =
     (f\<lparr>tf_pending := tf_pending f \<or> onConnect connector f \<noteq> []\<rparr>, onConnect connector f, [])"

fun token_step :: "string \<Rightarrow> token_event \<Rightarrow> token_form \<Rightarrow> token_form \<times> rpc list \<times> effect list" where
  "token_step connector (TName v) f = (f\<lparr>tf_name := v\<rparr>, [], [])"
| "token_step connector (TToken v) f = (f\<lparr>tf_token := v\<rparr>, [], [])"
| "token_step connector (TKey k) f = (if k = ''Enter'' then token_fire connector f else (f, [], []))"
| "token_step connector TConnect f = token_fire connector f"
| "token_step connector (TSettled (Inr cid)) f =
     (f\<lparr>tf_pending := False\<rparr>, [],
      (case cid of None \<Rightarrow> [] | Some i \<Rightarrow> [RouterPush (''/sources?connected='' @ i)]))"
| "token_step connector (TSettled (Inl e)) f =
     (f\<lparr>tf_pending := False\<rparr>, [], [ToastError (''Couldn'' @ squote @ ''t connect: '' @ message e)])"

definition ConnectTokenSourcePage ::
  "string \<Rightarrow> Connector list query \<Rightarrow> FeatureFlag list query \<Rightarrow> token_form \<Rightarrow> token_event node" where
  "ConnectTokenSourcePage connector connectors flags f =
     (let def = find (\<lambda>c. connector_key c = connector) (nullish (q_data connectors) []);
          displayName = opt_str_or (map_option connector_name def) ''source'';
          header = El ''div'' []
            [El ''Link'' [AStr ''href'' ''/sources/new'', AStr ''aria-label'' ''Back''] [],
             El ''ConnectorIcon'' [AStr ''connectorId'' connector] [],
             El ''h1'' [] [Txt (''Connect '' @ displayName)],
             El ''p'' [] [Txt ''Authenticate with a personal access token.'']]
      in case GUIDE connector of
           None \<Rightarrow> El ''PageShell'' [] [header, El ''p'' []
             [Txt (''This source can'' @ squote @ ''t be connected with a token. ''),
              El ''Link'' [AStr ''href'' ''/sources/new''] [Txt ''Back to sources''], Txt ''.'']]
         | Some g \<Rightarrow>
             if \<not> token_enabled connector flags
             then El ''PageShell'' [] [header, El ''p'' []
               [Txt (''This source isn'' @ squote @ ''t enabled for this workspace. An admin can turn it on in Settings '' @
                     rarrow @ '' Feature flags. ''),
                El ''Link'' [AStr ''href'' ''/sources/new''] [Txt ''Back to sources''], Txt ''.'']]
             else El ''PageShell'' [] [header,
               El ''div'' []
                 [Field ''Source name'' (Some ''src-name'') [] []
                    [El ''Input'' [AStr ''id'' ''src-name'', AStr ''value'' (tf_name f), OnValue ''change'' TName] []],
                  Field ''Personal access token'' (Some ''src-token'') [] []
                    [El ''Input'' [AStr ''id'' ''src-token'', AStr ''type'' ''password'', AStr ''value'' (tf_token f),
                                   OnValue ''change'' TToken, OnValue ''keydown'' TKey,
                                   AStr ''placeholder'' (guide_placeholder g)] []],
                  El ''Button'' [On ''click'' TConnect,
                                 ABool ''disabled'' (trim (tf_name f) = [] \<or> trim (tf_token f) = [] \<or> tf_pending f)]
                    [Txt (if tf_pending f then ''Connecting'' @ ellipsis else ''Connect source'')]],
               El ''div'' []
                 [El ''h2'' [] [Txt ''How to create a token''],
                  El ''a'' [AStr ''href'' (tokenUrl g)] [Txt (tokenUrlLabel g)],
                  El ''ol'' [] (map (\<lambda>i. El ''li'' [] [El ''span'' [] [Txt (show_nat (i + 1))]]) [0 ..< guide_steps g])]])"

section \<open>Relative times\<close>

definition relative_units :: "(int option \<times> int \<times> string) list" where
  "relative_units =
     [(Some 60, 60, ''minute''), (Some 3600, 60, ''minute''), (Some 86400, 3600, ''hour''),
      (Some 2592000, 86400, ''day''), (Some 31536000, 2592000, ''month''), (None, 31536000, ''year'')]"

definition rel_seconds :: "int \<Rightarrow> int \<Rightarrow> int" where
  "rel_seconds cur date = max 0 (round_div (cur - date) 1000)"

definition formatRelative :: "int \<Rightarrow> int \<Rightarrow> string" where
  "formatRelative cur date =
     (let seconds = rel_seconds cur date
      in if seconds < 45 then ''just now''
         else (case find (\<lambda>(limit, secs, name). case limit of None \<Rightarrow> True | Some l \<Rightarrow> seconds < l) relative_units of
                 Some (limit, secs, name) \<Rightarrow>
                   (let n = max 1 (seconds div secs)
                    in show_int n @ '' '' @ name @ (if n = 1 then [] else ''s'') @ '' ago'')
               | None \<Rightarrow> ''just now''))"

definition RelativeTime :: "(int \<Rightarrow> string) \<Rightarrow> int \<Rightarrow> int option \<Rightarrow> 'a node" where
  "RelativeTime exact cur date =
     (case date of
        None \<Rightarrow> El ''span'' [] [Txt ''Never'']
      | Some d \<Rightarrow> El ''Tooltip'' []
          [El ''span'' [ANum ''tabIndex'' 0] [El ''Clock'' [] [], Txt (formatRelative cur d)],
           El ''TooltipContent'' [] [Txt (exact d)]])"

section \<open>A source's details\<close>

datatype details_action = Stop | SyncNow

text \<open>What a click asks of the server, and the toast when it fails.\<close>

fun details_rpc :: "Connection \<Rightarrow> details_action \<Rightarrow> rpc" where
  "details_rpc c Stop = StopSync (conn_id c)"
| "details_rpc c SyncNow = TriggerSync (conn_id c)"

fun details_failed :: "details_action \<Rightarrow> thrown \<Rightarrow> effect" where
  "details_failed Stop e = ToastError (''Couldn'' @ squote @ ''t stop sync: '' @ rawMessage e)"
| "details_failed SyncNow e = ToastError (''Couldn'' @ squote @ ''t start sync: '' @ rawMessage e)"

definition sync_button :: "Connection \<Rightarrow> bool \<Rightarrow> bool \<Rightarrow> details_action node" where
  "sync_button c syncPending stopPending =
     (if conn_status c = SYNCING
      then El ''Button'' [ABool ''disabled'' stopPending, On ''click'' Stop]
             [if stopPending then El ''AnimatedSpinner'' [] [] else El ''RiStopLine'' [] [],
              Txt (if stopPending then ''Stopping'' @ ellipsis else ''Stop syncing'')]
      else if conn_status c = STOPPING
      then El ''Button'' [ABool ''disabled'' True] [El ''AnimatedSpinner'' [] [], Txt (''Stopping'' @ ellipsis)]
      else El ''Button'' [ABool ''disabled'' syncPending, On ''click'' SyncNow]
             [if syncPending then El ''AnimatedSpinner'' [] [] else El ''RiRefreshLine'' [] [],
              Txt (if syncPending then ''Syncing'' @ ellipsis else ''Sync now'')])"

definition selectedProjects :: "Project list option \<Rightarrow> Project list" where
  "selectedProjects projects = filter proj_selected (nullish projects [])"

definition totalItems :: "Project list \<Rightarrow> nat" where
  "totalItems ps = foldl (\<lambda>n p. n + proj_artifactCount p) 0 ps"

definition totalEstimate :: "Project list \<Rightarrow> nat" where
  "totalEstimate ps = foldl (\<lambda>n p. n + proj_totalEstimate p) 0 ps"

definition items_synced :: "(nat \<Rightarrow> string) \<Rightarrow> Connection \<Rightarrow> Project list option \<Rightarrow> 'a node" where
  "items_synced fmt c projects =
     (let sel = selectedProjects projects; n = totalItems sel; e = totalEstimate sel
      in if projects = None then Txt emdash
         else if n > 0
         then El ''Link'' [AStr ''href'' (''/files?connection='' @ conn_id c)]
                [El ''RiLinkM'' [] [], Txt (if e > 0 then fmt n @ '' / '' @ fmt e else fmt n)]
         else if e > 0 then Txt (''0 / '' @ fmt e) else Txt ''0'')"

definition SourceDetails ::
  "(nat \<Rightarrow> string) \<Rightarrow> (string \<Rightarrow> string \<Rightarrow> int) \<Rightarrow> (int \<Rightarrow> string) \<Rightarrow> int \<Rightarrow> string \<Rightarrow> Connection \<Rightarrow>
   Project list option \<Rightarrow> bool \<Rightarrow> bool \<Rightarrow> details_action node" where
  "SourceDetails fmt lc exact cur connectorName c projects syncPending stopPending =
     (let sel = selectedProjects projects; manage = ''/sources/'' @ conn_id c @ ''/manage''
      in El ''PageShell'' []
        [El ''PageHeader'' [AStr ''back'' ''/sources'', AStr ''backLabel'' ''Back to sources'',
                            AStr ''title'' (str_or (conn_account c) connectorName), AStr ''subtitle'' connectorName]
           [El ''ConnectorIcon'' [AStr ''connectorId'' (conn_connectorId c)] [],
            sync_button c syncPending stopPending,
            El ''DropdownMenu'' []
              [El ''Button'' [AStr ''aria-label'' ''More actions''] [],
               El ''Link'' [AStr ''href'' (''/files?connection='' @ conn_id c)] [Txt ''View files''],
               El ''Link'' [AStr ''href'' manage] [Txt ''Manage'']]],
         El ''KeyValueList'' []
           [El ''item'' [AStr ''label'' ''Status'', ABool ''destructive'' (snd (connectionStatus c) = ToneError)]
              [Txt (fst (connectionStatus c))],
            El ''item'' [AStr ''label'' ''Last synced''] [RelativeTime exact cur (conn_lastSyncedAt c)],
            El ''item'' [AStr ''label'' ''Projects'']
              [Txt (case projects of None \<Rightarrow> emdash
                    | Some ps \<Rightarrow> show_nat (length sel) @ '' of '' @ show_nat (length ps) @ '' selected'')],
            El ''item'' [AStr ''label'' ''Items synced''] [items_synced fmt c projects],
            El ''item'' [AStr ''label'' ''Auto-sync'']
              [Txt (if conn_autoSyncEnabled c then ''Every '' @ humanizeInterval (conn_syncIntervalSeconds c) else ''Off'')]],
         El ''p'' [] [Txt ''Selected projects''],
         El ''div'' []
           [if projects = None then El ''div'' [] [El ''AnimatedSpinner'' [] [], Txt (''Loading'' @ ellipsis)]
            else if sel = []
            then El ''div'' [] [Txt ''No projects selected. '', El ''Link'' [AStr ''href'' manage] [Txt ''Choose what to sync''], Txt ''.'']
            else El ''ul'' [] (map (\<lambda>p. El ''li'' [AStr ''key'' (proj_id p)]
                   [El ''span'' [] [Txt (str_or (proj_name p) (proj_id p))], El ''span'' [] [ProjectStatus fmt p]])
                 (sort_by (heavier lc) sel))]])"

text \<open>The page around it: what the connections stream has delivered decides.\<close>

definition ManageSkeleton :: "'a node" where
  "ManageSkeleton =
     El ''PageShell'' []
       [El ''div'' [] [El ''Skeleton'' [] [], El ''Skeleton'' [] [],
                       El ''div'' [] [El ''Skeleton'' [] [], El ''Skeleton'' [] []]],
        El ''div'' [] (replicate 4 (El ''Skeleton'' [] [])), El ''Skeleton'' [] []]"

definition back_to_sources :: "string \<Rightarrow> 'a node" where
  "back_to_sources notice =
     El ''PageShell'' []
       [El ''p'' [] [Txt notice, El ''Link'' [AStr ''href'' ''/sources''] [Txt ''Back to sources''], Txt ''.'']]"

datatype details_page = DetailsFailed | DetailsLoading | DetailsGone | Details Connection

definition details_phase ::
  "string \<Rightarrow> Connection list option \<Rightarrow> thrown option \<Rightarrow> bool \<Rightarrow> details_page" where
  "details_phase cid connections streamError graceElapsed =
     (if streamError \<noteq> None then DetailsFailed
      else (case connections of
         None \<Rightarrow> DetailsLoading
       | Some cs \<Rightarrow>
           (case find (\<lambda>c. conn_id c = cid) cs of
              None \<Rightarrow> if \<not> graceElapsed then DetailsLoading else DetailsGone
            | Some c \<Rightarrow> Details c)))"

definition details_view ::
  "(nat \<Rightarrow> string) \<Rightarrow> (string \<Rightarrow> string \<Rightarrow> int) \<Rightarrow> (int \<Rightarrow> string) \<Rightarrow> int \<Rightarrow> string \<Rightarrow> Connector list query \<Rightarrow>
   Connection list option \<Rightarrow> thrown option \<Rightarrow> bool \<Rightarrow> Project list option \<Rightarrow> bool \<Rightarrow> bool \<Rightarrow>
   details_action node" where
  "details_view fmt lc exact cur cid connectors connections streamError graceElapsed projects syncPending stopPending =
     (case details_phase cid connections streamError graceElapsed of
        DetailsFailed \<Rightarrow>
          back_to_sources (''Couldn'' @ rsquo @ ''t load this source '' @ emdash @
            '' the sync service is unreachable, or you may need to sign in again. '')
      | DetailsLoading \<Rightarrow> ManageSkeleton
      | DetailsGone \<Rightarrow> back_to_sources ''This connection no longer exists. ''
      | Details c \<Rightarrow>
          SourceDetails fmt lc exact cur (connectorNameOf connectors (Some c)) c projects syncPending stopPending)"

section \<open>Lemmas\<close>

lemma autoOpen_latched: "autoOpen_run cid snaps True = []"
  by (induction snaps) (simp_all add: autoOpen_effect_def)

lemma autoOpen_fires:
  assumes "autoOpen_effect cid cs False = (o', effs)" "effs \<noteq> []"
  shows "o' \<and> (\<exists>c. c \<in> set cs \<and> Some (conn_id c) = cid \<and> conn_catalogDiscoveredAt c \<noteq> None \<and>
                  effs = [RouterReplace (connectionHref c)])"
  using assms by (auto simp: autoOpen_effect_def split: if_splits option.splits dest!: find_Some_mem)

lemma autoOpen_silent: "autoOpen_effect cid cs False = (o', []) \<Longrightarrow> \<not> o'"
  by (auto simp: autoOpen_effect_def split: if_splits option.splits)

lemma foldl_sum: "foldl (\<lambda>n p. n + g p) a ps = a + sum_list (map g ps)"
  by (induction ps arbitrary: a) (auto simp: add.assoc)

section \<open>Properties\<close>

text \<open>
  The redirect after connecting a source fires at most once, however many snapshots the
  stream pushes, and only to the source named in the address once its catalog is discovered:
  to its manage page when it is not onboarded, to its details otherwise.
\<close>

theorem auto_open_once:
  "autoOpen_run cid snaps False = [] \<or>
   (\<exists>cs c. cs \<in> set snaps \<and> c \<in> set cs \<and> Some (conn_id c) = cid \<and> conn_catalogDiscoveredAt c \<noteq> None \<and>
      autoOpen_run cid snaps False =
        [RouterReplace (''/sources/'' @ conn_id c @ (if conn_onboarded c then [] else ''/manage''))])"
proof (induction snaps)
  case Nil
  show ?case by simp
next
  case (Cons cs snaps)
  obtain o' effs where e: "autoOpen_effect cid cs False = (o', effs)" by fastforce
  show ?case
  proof (cases "effs = []")
    case True
    with e have "\<not> o'" using autoOpen_silent by blast
    with e True have "autoOpen_run cid (cs # snaps) False = autoOpen_run cid snaps False" by simp
    then show ?thesis using Cons.IH by (metis list.set_intros(2))
  next
    case False
    from autoOpen_fires[OF e False] obtain c where
      c: "o'" "c \<in> set cs" "Some (conn_id c) = cid" "conn_catalogDiscoveredAt c \<noteq> None"
        "effs = [RouterReplace (connectionHref c)]" by blast
    then have "autoOpen_run cid (cs # snaps) False = [RouterReplace (connectionHref c)]"
      using e by (simp add: autoOpen_latched)
    with c show ?thesis by (auto simp: connectionHref_def)
  qed
qed

text \<open>
  The sync button follows the live status: it can stop a sync exactly while the source is
  syncing and no stop is pending, it can start one exactly when the source is neither syncing
  nor stopping and no start is pending, and either request names the source shown.
\<close>

theorem sync_button_follows_status:
  "(Stop \<in> set (clicks (sync_button c sp tp)) \<longleftrightarrow> conn_status c = SYNCING \<and> \<not> tp) \<and>
   (SyncNow \<in> set (clicks (sync_button c sp tp)) \<longleftrightarrow>
      conn_status c \<noteq> SYNCING \<and> conn_status c \<noteq> STOPPING \<and> \<not> sp) \<and>
   rpc_connection (details_rpc c a) = Some (conn_id c)"
  by (cases a) (auto simp: sync_button_def)

text \<open>The unit a label uses, by the number of seconds.\<close>

definition rel_unit :: "int \<Rightarrow> int \<times> string" where
  "rel_unit s = (if s < 3600 then (60, ''minute'') else if s < 86400 then (3600, ''hour'')
                 else if s < 2592000 then (86400, ''day'') else if s < 31536000 then (2592000, ''month'')
                 else (31536000, ''year''))"

lemma rel_unit_pos: "60 \<le> s \<Longrightarrow> 0 < fst (rel_unit s) \<and> fst (rel_unit s) \<le> s"
  by (auto simp: rel_unit_def)

lemma div_bracket:
  fixes s u :: int
  assumes "0 < u" "u \<le> s"
  shows "0 < s div u" "s div u * u \<le> s" "s < (s div u + 1) * u"
proof -
  show "0 < s div u" using assms by (simp add: pos_imp_zdiv_pos_iff)
  have "s div u * u + s mod u = s" "0 \<le> s mod u" "s mod u < u" using assms(1) by simp_all
  moreover have "(s div u + 1) * u = s div u * u + u" by (simp add: distrib_right)
  ultimately show "s div u * u \<le> s" "s < (s div u + 1) * u" by linarith+
qed

lemma formatRelative_unit:
  assumes "60 \<le> rel_seconds cur d"
  shows "formatRelative cur d =
           (let n = rel_seconds cur d div fst (rel_unit (rel_seconds cur d))
            in show_int n @ '' '' @ snd (rel_unit (rel_seconds cur d)) @ (if n = 1 then [] else ''s'') @ '' ago'')"
proof -
  let ?s = "rel_seconds cur d"
  have "max 1 (?s div fst (rel_unit ?s)) = ?s div fst (rel_unit ?s)"
    using div_bracket(1)[of "fst (rel_unit ?s)" ?s] rel_unit_pos[OF assms] by simp
  with assms show ?thesis by (auto simp: formatRelative_def relative_units_def rel_unit_def Let_def)
qed

text \<open>
  Relative times are accurate: a moment at least a minute old is labelled with a count of
  units such that the elapsed seconds lie between that many units and one more.
\<close>

theorem relative_time_accurate:
  assumes "60 \<le> rel_seconds cur d"
  shows "\<exists>n unit name. formatRelative cur d = show_int n @ '' '' @ name @ (if n = 1 then [] else ''s'') @ '' ago'' \<and>
           0 < n \<and> n * unit \<le> rel_seconds cur d \<and> rel_seconds cur d < (n + 1) * unit \<and>
           (unit, name) \<in> {(60, ''minute''), (3600, ''hour''), (86400, ''day''), (2592000, ''month''), (31536000, ''year'')}"
proof -
  let ?s = "rel_seconds cur d"
  let ?u = "fst (rel_unit ?s)"
  have "rel_unit ?s \<in> {(60, ''minute''), (3600, ''hour''), (86400, ''day''), (2592000, ''month''), (31536000, ''year'')}"
    by (simp add: rel_unit_def)
  then show ?thesis
    using formatRelative_unit[OF assms] div_bracket[of ?u ?s] rel_unit_pos[OF assms]
    by (intro exI[of _ "?s div ?u"] exI[of _ ?u] exI[of _ "snd (rel_unit ?s)"]) (simp only: Let_def prod.collapse simp_thms)
qed

theorem relative_time_accurate_witness:
  "\<exists>n unit name. formatRelative 7300000 0 = show_int n @ '' '' @ name @ (if n = 1 then [] else ''s'') @ '' ago'' \<and>
     0 < n \<and> n * unit \<le> 7300 \<and> 7300 < (n + 1) * unit \<and>
     (unit, name) \<in> {(60, ''minute''), (3600, ''hour''), (86400, ''day''), (2592000, ''month''), (31536000, ''year'')}"
proof -
  have "rel_seconds 7300000 0 = 7300" by (simp add: rel_seconds_def round_div_def)
  with relative_time_accurate[of 7300000 0] show ?thesis by simp
qed

text \<open>
  A token form sends trimmed, non-empty values only, and its button reacts to a click only
  when both fields have content and no request is pending; but Enter in the token field is not
  guarded by the pending request, so pressing it twice sends the request twice.
\<close>

theorem token_form_enter_unguarded:
  "(ConnectWithToken c t n \<in> set (fst (snd (token_step connector e f))) \<longrightarrow>
      t \<noteq> [] \<and> n \<noteq> [] \<and> trim t = t \<and> trim n = n) \<and>
   (TConnect \<in> set (clicks (ConnectTokenSourcePage connector connectors flags f)) \<longrightarrow>
      \<not> tf_pending f \<and> trim (tf_name f) \<noteq> [] \<and> trim (tf_token f) \<noteq> []) \<and>
   fst (snd (token_step connector (TKey ''Enter'') (fst (token_step connector (TKey ''Enter'') f))))
     = fst (snd (token_step connector (TKey ''Enter'') f))"
proof (intro conjI)
  show "ConnectWithToken c t n \<in> set (fst (snd (token_step connector e f))) \<longrightarrow>
      t \<noteq> [] \<and> n \<noteq> [] \<and> trim t = t \<and> trim n = n"
    by (cases "(connector, e, f)" rule: token_step.cases)
       (auto simp: token_fire_def onConnect_def split: if_splits)
  show "TConnect \<in> set (clicks (ConnectTokenSourcePage connector connectors flags f)) \<longrightarrow>
      \<not> tf_pending f \<and> trim (tf_name f) \<noteq> [] \<and> trim (tf_token f) \<noteq> []"
    by (auto simp: ConnectTokenSourcePage_def Let_def Field_def split: option.splits if_splits)
  show "fst (snd (token_step connector (TKey ''Enter'') (fst (token_step connector (TKey ''Enter'') f))))
     = fst (snd (token_step connector (TKey ''Enter'') f))"
    by (simp add: token_fire_def onConnect_def)
qed

theorem token_form_enter_unguarded_witness:
  "let f = \<lparr>tf_name = ''Work'', tf_token = ''x'', tf_pending = True\<rparr>
   in fst (snd (token_step ''github_pat'' (TKey ''Enter'') (fst (token_step ''github_pat'' (TKey ''Enter'') f))))
        = [ConnectWithToken ''github_pat'' ''x'' ''Work'']"
proof -
  have t: "trim ''Work'' = ''Work''" "trim ''x'' = ''x''" by code_simp+
  have "fst (snd (token_step ''github_pat'' (TKey ''Enter'') \<lparr>tf_name = ''Work'', tf_token = ''x'', tf_pending = True\<rparr>))
      = [ConnectWithToken ''github_pat'' ''x'' ''Work'']"
    by (simp add: token_fire_def onConnect_def t)
  with token_form_enter_unguarded[of _ _ _ "''github_pat''" _ "\<lparr>tf_name = ''Work'', tf_token = ''x'', tf_pending = True\<rparr>"]
  show ?thesis by (simp only: Let_def)
qed

text \<open>
  The two pages of a source (details and manage) decide alike what to show for the same streams,
  and both show the source the address names.
\<close>

lemma details_manage_agree:
  "(details_phase cid cs err g = DetailsFailed \<longleftrightarrow> ManageConnectionPage cid connectors cs err g = ManageFailed) \<and>
   (details_phase cid cs err g = DetailsLoading \<longleftrightarrow> ManageConnectionPage cid connectors cs err g = ManageLoading) \<and>
   (details_phase cid cs err g = DetailsGone \<longleftrightarrow> ManageConnectionPage cid connectors cs err g = ManageGone) \<and>
   (\<forall>c. details_phase cid cs err g = Details c \<longrightarrow>
      conn_id c = cid \<and> (\<exists>p. ManageConnectionPage cid connectors cs err g = Manage p \<and> mp_connectionId p = cid))"
proof (cases "err \<noteq> None \<or> cs = None")
  case True
  then show ?thesis by (cases err) (auto simp: details_phase_def ManageConnectionPage_def)
next
  case False
  then obtain xs where xs: "err = None" "cs = Some xs" by blast
  show ?thesis
  proof (cases "find (\<lambda>c. conn_id c = cid) xs")
    case None
    with xs show ?thesis by (simp add: details_phase_def ManageConnectionPage_def)
  next
    case (Some c)
    then have "conn_id c = cid" by (auto simp: find_Some_iff)
    with xs Some show ?thesis by (simp add: details_phase_def ManageConnectionPage_def Let_def)
  qed
qed

text \<open>A click on the details page acts on the source the address names, and on nothing before it is known.\<close>

lemma details_clicks:
  assumes "a \<in> set (clicks (details_view fmt lc exact cur cid connectors cs err g ps sp stp))"
  shows "\<exists>c. details_phase cid cs err g = Details c \<and>
           details_rpc c a \<in> {StopSync cid, TriggerSync cid}"
proof (cases "details_phase cid cs err g")
  case (Details c)
  have "conn_id c = cid" using details_manage_agree[of cid cs err g undefined] Details by blast
  with Details show ?thesis by (cases a) auto
qed (use assms in \<open>auto simp: details_view_def back_to_sources_def ManageSkeleton_def\<close>)

end
