(* ===== verification/Workspace.thy ===== *)
theory Workspace
  imports Sources
begin

text \<open>
  The workspace pages: files and a file's content (\<open>web/app/(app)/files\<close>,
  \<open>web/components/app/json-viewer.tsx\<close>), the audit log, members and settings
  (\<open>web/app/(app)/audit\<close>, \<open>members\<close>, \<open>settings\<close>).

  Parameters: \<open>local\<close> is \<open>toLocaleString\<close> on dates, \<open>rel\<close> is the English relative-time formatter,
  \<open>decode\<close> the UTF-8 decoder and \<open>parse\<close> is \<open>JSON.parse\<close> (\<open>None\<close> where it throws).
\<close>

section \<open>Files\<close>

definition files_projects :: "Artifact list \<Rightarrow> string list" where
  "files_projects items =
     js_sort_strings (js_set [] (filter (\<lambda>n. n \<noteq> []) (map art_containerName items)))"

definition files_shown :: "string \<Rightarrow> Artifact list \<Rightarrow> Artifact list" where
  "files_shown project items =
     (if project = ''all'' then items else filter (\<lambda>a. art_containerName a = project) items)"

definition connById :: "Connection list query \<Rightarrow> (string \<rightharpoonup> Connection)" where
  "connById connections = map_of (rev (map (\<lambda>c. (conn_id c, c)) (nullish (q_data connections) [])))"

definition SourceCell :: "string \<Rightarrow> string \<Rightarrow> 'a node" where
  "SourceCell connectorId account =
     El ''span'' [] [El ''ConnectorIcon'' [AStr ''connectorId'' connectorId] [],
                     El ''span'' [] [Txt (str_or account connectorId)]]"

datatype files_action = OpenFile string | SetProject string

definition file_row :: "(int \<Rightarrow> string) \<Rightarrow> (string \<rightharpoonup> Connection) \<Rightarrow> Artifact \<Rightarrow> files_action node" where
  "file_row local byId a =
     (let conn = byId (art_connectionId a)
      in El ''tr'' [AStr ''key'' (art_id a), On ''click'' (OpenFile (art_id a))]
        [El ''td'' [] [El ''span'' [] [Txt (str_or (art_externalId a) (art_sourceNativeKind a))],
                       El ''span'' [] [Txt (art_sourceNativeKind a)]],
         El ''td'' [] [SourceCell (nullish (map_option conn_connectorId conn) (art_connectorId a))
                                  (nullish (map_option conn_account conn) [])],
         El ''td'' [] [Txt (str_or (art_containerName a) emdash)],
         El ''td'' [] [Txt (case art_ingestedAt a of None \<Rightarrow> emdash | Some t \<Rightarrow> local t)],
         El ''td'' [] (shown_if (art_sourceUrl a \<noteq> [])
                         [El ''a'' [AStr ''href'' (art_sourceUrl a), AStr ''aria-label'' ''Open original''] []])])"

definition FilesView ::
  "(int \<Rightarrow> string) \<Rightarrow> string \<Rightarrow> string \<Rightarrow> ListArtifactsResponse query \<Rightarrow> Connection list query \<Rightarrow> files_action node" where
  "FilesView local connectionId project artifacts connections =
     (let items = (case q_data artifacts of None \<Rightarrow> [] | Some d \<Rightarrow> lar_artifacts d);
          byId = connById connections;
          source = (if connectionId \<noteq> [] then byId connectionId else None);
          shown = files_shown project items
      in El ''PageShell'' []
        ([El ''PageHeader'' [AStr ''title'' ''Files'', AStr ''subtitle'' ''Everything synced from your connected sources.''] [],
          El ''div'' []
            (shown_if (connectionId \<noteq> [])
               [El ''span'' []
                 ((case source of None \<Rightarrow> [] | Some c \<Rightarrow> [El ''ConnectorIcon'' [AStr ''connectorId'' (conn_connectorId c)] []]) @
                  [El ''span'' [] [Txt (case source of None \<Rightarrow> ''Source''
                     | Some c \<Rightarrow> str_or (conn_account c) (str_or (conn_connectorId c) ''Source''))],
                   El ''Link'' [AStr ''href'' ''/files'', AStr ''aria-label'' ''Clear source filter''] []])] @
             [El ''DropdownMenu'' []
               [El ''Button'' [] [Txt (if project = ''all'' then ''All projects'' else project)],
                El ''DropdownMenuRadioGroup'' [AStr ''value'' project]
                  (El ''DropdownMenuRadioItem'' [AStr ''value'' ''all'', On ''click'' (SetProject ''all'')] [Txt ''All projects''] #
                   map (\<lambda>p. El ''DropdownMenuRadioItem'' [AStr ''value'' p, On ''click'' (SetProject p)] [Txt p])
                     (files_projects items))]]),
          El ''div'' []
            (El ''table'' [] [El ''tbody'' []
               (if q_isPending artifacts then replicate 6 (El ''tr'' [] [El ''Skeleton'' [] []])
                else map (file_row local byId) shown)] #
             shown_if (\<not> q_isPending artifacts \<and> shown = [])
               [El ''div'' [] [Txt (if items = [] then (if connectionId \<noteq> [] then ''No files from this source yet.''
                                     else ''No files yet. Connect a source and sync to see synced items here.'')
                                    else ''No files in this project.'')]])] @
         (case q_data artifacts of None \<Rightarrow> []
          | Some d \<Rightarrow> shown_if (lar_total d > length items)
              [El ''p'' [] [Txt (''Showing '' @ show_nat (length items) @ '' of '' @ show_nat (lar_total d) @ ''.'')]])))"

section \<open>JSON viewer\<close>

datatype json =
    JNull | JBool bool | JNum string | JStr string
  | JArr "json list" | JObj "(string \<times> json) list"

definition AUTO_OPEN_DEPTH :: nat where "AUTO_OPEN_DEPTH = 1"

fun is_container :: "json \<Rightarrow> bool" where
  "is_container (JArr vs) = True"
| "is_container (JObj es) = True"
| "is_container v = False"

text \<open>A primitive's text; a number keeps the text JavaScript prints for it.\<close>

fun Primitive :: "json \<Rightarrow> string" where
  "Primitive (JStr s) = [CHR 0x22] @ s @ [CHR 0x22]"
| "Primitive JNull = ''null''"
| "Primitive (JBool b) = (if b then ''true'' else ''false'')"
| "Primitive (JNum n) = n"
| "Primitive _ = []"

definition json_key :: "string option \<Rightarrow> 'a node list" where
  "json_key name = (case name of None \<Rightarrow> [] | Some n \<Rightarrow> [El ''span'' [] [Txt n, Txt '': '']])"

definition json_toggle :: "nat list \<Rightarrow> (nat list \<Rightarrow> bool) \<Rightarrow> nat list \<Rightarrow> bool" where
  "json_toggle path opn = opn(path := \<not> opn path)"

definition json_open_init :: "nat list \<Rightarrow> bool" where
  "json_open_init path \<longleftrightarrow> length path < AUTO_OPEN_DEPTH"

definition json_button :: "string option \<Rightarrow> string \<Rightarrow> string \<Rightarrow> string \<Rightarrow> nat \<Rightarrow> bool \<Rightarrow> nat list \<Rightarrow> nat list node" where
  "json_button name openB closeB noun n isOpen path =
     El ''button'' [On ''click'' path]
       (json_key name @
        [El ''span'' [] (Txt openB # shown_if (\<not> isOpen) [Txt (show_nat n @ '' '' @ noun), Txt closeB])])"

lemma json_size_arr: "(i, v) \<in> set (enumerate n vs) \<Longrightarrow> size v < Suc (size_list size vs)"
proof -
  assume "(i, v) \<in> set (enumerate n vs)"
  then have "i - n < length vs" "vs ! (i - n) = v" by (auto simp: in_set_enumerate_eq)
  then have "v \<in> set vs" using nth_mem by blast
  then show ?thesis by (induction vs) auto
qed

lemma json_size_obj:
  "(i, k, v) \<in> set (enumerate n es) \<Longrightarrow> size v < Suc (size_list (size_prod (\<lambda>_. 0) size) es)"
proof -
  assume "(i, k, v) \<in> set (enumerate n es)"
  then have "i - n < length es" "es ! (i - n) = (k, v)" by (auto simp: in_set_enumerate_eq)
  then have "(k, v) \<in> set es" using nth_mem by metis
  then show ?thesis by (induction es) auto
qed

text \<open>A node's place in the tree is its path of entry numbers; its depth is the path's length.\<close>

function JsonNode :: "(nat list \<Rightarrow> bool) \<Rightarrow> string option \<Rightarrow> nat list \<Rightarrow> json \<Rightarrow> nat list node" where
  "JsonNode opn name path (JArr vs) =
     El ''div'' []
       (json_button name ''['' '']'' ''items'' (length vs) (opn path) path #
        shown_if (opn path)
          (map (\<lambda>(i, v). JsonNode opn None (path @ [i]) v) (enumerate 0 vs) @ [El ''div'' [] [Txt '']'']]))"
| "JsonNode opn name path (JObj es) =
     El ''div'' []
       (json_button name ''{'' ''}'' ''keys'' (length es) (opn path) path #
        shown_if (opn path)
          (map (\<lambda>(i, k, v). JsonNode opn (Some k) (path @ [i]) v) (enumerate 0 es) @ [El ''div'' [] [Txt ''}'']]))"
| "JsonNode opn name path JNull = El ''div'' [] (json_key name @ [Txt (Primitive JNull)])"
| "JsonNode opn name path (JBool b) = El ''div'' [] (json_key name @ [Txt (Primitive (JBool b))])"
| "JsonNode opn name path (JNum n) = El ''div'' [] (json_key name @ [Txt (Primitive (JNum n))])"
| "JsonNode opn name path (JStr s) = El ''div'' [] (json_key name @ [Txt (Primitive (JStr s))])"
  by pat_completeness auto
termination
  by (relation "measure (\<lambda>(opn, name, path, v). size v)") (auto dest: json_size_arr json_size_obj)

section \<open>A file's content\<close>

definition decoded :: "('b \<Rightarrow> string) \<Rightarrow> (string \<Rightarrow> json option) \<Rightarrow> 'b query \<Rightarrow> (json option \<times> string) option" where
  "decoded decode parse content =
     map_option (\<lambda>bytes. (parse (decode bytes), decode bytes)) (q_data content)"

definition file_title :: "Artifact option \<Rightarrow> string" where
  "file_title a =
     (case a of None \<Rightarrow> ''File''
      | Some a \<Rightarrow> str_or (art_externalId a) (str_or (art_sourceNativeKind a) ''File''))"

definition FileDetailPage ::
  "(int \<Rightarrow> string) \<Rightarrow> ('b \<Rightarrow> string) \<Rightarrow> (string \<Rightarrow> json option) \<Rightarrow> string \<Rightarrow>
   ListArtifactsResponse query \<Rightarrow> 'b query \<Rightarrow> (nat list \<Rightarrow> bool) \<Rightarrow> nat list node" where
  "FileDetailPage local decode parse fid artifacts content opn =
     (let artifact = (case q_data artifacts of None \<Rightarrow> None | Some d \<Rightarrow> find (\<lambda>a. art_id a = fid) (lar_artifacts d));
          ttl = file_title artifact
      in El ''PageShell'' []
        ((case artifact of None \<Rightarrow> []
          | Some a \<Rightarrow> shown_if (art_sourceUrl a \<noteq> [])
              [El ''ChromeActions'' [] [El ''a'' [AStr ''href'' (art_sourceUrl a)] [Txt ''Open original'']]]) @
         [El ''PageHeader''
            ([AStr ''back'' ''/files'', AStr ''backLabel'' ''Back to files'', AStr ''title'' ttl] @
             (case artifact of None \<Rightarrow> []
              | Some a \<Rightarrow> [AStr ''subtitle'' (art_connectorId a @
                  (if art_containerName a \<noteq> [] then '' '' @ middot @ '' '' @ art_containerName a else []))])) []] @
         (case artifact of None \<Rightarrow> []
          | Some a \<Rightarrow> [El ''KeyValueList'' []
              [El ''item'' [AStr ''label'' ''Source''] [Txt (art_connectorId a)],
               El ''item'' [AStr ''label'' ''Project''] [Txt (str_or (art_containerName a) emdash)],
               El ''item'' [AStr ''label'' ''Kind''] [Txt (str_or (art_sourceNativeKind a) emdash)],
               El ''item'' [AStr ''label'' ''Synced''] [Txt (case art_ingestedAt a of None \<Rightarrow> emdash | Some t \<Rightarrow> local t)]]]) @
         [El ''p'' [] [Txt ''Content''],
          El ''div'' []
            [if q_isPending content then El ''ContentSkeleton'' [] []
             else (case q_error content of
                Some e \<Rightarrow> El ''p'' [] [Txt (''Couldn'' @ rsquo @ ''t load this file: '' @ message e @ ''.'')]
              | None \<Rightarrow> (case decoded decode parse content of
                  Some (Some j, t) \<Rightarrow> El ''JsonViewer'' [] [JsonNode opn None [] j]
                | Some (None, t) \<Rightarrow> El ''pre'' [] [Txt (str_or t ''Empty file.'')]
                | None \<Rightarrow> El ''pre'' [] [Txt ''Empty file.'']))]]))"

section \<open>Audit log\<close>

definition PAGE :: int where "PAGE = 50"

definition time_units :: "(string \<times> int) list" where
  "time_units = [(''year'', 31536000), (''month'', 2592000), (''week'', 604800), (''day'', 86400),
                 (''hour'', 3600), (''minute'', 60), (''second'', 1)]"

definition timeAgo :: "(int \<Rightarrow> string \<Rightarrow> string) \<Rightarrow> int \<Rightarrow> int \<Rightarrow> string" where
  "timeAgo rel date cur =
     (let diffSeconds = round_div (date - cur) 1000
      in case find (\<lambda>(unit, secs). secs \<le> \<bar>diffSeconds\<bar> \<or> unit = ''second'') time_units of
           Some (unit, secs) \<Rightarrow> rel (round_div diffSeconds secs) unit
         | None \<Rightarrow> rel 0 ''second'')"

definition ACTIONS :: "(string \<times> string) list" where
  "ACTIONS =
     [(''tenant.onboarded'', ''Completed onboarding''), (''tenant.updated'', ''Updated workspace settings''),
      (''source.connect_started'', ''Connected a source''), (''source.connected'', ''Connected a source''),
      (''source.disconnected'', ''Disconnected a source''), (''source.sync_triggered'', ''Triggered a sync''),
      (''source.sync_stopped'', ''Stopped a sync''), (''feature_flag.updated'', ''Changed a feature flag'')]"

definition actionLabel :: "string \<Rightarrow> string" where
  "actionLabel action = nullish (map_of ACTIONS action) action"

datatype audit_action = Previous | Next

fun audit_step :: "audit_action \<Rightarrow> int \<Rightarrow> int" where
  "audit_step Previous offset = max 0 (offset - PAGE)"
| "audit_step Next offset = offset + PAGE"

definition audit_row :: "(int \<Rightarrow> string) \<Rightarrow> (int \<Rightarrow> string \<Rightarrow> string) \<Rightarrow> int \<Rightarrow> AuditEvent \<Rightarrow> 'a node" where
  "audit_row local rel cur e =
     El ''tr'' [AStr ''key'' (ev_id e)]
       [El ''td'' (case ev_occurredAt e of None \<Rightarrow> [] | Some t \<Rightarrow> [AStr ''title'' (local t)])
          [Txt (case ev_occurredAt e of None \<Rightarrow> emdash | Some t \<Rightarrow> timeAgo rel t cur)],
        El ''td'' [] [Txt (str_or (ev_actorEmail e) (str_or (ev_actorId e) emdash))],
        El ''td'' [] [Txt (actionLabel (ev_action e))],
        El ''td'' [] [Txt (str_or (ev_target e) emdash)]]"

definition audit_pager :: "int \<Rightarrow> nat \<Rightarrow> int \<Rightarrow> audit_action node list" where
  "audit_pager offset nrows tot =
     shown_if (tot > PAGE)
       [El ''div'' []
         [El ''span'' [] [Txt (show_int (offset + 1) @ endash @ show_int (min (offset + int nrows) tot) @
            '' of '' @ show_int tot)],
          El ''Button'' [ABool ''disabled'' (offset = 0), On ''click'' Previous] [Txt ''Previous''],
          El ''Button'' [ABool ''disabled'' (offset + PAGE \<ge> tot), On ''click'' Next] [Txt ''Next'']]]"

definition AuditPage ::
  "(int \<Rightarrow> string) \<Rightarrow> (int \<Rightarrow> string \<Rightarrow> string) \<Rightarrow> int \<Rightarrow> int \<Rightarrow> ListAuditEventsResponse query \<Rightarrow> audit_action node" where
  "AuditPage local rel cur offset events =
     (let rows = (case q_data events of None \<Rightarrow> [] | Some d \<Rightarrow> la_events d);
          tot = (case q_data events of None \<Rightarrow> 0 | Some d \<Rightarrow> la_total d)
      in El ''PageShell'' []
        ([El ''PageHeading'' [AStr ''title'' ''Audit log'',
             AStr ''description'' ''Privileged actions in this workspace, newest first.''] [],
          El ''div'' []
            (El ''table'' [] [El ''tbody'' []
               (if q_isPending events then replicate 8 (El ''tr'' [] [El ''Skeleton'' [] []])
                else map (audit_row local rel cur) rows)] #
             shown_if (\<not> q_isPending events \<and> rows = []) [El ''div'' [] [Txt ''No activity recorded yet.'']])] @
         audit_pager offset (length rows) tot))"

section \<open>Members\<close>

definition drop_org :: "string \<Rightarrow> string" where
  "drop_org r = (if starts_with r ''ORG_'' then drop 4 r else r)"

text \<open>\<open>\\w\<close> at the start: letters, digits and the underscore; only letters change case.\<close>

definition capitalize :: "string \<Rightarrow> string" where
  "capitalize s = (case s of [] \<Rightarrow> [] | c # cs \<Rightarrow> ascii_upper_char c # cs)"

definition roleLabels :: "Member \<Rightarrow> string" where
  "roleLabels m =
     (if member_roles m = [] then ''Member''
      else join_with '', ''
        (map (\<lambda>r. capitalize (replace_char (CHR ''_'') (CHR '' '') (toLowerCase (drop_org r)))) (member_roles m)))"

definition MembersPage :: "ListMembersResponse query \<Rightarrow> 'a node" where
  "MembersPage members =
     El ''PageShell'' []
       [El ''PageHeading'' [AStr ''title'' ''Members'', AStr ''description'' ''People with access to this workspace.''] [],
        if q_isPending members then El ''div'' [] (replicate 4 (El ''Skeleton'' [] []))
        else (case q_data members of
           None \<Rightarrow> El ''NotConnected'' [] [Txt ''Member directory not connected'']
         | Some d \<Rightarrow>
             if \<not> lm_configured d then El ''NotConnected'' [] [Txt ''Member directory not connected'']
             else if lm_members d = [] then El ''p'' [] [Txt ''No members found.'']
             else El ''table'' [] [El ''tbody'' []
               (map (\<lambda>m. El ''tr'' [AStr ''key'' (member_id m)]
                  [El ''td'' [] [Txt (str_or (member_name m) (str_or (member_email m) (member_id m)))],
                   El ''td'' [] [Txt (str_or (member_email m) emdash)],
                   El ''td'' [] [Txt (roleLabels m)]]) (lm_members d))])]"

section \<open>Settings\<close>

record workspace_state =
  ws_editing :: bool
  ws_name :: string
  ws_saving :: bool

datatype workspace_event =
    WName string | WKey string | WEdit | WSave | WCancel | WSaved "thrown option"

definition workspace_onSave :: "Tenant \<Rightarrow> workspace_state \<Rightarrow> rpc list" where
  "workspace_onSave t s =
     (if trim (ws_name s) = [] then []
      else [UpdateTenant \<lparr>upd_name = trim (ws_name s), upd_size = nullish (tenant_size t) [],
                          upd_useCases = tenant_useCases t, upd_useCaseOther = nullish (tenant_useCaseOther t) []\<rparr>])"

definition workspace_reset :: "Tenant \<Rightarrow> workspace_state \<Rightarrow> workspace_state" where
  "workspace_reset t s = s\<lparr>ws_name := nullish (tenant_name t) [], ws_editing := False\<rparr>"

definition workspace_fire :: "Tenant \<Rightarrow> workspace_state \<Rightarrow> workspace_state \<times> rpc list \<times> effect list" where
  "workspace_fire t s = (s\<lparr>ws_saving := ws_saving s \<or> workspace_onSave t s \<noteq> []\<rparr>, workspace_onSave t s, [])"

fun workspace_step :: "Tenant \<Rightarrow> workspace_event \<Rightarrow> workspace_state \<Rightarrow> workspace_state \<times> rpc list \<times> effect list" where
  "workspace_step t (WName v) s = (s\<lparr>ws_name := v\<rparr>, [], [])"
| "workspace_step t (WKey k) s =
     (if k = ''Enter'' then workspace_fire t s
      else if k = ''Escape'' then (workspace_reset t s, [], [])
      else (s, [], []))"
| "workspace_step t WEdit s = (s\<lparr>ws_editing := True\<rparr>, [], [])"
| "workspace_step t WSave s = workspace_fire t s"
| "workspace_step t WCancel s = (workspace_reset t s, [], [])"
| "workspace_step t (WSaved None) s =
     (s\<lparr>ws_saving := False, ws_editing := False\<rparr>, [], [InvalidateQueries, ToastSuccess ''Workspace updated''])"
| "workspace_step t (WSaved (Some e)) s =
     (s\<lparr>ws_saving := False\<rparr>, [], [ToastError (''Couldn'' @ squote @ ''t save: '' @ message e)])"

definition region_text :: "Tenant \<Rightarrow> string" where
  "region_text t =
     (case find (\<lambda>r. Some (reg_id r) = tenant_region t) regions of
        Some r \<Rightarrow> reg_label r @ '' '' @ middot @ '' '' @ reg_city r @ '', '' @ reg_country r
      | None \<Rightarrow> nullish (tenant_region t) emdash)"

definition Section :: "string \<Rightarrow> string \<Rightarrow> 'a node list \<Rightarrow> 'a node" where
  "Section ttl description children =
     El ''section'' []
       ([El ''h2'' [] [Txt ttl]] @ shown_if (description \<noteq> []) [El ''p'' [] [Txt description]] @
        [El ''div'' [] children])"

definition Row :: "string \<Rightarrow> 'a node list \<Rightarrow> 'a node" where
  "Row label children = El ''div'' [] [El ''dt'' [] [Txt label], El ''dd'' [] children]"

definition Workspace_view :: "Tenant \<Rightarrow> workspace_state \<Rightarrow> workspace_event node" where
  "Workspace_view t s =
     Section ''Workspace''
       (''Your organization and where its data lives. The region is fixed at setup and can'' @ squote @ ''t be changed.'')
       [El ''dl'' []
         [Row ''Name''
            [if ws_editing s
             then El ''span'' []
               [El ''Input'' [AStr ''value'' (ws_name s), OnValue ''change'' WName, OnValue ''keydown'' WKey,
                              AStr ''placeholder'' ''Acme Inc.''] [],
                El ''Button'' [On ''click'' WSave, ABool ''disabled'' (trim (ws_name s) = [] \<or> ws_saving s)]
                  [Txt (if ws_saving s then ''Saving'' @ ellipsis else ''Save'')],
                El ''Button'' [On ''click'' WCancel] [Txt ''Cancel'']]
             else El ''span'' []
               [Txt (opt_str_or (tenant_name t) emdash),
                El ''Button'' [AStr ''aria-label'' ''Edit name'', On ''click'' WEdit] []]],
          Row ''Region'' [Txt (region_text t)],
          Row ''Workspace ID'' [El ''code'' [] [Txt (tenant_id t)]]]]"

definition FeatureFlags :: "FeatureFlag list query \<Rightarrow> bool \<Rightarrow> rpc node" where
  "FeatureFlags flags setting =
     Section ''Feature flags'' ''Opt-in capabilities for this workspace.''
       [if q_isPending flags then El ''div'' [] (replicate 2 (El ''Skeleton'' [] []))
        else if nullish (q_data flags) [] = [] then El ''p'' [] [Txt ''No feature flags available.'']
        else El ''div'' []
          (map (\<lambda>f. El ''div'' [AStr ''key'' (flag_key f)]
             [El ''p'' [] [Txt (flag_name f)], El ''p'' [] [Txt (flag_description f)],
              El ''Switch'' [ABool ''checked'' (flag_enabled f), ABool ''disabled'' setting,
                             OnFlag ''checkedchange'' (SetFeatureFlag (flag_key f)), AStr ''aria-label'' (flag_name f)] []])
            (nullish (q_data flags) []))]"

fun flag_settled :: "thrown option \<Rightarrow> effect list" where
  "flag_settled None = [InvalidateQueries]"
| "flag_settled (Some e) = [ToastError (''Couldn'' @ squote @ ''t update: '' @ message e)]"

definition Account :: "string option \<Rightarrow> User option \<Rightarrow> 'a node" where
  "Account iss usr =
     Section ''Account'' ''Your personal identity, managed in your account.''
       ([El ''dl'' []
          [Row ''Name'' [Txt (opt_str_or (map_option user_name usr) emdash)],
           Row ''Email'' [Txt (opt_str_or (map_option user_email usr) emdash)]]] @
        shown_if (truthy_str iss)
          [El ''div'' []
            [El ''a'' [AStr ''href'' (the iss @ ''/ui/console/users/me'')] [Txt ''Manage profile''],
             El ''a'' [AStr ''href'' (the iss @ ''/ui/console/users/me'')] [Txt ''Password & two-factor'']]])"

definition MembersSummary :: "ListMembersResponse query \<Rightarrow> 'a node" where
  "MembersSummary members =
     (let count = (case q_data members of None \<Rightarrow> 0 | Some d \<Rightarrow> length (lm_members d));
          configured = (case q_data members of None \<Rightarrow> False | Some d \<Rightarrow> lm_configured d)
      in Section ''Members'' ''People with access to this workspace.''
        [El ''p'' [] [Txt (if q_isPending members then ''Loading'' @ ellipsis
           else if \<not> configured then ''The member directory isn'' @ rsquo @ ''t connected yet.''
           else show_nat count @ '' '' @ (if count = 1 then ''member'' else ''members'') @ ''.'')],
         El ''div'' [] [El ''Link'' [AStr ''href'' ''/members''] [Txt ''Manage members'']]])"

text \<open>The page: its sections, each with its own actions.\<close>

datatype settings_event = SWorkspace workspace_event | SFlag rpc

definition SettingsPage ::
  "string option \<Rightarrow> session_query \<Rightarrow> workspace_state \<Rightarrow> FeatureFlag list query \<Rightarrow> bool \<Rightarrow>
   ListMembersResponse query \<Rightarrow> settings_event node" where
  "SettingsPage iss session s flags setting members =
     (if q_isPending session
      then El ''PageShell'' []
             [El ''Skeleton'' [] [], El ''Skeleton'' [] [], El ''div'' [] (replicate 3 (El ''Skeleton'' [] []))]
      else (let tenant = Option.bind (q_data session) session_tenant;
                usr = Option.bind (q_data session) session_user
            in El ''PageShell'' []
                 ([El ''PageHeading'' [AStr ''title'' ''Settings'', AStr ''description'' ''Your workspace and account.''] []] @
                  (case tenant of None \<Rightarrow> [] | Some t \<Rightarrow> [lift_node SWorkspace (Workspace_view t s)]) @
                  [lift_node SFlag (FeatureFlags flags setting), MembersSummary members, Account iss usr])))"

section \<open>Paging\<close>

text \<open>The offsets a user reaches by clicking, while the number of events stays the same.\<close>

inductive audit_reach :: "int \<Rightarrow> int \<Rightarrow> bool" for tot where
  start: "audit_reach tot 0"
| click: "audit_reach tot offset \<Longrightarrow> a \<in> set (concat (map clicks (audit_pager offset n tot))) \<Longrightarrow>
          audit_reach tot (audit_step a offset)"

lemma audit_clicks:
  "a \<in> set (concat (map clicks (audit_pager offset n tot))) \<longleftrightarrow>
     tot > PAGE \<and> (a = Previous \<and> offset \<noteq> 0 \<or> a = Next \<and> offset + PAGE < tot)"
  by (cases a) (auto simp: audit_pager_def shown_if_def)

lemma audit_reach_sound:
  assumes "audit_reach tot offset" "0 < tot"
  shows "0 \<le> offset \<and> offset < tot \<and> PAGE dvd offset"
  using assms
proof (induction rule: audit_reach.induct)
  case start
  then show ?case by simp
next
  case (click offset a n)
  then have a: "a = Previous \<and> offset \<noteq> 0 \<or> a = Next \<and> offset + PAGE < tot"
    by (simp only: audit_clicks)
  show ?case
  proof (cases a)
    case Previous
    have "PAGE \<le> offset" using click.IH click.prems a Previous zdvd_imp_le[of PAGE offset] by (simp add: PAGE_def)
    with click.IH click.prems Previous show ?thesis by (simp add: PAGE_def dvd_diff)
  next
    case Next
    with click.IH click.prems a show ?thesis by (simp add: PAGE_def)
  qed
qed

lemma audit_reach_complete: "int k * PAGE < tot \<Longrightarrow> audit_reach tot (int k * PAGE)"
proof (induction k)
  case 0
  show ?case by (simp add: audit_reach.start)
next
  case (Suc k)
  then have l: "int k * PAGE + PAGE < tot" by (simp add: PAGE_def)
  then have "audit_reach tot (int k * PAGE)" using Suc.IH by (simp add: PAGE_def)
  moreover have "Next \<in> set (concat (map clicks (audit_pager (int k * PAGE) 0 tot)))"
    unfolding audit_clicks using l by (simp add: PAGE_def)
  ultimately have "audit_reach tot (audit_step Next (int k * PAGE))" by (rule audit_reach.click)
  then show ?case by (simp add: PAGE_def add.commute)
qed

section \<open>Properties\<close>

text \<open>
  The audit log's pages tile the trail: the offsets reachable by clicking Previous and Next
  are exactly the multiples of the page size below the number of events, so every event is on
  exactly one reachable page and no click leaves the trail.
\<close>

theorem audit_pages_tile:
  assumes "0 < tot"
  shows "audit_reach tot offset \<longleftrightarrow> 0 \<le> offset \<and> offset < tot \<and> PAGE dvd offset"
proof
  assume "audit_reach tot offset"
  then show "0 \<le> offset \<and> offset < tot \<and> PAGE dvd offset" using audit_reach_sound assms by blast
next
  assume o: "0 \<le> offset \<and> offset < tot \<and> PAGE dvd offset"
  then obtain j where j: "offset = PAGE * j" by (auto simp: dvd_def)
  with o have "0 \<le> j" by (simp add: PAGE_def)
  then have "offset = int (nat j) * PAGE" using j by simp
  with o audit_reach_complete[of "nat j" tot] show "audit_reach tot offset" by simp
qed

theorem audit_pages_tile_witness: "audit_reach 120 100 \<and> \<not> audit_reach 120 150 \<and> \<not> audit_reach 120 60"
  using audit_pages_tile[of 120 100] audit_pages_tile[of 120 150] audit_pages_tile[of 120 60]
  by (simp add: PAGE_def)

text \<open>
  A rename never wipes the onboarding answers: whatever the user does in the workspace
  section, a request carries a non-empty trimmed name and the tenant's own size and use cases.
\<close>

lemma rename_keeps_answers:
  assumes "UpdateTenant r \<in> set (fst (snd (workspace_step t e s)))"
  shows "upd_name r \<noteq> [] \<and> upd_name r = trim (ws_name s) \<and> upd_size r = nullish (tenant_size t) [] \<and>
         upd_useCases r = tenant_useCases t \<and> upd_useCaseOther r = nullish (tenant_useCaseOther t) []"
  using assms
  by (cases "(t, e, s)" rule: workspace_step.cases)
     (auto simp: workspace_fire_def workspace_onSave_def split: if_splits)

text \<open>
  A project named "all" cannot be selected in the files list: its menu entry carries the value
  that stands for all projects.
\<close>

lemma files_all_collision: "files_shown (art_containerName a) items = items" if "art_containerName a = ''all''"
  using that by (simp add: files_shown_def)

end
