(* ===== verification/Contract.thy ===== *)
theory Contract
  imports Service Rules Workspace Onboarding
begin

text \<open>
  The client's requests against the server's rules. The server refuses a request whose fields break
  the rules of \<open>buf.validate\<close> that the schemas carry (theory \<open>Service\<close>); the meaning of a rule is
  the one the generated rule types document (\<open>web/lib/gen/buf/validate/validate_pb.ts\<close>), and a
  number outside its 32-bit type cannot be put into the message at all.

  A request is the object literal the code passes to a query or mutation, keyed by the names the
  message types give the fields; a missing field has the zero value. The theorems say for the requests
  of every page when the server accepts them.
\<close>

section \<open>Values and rules\<close>

datatype wire_value = WStr string | WBool bool | WInt int | WStrs "string list"

type_synonym request = "(string \<times> wire_value) list"

text \<open>
  The rules that occur, with the meaning of theory \<open>Rules\<close>; a value of the wrong kind breaks a rule.
\<close>

fun rule_ok :: "field_rules \<Rightarrow> wire_value \<Rightarrow> bool" where
  "rule_ok NoRules v = True"
| "rule_ok (StringRules mn mx) (WStr s) =
     (holds_for (\<lambda>n. n \<le> int (code_points s)) mn \<and> holds_for (\<lambda>n. int (code_points s) \<le> n) mx)"
| "rule_ok (Int32Rules le ge) (WInt n) = num_rules_ok (int_bounds (map_option Lte le) (map_option Gte ge)) n"
| "rule_ok (Uint32Rules le) (WInt n) = num_rules_ok (int_bounds (map_option Lte le) None) n"
| "rule_ok (RepeatedRules mx) (WStrs xs) = holds_for (\<lambda>n. int (length xs) \<le> n) mx"
| "rule_ok r v = False"

lemma rule_ok_documented:
  "rule_ok (StringRules mn mx) (WStr s) \<longleftrightarrow> string_rules_ok re known header (string_bounds mn mx) s"
  "rule_ok (RepeatedRules mx) (WStrs xs) \<longleftrightarrow> repeated_rules_ok ok (item_bounds None mx) xs"
  by (simp_all add: string_bounds_ok item_bounds_ok)

fun scalar_ok :: "wire_type \<Rightarrow> wire_value \<Rightarrow> bool" where
  "scalar_ok TString (WStr s) = True"
| "scalar_ok TBool (WBool b) = True"
| "scalar_ok TInt32 (WInt n) = (- (2 ^ 31) \<le> n \<and> n < 2 ^ 31)"
| "scalar_ok TUint32 (WInt n) = (0 \<le> n \<and> n < 2 ^ 32)"
| "scalar_ok ty v = False"

definition value_typed :: "field_desc \<Rightarrow> wire_value \<Rightarrow> bool" where
  "value_typed f v \<longleftrightarrow>
     (if f_label f = Repeated then f_type f = TString \<and> (case v of WStrs xs \<Rightarrow> True | _ \<Rightarrow> False)
      else scalar_ok (f_type f) v)"

definition zero_value :: "field_desc \<Rightarrow> wire_value" where
  "zero_value f =
     (if f_label f = Repeated then WStrs []
      else (case f_type f of TBool \<Rightarrow> WBool False | TInt32 \<Rightarrow> WInt 0 | TUint32 \<Rightarrow> WInt 0 | _ \<Rightarrow> WStr []))"

text \<open>\<open>connector_id\<close> is the property \<open>connectorId\<close> of the message type.\<close>

fun localName :: "string \<Rightarrow> string" where
  "localName (c # d # s) = (if c = CHR ''_'' then ascii_upper_char d # localName s else c # localName (d # s))"
| "localName s = s"

definition field_value :: "request \<Rightarrow> field_desc \<Rightarrow> wire_value" where
  "field_value r f = (case map_of r (localName (f_name f)) of None \<Rightarrow> zero_value f | Some v \<Rightarrow> v)"

definition field_accepted :: "request \<Rightarrow> field_desc \<Rightarrow> bool" where
  "field_accepted r f \<longleftrightarrow> value_typed f (field_value r f) \<and> rule_ok (f_rules f) (field_value r f)"

definition accepts :: "message_desc \<Rightarrow> request \<Rightarrow> bool" where
  "accepts m r \<longleftrightarrow>
     list_all (field_accepted r) (m_fields m) \<and>
     list_all (\<lambda>(k, v). k \<in> set (map (\<lambda>f. localName (f_name f)) (m_fields m))) r"

text \<open>A call: the service, the method and the request.\<close>

type_synonym call = "service_desc \<times> string \<times> request"

fun call_accepted :: "call \<Rightarrow> bool" where
  "call_accepted (sv, key, r) =
     (case service_method sv key of None \<Rightarrow> False | Some me \<Rightarrow> accepts (me_input me) r)"

section \<open>The requests of the pages\<close>

text \<open>The mutations, one per remote call that changes state.\<close>

fun mutation :: "rpc \<Rightarrow> call" where
  "mutation (CompleteOnboarding r) = (TenantService, ''completeOnboarding'',
     [(''region'', WStr (onb_region r)), (''name'', WStr (onb_name r)), (''size'', WStr (onb_size r)),
      (''useCases'', WStrs (onb_useCases r)), (''useCaseOther'', WStr (onb_useCaseOther r))])"
| "mutation (UpdateTenant r) = (TenantService, ''updateTenant'',
     [(''name'', WStr (upd_name r)), (''size'', WStr (upd_size r)),
      (''useCases'', WStrs (upd_useCases r)), (''useCaseOther'', WStr (upd_useCaseOther r))])"
| "mutation (SetFeatureFlag k b) = (TenantService, ''setFeatureFlag'', [(''key'', WStr k), (''enabled'', WBool b)])"
| "mutation (GetAuthorizeUrl c) = (IntegrationService, ''getAuthorizeUrl'', [(''connectorId'', WStr c)])"
| "mutation (ConnectWithToken c t n) = (IntegrationService, ''connectWithToken'',
     [(''connectorId'', WStr c), (''token'', WStr t), (''name'', WStr n)])"
| "mutation (TriggerSync c) = (IntegrationService, ''triggerSync'', [(''connectionId'', WStr c)])"
| "mutation (StopSync c) = (IntegrationService, ''stopSync'', [(''connectionId'', WStr c)])"
| "mutation (Disconnect c) = (IntegrationService, ''disconnect'', [(''connectionId'', WStr c)])"
| "mutation (SetProjectSelection c ids) = (IntegrationService, ''setProjectSelection'',
     [(''connectionId'', WStr c), (''selectedIds'', WStrs ids)])"
| "mutation (UpdateSyncSchedule c b n) = (IntegrationService, ''updateSyncSchedule'',
     [(''connectionId'', WStr c), (''enabled'', WBool b), (''intervalSeconds'', WInt n)])"

text \<open>The queries that take arguments.\<close>

definition audit_query :: "int \<Rightarrow> call" where
  "audit_query offset = (TenantService, ''listAuditEvents'', [(''limit'', WInt PAGE), (''offset'', WInt offset)])"

definition files_query :: "string \<Rightarrow> call" where
  "files_query connectionId = (IntegrationService, ''listArtifacts'',
     [(''limit'', WInt 200), (''offset'', WInt 0), (''connectionId'', WStr connectionId)])"

definition file_queries :: "string \<Rightarrow> call list" where
  "file_queries i =
     [(IntegrationService, ''listArtifacts'', [(''limit'', WInt 200), (''offset'', WInt 0)]),
      (IntegrationService, ''getArtifactContent'', [(''id'', WStr i)])]"

definition manage_queries :: "manage_props \<Rightarrow> manage \<Rightarrow> call list" where
  "manage_queries p s =
     (IntegrationService, ''listProjects'', [(''connectionId'', WStr (mp_connectionId p))]) #
     (if searching s
      then [(IntegrationService, ''listProjects'',
              [(''connectionId'', WStr (mp_connectionId p)), (''query'', WStr (mg_query s))])]
      else [])"

text \<open>The requests of the two streams.\<close>

definition connections_watch :: call where
  "connections_watch = (IntegrationService, ''watchConnections'', [])"

definition projects_watch :: "string \<Rightarrow> call" where
  "projects_watch connectionId = (IntegrationService, ''watchProjects'', [(''connectionId'', WStr connectionId)])"

section \<open>Which requests are accepted\<close>

lemmas schema_defs = field_def ruled_def repeated_def optional_def message_of_def

lemma method_inputs:
  "map_option me_input (service_method TenantService ''completeOnboarding'') = Some CompleteOnboardingRequestSchema"
  "map_option me_input (service_method TenantService ''updateTenant'') = Some UpdateTenantRequestSchema"
  "map_option me_input (service_method TenantService ''setFeatureFlag'') = Some SetFeatureFlagRequestSchema"
  "map_option me_input (service_method TenantService ''listAuditEvents'') = Some ListAuditEventsRequestSchema"
  "map_option me_input (service_method IntegrationService ''getAuthorizeUrl'') = Some GetAuthorizeUrlRequestSchema"
  "map_option me_input (service_method IntegrationService ''connectWithToken'') = Some ConnectWithTokenRequestSchema"
  "map_option me_input (service_method IntegrationService ''triggerSync'') = Some TriggerSyncRequestSchema"
  "map_option me_input (service_method IntegrationService ''stopSync'') = Some StopSyncRequestSchema"
  "map_option me_input (service_method IntegrationService ''disconnect'') = Some DisconnectRequestSchema"
  "map_option me_input (service_method IntegrationService ''setProjectSelection'') = Some SetProjectSelectionRequestSchema"
  "map_option me_input (service_method IntegrationService ''updateSyncSchedule'') = Some UpdateSyncScheduleRequestSchema"
  "map_option me_input (service_method IntegrationService ''listArtifacts'') = Some ListArtifactsRequestSchema"
  "map_option me_input (service_method IntegrationService ''getArtifactContent'') = Some GetArtifactContentRequestSchema"
  "map_option me_input (service_method IntegrationService ''listProjects'') = Some ListProjectsRequestSchema"
  "map_option me_input (service_method IntegrationService ''watchConnections'') = Some WatchConnectionsRequestSchema"
  "map_option me_input (service_method IntegrationService ''watchProjects'') = Some WatchProjectsRequestSchema"
  by code_simp+

lemma call_accepted_input:
  "map_option me_input (service_method sv key) = Some m \<Longrightarrow> call_accepted (sv, key, r) \<longleftrightarrow> accepts m r"
  by (cases "service_method sv key") auto

lemmas call_inputs = method_inputs [THEN call_accepted_input]

lemma local_names:
  "localName ''region'' = ''region''"
  "localName ''name'' = ''name''"
  "localName ''size'' = ''size''"
  "localName ''use_cases'' = ''useCases''"
  "localName ''use_case_other'' = ''useCaseOther''"
  "localName ''key'' = ''key''"
  "localName ''enabled'' = ''enabled''"
  "localName ''connector_id'' = ''connectorId''"
  "localName ''token'' = ''token''"
  "localName ''connection_id'' = ''connectionId''"
  "localName ''selected_ids'' = ''selectedIds''"
  "localName ''interval_seconds'' = ''intervalSeconds''"
  "localName ''limit'' = ''limit''"
  "localName ''offset'' = ''offset''"
  "localName ''id'' = ''id''"
  "localName ''query'' = ''query''"
  by code_simp+

lemmas accepts_simps = int_bounds_ok call_inputs accepts_def field_accepted_def field_value_def value_typed_def zero_value_def
  schema_defs local_names

lemma mutation_accepted:
  "call_accepted (mutation (CompleteOnboarding r)) \<longleftrightarrow>
     1 \<le> code_points (onb_region r) \<and> code_points (onb_region r) \<le> 50 \<and> code_points (onb_name r) \<le> 200 \<and>
     code_points (onb_size r) \<le> 50 \<and> length (onb_useCases r) \<le> 32 \<and> code_points (onb_useCaseOther r) \<le> 500"
  "call_accepted (mutation (UpdateTenant u)) \<longleftrightarrow>
     1 \<le> code_points (upd_name u) \<and> code_points (upd_name u) \<le> 200 \<and>
     code_points (upd_size u) \<le> 50 \<and> length (upd_useCases u) \<le> 32 \<and> code_points (upd_useCaseOther u) \<le> 500"
  "call_accepted (mutation (SetFeatureFlag k b)) \<longleftrightarrow> 1 \<le> code_points k \<and> code_points k \<le> 100"
  "call_accepted (mutation (GetAuthorizeUrl c)) \<longleftrightarrow> 1 \<le> code_points c"
  "call_accepted (mutation (ConnectWithToken c t n)) \<longleftrightarrow>
     1 \<le> code_points c \<and> 1 \<le> code_points t \<and> code_points n \<le> 100"
  "call_accepted (mutation (TriggerSync c)) \<longleftrightarrow> 1 \<le> code_points c"
  "call_accepted (mutation (StopSync c)) \<longleftrightarrow> 1 \<le> code_points c"
  "call_accepted (mutation (Disconnect c)) \<longleftrightarrow> 1 \<le> code_points c"
  "call_accepted (mutation (SetProjectSelection c ids)) \<longleftrightarrow> 1 \<le> code_points c"
  "call_accepted (mutation (UpdateSyncSchedule c b i)) \<longleftrightarrow> 1 \<le> code_points c \<and> - (2 ^ 31) \<le> i \<and> i < 2 ^ 31"
  by (auto simp: accepts_simps
      CompleteOnboardingRequestSchema_def UpdateTenantRequestSchema_def SetFeatureFlagRequestSchema_def
      GetAuthorizeUrlRequestSchema_def ConnectWithTokenRequestSchema_def TriggerSyncRequestSchema_def
      StopSyncRequestSchema_def DisconnectRequestSchema_def SetProjectSelectionRequestSchema_def
      UpdateSyncScheduleRequestSchema_def simp del: call_accepted.simps localName.simps)

declare mutation.simps [simp del] call_accepted.simps [simp del]

lemma query_accepted:
  "call_accepted (audit_query offset) \<longleftrightarrow> 0 \<le> offset \<and> offset < 2 ^ 31"
  "call_accepted (files_query c)"
  "list_all call_accepted (file_queries i) \<longleftrightarrow> 1 \<le> code_points i"
  "list_all call_accepted (manage_queries p s) \<longleftrightarrow> 1 \<le> code_points (mp_connectionId p)"
  "call_accepted connections_watch"
  "call_accepted (projects_watch c) \<longleftrightarrow> 1 \<le> code_points c"
  by (auto simp: audit_query_def files_query_def file_queries_def manage_queries_def connections_watch_def
      projects_watch_def PAGE_def accepts_simps ListAuditEventsRequestSchema_def ListArtifactsRequestSchema_def
      GetArtifactContentRequestSchema_def ListProjectsRequestSchema_def WatchConnectionsRequestSchema_def
      WatchProjectsRequestSchema_def simp del: call_accepted.simps localName.simps)

section \<open>Walking through the wizard\<close>

text \<open>
  What a user does in the wizard: clicks and text on the page shown; a pushed path is the next page.
\<close>

definition pushed :: "effect list \<Rightarrow> string \<Rightarrow> string" where
  "pushed es p = (case es of RouterPush q # _ \<Rightarrow> q | _ \<Rightarrow> p)"

inductive wizard_reach :: "Tenant \<Rightarrow> User \<Rightarrow> string \<Rightarrow> OnboardingState \<Rightarrow> bool" for t u where
  wr_start: "wizard_reach t u ''/onboarding/organization'' (flow_initial t u)"
| wr_step: "wizard_reach t u p s \<Longrightarrow> onb_page p isPending err s = Some page \<Longrightarrow>
            a \<in> set (clicks page) \<union> set (entries v page) \<Longrightarrow> onb_handle p a s = Inr (s', es, rpcs) \<Longrightarrow>
            wizard_reach t u (pushed es p) s'"

definition fresh_tenant :: "Tenant \<Rightarrow> bool" where
  "fresh_tenant t \<longleftrightarrow>
     tenant_size t = None \<and> tenant_region t = None \<and> tenant_useCases t = [] \<and> tenant_useCaseOther t = None"

definition wizard_inv :: "string \<Rightarrow> OnboardingState \<Rightarrow> bool" where
  "wizard_inv p s \<longleftrightarrow>
     p \<in> set (map step_path ONBOARDING_STEPS) \<and>
     distinct (flow_useCases s) \<and> (\<forall>i \<in> set (flow_useCases s). i \<in> set (map opt_id useCases)) \<and>
     (\<forall>i. orgSize s = Some i \<longrightarrow> i \<in> set (map opt_id companySizes)) \<and>
     (region s = [] \<or> region s \<in> set (map opt_id REGION_OPTIONS)) \<and>
     (p \<noteq> ''/onboarding/organization'' \<longrightarrow> trim (orgName s) \<noteq> []) \<and>
     (p = ''/onboarding/complete'' \<longrightarrow> region s \<noteq> [])"

lemma entries_OptionGrid: "entries v (OptionGrid os sel f) = []"
  by (induction os) (auto simp: OptionGrid_def shown_if_def split: option.splits)

lemma entries_Shell:
  "entries v (OnboardingShell p sec pri cs) =
     concat (map (entries v) cs) @ concat (map (entries v) sec) @ concat (map (entries v) pri)"
  by (auto simp: OnboardingShell_def Let_def shown_if_def split: option.splits)

lemma entries_Buttons [simp]: "entries v (OnboardingContinue a d) = []" "entries v (OnboardingBack a) = []"
  by (simp_all add: OnboardingContinue_def OnboardingBack_def)

lemma entries_Field:
  "entries v (Field l h hint tr cs) =
     (if l \<noteq> [] \<or> tr \<noteq> [] then concat (map (entries v) tr) else []) @ concat (map (entries v) cs) @
     concat (map (entries v) hint)"
  by (auto simp: Field_def shown_if_def split: option.splits)

lemmas page_entries = entries_OptionGrid entries_Shell entries_Field

lemma step_paths:
  "map step_path ONBOARDING_STEPS =
     [''/onboarding/organization'', ''/onboarding/use-case'', ''/onboarding/region'', ''/onboarding/complete'']"
  by code_simp

text \<open>What the four pages offer.\<close>

lemma page_offers:
  "set (clicks (OrganizationPage p s)) \<union> set (entries v (OrganizationPage p s)) =
     {a. a = GoNext \<and> canContinue s} \<union> ToggleSize ` set (map opt_id companySizes) \<union> {Patch (PatchOrgName v)}"
  "set (clicks (UseCasePage p s)) \<union> set (entries v (UseCasePage p s)) =
     {GoNext, GoBack} \<union> ToggleUseCase ` set (map opt_id useCases) \<union>
     {a. a = Patch (PatchUseCaseOther v) \<and> ''other'' \<in> set (flow_useCases s)}"
  "set (clicks (RegionPage p s)) \<union> set (entries v (RegionPage p s)) =
     {a. a = GoNext \<and> region s \<noteq> []} \<union> {GoBack} \<union> (\<lambda>i. Patch (PatchRegion i)) ` set (map opt_id REGION_OPTIONS)"
  "set (clicks (CompletePage p pend err s)) \<union> set (entries v (CompletePage p pend err s)) = {a. a = Finish \<and> \<not> pend}"
  by (auto simp: page_defs page_clicks page_entries Let_def shown_if_def NEXT_def split: option.splits)

lemma wizard_paths:
  "nextPath ''/onboarding/organization'' = Some ''/onboarding/use-case''"
  "nextPath ''/onboarding/use-case'' = Some ''/onboarding/region''"
  "nextPath ''/onboarding/region'' = Some ''/onboarding/complete''"
  "prevPath ''/onboarding/use-case'' = Some ''/onboarding/organization''"
  "prevPath ''/onboarding/region'' = Some ''/onboarding/use-case''"
  by code_simp+

lemma option_ids_nonempty: "list_all (\<lambda>i. i \<noteq> []) (map opt_id REGION_OPTIONS)"
  by code_simp

lemma toggleUseCase_rest [simp]:
  "orgName (toggleUseCase i s) = orgName s" "orgSize (toggleUseCase i s) = orgSize s"
  "region (toggleUseCase i s) = region s"
  by (simp_all add: toggleUseCase_def)

lemma wizard_inv_step:
  assumes inv: "wizard_inv p s" and page: "onb_page p isPending err s = Some page"
    and a: "a \<in> set (clicks page) \<union> set (entries v page)" and h: "onb_handle p a s = Inr (s', es, rpcs)"
  shows "wizard_inv (pushed es p) s'"
proof -
  have p: "p \<in> {''/onboarding/organization'', ''/onboarding/use-case'', ''/onboarding/region'', ''/onboarding/complete''}"
    using inv unfolding wizard_inv_def step_paths by simp
  have ne: "i \<in> set (map opt_id REGION_OPTIONS) \<Longrightarrow> i \<noteq> []" for i
    using option_ids_nonempty by (auto simp: list_all_iff)
  from p consider "p = ''/onboarding/organization''" | "p = ''/onboarding/use-case''"
    | "p = ''/onboarding/region''" | "p = ''/onboarding/complete''" by blast
  then show ?thesis
  proof cases
    case 1
    with page have "page = OrganizationPage p s" by (simp add: onb_page_def)
    with a h inv 1 show ?thesis
      by (auto simp: page_offers wizard_inv_def step_paths wizard_paths push_path_def pushed_def canContinue_def
          simp del: set_map split: if_splits)
  next
    case 2
    with page have "page = UseCasePage p s" by (simp add: onb_page_def)
    with a h inv 2 show ?thesis
      by (auto simp: page_offers wizard_inv_def step_paths wizard_paths push_path_def pushed_def
          toggleUseCase_distinct set_toggleUseCase simp del: set_map split: if_splits)
  next
    case 3
    with page have "page = RegionPage p s" by (simp add: onb_page_def)
    with a h inv 3 ne show ?thesis
      by (auto simp: page_offers wizard_inv_def step_paths wizard_paths push_path_def pushed_def simp del: set_map)
  next
    case 4
    with page have "page = CompletePage p isPending err s" by (simp add: onb_page_def)
    with a h inv 4 show ?thesis
      by (auto simp: page_offers wizard_inv_def step_paths pushed_def simp del: set_map)
  qed
qed

lemma wizard_reach_inv:
  assumes "fresh_tenant t" "wizard_reach t u p s"
  shows "wizard_inv p s"
  using assms(2)
proof induction
  case wr_start
  show ?case using assms(1) by (simp add: wizard_inv_def step_paths flow_initial_def fresh_tenant_def)
next
  case (wr_step p s isPending err page a v s' es rpcs)
  then show ?case using wizard_inv_step by blast
qed

lemma option_lengths:
  "list_all (\<lambda>i. code_points i \<le> 50) (map opt_id companySizes)"
  "list_all (\<lambda>i. 1 \<le> code_points i \<and> code_points i \<le> 50) (map opt_id REGION_OPTIONS)"
  "length useCases \<le> 32"
  by code_simp+

lemma wizard_request_bounds:
  assumes "fresh_tenant t" "wizard_reach t u ''/onboarding/complete'' s"
  shows "1 \<le> code_points (region s)" "code_points (region s) \<le> 50" "code_points (nullish (orgSize s) []) \<le> 50"
    "length (flow_useCases s) \<le> 32"
proof -
  have inv: "wizard_inv ''/onboarding/complete'' s" by (rule wizard_reach_inv[OF assms])
  then show "1 \<le> code_points (region s)" "code_points (region s) \<le> 50"
    using option_lengths(2) by (auto simp: wizard_inv_def list_all_iff)
  show "code_points (nullish (orgSize s) []) \<le> 50"
    using inv option_lengths(1) by (cases "orgSize s") (auto simp: wizard_inv_def list_all_iff code_points_def nullish_def)
  have "length (flow_useCases s) = card (set (flow_useCases s))"
    using inv by (simp add: wizard_inv_def distinct_card)
  also have "\<dots> \<le> card (set (map opt_id useCases))"
    using inv by (intro card_mono) (auto simp: wizard_inv_def)
  also have "\<dots> \<le> length useCases" using card_length[of "map opt_id useCases"] by simp
  finally show "length (flow_useCases s) \<le> 32" using option_lengths(3) by simp
qed

section \<open>Properties\<close>

text \<open>
  Walking through the wizard of a new workspace by clicks and text leads to a request the server
  accepts, with two exceptions: a name of more than 200 characters and a description of the use
  case "other" of more than 500. A region is always chosen, and size, region and use cases are
  within their limits.
\<close>

theorem onboarding_request_accepted_iff:
  assumes "fresh_tenant t" and "wizard_reach t u ''/onboarding/complete'' s"
  shows "call_accepted (mutation (CompleteOnboarding (finish_request s))) \<longleftrightarrow>
           code_points (orgName s) \<le> 200 \<and>
           (''other'' \<in> set (flow_useCases s) \<longrightarrow> code_points (trim (flow_useCaseOther s)) \<le> 500)"
  using wizard_request_bounds[OF assms] by (simp add: mutation_accepted finish_request_def code_points_Nil)

definition new_tenant :: Tenant where
  "new_tenant = \<lparr>tenant_id = ''t'', tenant_name = None, tenant_size = None, tenant_region = None,
     tenant_useCases = [], tenant_useCaseOther = None, tenant_onboarded = False\<rparr>"

definition new_user :: User where
  "new_user = \<lparr>user_id = ''u'', user_name = [], user_email = ''a@acme.io''\<rparr>"

theorem onboarding_request_accepted_iff_witness:
  "\<exists>s. wizard_reach new_tenant new_user ''/onboarding/complete'' s \<and>
       call_accepted (mutation (CompleteOnboarding (finish_request s)))"
proof -
  let ?r = "wizard_reach new_tenant new_user"
  let ?s = "flow_initial new_tenant new_user"
  have ini: "orgName ?s = ''Acme''" "flow_useCases ?s = []" by code_simp+
  have ok: "canContinue ?s" by code_simp
  let ?on = "\<lambda>a page. a \<in> set (clicks page) \<union> set (entries [] page)"
  have on1: "?on GoNext (OrganizationPage p ?s)" for p unfolding page_offers using ok by simp
  have 1: "?r (pushed [RouterPush ''/onboarding/use-case''] ''/onboarding/organization'') ?s"
    by (rule wr_step[OF wr_start _ on1]) (simp_all add: onb_page_def wizard_paths push_path_def)
  have on2: "?on GoNext (UseCasePage p ?s)" for p unfolding page_offers by simp
  have 2: "?r (pushed [RouterPush ''/onboarding/region''] ''/onboarding/use-case'') ?s"
    by (rule wr_step[OF 1[unfolded pushed_def, simplified] _ on2]) (simp_all add: onb_page_def wizard_paths push_path_def)
  let ?t = "?s\<lparr>region := ''us-east''\<rparr>"
  have "''us-east'' \<in> set (map opt_id REGION_OPTIONS)" by code_simp
  then have on3: "?on (Patch (PatchRegion ''us-east'')) (RegionPage p ?s)" for p unfolding page_offers by blast
  have 3: "?r (pushed [] ''/onboarding/region'') ?t"
    by (rule wr_step[OF 2[unfolded pushed_def, simplified] _ on3]) (simp_all add: onb_page_def)
  have on4: "?on GoNext (RegionPage p ?t)" for p unfolding page_offers by simp
  have 4: "?r (pushed [RouterPush ''/onboarding/complete''] ''/onboarding/region'') ?t"
    by (rule wr_step[OF 3[unfolded pushed_def, simplified] _ on4]) (simp_all add: onb_page_def wizard_paths push_path_def)
  have "fresh_tenant new_tenant" by code_simp
  from onboarding_request_accepted_iff[OF this 4[unfolded pushed_def, simplified]]
  have "call_accepted (mutation (CompleteOnboarding (finish_request ?t)))"
    by (simp add: ini code_points_def)
  with 4 show ?thesis by (auto simp: pushed_def)
qed

text \<open>Opened by its address, the last step offers to finish without a region, and the server refuses.\<close>

lemma complete_step_unguarded:
  assumes "fresh_tenant t"
  shows "Finish \<in> set (clicks (CompletePage ''/onboarding/complete'' False None (flow_initial t u))) \<and>
         \<not> call_accepted (mutation (CompleteOnboarding (finish_request (flow_initial t u))))"
  using assms
  by (simp add: page_defs page_clicks Let_def mutation_accepted finish_request_def flow_initial_def fresh_tenant_def
      code_points_def)

text \<open>
  The offsets a user reaches in the audit log are accepted, for every number of events an answer can carry.
\<close>

lemma audit_requests_accepted:
  assumes "audit_reach tot offset" "tot < 2 ^ 31"
  shows "call_accepted (audit_query offset)"
proof (cases "0 < tot")
  case True
  then show ?thesis using audit_reach_sound[OF assms(1)] assms(2) by (simp add: query_accepted)
next
  case False
  from assms(1) have "offset = 0"
  proof cases
    case (click offset a n)
    from click(3) False show ?thesis unfolding audit_clicks by (simp add: PAGE_def)
  qed
  then show ?thesis by (simp add: query_accepted)
qed

text \<open>The token form with a name and a token typed in.\<close>

definition filled_form :: "string \<Rightarrow> string \<Rightarrow> token_form" where
  "filled_form name token = \<lparr>tf_name = name, tf_token = token, tf_pending = False\<rparr>"

lemma filled_form_fires:
  "trim name = name \<Longrightarrow> name \<noteq> [] \<Longrightarrow> trim token = token \<Longrightarrow> token \<noteq> [] \<Longrightarrow>
     fst (snd (token_step connector TConnect (filled_form name token))) = [ConnectWithToken connector token name]"
  by (simp add: filled_form_def token_fire_def onConnect_def)

end
