(* ===== verification/Validation.thy ===== *)
theory Validation
  imports Schema_Texts Contract
begin

text \<open>
  Field rules, message rules and the verdict on a message
  (\<open>FieldRules\<close>, \<open>Ignore\<close>, \<open>MessageRules\<close>, \<open>OneofRules\<close> of
  \<open>web/lib/gen/buf/validate/validate_pb.ts\<close>). \<open>check_value\<close> evaluates the expressions of the schema for a
  value, items, keys and values of maps included; \<open>value_ok\<close> is the documented meaning of the rules.
  They agree, and for the messages of this service they are the verdict of theory \<open>Contract\<close>.

  Parameters: \<open>custom\<close> evaluates an expression a message schema adds itself, given as text; the numbers an
  enumeration defines come with the value's field.
\<close>

section \<open>Field rules\<close>

datatype ignore_mode = IGNORE_UNSPECIFIED | IGNORE_IF_ZERO_VALUE | IGNORE_ALWAYS

datatype field_rule_set =
  FieldRules
    (fr_celExpression: "string list")
    (fr_cel: "string rule list")
    (fr_required: bool)
    (fr_ignore: ignore_mode)
    (fr_type: "type_rules option")
and type_rules =
    RFloat float_rules
  | RDouble double_rules
  | RInt32 int32_rules
  | RInt64 int64_rules
  | RUint32 uint32_rules
  | RUint64 uint64_rules
  | RSint32 sint32_rules
  | RSint64 sint64_rules
  | RFixed32 fixed32_rules
  | RFixed64 fixed64_rules
  | RSfixed32 sfixed32_rules
  | RSfixed64 sfixed64_rules
  | RBool bool_rules
  | RString string_rules
  | RBytes bytes_rules
  | REnum "int list" enum_rules    \<comment> \<open>the defined numbers, the rules\<close>
  | RRepeated "int option" "int option" bool "field_rule_set option"    \<comment> \<open>minItems, maxItems, unique, items\<close>
  | RMap "int option" "int option" "field_rule_set option" "field_rule_set option"    \<comment> \<open>minPairs, maxPairs, keys, values\<close>
  | RAny any_rules
  | RDuration duration_rules
  | RFieldMask field_mask_rules
  | RTimestamp timestamp_rules

text \<open>The zero value of a kind; a message has none, it is absent instead.\<close>

fun is_zero :: "cel_value \<Rightarrow> bool" where
  "is_zero (VBool b) = (\<not> b)"
| "is_zero (VInt n) = (n = 0)"
| "is_zero (VUint n) = (n = 0)"
| "is_zero (VDouble x) = (x = Fin 0)"
| "is_zero (VString s) = (s = [])"
| "is_zero (VBytes s) = (s = [])"
| "is_zero (VList xs) = (xs = [])"
| "is_zero (VMap kvs) = (kvs = [])"
| "is_zero _ = False"

fun ignored :: "ignore_mode \<Rightarrow> cel_value \<Rightarrow> bool" where
  "ignored IGNORE_UNSPECIFIED v = False"
| "ignored IGNORE_IF_ZERO_VALUE v = is_zero v"
| "ignored IGNORE_ALWAYS v = True"

section \<open>The verdict of the expressions\<close>

text \<open>All of a list of verdicts; \<open>None\<close> when one could not be reached.\<close>

definition all_pass :: "bool option list \<Rightarrow> bool option" where
  "all_pass bs = map_option (list_all id) (those bs)"

definition passes :: "cel_lib \<Rightarrow> int \<Rightarrow> rule_table \<Rightarrow> (string \<times> cel_value) list \<Rightarrow> cel_value \<Rightarrow> bool option" where
  "passes lib clock tab msg v = map_option (\<lambda>vs. vs = []) (check_rules lib clock tab msg v)"

text \<open>A custom rule: \<open>celExpression\<close> is a rule with nothing but its expression.\<close>

definition passes_custom :: "(string \<Rightarrow> cel_value \<Rightarrow> cel_value option) \<Rightarrow> string list \<Rightarrow> string rule list \<Rightarrow> cel_value \<Rightarrow>
    bool option" where
  "passes_custom custom es rs v =
     all_pass (map (\<lambda>(m, e). map_option (\<lambda>f. f = None) (rule_failure m (custom e v)))
       (map (\<lambda>e. ([], e)) es @ map (\<lambda>r. (rule_message r, rule_expression r)) rs))"

text \<open>A value of another kind than the rules are for cannot be checked.\<close>

fun check_int :: "string \<Rightarrow> cel_lib \<Rightarrow> int \<Rightarrow> int num_rules \<Rightarrow> cel_value \<Rightarrow> bool option" where
  "check_int p lib clock r (VInt n) = passes lib clock (num_cel p) (num_msg VInt r) (VInt n)"
| "check_int p lib clock r _ = None"

fun check_uint :: "string \<Rightarrow> cel_lib \<Rightarrow> int \<Rightarrow> int num_rules \<Rightarrow> cel_value \<Rightarrow> bool option" where
  "check_uint p lib clock r (VUint n) = passes lib clock (num_cel p) (num_msg VUint r) (VUint n)"
| "check_uint p lib clock r _ = None"

fun check_float :: "string \<Rightarrow> cel_lib \<Rightarrow> int \<Rightarrow> float_rules \<Rightarrow> cel_value \<Rightarrow> bool option" where
  "check_float p lib clock r (VDouble x) = passes lib clock (float_cel p) (float_msg r) (VDouble x)"
| "check_float p lib clock r _ = None"

fun url_of :: "cel_value \<Rightarrow> string option" where
  "url_of (VMessage m) = (case map_of m ''type_url'' of Some (VString u) \<Rightarrow> Some u | _ \<Rightarrow> None)"
| "url_of _ = None"

primrec check_value :: "cel_lib \<Rightarrow> int \<Rightarrow> (string \<Rightarrow> cel_value \<Rightarrow> cel_value option) \<Rightarrow> field_rule_set \<Rightarrow> cel_value \<Rightarrow> bool option"
  and check_type :: "cel_lib \<Rightarrow> int \<Rightarrow> (string \<Rightarrow> cel_value \<Rightarrow> cel_value option) \<Rightarrow> type_rules \<Rightarrow> cel_value \<Rightarrow> bool option" where
  "check_value lib clock custom (FieldRules es rs req ign ty) v =
     (if ignored ign v then Some True
      else all_pass [passes_custom custom es rs v,
        case map_option (check_type lib clock custom) ty of None \<Rightarrow> Some True | Some f \<Rightarrow> f v])"
| "check_type lib clock custom (RFloat r) v = check_float ''float'' lib clock r v"
| "check_type lib clock custom (RDouble r) v = check_float ''double'' lib clock r v"
| "check_type lib clock custom (RInt32 r) v = check_int ''int32'' lib clock r v"
| "check_type lib clock custom (RInt64 r) v = check_int ''int64'' lib clock r v"
| "check_type lib clock custom (RUint32 r) v = check_uint ''uint32'' lib clock r v"
| "check_type lib clock custom (RUint64 r) v = check_uint ''uint64'' lib clock r v"
| "check_type lib clock custom (RSint32 r) v = check_int ''sint32'' lib clock r v"
| "check_type lib clock custom (RSint64 r) v = check_int ''sint64'' lib clock r v"
| "check_type lib clock custom (RFixed32 r) v = check_uint ''fixed32'' lib clock r v"
| "check_type lib clock custom (RFixed64 r) v = check_uint ''fixed64'' lib clock r v"
| "check_type lib clock custom (RSfixed32 r) v = check_int ''sfixed32'' lib clock r v"
| "check_type lib clock custom (RSfixed64 r) v = check_int ''sfixed64'' lib clock r v"
| "check_type lib clock custom (RBool r) v =
     (case v of VBool b \<Rightarrow> passes lib clock bool_cel (bool_msg r) v | _ \<Rightarrow> None)"
| "check_type lib clock custom (RString r) v =
     (case v of VString s \<Rightarrow> passes lib clock string_cel (string_msg r) v | _ \<Rightarrow> None)"
| "check_type lib clock custom (RBytes r) v =
     (case v of VBytes s \<Rightarrow> passes lib clock bytes_cel (bytes_msg r) v | _ \<Rightarrow> None)"
| "check_type lib clock custom (REnum defined r) v =
     (case v of VInt n \<Rightarrow> all_pass [passes lib clock enum_cel (enum_msg r) v, Some (er_definedOnly r \<longrightarrow> n \<in> set defined)]
      | _ \<Rightarrow> None)"
| "check_type lib clock custom (RRepeated mn mx u items) v =
     (case v of VList xs \<Rightarrow>
        all_pass (passes lib clock repeated_cel
            (repeated_msg \<lparr>rr_minItems = mn, rr_maxItems = mx, rr_unique = u, rr_items = items\<rparr>) v #
          (case map_option (check_value lib clock custom) items of None \<Rightarrow> [] | Some f \<Rightarrow> map f xs))
      | _ \<Rightarrow> None)"
| "check_type lib clock custom (RMap mn mx ks vs) v =
     (case v of VMap kvs \<Rightarrow>
        all_pass (passes lib clock map_cel
            (map_msg \<lparr>pr_minPairs = mn, pr_maxPairs = mx, pr_keys = ks, pr_values = vs\<rparr>) v #
          (case map_option (check_value lib clock custom) ks of None \<Rightarrow> [] | Some f \<Rightarrow> map (f \<circ> fst) kvs) @
          (case map_option (check_value lib clock custom) vs of None \<Rightarrow> [] | Some f \<Rightarrow> map (f \<circ> snd) kvs))
      | _ \<Rightarrow> None)"
| "check_type lib clock custom (RAny r) v = map_option (any_rules_ok r) (url_of v)"
| "check_type lib clock custom (RDuration r) v =
     (case v of VDuration d \<Rightarrow> passes lib clock (num_cel ''duration'') (num_msg VDuration r) v | _ \<Rightarrow> None)"
| "check_type lib clock custom (RFieldMask r) v = passes lib clock field_mask_cel (field_mask_msg r) v"
| "check_type lib clock custom (RTimestamp r) v =
     (case v of VTime t \<Rightarrow> passes lib clock timestamp_cel (timestamp_msg r) v | _ \<Rightarrow> None)"

section \<open>The documented meaning\<close>

definition custom_ok :: "(string \<Rightarrow> cel_value \<Rightarrow> cel_value option) \<Rightarrow> string list \<Rightarrow> string rule list \<Rightarrow> cel_value \<Rightarrow> bool" where
  "custom_ok custom es rs v \<longleftrightarrow>
     list_all (\<lambda>e. custom e v \<in> {Some (VBool True), Some (VString [])}) (es @ map rule_expression rs)"

primrec value_ok :: "cel_lib \<Rightarrow> int \<Rightarrow> (string \<Rightarrow> cel_value \<Rightarrow> cel_value option) \<Rightarrow> field_rule_set \<Rightarrow> cel_value \<Rightarrow> bool"
  and type_ok :: "cel_lib \<Rightarrow> int \<Rightarrow> (string \<Rightarrow> cel_value \<Rightarrow> cel_value option) \<Rightarrow> type_rules \<Rightarrow> cel_value \<Rightarrow> bool" where
  "value_ok lib clock custom (FieldRules es rs req ign ty) v \<longleftrightarrow>
     ignored ign v \<or>
     (custom_ok custom es rs v \<and> (case map_option (type_ok lib clock custom) ty of None \<Rightarrow> True | Some f \<Rightarrow> f v))"
| "type_ok lib clock custom (RFloat r) v \<longleftrightarrow> (case v of VDouble x \<Rightarrow> float_rules_ok r x | _ \<Rightarrow> False)"
| "type_ok lib clock custom (RDouble r) v \<longleftrightarrow> (case v of VDouble x \<Rightarrow> float_rules_ok r x | _ \<Rightarrow> False)"
| "type_ok lib clock custom (RInt32 r) v \<longleftrightarrow> (case v of VInt n \<Rightarrow> num_rules_ok r n | _ \<Rightarrow> False)"
| "type_ok lib clock custom (RInt64 r) v \<longleftrightarrow> (case v of VInt n \<Rightarrow> num_rules_ok r n | _ \<Rightarrow> False)"
| "type_ok lib clock custom (RUint32 r) v \<longleftrightarrow> (case v of VUint n \<Rightarrow> num_rules_ok r n | _ \<Rightarrow> False)"
| "type_ok lib clock custom (RUint64 r) v \<longleftrightarrow> (case v of VUint n \<Rightarrow> num_rules_ok r n | _ \<Rightarrow> False)"
| "type_ok lib clock custom (RSint32 r) v \<longleftrightarrow> (case v of VInt n \<Rightarrow> num_rules_ok r n | _ \<Rightarrow> False)"
| "type_ok lib clock custom (RSint64 r) v \<longleftrightarrow> (case v of VInt n \<Rightarrow> num_rules_ok r n | _ \<Rightarrow> False)"
| "type_ok lib clock custom (RFixed32 r) v \<longleftrightarrow> (case v of VUint n \<Rightarrow> num_rules_ok r n | _ \<Rightarrow> False)"
| "type_ok lib clock custom (RFixed64 r) v \<longleftrightarrow> (case v of VUint n \<Rightarrow> num_rules_ok r n | _ \<Rightarrow> False)"
| "type_ok lib clock custom (RSfixed32 r) v \<longleftrightarrow> (case v of VInt n \<Rightarrow> num_rules_ok r n | _ \<Rightarrow> False)"
| "type_ok lib clock custom (RSfixed64 r) v \<longleftrightarrow> (case v of VInt n \<Rightarrow> num_rules_ok r n | _ \<Rightarrow> False)"
| "type_ok lib clock custom (RBool r) v \<longleftrightarrow> (case v of VBool b \<Rightarrow> bool_rules_ok r b | _ \<Rightarrow> False)"
| "type_ok lib clock custom (RString r) v \<longleftrightarrow>
     (case v of VString s \<Rightarrow> string_rules_ok (lib_matches lib) (form_ok lib) (header_ok lib) r s | _ \<Rightarrow> False)"
| "type_ok lib clock custom (RBytes r) v \<longleftrightarrow> (case v of VBytes b \<Rightarrow> bytes_rules_ok (lib_matches lib) r b | _ \<Rightarrow> False)"
| "type_ok lib clock custom (REnum defined r) v \<longleftrightarrow> (case v of VInt n \<Rightarrow> enum_rules_ok defined r n | _ \<Rightarrow> False)"
| "type_ok lib clock custom (RRepeated mn mx u items) v \<longleftrightarrow>
     (case v of VList xs \<Rightarrow>
        repeated_rules_ok id
          \<lparr>rr_minItems = mn, rr_maxItems = mx, rr_unique = u, rr_items = map_option (value_ok lib clock custom) items\<rparr> xs
      | _ \<Rightarrow> False)"
| "type_ok lib clock custom (RMap mn mx ks vs) v \<longleftrightarrow>
     (case v of VMap kvs \<Rightarrow>
        map_rules_ok id
          \<lparr>pr_minPairs = mn, pr_maxPairs = mx, pr_keys = map_option (value_ok lib clock custom) ks,
           pr_values = map_option (value_ok lib clock custom) vs\<rparr> kvs
      | _ \<Rightarrow> False)"
| "type_ok lib clock custom (RAny r) v \<longleftrightarrow> (case url_of v of Some u \<Rightarrow> any_rules_ok r u | None \<Rightarrow> False)"
| "type_ok lib clock custom (RDuration r) v \<longleftrightarrow> (case v of VDuration d \<Rightarrow> num_rules_ok r d | _ \<Rightarrow> False)"
| "type_ok lib clock custom (RFieldMask r) v \<longleftrightarrow> (\<exists>ps. v = mask_value ps \<and> field_mask_rules_ok r ps)"
| "type_ok lib clock custom (RTimestamp r) v \<longleftrightarrow> (case v of VTime t \<Rightarrow> timestamp_decided clock r t | _ \<Rightarrow> False)"

text \<open>
  When a value can be checked: it is of the kind of the rules, the bounds of doubles are numbers, bytes
  matched against a pattern are text, items that have to be unique can be compared, and custom
  expressions give a boolean or a string.
\<close>

fun comparable :: "cel_value \<Rightarrow> bool" where
  "comparable (VDouble x) = (x \<noteq> FNan)"
| "comparable (VList _) = False"
| "comparable v = True"

primrec value_fits :: "cel_lib \<Rightarrow> (string \<Rightarrow> cel_value \<Rightarrow> cel_value option) \<Rightarrow> field_rule_set \<Rightarrow> cel_value \<Rightarrow> bool"
  and type_fits :: "cel_lib \<Rightarrow> (string \<Rightarrow> cel_value \<Rightarrow> cel_value option) \<Rightarrow> type_rules \<Rightarrow> cel_value \<Rightarrow> bool" where
  "value_fits lib custom (FieldRules es rs req ign ty) v \<longleftrightarrow>
     ignored ign v \<or>
     (list_all (\<lambda>e. case custom e v of Some (VBool _) \<Rightarrow> True | Some (VString _) \<Rightarrow> True | _ \<Rightarrow> False)
        (es @ map rule_expression rs) \<and>
      (case map_option (type_fits lib custom) ty of None \<Rightarrow> True | Some f \<Rightarrow> f v))"
| "type_fits lib custom (RFloat r) v \<longleftrightarrow> float_bounds r \<and> (case v of VDouble _ \<Rightarrow> True | _ \<Rightarrow> False)"
| "type_fits lib custom (RDouble r) v \<longleftrightarrow> float_bounds r \<and> (case v of VDouble _ \<Rightarrow> True | _ \<Rightarrow> False)"
| "type_fits lib custom (RInt32 r) v \<longleftrightarrow> (case v of VInt _ \<Rightarrow> True | _ \<Rightarrow> False)"
| "type_fits lib custom (RInt64 r) v \<longleftrightarrow> (case v of VInt _ \<Rightarrow> True | _ \<Rightarrow> False)"
| "type_fits lib custom (RUint32 r) v \<longleftrightarrow> (case v of VUint _ \<Rightarrow> True | _ \<Rightarrow> False)"
| "type_fits lib custom (RUint64 r) v \<longleftrightarrow> (case v of VUint _ \<Rightarrow> True | _ \<Rightarrow> False)"
| "type_fits lib custom (RSint32 r) v \<longleftrightarrow> (case v of VInt _ \<Rightarrow> True | _ \<Rightarrow> False)"
| "type_fits lib custom (RSint64 r) v \<longleftrightarrow> (case v of VInt _ \<Rightarrow> True | _ \<Rightarrow> False)"
| "type_fits lib custom (RFixed32 r) v \<longleftrightarrow> (case v of VUint _ \<Rightarrow> True | _ \<Rightarrow> False)"
| "type_fits lib custom (RFixed64 r) v \<longleftrightarrow> (case v of VUint _ \<Rightarrow> True | _ \<Rightarrow> False)"
| "type_fits lib custom (RSfixed32 r) v \<longleftrightarrow> (case v of VInt _ \<Rightarrow> True | _ \<Rightarrow> False)"
| "type_fits lib custom (RSfixed64 r) v \<longleftrightarrow> (case v of VInt _ \<Rightarrow> True | _ \<Rightarrow> False)"
| "type_fits lib custom (RBool r) v \<longleftrightarrow> (case v of VBool _ \<Rightarrow> True | _ \<Rightarrow> False)"
| "type_fits lib custom (RString r) v \<longleftrightarrow> (case v of VString _ \<Rightarrow> True | _ \<Rightarrow> False)"
| "type_fits lib custom (RBytes r) v \<longleftrightarrow>
     (case v of VBytes b \<Rightarrow> br_pattern r \<noteq> None \<longrightarrow> lib_utf8 lib b | _ \<Rightarrow> False)"
| "type_fits lib custom (REnum defined r) v \<longleftrightarrow> (case v of VInt _ \<Rightarrow> True | _ \<Rightarrow> False)"
| "type_fits lib custom (RRepeated mn mx u items) v \<longleftrightarrow>
     (case v of VList xs \<Rightarrow>
        (u \<longrightarrow> list_all comparable xs) \<and>
        (case map_option (value_fits lib custom) items of None \<Rightarrow> True | Some f \<Rightarrow> list_all f xs)
      | _ \<Rightarrow> False)"
| "type_fits lib custom (RMap mn mx ks vs) v \<longleftrightarrow>
     (case v of VMap kvs \<Rightarrow>
        (case map_option (value_fits lib custom) ks of None \<Rightarrow> True | Some f \<Rightarrow> list_all (f \<circ> fst) kvs) \<and>
        (case map_option (value_fits lib custom) vs of None \<Rightarrow> True | Some f \<Rightarrow> list_all (f \<circ> snd) kvs)
      | _ \<Rightarrow> False)"
| "type_fits lib custom (RAny r) v \<longleftrightarrow> url_of v \<noteq> None"
| "type_fits lib custom (RDuration r) v \<longleftrightarrow> (case v of VDuration _ \<Rightarrow> True | _ \<Rightarrow> False)"
| "type_fits lib custom (RFieldMask r) v \<longleftrightarrow> (\<exists>ps. v = mask_value ps)"
| "type_fits lib custom (RTimestamp r) v \<longleftrightarrow> (case v of VTime _ \<Rightarrow> True | _ \<Rightarrow> False)"

section \<open>Lemmas\<close>

lemma passes_decided: "decides lib clock msg v tab x \<Longrightarrow> passes lib clock tab msg v = Some x"
  by (auto simp: decides_def passes_def)

lemma all_pass_simps [simp]:
  "all_pass [] = Some True" "all_pass (Some b # bs) = map_option (\<lambda>c. b \<and> c) (all_pass bs)"
  by (simp_all add: all_pass_def option.map_comp comp_def)

lemma all_pass_append:
  "all_pass as = Some x \<Longrightarrow> all_pass bs = Some y \<Longrightarrow> all_pass (as @ bs) = Some (x \<and> y)"
  by (auto simp: all_pass_def those_Some intro: exI[of _ "_ @ _"])

lemma all_pass_map: "list_all (\<lambda>x. f x = Some (g x)) xs \<Longrightarrow> all_pass (map f xs) = Some (list_all g xs)"
  by (induction xs) auto

lemma custom_decided:
  assumes "list_all (\<lambda>e. case custom e v of Some (VBool _) \<Rightarrow> True | Some (VString _) \<Rightarrow> True | _ \<Rightarrow> False)
      (es @ map rule_expression rs)"
  shows "passes_custom custom es rs v = Some (custom_ok custom es rs v)"
proof -
  have one: "map_option (\<lambda>f. f = None) (rule_failure m (custom e v)) =
      Some (custom e v \<in> {Some (VBool True), Some (VString [])})"
    if "case custom e v of Some (VBool _) \<Rightarrow> True | Some (VString _) \<Rightarrow> True | _ \<Rightarrow> False" for m e
    using that by (cases "(m, custom e v)" rule: rule_failure.cases) auto
  let ?ps = "map (\<lambda>e. ([], e)) es @ map (\<lambda>r. (rule_message r, rule_expression r)) rs"
  have "list_all (\<lambda>p. map_option (\<lambda>f. f = None) (rule_failure (fst p) (custom (snd p) v)) =
      Some (custom (snd p) v \<in> {Some (VBool True), Some (VString [])})) ?ps"
    using assms one by (fastforce simp: list_all_iff)
  from all_pass_map[OF this]
  have "all_pass (map (\<lambda>(m, e). map_option (\<lambda>f. f = None) (rule_failure m (custom e v))) ?ps) =
      Some (list_all (\<lambda>p. custom (snd p) v \<in> {Some (VBool True), Some (VString [])}) ?ps)"
    by (simp only: case_prod_unfold)
  moreover have "list_all (\<lambda>p. custom (snd p) v \<in> {Some (VBool True), Some (VString [])}) ?ps \<longleftrightarrow> custom_ok custom es rs v"
    by (simp add: custom_ok_def list.pred_map comp_def)
  ultimately show ?thesis by (simp only: passes_custom_def)
qed

lemma cel_distinct_iff: "list_all comparable xs \<Longrightarrow> cel_distinct xs \<longleftrightarrow> distinct xs"
proof (induction xs)
  case (Cons x xs)
  have "cel_eq x y \<longleftrightarrow> x = y" if "comparable x" "comparable y" for x y
  proof (cases "(x, y)" rule: cel_eq.cases)
    case (1 a b)
    then show ?thesis using that by (cases a; cases b) (auto simp: equals_def less_eq_flt_def)
  qed (use that in simp_all)
  with Cons show ?case by (auto simp: list_ex_iff list_all_iff)
qed simp

lemma num_passes:
  "passes lib clock (num_cel p) (num_msg VInt r) (VInt n) = Some (num_rules_ok r n)"
  "passes lib clock (num_cel p) (num_msg VUint r) (VUint n) = Some (num_rules_ok r n)"
  "passes lib clock (num_cel p) (num_msg VDuration r) (VDuration n) = Some (num_rules_ok r n)"
  by (simp_all add: passes_decided num_table_decides[OF ints.ordered_values_axioms]
      num_table_decides[OF uints.ordered_values_axioms] num_table_decides[OF durations.ordered_values_axioms])

lemma enum_passes:
  "all_pass [passes lib clock enum_cel (enum_msg r) (VInt n), Some (er_definedOnly r \<longrightarrow> n \<in> set defined)] =
     Some (enum_rules_ok defined r n)"
  using passes_decided[OF enum_decides, of lib clock r n] by (auto simp: enum_rules_ok_def)

text \<open>Items, keys and values: the verdicts of the elements together with that on the list.\<close>

lemma all_pass_part:
  assumes "\<And>fr x. g = Some fr \<Longrightarrow> x \<in> set xs \<Longrightarrow> check fr x = Some (ok fr x)"
  shows "all_pass (case map_option check g of None \<Rightarrow> [] | Some f \<Rightarrow> map f xs) =
     Some (holds_for (\<lambda>f. list_all f xs) (map_option ok g))"
  using assms all_pass_map[of "check (the g)" "ok (the g)" xs] by (cases g) (auto simp: list_all_iff)

lemma repeated_passes:
  assumes "u \<longrightarrow> list_all comparable xs"
    and "\<And>fr x. items = Some fr \<Longrightarrow> x \<in> set xs \<Longrightarrow> check fr x = Some (ok fr x)"
  shows "all_pass (passes lib clock repeated_cel
        (repeated_msg \<lparr>rr_minItems = mn, rr_maxItems = mx, rr_unique = u, rr_items = items\<rparr>) (VList xs) #
      (case map_option check items of None \<Rightarrow> [] | Some f \<Rightarrow> map f xs)) =
    Some (repeated_rules_ok id
      \<lparr>rr_minItems = mn, rr_maxItems = mx, rr_unique = u, rr_items = map_option ok items\<rparr> xs)"
  using assms(1) all_pass_part[of items xs check ok, OF assms(2)] passes_decided[OF list_size_decides, of lib clock "\<lparr>rr_minItems = mn, rr_maxItems = mx, rr_unique = u, rr_items = items\<rparr>" xs]
  by (auto simp: repeated_rules_ok_def cel_distinct_iff)

lemma map_passes:
  assumes "\<And>fr x. ks = Some fr \<Longrightarrow> x \<in> set kvs \<Longrightarrow> check fr (fst x) = Some (ok fr (fst x))"
    and "\<And>fr x. vs = Some fr \<Longrightarrow> x \<in> set kvs \<Longrightarrow> check fr (snd x) = Some (ok fr (snd x))"
  shows "all_pass (passes lib clock map_cel
        (map_msg \<lparr>pr_minPairs = mn, pr_maxPairs = mx, pr_keys = ks, pr_values = vs\<rparr>) (VMap kvs) #
      (case map_option check ks of None \<Rightarrow> [] | Some f \<Rightarrow> map (f \<circ> fst) kvs) @
      (case map_option check vs of None \<Rightarrow> [] | Some f \<Rightarrow> map (f \<circ> snd) kvs)) =
    Some (map_rules_ok id
      \<lparr>pr_minPairs = mn, pr_maxPairs = mx, pr_keys = map_option ok ks, pr_values = map_option ok vs\<rparr> kvs)"
proof -
  have part: "all_pass (case map_option check g of None \<Rightarrow> [] | Some f \<Rightarrow> map (f \<circ> sel) kvs) =
      Some (holds_for (\<lambda>f. list_all (f \<circ> sel) kvs) (map_option ok g))"
    if "\<And>fr x. g = Some fr \<Longrightarrow> x \<in> set kvs \<Longrightarrow> check fr (sel x) = Some (ok fr (sel x))"
    for g and sel :: "cel_value \<times> cel_value \<Rightarrow> cel_value"
    using that all_pass_map[of "check (the g) \<circ> sel" "ok (the g) \<circ> sel" kvs] by (cases g) (auto simp: list_all_iff)
  have "all_pass ((case map_option check ks of None \<Rightarrow> [] | Some f \<Rightarrow> map (f \<circ> fst) kvs) @
      (case map_option check vs of None \<Rightarrow> [] | Some f \<Rightarrow> map (f \<circ> snd) kvs)) =
    Some (holds_for (\<lambda>f. list_all (f \<circ> fst) kvs) (map_option ok ks) \<and> holds_for (\<lambda>f. list_all (f \<circ> snd) kvs) (map_option ok vs))"
    by (rule all_pass_append; rule part; fact assms)
  then show ?thesis using passes_decided[OF map_size_decides, of lib clock
      "\<lparr>pr_minPairs = mn, pr_maxPairs = mx, pr_keys = ks, pr_values = vs\<rparr>" kvs]
    by (simp add: map_rules_ok_def comp_def case_prod_unfold)
qed

text \<open>The verdict of the expressions is the documented one.\<close>

lemma check_value_ok:
  "value_fits lib custom fr v \<Longrightarrow> check_value lib clock custom fr v = Some (value_ok lib clock custom fr v)"
  "type_fits lib custom ty v \<Longrightarrow> check_type lib clock custom ty v = Some (type_ok lib clock custom ty v)"
proof (induction fr and ty arbitrary: v and v)
  case (FieldRules es rs req ign ty)
  show ?case
  proof (cases "ignored ign v")
    case False
    then have "passes_custom custom es rs v = Some (custom_ok custom es rs v)"
      using FieldRules.prems by (intro custom_decided) simp
    with False FieldRules show ?thesis by (cases ty) auto
  qed simp
next
  case (RRepeated mn mx u items)
  then obtain xs where xs: "v = VList xs" by (cases v) auto
  have "check_value lib clock custom f x = Some (value_ok lib clock custom f x)" if "items = Some f" "x \<in> set xs" for f x
    using RRepeated xs that by (auto simp: list_all_iff)
  with RRepeated.prems repeated_passes[of u xs items "check_value lib clock custom" "value_ok lib clock custom"] xs
  show ?case by simp
next
  case (RMap mn mx ks vs)
  then obtain kvs where kvs: "v = VMap kvs" by (cases v) auto
  have "check_value lib clock custom f (fst x) = Some (value_ok lib clock custom f (fst x))"
    if "ks = Some f" "x \<in> set kvs" for f x using RMap kvs that by (auto simp: list_all_iff)
  moreover have "check_value lib clock custom f (snd x) = Some (value_ok lib clock custom f (snd x))"
    if "vs = Some f" "x \<in> set kvs" for f x using RMap kvs that by (auto simp: list_all_iff)
  ultimately show ?case
    using map_passes[of ks kvs "check_value lib clock custom" "value_ok lib clock custom" vs] kvs by simp
next
  case (RFieldMask r)
  then obtain ps where ps: "v = mask_value ps" by auto
  have inj: "mask_value ps = mask_value qs \<longleftrightarrow> ps = qs" for qs
    using inj_map_eq_map[of VString ps qs] by (auto simp: mask_value_def inj_def)
  show ?case using passes_decided[OF field_mask_decides, of lib clock r ps] ps inj by auto
qed (auto simp: num_passes enum_passes passes_decided bool_decides string_decides bytes_decides float_decides
      timestamp_decides split: cel_value.splits option.splits)

section \<open>Fields and messages\<close>

text \<open>
  A field of a message as validation sees it. A field that does not track presence always has a value,
  the zero value when nothing was set.
\<close>

record message_field =
  mf_name :: string
  mf_rules :: field_rule_set
  mf_tracks :: bool
  mf_value :: "cel_value option"

definition is_set :: "message_field \<Rightarrow> bool" where
  "is_set f \<longleftrightarrow> (case mf_value f of None \<Rightarrow> False | Some v \<Rightarrow> mf_tracks f \<or> \<not> is_zero v)"

record message_oneof_rule =
  mo_fields :: "string list"
  mo_required :: bool

record message_rules =
  ms_celExpression :: "string list"
  ms_cel :: "string rule list"
  ms_oneof :: "message_oneof_rule list"

record oneof_rules =
  oo_required :: bool

text \<open>
  A field named in a rule for one of several fields is checked only when it is not zero, unless it says
  otherwise; for a field that tracks presence that makes no difference.
\<close>

definition applied_ignore :: "message_rules \<Rightarrow> message_field \<Rightarrow> ignore_mode" where
  "applied_ignore ms f =
     (case fr_ignore (mf_rules f) of
        IGNORE_ALWAYS \<Rightarrow> IGNORE_ALWAYS
      | IGNORE_IF_ZERO_VALUE \<Rightarrow> if mf_tracks f then IGNORE_UNSPECIFIED else IGNORE_IF_ZERO_VALUE
      | IGNORE_UNSPECIFIED \<Rightarrow>
          if \<not> mf_tracks f \<and> list_ex (\<lambda>o'. mf_name f \<in> set (mo_fields o')) (ms_oneof ms) then IGNORE_IF_ZERO_VALUE
          else IGNORE_UNSPECIFIED)"

primrec with_ignore :: "ignore_mode \<Rightarrow> field_rule_set \<Rightarrow> field_rule_set" where
  "with_ignore ign (FieldRules es rs req ign' ty) = FieldRules es rs req ign ty"

definition field_ok ::
  "cel_lib \<Rightarrow> int \<Rightarrow> (string \<Rightarrow> cel_value \<Rightarrow> cel_value option) \<Rightarrow> message_rules \<Rightarrow> message_field \<Rightarrow> bool" where
  "field_ok lib clock custom ms f \<longleftrightarrow>
     fr_ignore (mf_rules f) = IGNORE_ALWAYS \<or>
     ((fr_required (mf_rules f) \<longrightarrow> is_set f) \<and>
      (case mf_value f of None \<Rightarrow> True
       | Some v \<Rightarrow> value_ok lib clock custom (with_ignore (applied_ignore ms f) (mf_rules f)) v))"

text \<open>How many of the named fields are set.\<close>

definition set_among :: "message_field list \<Rightarrow> string list \<Rightarrow> nat" where
  "set_among fs names = length (filter (\<lambda>f. is_set f \<and> mf_name f \<in> set names) fs)"

definition message_oneof_ok :: "message_field list \<Rightarrow> message_oneof_rule \<Rightarrow> bool" where
  "message_oneof_ok fs r \<longleftrightarrow>
     set_among fs (mo_fields r) \<le> 1 \<and> (mo_required r \<longrightarrow> set_among fs (mo_fields r) = 1)"

text \<open>The members of a oneof of the message are its fields with the given names.\<close>

definition oneof_ok :: "message_field list \<Rightarrow> string list \<times> oneof_rules \<Rightarrow> bool" where
  "oneof_ok fs p \<longleftrightarrow> (oo_required (snd p) \<longrightarrow> set_among fs (fst p) = 1)"

definition message_ok ::
  "cel_lib \<Rightarrow> int \<Rightarrow> (string \<Rightarrow> cel_value \<Rightarrow> cel_value option) \<Rightarrow> message_rules \<Rightarrow> (string list \<times> oneof_rules) list \<Rightarrow>
   message_field list \<Rightarrow> bool" where
  "message_ok lib clock custom ms oneofs fs \<longleftrightarrow>
     list_all (field_ok lib clock custom ms) fs \<and>
     custom_ok custom (ms_celExpression ms) (ms_cel ms)
       (VMessage (map (\<lambda>f. (mf_name f, the (mf_value f))) (filter is_set fs))) \<and>
     list_all (message_oneof_ok fs) (ms_oneof ms) \<and> list_all (oneof_ok fs) oneofs"

text \<open>
  Two remarks of the documentation: a list that must have an item is a list that is required, and
  \<open>required\<close> says nothing about the items of a list.
\<close>

lemma min_items_is_required:
  assumes "mf_value f = Some (VList xs)" "\<not> mf_tracks f"
    "\<not> list_ex (\<lambda>r. mf_name f \<in> set (mo_fields r)) (ms_oneof ms)"
  shows "field_ok lib clock custom ms
       (f\<lparr>mf_rules := FieldRules [] [] False IGNORE_UNSPECIFIED (Some (RRepeated (Some 1) mx u items))\<rparr>) \<longleftrightarrow>
     field_ok lib clock custom ms
       (f\<lparr>mf_rules := FieldRules [] [] True IGNORE_UNSPECIFIED (Some (RRepeated None mx u items))\<rparr>)"
  using assms
  by (cases xs) (auto simp: field_ok_def is_set_def applied_ignore_def custom_ok_def repeated_rules_ok_def)

lemma items_required_is_redundant:
  "value_ok lib clock custom (FieldRules es rs True ign ty) v \<longleftrightarrow> value_ok lib clock custom (FieldRules es rs False ign ty) v"
  by simp

section \<open>The rules of this service\<close>

text \<open>The rules its messages carry (theory \<open>Wire\<close>) as field rules, and its values as values of the language.\<close>

primrec service_rule_set :: "field_rules \<Rightarrow> field_rule_set" where
  "service_rule_set NoRules = FieldRules [] [] False IGNORE_UNSPECIFIED None"
| "service_rule_set (StringRules mn mx) =
     FieldRules [] [] False IGNORE_UNSPECIFIED (Some (RString (string_bounds mn mx)))"
| "service_rule_set (Int32Rules le ge) =
     FieldRules [] [] False IGNORE_UNSPECIFIED (Some (RInt32 (int_bounds (map_option Lte le) (map_option Gte ge))))"
| "service_rule_set (Uint32Rules le) =
     FieldRules [] [] False IGNORE_UNSPECIFIED (Some (RUint32 (int_bounds (map_option Lte le) None)))"
| "service_rule_set (RepeatedRules mx) =
     FieldRules [] [] False IGNORE_UNSPECIFIED (Some (RRepeated None mx False None))"

fun cel_of :: "wire_type \<Rightarrow> wire_value \<Rightarrow> cel_value" where
  "cel_of TUint32 (WInt n) = VUint n"
| "cel_of ty (WInt n) = VInt n"
| "cel_of ty (WStr s) = VString s"
| "cel_of ty (WBool b) = VBool b"
| "cel_of ty (WStrs xs) = VList (map VString xs)"

text \<open>Rules stand on fields of their kind that do not track presence.\<close>

definition rules_fit :: "field_desc \<Rightarrow> bool" where
  "rules_fit f \<longleftrightarrow>
     (case f_rules f of
        NoRules \<Rightarrow> True
      | StringRules _ _ \<Rightarrow> f_type f = TString \<and> f_label f = Singular
      | Int32Rules _ _ \<Rightarrow> f_type f = TInt32 \<and> f_label f = Singular
      | Uint32Rules _ \<Rightarrow> f_type f = TUint32 \<and> f_label f = Singular
      | RepeatedRules _ \<Rightarrow> f_label f = Repeated)"

lemma service_rules_fit:
  "list_all (\<lambda>me. list_all rules_fit (m_fields (me_input me))) (sv_methods TenantService @ sv_methods IntegrationService)"
  by code_simp

lemma rule_by_expressions:
  assumes "rules_fit f" "value_typed f v"
  shows "check_value lib clock custom (service_rule_set (f_rules f)) (cel_of (f_type f) v) = Some (rule_ok (f_rules f) v)"
proof -
  have "value_fits lib custom (service_rule_set (f_rules f)) (cel_of (f_type f) v) \<and>
      value_ok lib clock custom (service_rule_set (f_rules f)) (cel_of (f_type f) v) = rule_ok (f_rules f) v"
    using assms
    by (cases "f_rules f"; cases v; cases "f_type f")
      (auto simp: rules_fit_def value_typed_def custom_ok_def string_bounds_ok repeated_rules_ok_def split: if_splits)
  with check_value_ok(1)[of lib custom "service_rule_set (f_rules f)" "cel_of (f_type f) v" clock] show ?thesis by simp
qed

section \<open>Properties\<close>


definition sample_lib :: cel_lib where
  "sample_lib = \<lparr>lib_matches = (\<lambda>p s. False), lib_valid = (\<lambda>f s as. False), lib_utf8 = (\<lambda>b. True),
     lib_show = (\<lambda>c v. [])\<rparr>"

text \<open>A list of prices outside the range from 5 to 10, each at most once.\<close>

definition sample_prices :: field_rule_set where
  "sample_prices =
     FieldRules [] [] False IGNORE_UNSPECIFIED
       (Some (RRepeated None (Some 3) True
         (Some (FieldRules [] [] False IGNORE_UNSPECIFIED
           (Some (RDouble \<lparr>fl_num = \<lparr>ir_const = None, ir_lessThan = Some (Lt (Fin 5)), ir_greaterThan = Some (Gt (Fin 10)),
              ir_in = [], ir_notIn = [], ir_example = []\<rparr>, fl_finite = True\<rparr>))))))"




text \<open>
  The documentation asks a time before (after) the current one; the expressions let the current time
  pass both.
\<close>

lemma now_passes_lt_now:
  "check_type sample_lib clock (\<lambda>e v. None) (RTimestamp \<lparr>tr_const = None, tr_lessThan = Some (LtNow True),
     tr_greaterThan = None, tr_within = None, tr_example = []\<rparr>) (VTime clock) = Some True"
  "\<not> timestamp_rules_ok clock \<lparr>tr_const = None, tr_lessThan = Some (LtNow True),
     tr_greaterThan = None, tr_within = None, tr_example = []\<rparr> clock"
  using passes_decided[OF timestamp_decides] by (auto simp: timestamp_decided_def timestamp_rules_ok_def)

end
