(* ===== verification/Nav.thy ===== *)
theory Nav
  imports Prelude Proto
begin

text \<open>
  Navigation: the registry (\<open>web/lib/nav.ts\<close>), the breadcrumb trail
  (\<open>web/components/app/app-context-bar.tsx\<close>) with the published leaf
  (\<open>web/lib/breadcrumb-leaf.ts\<close>), the section jumper (\<open>web/components/app/app-search.tsx\<close>) and
  the spine with its persisted state (\<open>web/components/app/spine.tsx\<close>).

  Dictionaries are association lists of their own keys. Fuzzy matching of the jumper's list is
  the \<open>cmdk\<close> library's and left out. \<open>document.cookie\<close> is rendered from a jar of name and value
  pairs, as browsers do: \<open>n1=v1; n2=v2\<close>.
\<close>

section \<open>Registry\<close>

datatype NavGroup = Knowledge | ManageGroup | System

record NavItem =
  nav_key :: string
  nav_label :: string
  nav_href :: string
  nav_group :: NavGroup

definition nav_item :: "string \<Rightarrow> string \<Rightarrow> string \<Rightarrow> NavGroup \<Rightarrow> NavItem" where
  "nav_item k l h g = \<lparr>nav_key = k, nav_label = l, nav_href = h, nav_group = g\<rparr>"

definition NAV :: "NavItem list" where
  "NAV =
    [nav_item ''ask'' ''Ask'' ''/ask'' Knowledge,
     nav_item ''book'' ''Book'' ''/book'' Knowledge,
     nav_item ''sources'' ''Sources'' ''/sources'' ManageGroup,
     nav_item ''files'' ''Files'' ''/files'' ManageGroup,
     nav_item ''entities'' ''Entities'' ''/entities'' ManageGroup,
     nav_item ''review'' ''Review'' ''/review'' ManageGroup,
     nav_item ''members'' ''Members'' ''/members'' ManageGroup,
     nav_item ''access'' ''Access'' ''/access'' ManageGroup,
     nav_item ''audit'' ''Audit log'' ''/audit'' ManageGroup,
     nav_item ''usage'' ''Usage'' ''/usage'' ManageGroup,
     nav_item ''settings'' ''Settings'' ''/settings'' System]"

definition navByKey :: "string \<rightharpoonup> NavItem" where
  "navByKey = map_of (map (\<lambda>n. (nav_key n, n)) NAV)"

section \<open>Breadcrumbs\<close>

record Crumb =
  crumb_label :: string
  crumb_href :: "string option"
  crumb_detail :: bool

definition crumb :: "string \<Rightarrow> string option \<Rightarrow> bool \<Rightarrow> Crumb" where
  "crumb l h d = \<lparr>crumb_label = l, crumb_href = h, crumb_detail = d\<rparr>"

definition DETAIL_LABEL :: "string \<rightharpoonup> string" where
  "DETAIL_LABEL = map_of [(''sources'', ''Source''), (''files'', ''File''), (''book'', ''Chapter''),
                          (''entities'', ''Entity'')]"

definition EXTRA :: "string \<rightharpoonup> string \<times> string" where
  "EXTRA = map_of [(''account'', (''Account'', ''/account''))]"

definition path_segs :: "string \<Rightarrow> string list" where
  "path_segs pathname = filter (\<lambda>w. w \<noteq> []) (split_char (CHR ''/'') pathname)"

definition section_of :: "string \<Rightarrow> (string \<times> string) option" where
  "section_of key =
     (case navByKey key of Some n \<Rightarrow> Some (nav_label n, nav_href n) | None \<Rightarrow> EXTRA key)"

text \<open>\<open>segs[i] === s\<close>; out of range the segment is \<open>undefined\<close>.\<close>

definition seg_is :: "string list \<Rightarrow> nat \<Rightarrow> string \<Rightarrow> bool" where
  "seg_is segs i s \<longleftrightarrow> i < length segs \<and> segs ! i = s"

definition deeper_crumbs :: "string \<Rightarrow> string list \<Rightarrow> Crumb list" where
  "deeper_crumbs key segs =
     (if key = ''sources'' \<and> seg_is segs 1 ''new''
      then crumb ''Add source'' (if length segs > 2 then Some ''/sources/new'' else None) False #
           (if length segs > 2 then [crumb ''Source'' None True] else [])
      else if key = ''entities'' \<and> seg_is segs 1 ''ambiguity''
      then [crumb ''Ambiguity queue'' None False]
      else if length segs > 1
      then (let isManage = (key = ''sources'' \<and> seg_is segs 2 ''manage'')
            in crumb (nullish (DETAIL_LABEL key) ''Details'')
                 (if isManage then Some (''/sources/'' @ segs ! 1) else None) True #
               (if isManage then [crumb ''Manage'' None False] else []))
      else [])"

definition buildCrumbs :: "string \<Rightarrow> Crumb list" where
  "buildCrumbs pathname =
     (let segs = path_segs pathname; home = crumb ''Home'' (Some ''/home'') False
      in if segs = [] \<or> seg_is segs 0 ''home'' then [home]
         else (case section_of (segs ! 0) of
            None \<Rightarrow> [home]
          | Some (label, href) \<Rightarrow>
              [home, crumb label (if length segs > 1 then Some href else None) False] @
              deeper_crumbs (segs ! 0) segs))"

text \<open>The first crumb flagged as detail takes the published name.\<close>

fun name_detail :: "string \<Rightarrow> Crumb list \<Rightarrow> Crumb list" where
  "name_detail leaf [] = []"
| "name_detail leaf (c # cs) =
     (if crumb_detail c then c\<lparr>crumb_label := leaf\<rparr> # cs else c # name_detail leaf cs)"

definition bar_crumbs :: "string \<Rightarrow> string option \<Rightarrow> Crumb list" where
  "bar_crumbs pathname leaf =
     (if truthy_str leaf then name_detail (the leaf) (buildCrumbs pathname) else buildCrumbs pathname)"

definition crumb_node :: "nat \<Rightarrow> nat \<Rightarrow> Crumb \<Rightarrow> 'a node list" where
  "crumb_node lst i c =
     shown_if (0 < i) [El ''BreadcrumbSeparator'' [] []] @
     [El ''BreadcrumbItem'' []
       [if i \<noteq> lst \<and> truthy_str (crumb_href c)
        then El ''BreadcrumbLink'' [] [El ''Link'' [AStr ''href'' (the (crumb_href c))] [Txt (crumb_label c)]]
        else El ''BreadcrumbPage'' [] [Txt (crumb_label c)]]]"

definition AppContextBar :: "string \<Rightarrow> string option \<Rightarrow> 'a node list \<Rightarrow> 'a node" where
  "AppContextBar pathname leaf search =
     (let crumbs = bar_crumbs pathname leaf
      in El ''header'' []
        ([El ''Breadcrumb'' [] [El ''BreadcrumbList'' []
            (concat (map (\<lambda>(i, c). crumb_node (length crumbs - 1) i c) (enumerate 0 crumbs)))],
          El ''ChromeActionsSlot'' [] []] @ search))"

section \<open>The published leaf\<close>

record leaf_store =
  leaf :: "string option"
  notified :: "nat list"   \<comment> \<open>for each listener, how often it was called\<close>

definition setLeaf :: "string option \<Rightarrow> leaf_store \<Rightarrow> leaf_store" where
  "setLeaf label st =
     (if leaf st = label then st else st\<lparr>leaf := label, notified := map Suc (notified st)\<rparr>)"

text \<open>The publishing hook: mounting sets, unmounting clears; a change of label does both.\<close>

datatype publish = Mount "string option" | Relabel "string option" | Unmount

fun publish_step :: "publish \<Rightarrow> leaf_store \<Rightarrow> leaf_store" where
  "publish_step (Mount label) st = setLeaf label st"
| "publish_step (Relabel label) st = setLeaf label (setLeaf None st)"
| "publish_step Unmount st = setLeaf None st"

section \<open>Section jumper\<close>

record app_search =
  as_q :: string
  as_open :: bool

datatype search_event =
    SlashKey string bool bool bool bool \<comment> \<open>key, meta, ctrl, alt, and whether the user is typing\<close>
  | MouseDown bool                      \<comment> \<open>inside the jumper\<close>
  | SearchChange string
  | SearchFocus
  | SearchKey string
  | SearchSelect string

fun search_step :: "search_event \<Rightarrow> app_search \<Rightarrow> app_search \<times> effect list" where
  "search_step (SlashKey k meta ctrl alt typing) s =
     (if k \<noteq> ''/'' \<or> meta \<or> ctrl \<or> alt \<or> typing then (s, []) else (s\<lparr>as_open := True\<rparr>, []))"
| "search_step (MouseDown inside) s = (if inside then s else s\<lparr>as_open := False\<rparr>, [])"
| "search_step (SearchChange v) s = (s\<lparr>as_q := v, as_open := True\<rparr>, [])"
| "search_step SearchFocus s = (s\<lparr>as_open := True\<rparr>, [])"
| "search_step (SearchKey k) s = (if k = ''Escape'' then s\<lparr>as_q := [], as_open := False\<rparr> else s, [])"
| "search_step (SearchSelect href) s = (s\<lparr>as_open := False, as_q := []\<rparr>, [RouterPush href])"

definition showPanel :: "app_search \<Rightarrow> bool" where
  "showPanel s \<longleftrightarrow> as_open s \<and> trim (as_q s) \<noteq> []"

definition AppSearch :: "app_search \<Rightarrow> search_event node" where
  "AppSearch s =
     El ''Cmdk'' [OnValue ''keydown'' SearchKey, AStr ''label'' ''Jump to a section'']
       ([El ''div'' []
          (El ''Cmdk.Input'' [AStr ''value'' (as_q s), OnValue ''change'' SearchChange, On ''focus'' SearchFocus,
                              AStr ''placeholder'' (''Jump to a section'' @ ellipsis)] [] #
           shown_if (as_q s = []) [El ''Kbd'' [] [Txt ''/'']])] @
        shown_if (showPanel s)
          [El ''div'' []
            [El ''Cmdk.List'' []
              [El ''Cmdk.Empty'' [] [Txt (''No matches for '' @ ldquo @ trim (as_q s) @ rdquo @ ''.'')],
               El ''Cmdk.Group'' [AStr ''heading'' ''Go to'']
                 (map (\<lambda>n. El ''Cmdk.Item'' [AStr ''value'' (nav_label n), On ''click'' (SearchSelect (nav_href n))]
                         [El ''span'' [] [Txt (nav_label n)]]) NAV)]]])"

section \<open>The spine\<close>

type_synonym jar = "(string \<times> string) list"

definition document_cookie :: "jar \<Rightarrow> string" where
  "document_cookie j = join_with ''; '' (map (\<lambda>(n, v). n @ ''='' @ v) j)"

definition set_cookie :: "string \<Rightarrow> string \<Rightarrow> jar \<Rightarrow> jar" where
  "set_cookie n v j = filter (\<lambda>e. fst e \<noteq> n) j @ [(n, v)]"

definition SPINE_COOKIE :: string where "SPINE_COOKIE = ''spine_expanded''"

text \<open>The first match of \<open>/(?:^|; )spine_expanded=([^;]+)/\<close>, its group.\<close>

definition cookie_at :: "string \<Rightarrow> string option" where
  "cookie_at s =
     (let k = SPINE_COOKIE @ ''=''; v = takeWhile (\<lambda>c. c \<noteq> CHR '';'') (drop (length k) s)
      in if starts_with s k \<and> v \<noteq> [] then Some v else None)"

fun cookie_scan :: "string \<Rightarrow> string option" where
  "cookie_scan (c # d # s) =
     (if c = CHR '';'' \<and> d = CHR '' ''
      then (case cookie_at s of Some v \<Rightarrow> Some v | None \<Rightarrow> cookie_scan (d # s))
      else cookie_scan (d # s))"
| "cookie_scan [c] = None"
| "cookie_scan [] = None"

definition cookie_match :: "string \<Rightarrow> string option" where
  "cookie_match s = (case cookie_at s of Some v \<Rightarrow> Some v | None \<Rightarrow> cookie_scan s)"

definition spine_restore :: "string \<Rightarrow> bool \<Rightarrow> bool" where
  "spine_restore cookie expanded =
     (case cookie_match cookie of None \<Rightarrow> expanded | Some v \<Rightarrow> v = ''true'')"

text \<open>\<open>setExpanded\<close>: the new state and the jar after writing the cookie.\<close>

definition setExpanded :: "bool \<Rightarrow> jar \<Rightarrow> bool \<times> jar" where
  "setExpanded v j = (v, set_cookie SPINE_COOKIE (if v then ''true'' else ''false'') j)"

definition spine_toggle :: "bool \<Rightarrow> jar \<Rightarrow> bool \<times> jar" where
  "spine_toggle expanded j = setExpanded (\<not> expanded) j"

definition spine_key :: "string \<Rightarrow> bool \<Rightarrow> bool \<Rightarrow> bool \<Rightarrow> jar \<Rightarrow> bool \<times> jar" where
  "spine_key key meta ctrl expanded j =
     (if (meta \<or> ctrl) \<and> toLowerCase key = ''b'' then spine_toggle expanded j else (expanded, j))"

definition useSpine :: "'c option \<Rightarrow> thrown + 'c" where
  "useSpine ctx =
     (case ctx of None \<Rightarrow> Inl (OtherError ''useSpine must be used within a SpineProvider'') | Some c \<Rightarrow> Inr c)"

definition spine_isActive :: "string \<Rightarrow> string \<Rightarrow> bool" where
  "spine_isActive pathname href =
     (if href = ''/book'' then starts_with pathname ''/book'' else starts_with pathname href)"

datatype spine_action = Expand | ToggleSpine | NavTo string

definition SpineLink :: "bool \<Rightarrow> NavItem \<Rightarrow> bool \<Rightarrow> spine_action node" where
  "SpineLink expanded item active =
     El ''Tooltip'' []
       [El ''Link'' ([AStr ''href'' (nav_href item), On ''click'' (NavTo (nav_href item))] @
                     (if active then [AStr ''aria-current'' ''page''] else [])) [Txt (nav_label item)],
        El ''TooltipContent'' [ABool ''hidden'' expanded] [Txt (nav_label item)]]"

definition SpineHeader :: "bool \<Rightarrow> spine_action node" where
  "SpineHeader expanded =
     (if \<not> expanded
      then El ''Link'' [AStr ''href'' ''/home'', AStr ''aria-label'' ''Home'', On ''click'' (NavTo ''/home'')]
             [El ''Logo'' [AStr ''variant'' ''mark''] []]
      else El ''div'' []
        [El ''Link'' [AStr ''href'' ''/home'', AStr ''aria-label'' ''Home'', On ''click'' (NavTo ''/home'')] [El ''Logo'' [] []],
         El ''button'' [On ''click'' ToggleSpine, AStr ''aria-label'' ''Collapse sidebar''] []])"

definition Notifications :: "bool \<Rightarrow> 'a node" where
  "Notifications expanded =
     El ''Tooltip'' []
       [El ''DropdownMenu'' []
         [El ''DropdownMenuTrigger'' [] [Txt ''Notifications''],
          El ''DropdownMenuContent'' []
            [El ''DropdownMenuLabel'' [] [Txt ''Notifications''],
             El ''p'' [] [Txt (''Notifications aren'' @ rsquo @ ''t built yet.'')]]],
        El ''TooltipContent'' [ABool ''hidden'' expanded] [Txt ''Notifications'']]"

definition ProfileMenu :: "GetSessionResponse option \<Rightarrow> 'a node" where
  "ProfileMenu data =
     (let user = (case data of None \<Rightarrow> None | Some d \<Rightarrow> session_user d);
          tenant = (case data of None \<Rightarrow> None | Some d \<Rightarrow> session_tenant d);
          email = opt_str_or (map_option user_email user) [];
          name = opt_str_or (map_option user_name user) email;
          orgName = opt_str_or (case tenant of None \<Rightarrow> None | Some t \<Rightarrow> tenant_name t) [];
          initial = (if name \<noteq> [] then toUpperCase (take 1 (trim name)) else [])
      in El ''DropdownMenu'' []
        [El ''DropdownMenuTrigger'' []
           [if initial \<noteq> [] then Txt initial else El ''RiUser6Fill'' [] [], El ''span'' [] [Txt name]],
         El ''DropdownMenuContent'' []
           ([El ''div'' [] (shown_if (name \<noteq> []) [El ''p'' [] [Txt name]] @
                            shown_if (email \<noteq> []) [El ''p'' [] [Txt email]])] @
            shown_if (orgName \<noteq> [])
              [El ''DropdownMenuSeparator'' [] [], El ''div'' [] [El ''p'' [] [Txt ''Workspace''], El ''p'' [] [Txt orgName]]] @
            [El ''DropdownMenuSeparator'' [] [],
             El ''Link'' [AStr ''href'' ''/account''] [Txt ''Account settings''],
             El ''DropdownMenuSeparator'' [] [],
             El ''Link'' [AStr ''href'' ''/signed-out''] [Txt ''Sign out'']])])"

definition AppSpine :: "string \<Rightarrow> bool \<Rightarrow> GetSessionResponse option \<Rightarrow> spine_action node" where
  "AppSpine pathname expanded data =
     (let link = (\<lambda>n. SpineLink expanded n (spine_isActive pathname (nav_href n)))
      in El ''nav'' (AStr ''data-state'' (if expanded then ''expanded'' else ''collapsed'') #
                     (if expanded then [] else [On ''click'' Expand]))
        ([SpineHeader expanded] @
         map link (filter (\<lambda>n. nav_group n = Knowledge) NAV) @
         [El ''div'' [] [Txt ''Manage'']] @
         map link (filter (\<lambda>n. nav_group n = ManageGroup) NAV) @
         [Notifications expanded] @
         map link (filter (\<lambda>n. nav_key n = ''settings'') NAV) @
         [ProfileMenu data]))"

section \<open>Lemmas on the trail\<close>

lemma name_detail_shape:
  "length (name_detail l cs) = length cs \<and> map crumb_href (name_detail l cs) = map crumb_href cs \<and>
   map crumb_detail (name_detail l cs) = map crumb_detail cs"
  by (induction cs) auto

lemma name_detail_none: "list_all (\<lambda>c. \<not> crumb_detail c) cs \<Longrightarrow> name_detail l cs = cs"
  by (induction cs) auto

text \<open>Every crumb but the last has a link; at most one is the detail crumb.\<close>

definition trail_ok :: "Crumb list \<Rightarrow> bool" where
  "trail_ok cs \<longleftrightarrow> list_all (\<lambda>c. crumb_href c \<noteq> None) (butlast cs) \<and>
                 length (filter crumb_detail cs) \<le> 1"

lemma deeper_crumbs_shape:
  "(deeper_crumbs k segs = [] \<longrightarrow> length segs \<le> 1) \<and> trail_ok (deeper_crumbs k segs) \<and>
   length (deeper_crumbs k segs) \<le> 2"
  by (simp add: deeper_crumbs_def trail_ok_def crumb_def seg_is_def Let_def)

lemma buildCrumbs_cases:
  "\<exists>rest. buildCrumbs pathname = crumb ''Home'' (Some ''/home'') False # rest \<and>
     (rest = [] \<or>
      (\<exists>l h k. rest = crumb l (if length (path_segs pathname) > 1 then Some h else None) False #
               deeper_crumbs k (path_segs pathname)))"
proof (cases "path_segs pathname = [] \<or> seg_is (path_segs pathname) 0 ''home''")
  case True
  then show ?thesis by (auto simp: buildCrumbs_def Let_def)
next
  case False
  show ?thesis
  proof (cases "section_of (path_segs pathname ! 0)")
    case None
    with False show ?thesis by (simp add: buildCrumbs_def Let_def)
  next
    case (Some sec)
    obtain l h where "sec = (l, h)" by fastforce
    with False Some have "buildCrumbs pathname = crumb ''Home'' (Some ''/home'') False #
        crumb l (if length (path_segs pathname) > 1 then Some h else None) False #
        deeper_crumbs (path_segs pathname ! 0) (path_segs pathname)"
      by (simp add: buildCrumbs_def Let_def)
    then show ?thesis by blast
  qed
qed

lemma buildCrumbs_trail: "trail_ok (buildCrumbs pathname) \<and> length (buildCrumbs pathname) \<le> 4"
proof -
  let ?segs = "path_segs pathname"
  obtain rest where r: "buildCrumbs pathname = crumb ''Home'' (Some ''/home'') False # rest"
    and c: "rest = [] \<or> (\<exists>l h k. rest = crumb l (if length ?segs > 1 then Some h else None) False #
               deeper_crumbs k ?segs)"
    using buildCrumbs_cases by blast
  from c show ?thesis
  proof
    assume "rest = []"
    with r show ?thesis by (simp add: trail_ok_def crumb_def)
  next
    assume "\<exists>l h k. rest = crumb l (if length ?segs > 1 then Some h else None) False # deeper_crumbs k ?segs"
    then obtain l h k where
      e: "rest = crumb l (if length ?segs > 1 then Some h else None) False # deeper_crumbs k ?segs" by blast
    have d: "trail_ok (deeper_crumbs k ?segs)" "length (deeper_crumbs k ?segs) \<le> 2"
      "deeper_crumbs k ?segs \<noteq> [] \<or> length ?segs \<le> 1"
      using deeper_crumbs_shape by blast+
    show ?thesis
    proof (cases "deeper_crumbs k ?segs = []")
      case True
      with r e show ?thesis by (simp add: trail_ok_def crumb_def)
    next
      case False
      then have "length ?segs > 1"
        by (auto simp: deeper_crumbs_def seg_is_def split: if_splits)
      with r e d False show ?thesis by (simp add: trail_ok_def crumb_def)
    qed
  qed
qed

section \<open>Lemmas on the cookie\<close>

lemma cookie_scan_space: "cookie_scan (CHR '' '' # s) = cookie_scan s"
  by (cases s) auto

lemma cookie_scan_skip:
  "CHR '';'' \<notin> set t \<Longrightarrow>
     cookie_scan (t @ CHR '';'' # CHR '' '' # s)
       = (case cookie_at s of Some v \<Rightarrow> Some v | None \<Rightarrow> cookie_scan s)"
proof (induction t)
  case Nil
  show ?case by (simp add: cookie_scan_space split: option.split)
next
  case (Cons c t)
  then have "c \<noteq> CHR '';''" "CHR '';'' \<notin> set t" by auto
  with Cons.IH show ?case by (cases t) (simp_all add: cookie_scan_space)
qed

lemma cookie_scan_none: "CHR '';'' \<notin> set t \<Longrightarrow> cookie_scan t = None"
proof (induction t)
  case (Cons c t)
  then show ?case by (cases t) auto
qed simp

lemma takeWhile_until:
  "d \<notin> set w \<Longrightarrow> takeWhile (\<lambda>c. c \<noteq> d) (w @ d # r) = w"
  "d \<notin> set w \<Longrightarrow> takeWhile (\<lambda>c. c \<noteq> d) w = w"
  by (induction w) auto

lemma name_prefix:
  assumes "CHR ''='' \<notin> set n" "CHR ''='' \<notin> set m"
  shows "starts_with (n @ CHR ''='' # r) (m @ ''='') \<longleftrightarrow> n = m"
proof
  assume "starts_with (n @ CHR ''='' # r) (m @ ''='')"
  then obtain t where t: "n @ CHR ''='' # r = m @ CHR ''='' # t" by (auto simp: starts_with_iff_prefix)
  have "n = takeWhile (\<lambda>c. c \<noteq> CHR ''='') (n @ CHR ''='' # r)"
    by (rule takeWhile_until(1)[OF assms(1), symmetric])
  also have "\<dots> = takeWhile (\<lambda>c. c \<noteq> CHR ''='') (m @ CHR ''='' # t)" by (simp only: t)
  also have "\<dots> = m" by (rule takeWhile_until(1)[OF assms(2)])
  finally show "n = m" .
next
  assume "n = m"
  then show "starts_with (n @ CHR ''='' # r) (m @ ''='')"
    using starts_with_append[of "m @ ''=''" r] by simp
qed

definition entry_ok :: "string \<times> string \<Rightarrow> bool" where
  "entry_ok e \<longleftrightarrow> CHR ''='' \<notin> set (fst e) \<and> CHR '';'' \<notin> set (fst e) \<and> CHR '';'' \<notin> set (snd e)"

lemma cookie_at_entry:
  assumes "entry_ok (n, v)" "r = [] \<or> (\<exists>r'. r = CHR '';'' # r')"
  shows "cookie_at (n @ ''='' @ v @ r) = (if n = SPINE_COOKIE \<and> v \<noteq> [] then Some v else None)"
proof -
  have "starts_with (n @ CHR ''='' # v @ r) (SPINE_COOKIE @ ''='') \<longleftrightarrow> n = SPINE_COOKIE"
    using assms(1) by (intro name_prefix) (auto simp: entry_ok_def SPINE_COOKIE_def)
  moreover have "takeWhile (\<lambda>c. c \<noteq> CHR '';'') (v @ r) = v"
  proof -
    have v: "CHR '';'' \<notin> set v" using assms(1) by (simp add: entry_ok_def)
    from assms(2) show ?thesis
      using takeWhile_until(1)[OF v] takeWhile_until(2)[OF v] by fastforce
  qed
  ultimately show ?thesis by (auto simp: cookie_at_def Let_def)
qed

lemma cookie_match_cons:
  assumes "entry_ok (n, v)"
  shows "cookie_match (n @ ''='' @ v @ CHR '';'' # CHR '' '' # s)
           = (if n = SPINE_COOKIE \<and> v \<noteq> [] then Some v else cookie_match s)"
proof -
  have "CHR '';'' \<notin> set (n @ ''='' @ v)" using assms by (auto simp: entry_ok_def)
  from cookie_scan_skip[OF this, of s]
    cookie_at_entry[OF assms, of "CHR '';'' # CHR '' '' # s"]
  show ?thesis by (auto simp: cookie_match_def)
qed

lemma cookie_match_jar:
  assumes "list_all entry_ok j"
  shows "cookie_match (document_cookie j)
           = map_option snd (find (\<lambda>e. fst e = SPINE_COOKIE \<and> snd e \<noteq> []) j)"
  using assms
proof (induction j)
  case Nil
  show ?case by (simp add: cookie_match_def document_cookie_def cookie_at_def SPINE_COOKIE_def)
next
  case (Cons e j)
  obtain n v where e: "e = (n, v)" by fastforce
  have ok: "entry_ok (n, v)" using Cons.prems e by simp
  show ?case
  proof (cases j)
    case Nil
    have "CHR '';'' \<notin> set (n @ ''='' @ v)" using ok by (auto simp: entry_ok_def)
    then show ?thesis
      using cookie_at_entry[OF ok, of "[]"] cookie_scan_none[of "n @ ''='' @ v"] Nil e
      by (auto simp: cookie_match_def document_cookie_def)
  next
    case (Cons f j')
    then have "document_cookie (e # j) = n @ ''='' @ v @ CHR '';'' # CHR '' '' # document_cookie j"
      by (cases f) (simp add: document_cookie_def e)
    then show ?thesis using cookie_match_cons[OF ok] Cons.IH Cons.prems e by auto
  qed
qed

section \<open>Properties\<close>

text \<open>
  Breadcrumb trails are well formed for every path: they start at Home, have at most four
  crumbs, every crumb but the last carries a link, at most one is the detail crumb, and
  publishing a leaf name changes labels only.
\<close>

theorem breadcrumbs_well_formed:
  "buildCrumbs pathname \<noteq> [] \<and> hd (buildCrumbs pathname) = crumb ''Home'' (Some ''/home'') False \<and>
   trail_ok (bar_crumbs pathname lf) \<and> length (bar_crumbs pathname lf) \<le> 4 \<and>
   map crumb_href (bar_crumbs pathname lf) = map crumb_href (buildCrumbs pathname)"
proof -
  have b: "trail_ok (buildCrumbs pathname)" "length (buildCrumbs pathname) \<le> 4"
    using buildCrumbs_trail by auto
  have t: "trail_ok cs \<longleftrightarrow> list_all (\<lambda>h. h \<noteq> None) (butlast (map crumb_href cs)) \<and>
      length (filter id (map crumb_detail cs)) \<le> 1" for cs
    by (simp add: trail_ok_def list_all_iff filter_map map_butlast[symmetric] comp_def id_def)
  have "map crumb_href (bar_crumbs pathname lf) = map crumb_href (buildCrumbs pathname)"
    "map crumb_detail (bar_crumbs pathname lf) = map crumb_detail (buildCrumbs pathname)"
    "length (bar_crumbs pathname lf) = length (buildCrumbs pathname)"
    by (simp_all add: bar_crumbs_def name_detail_shape)
  with b show ?thesis using buildCrumbs_cases[of pathname] by (auto simp: t)
qed

text \<open>
  C35. The spine's expanded state survives a reload: after it is set, reading the cookie back
  gives the same state, whatever other cookies the browser holds (their names free of = and
  their text free of semicolons) and whatever the state was before.
\<close>

theorem spine_state_survives_reload:
  assumes "list_all entry_ok j"
  shows "spine_restore (document_cookie (snd (setExpanded v j))) e = v \<and>
         spine_restore (document_cookie (snd (spine_toggle v j))) e = (\<not> v)"
proof -
  have "spine_restore (document_cookie (snd (setExpanded w j))) e = w" for w
  proof -
    let ?j = "filter (\<lambda>e. fst e \<noteq> SPINE_COOKIE) j"
    have ok: "list_all entry_ok (snd (setExpanded w j))"
      using assms by (auto simp: setExpanded_def set_cookie_def list_all_iff entry_ok_def SPINE_COOKIE_def)
    have "find (\<lambda>e. fst e = SPINE_COOKIE \<and> snd e \<noteq> []) (?j @ [(SPINE_COOKIE, x)])
        = (if x \<noteq> [] then Some (SPINE_COOKIE, x) else None)" for x
      by (induction j) auto
    then show ?thesis
      using cookie_match_jar[OF ok] by (simp add: setExpanded_def set_cookie_def spine_restore_def)
  qed
  then show ?thesis by (simp add: spine_toggle_def)
qed

theorem spine_state_survives_reload_witness:
  "spine_restore (document_cookie (snd (setExpanded True [(''theme'', ''dark''), (SPINE_COOKIE, ''false'')]))) False"
proof -
  have "list_all entry_ok [(''theme'', ''dark''), (SPINE_COOKIE, ''false'')]"
    by (simp add: entry_ok_def SPINE_COOKIE_def)
  from spine_state_survives_reload[OF this, of True False] show ?thesis by simp
qed

end
