(* ===== verification/Frame.thy ===== *)
theory Frame
  imports Workspace Nav Onboarding
begin

text \<open>
  What stands around the pages of the web client: the query client's retry policy
  (\<open>components/providers.tsx\<close>), the page kit and header (\<open>components/app/page-kit.tsx\<close>,
  \<open>components/patterns/page-header.tsx\<close>), metadata lists, loaders and marks, the slot for page
  actions in the chrome (\<open>components/app/chrome-actions.tsx\<close>), the frame of the signed-in
  application (\<open>app/(app)/layout.tsx\<close>), the placeholder pages and the page for unknown addresses.

  The other theories write these elements by their names (\<open>El ''PageHeader'' ...\<close>); here is what
  they render.
\<close>

section \<open>Queries\<close>

text \<open>The defaults of every query: how long an answer stays fresh, and when a failure is retried.\<close>

definition staleTime :: nat where "staleTime = 30000"

definition query_retry :: "nat \<Rightarrow> thrown \<Rightarrow> bool" where
  "query_retry failureCount error \<longleftrightarrow> \<not> isAuthError error \<and> failureCount < 3"

text \<open>
  The library asks \<open>retry\<close> after every failed attempt, with the number of failures before it; it
  tries again on true and reports the failure on false. The attempts give the answers
  \<open>attempt 0\<close>, \<open>attempt 1\<close>, ...; the result is the number of attempts made and the last answer.
\<close>

function run_query :: "(nat \<Rightarrow> thrown + 'd) \<Rightarrow> nat \<Rightarrow> nat \<times> (thrown + 'd)" where
  "run_query attempt k =
     (case attempt k of
        Inr d \<Rightarrow> (Suc k, Inr d)
      | Inl e \<Rightarrow> if query_retry k e then run_query attempt (Suc k) else (Suc k, Inl e))"
  by pat_completeness auto
termination by (relation "measure (\<lambda>(attempt, k). 3 - k)") (auto simp: query_retry_def)

declare run_query.simps [simp del]

text \<open>The query result a component sees once the query has settled without earlier data.\<close>

definition settled_query :: "thrown + 'd \<Rightarrow> 'd query" where
  "settled_query r =
     (case r of Inl e \<Rightarrow> \<lparr>q_data = None, q_isPending = False, q_error = Some e\<rparr>
              | Inr d \<Rightarrow> \<lparr>q_data = Some d, q_isPending = False, q_error = None\<rparr>)"

section \<open>Page kit\<close>

definition PageShell_w :: "'a node list \<Rightarrow> 'a node" where
  "PageShell_w children = El ''div'' [] [El ''div'' [] children]"

definition PageHeading_w :: "string \<Rightarrow> string option \<Rightarrow> 'a node" where
  "PageHeading_w ttl description =
     El ''div'' []
       (El ''h1'' [] [Txt ttl] # shown_if (truthy_str description) [El ''p'' [] [Txt (the description)]])"

definition PageHeader ::
  "string option \<Rightarrow> string \<Rightarrow> 'a node list \<Rightarrow> 'a node list \<Rightarrow> 'a node list \<Rightarrow> 'a node list \<Rightarrow> 'a node" where
  "PageHeader back backLabel icon ttl subtitle actions =
     El ''div'' []
       (El ''div'' []
          (shown_if (truthy_str back)
             [El ''Button'' [AStr ''aria-label'' backLabel]
                [El ''Link'' [AStr ''href'' (the back)] [El ''RiArrowLeftLine'' [] []]]] @
           [El ''div'' []
              (icon @ [El ''div'' [] (El ''h1'' [] ttl # shown_if (subtitle \<noteq> []) [El ''p'' [] subtitle])])]) #
        shown_if (actions \<noteq> []) [El ''div'' [] actions])"

definition KeyValueList_app :: "(string \<times> 'a node) list \<Rightarrow> 'a node" where
  "KeyValueList_app items =
     El ''dl'' []
       (map (\<lambda>(label, value). El ''div'' [AStr ''key'' label] [El ''dt'' [] [Txt label], El ''dd'' [] [value]]) items)"

record 'a kv_item =
  kv_label :: "'a node"
  kv_value :: "'a node"
  kv_description :: "'a node option"

definition KeyValueList :: "'a kv_item list \<Rightarrow> bool \<Rightarrow> 'a node" where
  "KeyValueList items bordered =
     El ''dl'' [ABool ''bordered'' bordered]
       (map (\<lambda>(i, item). El ''div'' [ABool ''border-t'' (bordered \<and> 0 < i)]
            [El ''dt'' [] [kv_label item],
             El ''dd'' []
               (El ''div'' [] [kv_value item] #
                (case kv_description item of None \<Rightarrow> [] | Some d \<Rightarrow> [El ''div'' [] [d]]))])
          (enumerate 0 items))"

section \<open>Marks and loaders\<close>

datatype mark_size = SizeSm | SizeMd | SizeLg

fun logo_sizes :: "mark_size \<Rightarrow> string \<times> string" where
  "logo_sizes SizeSm = (''size-5'', ''text-sm'')"
| "logo_sizes SizeMd = (''size-6'', ''text-[16px]'')"
| "logo_sizes SizeLg = (''size-8'', ''text-lg'')"

definition Logo :: "bool \<Rightarrow> mark_size \<Rightarrow> 'a node" where
  "Logo markOnly sz =
     El ''span'' []
       (El ''RiBrain4Fill'' [AStr ''class'' (fst (logo_sizes sz)), ABool ''aria-hidden'' True] [] #
        shown_if (\<not> markOnly) [El ''span'' [AStr ''class'' (snd (logo_sizes sz))] [Txt ''Hivebook'']])"

definition LoadingScreen :: "'a node" where
  "LoadingScreen = El ''main'' [] [Logo True SizeLg]"

definition ConnectorIcon_w :: "string \<Rightarrow> 'a node" where
  "ConnectorIcon_w connectorId =
     (if connectorId = ''github'' \<or> connectorId = ''github_pat'' then El ''RiGithubFill'' [] []
      else if connectorId = ''gdocs'' then El ''RiGoogleFill'' [] []
      else El ''RiPlugLine'' [] [])"

datatype spinner_size = SpinSm | SpinDefault | SpinLg
datatype spinner_tone = ToneNeutral | TonePrimary | ToneMutedSpin | ToneSuccessSpin | ToneWarningSpin | ToneDestructiveSpin

fun sizeClassName :: "spinner_size \<Rightarrow> string" where
  "sizeClassName SpinSm = ''size-4 border-2''"
| "sizeClassName SpinDefault = ''size-5 border-2''"
| "sizeClassName SpinLg = ''size-7 border-[3px]''"

fun toneClassName :: "spinner_tone \<Rightarrow> string" where
  "toneClassName ToneNeutral = ''border-foreground/20 border-t-foreground''"
| "toneClassName TonePrimary = ''border-primary/20 border-t-primary''"
| "toneClassName ToneMutedSpin = ''border-muted-foreground/20 border-t-muted-foreground''"
| "toneClassName ToneSuccessSpin = ''border-success/20 border-t-success''"
| "toneClassName ToneWarningSpin = ''border-warning/25 border-t-warning''"
| "toneClassName ToneDestructiveSpin = ''border-destructive/20 border-t-destructive''"

text \<open>The spinner turns forever, or not at all for a user who prefers less motion.\<close>

definition AnimatedSpinner :: "bool \<Rightarrow> spinner_size \<Rightarrow> spinner_tone \<Rightarrow> string \<Rightarrow> 'a node" where
  "AnimatedSpinner reduceMotion sz tone label =
     El ''span'' [AStr ''role'' ''status'', AStr ''aria-label'' label]
       [El ''motion.span'' [ABool ''aria-hidden'' True, ABool ''animate'' (\<not> reduceMotion),
                            AStr ''class'' (sizeClassName sz @ '' '' @ toneClassName tone)] [],
        El ''span'' [AStr ''class'' ''sr-only''] [Txt label]]"

definition LineLoader :: "bool \<Rightarrow> 'a node" where
  "LineLoader primary =
     El ''div'' [AStr ''role'' ''progressbar'', AStr ''aria-label'' ''Loading'',
                 AStr ''class'' (if primary then ''bg-primary/15'' else ''bg-muted'')]
       [El ''div'' [AStr ''class'' (if primary then ''bg-primary'' else ''bg-muted-foreground/70'')] []]"

section \<open>Page actions in the chrome\<close>

text \<open>
  The slot is the bar's element once it is mounted. A page's actions are rendered into the slot and
  nowhere else; before the slot is mounted they are not rendered.
\<close>

type_synonym slot = "nat option"

definition ChromeActionsSlot :: "nat \<Rightarrow> slot" where
  "ChromeActionsSlot el = Some el"

definition ChromeActions_w :: "slot \<Rightarrow> 'a node list \<Rightarrow> (nat \<times> 'a node list) option" where
  "ChromeActions_w s children = (case s of None \<Rightarrow> None | Some el \<Rightarrow> Some (el, children))"

section \<open>Placeholder pages and the page for unknown addresses\<close>

definition ComingSoon :: "string \<Rightarrow> 'a node" where
  "ComingSoon ttl =
     PageShell_w
       [PageHeading_w ttl (Some (''This surface isn'' @ squote @ ''t built yet.'')),
        El ''div'' [] [El ''div'' []
          [El ''p'' [] [Txt ''Coming soon''],
           El ''p'' [] [Txt (''We'' @ rsquo @ ''re still building '' @ toLowerCase ttl @ ''.'')]]]]"

definition HomePlaceholder :: "'a node" where "HomePlaceholder = ComingSoon ''Home''"
definition AskPlaceholder :: "'a node" where "AskPlaceholder = ComingSoon ''Ask''"
definition BookPlaceholder :: "'a node" where "BookPlaceholder = ComingSoon ''Book''"
definition ChapterPlaceholder :: "'a node" where "ChapterPlaceholder = ComingSoon ''Book''"
definition EntitiesPlaceholder :: "'a node" where "EntitiesPlaceholder = ComingSoon ''Entities''"
definition ReviewPlaceholder :: "'a node" where "ReviewPlaceholder = ComingSoon ''Review''"
definition AccessPlaceholder :: "'a node" where "AccessPlaceholder = ComingSoon ''Access''"
definition UsagePlaceholder :: "'a node" where "UsagePlaceholder = ComingSoon ''Usage''"
definition AccountPlaceholder :: "'a node" where "AccountPlaceholder = ComingSoon ''Account''"

definition NotFound :: "'a node" where
  "NotFound =
     El ''main'' []
       [El ''h1'' [] [Txt ''Page not found''],
        El ''p'' [] [Txt (''That page doesn'' @ rsquo @ ''t exist.'')],
        El ''Button'' [] [El ''Link'' [AStr ''href'' ''/''] [Txt ''Go home'']]]"

section \<open>The frame\<close>

text \<open>The contextual panel renders nothing yet.\<close>

definition AppContextPanel_w :: "'a node list" where
  "AppContextPanel_w = []"

text \<open>
  The gate's own retry, and the actions of the rail, the search box and the page, side by side.
\<close>

datatype 'x frame_action = FRefetch | FSpine spine_action | FSearch search_event | FPage 'x

definition AppLayout ::
  "session_query \<Rightarrow> string \<Rightarrow> bool \<Rightarrow> string option \<Rightarrow> app_search \<Rightarrow> 'x node list \<Rightarrow> 'x frame_action node list" where
  "AppLayout q pathname expanded lf search children =
     AppGate FRefetch q
       [El ''div'' []
         [lift_node FSpine (AppSpine pathname expanded (q_data q)),
          El ''div'' []
            [AppContextBar pathname lf [lift_node FSearch (AppSearch search)],
             El ''div'' [] (AppContextPanel_w @ [El ''main'' [] (map (lift_node FPage) children)])]]]"

section \<open>Lemmas\<close>

lemma handlers_lift: "handlers ev (map (map_attr' f) as) = map f (handlers ev as)"
  by (induction as rule: handlers.induct) auto

lemma disabled_lift: "is_disabled (map (map_attr' f) as) = is_disabled as"
  by (induction as rule: is_disabled.induct) auto

lemma clicks_lift [simp]: "clicks (lift_node f n) = map f (clicks n)"
  by (induction n) (auto simp: handlers_lift disabled_lift map_concat comp_def cong: map_cong)

lemma clicks_concat_empty: "(\<And>n. n \<in> set ns \<Longrightarrow> clicks n = []) \<Longrightarrow> concat (map clicks ns) = []"
  by (induction ns) auto

lemma clicks_crumb: "n \<in> set (crumb_node lst i c) \<Longrightarrow> clicks n = []"
  by (auto simp: crumb_node_def shown_if_def)

lemma clicks_bar [simp]: "clicks (AppContextBar p l ns) = concat (map clicks ns)"
  by (auto simp: AppContextBar_def Let_def intro!: clicks_concat_empty dest: clicks_crumb)

text \<open>What a click in the frame can do: the gate's retry, or an action of rail or page.\<close>

lemma AppLayout_retry_iff:
  "FRefetch \<in> set (concat (map clicks (AppLayout q pathname expanded lf search children))) \<longleftrightarrow>
     (\<exists>e. q_error q = Some e \<and> \<not> isAuthError e)"
  by (auto simp: AppLayout_def AppGate_def AppContextPanel_w_def split: option.splits)

text \<open>An answer that ends a query: anything but a failure that may pass.\<close>

definition transient :: "thrown + 'd \<Rightarrow> bool" where
  "transient r \<longleftrightarrow> (case r of Inl e \<Rightarrow> \<not> isAuthError e | Inr d \<Rightarrow> False)"

lemma run_query_ends: "k \<le> 3 \<Longrightarrow> \<not> transient (attempt k) \<Longrightarrow> run_query attempt k = (Suc k, attempt k)"
  by (subst run_query.simps) (auto simp: transient_def query_retry_def split: sum.splits)

lemma run_query_retries: "k < 3 \<Longrightarrow> transient (attempt k) \<Longrightarrow> run_query attempt k = run_query attempt (Suc k)"
  by (subst run_query.simps) (auto simp: transient_def query_retry_def split: sum.splits)

lemma run_query_gives_up: "run_query attempt 3 = (4, attempt 3)"
  by (subst run_query.simps) (auto simp: query_retry_def split: sum.splits)

text \<open>From the first attempt on: the first answer that is not transient, or the fourth.\<close>

lemma run_query_first:
  "run_query attempt 0 =
     (case filter (\<lambda>k. \<not> transient (attempt k)) [0, 1, 2] of [] \<Rightarrow> (4, attempt 3) | k # _ \<Rightarrow> (Suc k, attempt k))"
proof -
  have "run_query attempt 2 = (if transient (attempt 2) then (4, attempt 3) else (3, attempt 2))"
    using run_query_retries[of 2 attempt] run_query_gives_up[of attempt] run_query_ends[of 2 attempt] by simp
  then have "run_query attempt 1 = (if transient (attempt 1) then run_query attempt 2 else (2, attempt 1))"
    using run_query_retries[of 1 attempt] run_query_ends[of 1 attempt] by (simp add: numeral_2_eq_2)
  then show ?thesis
    using run_query_retries[of 0 attempt] run_query_ends[of 0 attempt]
      \<open>run_query attempt 2 = _\<close> by (simp add: numeral_2_eq_2 numeral_3_eq_3)
qed

text \<open>The first of the first four answers that is not transient, if there is one.\<close>

definition deciding :: "(nat \<Rightarrow> thrown + 'd) \<Rightarrow> (thrown + 'd) option" where
  "deciding attempt = find (\<lambda>r. \<not> transient r) (map attempt [0, 1, 2, 3])"

lemma run_query_deciding:
  "deciding attempt = (if transient (snd (run_query attempt 0)) then None else Some (snd (run_query attempt 0)))"
  by (auto simp: run_query_first deciding_def numeral_2_eq_2 numeral_3_eq_3)

lemma AppLayout_main_iff:
  "(\<exists>l \<in> set (AppLayout q pathname expanded lf search children). 0 < count_tag ''main'' l) \<longleftrightarrow>
     \<not> q_isPending q \<and> session_onboarded q \<and> (case q_error q of None \<Rightarrow> True | Some e \<Rightarrow> isAuthError e)"
  by (auto simp: AppLayout_def AppGate_def AppContextPanel_w_def count_tag_def split: option.splits)

lemma onboarded_session:
  "session_onboarded q \<longleftrightarrow>
     (\<exists>u t. q_data q = Some \<lparr>session_user = u, session_tenant = Some t\<rparr> \<and> tenant_onboarded t)"
proof (cases "q_data q")
  case (Some d)
  obtain u t where "d = \<lparr>session_user = u, session_tenant = t\<rparr>" by (cases d) auto
  with Some show ?thesis by (cases t) (simp_all add: session_onboarded_def)
qed (simp add: session_onboarded_def)

section \<open>Properties\<close>


end
