(* ===== verification/Urls.thy ===== *)
theory Urls
  imports Prelude
begin

text \<open>
  Query strings, as the prototype writes them (\<open>encodeURIComponent\<close> in
  \<open>prototype/app/(auth)/sign-in/page.tsx\<close> and \<open>prototype/components/app/command-menu.tsx\<close>) and
  reads them (\<open>useSearchParams\<close>, a \<open>URLSearchParams\<close>). Strings are UTF-8 bytes, so percent
  encoding works byte by byte.
\<close>

section \<open>Definitions\<close>

definition hex_digit :: "nat \<Rightarrow> char" where
  "hex_digit n = (if n < 10 then char_of (48 + n) else char_of (55 + n))"

definition hex_val :: "char \<Rightarrow> nat option" where
  "hex_val c =
     (let n = (of_char c :: nat)
      in if 48 \<le> n \<and> n \<le> 57 then Some (n - 48)
         else if 65 \<le> n \<and> n \<le> 70 then Some (n - 55)
         else if 97 \<le> n \<and> n \<le> 102 then Some (n - 87) else None)"

text \<open>Letters, digits and the marks \<open>- _ . ! ~ * ' ( )\<close> are kept.\<close>

definition uri_unreserved :: "char \<Rightarrow> bool" where
  "uri_unreserved c \<longleftrightarrow>
     (let n = (of_char c :: nat)
      in (48 \<le> n \<and> n \<le> 57) \<or> (65 \<le> n \<and> n \<le> 90) \<or> (97 \<le> n \<and> n \<le> 122) \<or>
         n \<in> {45, 95, 46, 33, 126, 42, 39, 40, 41})"

definition enc_char :: "char \<Rightarrow> string" where
  "enc_char c =
     (if uri_unreserved c then [c]
      else [CHR ''%'', hex_digit (of_char c div 16), hex_digit (of_char c mod 16)])"

definition encodeURIComponent :: "string \<Rightarrow> string" where
  "encodeURIComponent s = concat (map enc_char s)"

text \<open>Percent decoding: an escape that is not two hexadecimal digits stays as it is.\<close>

fun percent_decode :: "string \<Rightarrow> string" where
  "percent_decode [] = []"
| "percent_decode (c # s) =
     (if c = CHR ''%''
      then (case s of
              a # b # t \<Rightarrow>
                (case (hex_val a, hex_val b) of
                   (Some x, Some y) \<Rightarrow> char_of (16 * x + y) # percent_decode t
                 | _ \<Rightarrow> c # percent_decode s)
            | _ \<Rightarrow> c # percent_decode s)
      else c # percent_decode s)"

definition form_decode :: "string \<Rightarrow> string" where
  "form_decode s = percent_decode (map (\<lambda>c. if c = CHR ''+'' then CHR '' '' else c) s)"

text \<open>\<open>name=value\<close> pairs between ampersands; a pair is cut at its first equals sign.\<close>

definition query_pair :: "string \<Rightarrow> string \<times> string" where
  "query_pair p =
     (form_decode (takeWhile (\<lambda>c. c \<noteq> CHR ''='') p), form_decode (drop 1 (dropWhile (\<lambda>c. c \<noteq> CHR ''='') p)))"

definition search_params :: "string \<Rightarrow> (string \<times> string) list" where
  "search_params q = map query_pair (filter (\<lambda>p. p \<noteq> []) (split_char (CHR ''&'') q))"

definition params_get :: "string \<Rightarrow> string \<Rightarrow> string option" where
  "params_get q name = map_of (search_params q) name"

text \<open>The query part of an address.\<close>

definition query_of :: "string \<Rightarrow> string" where
  "query_of href = drop 1 (dropWhile (\<lambda>c. c \<noteq> CHR ''?'') href)"

section \<open>Lemmas\<close>

lemma hex_val_digit: "n < 16 \<Longrightarrow> hex_val (hex_digit n) = Some n"
  by (auto simp: hex_val_def hex_digit_def Let_def)

lemma hex_digit_uri: "n < 16 \<Longrightarrow> uri_unreserved (hex_digit n)"
  by (auto simp: uri_unreserved_def hex_digit_def Let_def)

lemma hex_char: "char_of (16 * (of_char c div 16) + of_char c mod 16 :: nat) = c"
  by simp

lemma percent_decode_enc_char:
  assumes "c \<noteq> CHR ''%'' \<or> \<not> uri_unreserved c"
  shows "percent_decode (enc_char c @ s) = c # percent_decode s"
proof (cases "uri_unreserved c")
  case True
  with assms show ?thesis by (simp add: enc_char_def)
next
  case False
  have "(of_char c :: nat) < 256" by (rule nat_of_char_less_256)
  then have "hex_val (hex_digit (of_char c div 16)) = Some (of_char c div 16)"
    "hex_val (hex_digit (of_char c mod 16)) = Some (of_char c mod 16)"
    by (intro hex_val_digit; simp add: less_mult_imp_div_less)+
  with False show ?thesis by (simp add: enc_char_def)
qed

lemma percent_not_unreserved: "\<not> uri_unreserved (CHR ''%'')"
  by code_simp

lemma percent_decode_encode: "percent_decode (encodeURIComponent s) = s"
proof (induction s)
  case (Cons c s)
  then show ?case
    using percent_decode_enc_char[of c "encodeURIComponent s"] percent_not_unreserved
    by (auto simp: encodeURIComponent_def)
qed (simp add: encodeURIComponent_def)

text \<open>What an encoded string is made of: kept characters and percent signs.\<close>

lemma encode_chars: "x \<in> set (encodeURIComponent s) \<Longrightarrow> uri_unreserved x \<or> x = CHR ''%''"
proof -
  assume "x \<in> set (encodeURIComponent s)"
  then obtain c where c: "x \<in> set (enc_char c)" by (auto simp: encodeURIComponent_def)
  have "(of_char c :: nat) div 16 < 16" "(of_char c :: nat) mod 16 < 16"
    using nat_of_char_less_256[of c] by (simp_all add: less_mult_imp_div_less)
  with c hex_digit_uri show ?thesis by (auto simp: enc_char_def split: if_splits)
qed

lemma reserved_absent:
  "CHR ''&'' \<notin> set (encodeURIComponent s)" "CHR ''='' \<notin> set (encodeURIComponent s)"
  "CHR ''+'' \<notin> set (encodeURIComponent s)" "CHR ''?'' \<notin> set (encodeURIComponent s)"
proof -
  have "\<not> uri_unreserved (CHR ''&'')" "\<not> uri_unreserved (CHR ''='')" "\<not> uri_unreserved (CHR ''+'')"
    "\<not> uri_unreserved (CHR ''?'')" by code_simp+
  then show "CHR ''&'' \<notin> set (encodeURIComponent s)" "CHR ''='' \<notin> set (encodeURIComponent s)"
    "CHR ''+'' \<notin> set (encodeURIComponent s)" "CHR ''?'' \<notin> set (encodeURIComponent s)"
    using encode_chars by fastforce+
qed

lemma form_decode_encode: "form_decode (encodeURIComponent s) = s"
proof -
  have "map (\<lambda>c. if c = CHR ''+'' then CHR '' '' else c) (encodeURIComponent s) = encodeURIComponent s"
    using reserved_absent(3)[of s] by (intro map_idI) auto
  then show ?thesis by (simp add: form_decode_def percent_decode_encode)
qed

text \<open>A plain parameter name, and a value written with \<open>encodeURIComponent\<close>.\<close>

lemma params_get_encoded:
  assumes "list_all (\<lambda>c. uri_unreserved c) name" "name \<noteq> []"
  shows "params_get (name @ ''='' @ encodeURIComponent v) name = Some v"
proof -
  have nn: "\<And>c. c \<in> set name \<Longrightarrow> uri_unreserved c" using assms(1) by (auto simp: list_all_iff)
  have un: "\<not> uri_unreserved (CHR ''&'')" "\<not> uri_unreserved (CHR ''='')" "\<not> uri_unreserved (CHR ''+'')"
    by code_simp+
  have "CHR ''&'' \<notin> set (name @ ''='' @ encodeURIComponent v)"
    using nn un reserved_absent(1)[of v] by auto
  then have one: "split_char (CHR ''&'') (name @ ''='' @ encodeURIComponent v) = [name @ ''='' @ encodeURIComponent v]"
    by (rule split_char_no_sep)
  have eq: "\<forall>c \<in> set name. c \<noteq> CHR ''=''" using nn un by auto
  have "percent_decode n = n" if "\<forall>c \<in> set n. c \<noteq> CHR ''%''" for n using that by (induction n) auto
  moreover have "\<forall>c \<in> set name. c \<noteq> CHR ''%''" using nn percent_not_unreserved by auto
  moreover have "map (\<lambda>c. if c = CHR ''+'' then CHR '' '' else c) name = name"
    using nn un by (intro map_idI) auto
  ultimately have "form_decode name = name" by (simp add: form_decode_def)
  with eq have "query_pair (name @ ''='' @ encodeURIComponent v) = (name, v)"
    by (simp add: query_pair_def form_decode_encode)
  with one assms(2) show ?thesis by (simp add: params_get_def search_params_def)
qed

end
