(* ===== verification/Routes.thy ===== *)
theory Routes
  imports Frame Urls
begin

text \<open>
  The routes of the web client and the ways to them. The framework derives the routes from the
  directories of \<open>web/app\<close> that hold a \<open>page.tsx\<close>: a directory in round brackets is not part of the
  address, one in square brackets takes any segment, and a fixed segment goes before such a
  placeholder. Every link a page renders and every navigation a handler starts is collected here, over
  the definitions of the other theories.
\<close>

section \<open>The route table\<close>

definition web_routes :: "string list list" where
  "web_routes =
    [[], [''callback''], [''signed-out''], [''silent-renew''],
     [''onboarding''], [''onboarding'', ''organization''], [''onboarding'', ''use-case''],
     [''onboarding'', ''region''], [''onboarding'', ''complete''],
     [''home''], [''ask''], [''book''], [''book'', ''[id]''],
     [''sources''], [''sources'', ''new''], [''sources'', ''new'', ''[connector]''],
     [''sources'', ''[id]''], [''sources'', ''[id]'', ''manage''],
     [''files''], [''files'', ''[id]''], [''entities''], [''review''], [''members''], [''access''],
     [''audit''], [''usage''], [''settings''], [''account'']]"

definition placeholder :: "string \<Rightarrow> bool" where
  "placeholder seg \<longleftrightarrow> take 1 seg = ''[''"

text \<open>The values of the placeholders when the segments match the route.\<close>

fun route_params :: "string list \<Rightarrow> string list \<Rightarrow> string list option" where
  "route_params [] [] = Some []"
| "route_params (p # ps) (s # ss) =
     (if placeholder p then map_option (Cons s) (route_params ps ss)
      else if p = s then route_params ps ss else None)"
| "route_params _ _ = None"

text \<open>The path of an address, without query and fragment.\<close>

definition href_path :: "string \<Rightarrow> string" where
  "href_path href = takeWhile (\<lambda>c. c \<noteq> CHR ''?'' \<and> c \<noteq> CHR ''#'') href"

definition route_of :: "string \<Rightarrow> (string list \<times> string list) option" where
  "route_of href =
     (let segs = path_segs (href_path href)
      in case find (\<lambda>r. route_params r segs \<noteq> None) web_routes of
           None \<Rightarrow> None | Some r \<Rightarrow> Some (r, the (route_params r segs)))"

definition is_page :: "string \<Rightarrow> bool" where
  "is_page href \<longleftrightarrow> route_of href \<noteq> None"

section \<open>Links and navigations\<close>

text \<open>The addresses of a view's links; a page header links back to where its \<open>back\<close> says.\<close>

fun attr_values :: "string \<Rightarrow> 'a attr list \<Rightarrow> string list" where
  "attr_values n [] = []"
| "attr_values n (AStr m v # as) = (if m = n then v # attr_values n as else attr_values n as)"
| "attr_values n (_ # as) = attr_values n as"

fun page_links :: "'a node \<Rightarrow> string list" where
  "page_links (Txt s) = []"
| "page_links (El t as cs) =
     (if t = ''Link'' then attr_values ''href'' as else if t = ''PageHeader'' then attr_values ''back'' as else []) @
     concat (map page_links cs)"

fun goes :: "effect list \<Rightarrow> string list" where
  "goes [] = []"
| "goes (RouterPush h # es) = h # goes es"
| "goes (RouterReplace h # es) = h # goes es"
| "goes (LocationAssign h # es) = h # goes es"
| "goes (_ # es) = goes es"

text \<open>The handlers of the files table: a click on a row opens the file.\<close>

fun files_handle :: "files_action \<Rightarrow> string \<Rightarrow> string \<times> effect list" where
  "files_handle (OpenFile fid) project = (project, [RouterPush (''/files/'' @ fid)])"
| "files_handle (SetProject v) project = (v, [])"

text \<open>The views of the manage page.\<close>

definition ManagePage_view ::
  "(nat \<Rightarrow> string) \<Rightarrow> (string \<Rightarrow> string \<Rightarrow> int) \<Rightarrow> manage_env \<Rightarrow> manage \<Rightarrow> manage_page \<Rightarrow> manage_event node" where
  "ManagePage_view fmt lc env s phase =
     (case phase of
        ManageFailed \<Rightarrow>
          back_to_sources (''Couldn'' @ rsquo @ ''t load this source '' @ emdash @
            '' the sync service is unreachable, or you may need to sign in again. '')
      | ManageLoading \<Rightarrow> ManageSkeleton
      | ManageGone \<Rightarrow> back_to_sources ''This connection no longer exists. ''
      | Manage p \<Rightarrow> ManagePanel fmt lc p env s)"

text \<open>
  An identifier as the server makes them: letters, digits and marks, and no name the router takes
  for something else.
\<close>

definition id_ok :: "string \<Rightarrow> bool" where
  "id_ok i \<longleftrightarrow> i \<noteq> [] \<and> list_all uri_unreserved i \<and> i \<notin> {''new'', ''.'', ''..''}"

abbreviation conns_ok :: "Connection list \<Rightarrow> bool" where
  "conns_ok cs \<equiv> \<forall>c \<in> set cs. id_ok (conn_id c)"

section \<open>Lemmas on routes\<close>

lemma id_ok_chars: "id_ok i \<Longrightarrow> CHR ''/'' \<notin> set i \<and> CHR ''?'' \<notin> set i \<and> CHR ''#'' \<notin> set i"
proof -
  have "\<not> uri_unreserved (CHR ''/'')" "\<not> uri_unreserved (CHR ''?'')" "\<not> uri_unreserved (CHR ''#'')"
    by code_simp+
  then show "id_ok i \<Longrightarrow> ?thesis" by (auto simp: id_ok_def list_all_iff)
qed

lemma href_path_plain:
  "CHR ''?'' \<notin> set s \<Longrightarrow> CHR ''#'' \<notin> set s \<Longrightarrow> href_path s = s"
  by (induction s) (auto simp: href_path_def)

lemma path_segs_slash [simp]: "path_segs (CHR ''/'' # s) = path_segs s"
  by (simp add: path_segs_def)

lemma path_segs_seg: "w \<noteq> [] \<Longrightarrow> CHR ''/'' \<notin> set w \<Longrightarrow> path_segs (w @ CHR ''/'' # s) = w # path_segs s"
  by (simp add: path_segs_def split_char_append)

lemma path_segs_leaf: "w \<noteq> [] \<Longrightarrow> CHR ''/'' \<notin> set w \<Longrightarrow> path_segs w = [w]"
  by (simp add: path_segs_def split_char_no_sep)

lemma static_pages [simp]:
  "is_page ''/''" "is_page ''/home''" "is_page ''/ask''" "is_page ''/book''" "is_page ''/sources''" "is_page ''/sources/new''"
  "is_page ''/files''" "is_page ''/entities''" "is_page ''/review''" "is_page ''/members''" "is_page ''/access''"
  "is_page ''/audit''" "is_page ''/usage''" "is_page ''/settings''" "is_page ''/account''" "is_page ''/signed-out''"
  "is_page ''/onboarding''" "is_page ''/onboarding/organization''" "is_page ''/onboarding/use-case''"
  "is_page ''/onboarding/region''" "is_page ''/onboarding/complete''" "is_page ''/sources/new/github_pat''"
  by code_simp+

lemma segs_two:
  assumes "id_ok i" "w \<noteq> []" "CHR ''/'' \<notin> set w" "CHR ''?'' \<notin> set w" "CHR ''#'' \<notin> set w"
  shows "path_segs (href_path (CHR ''/'' # w @ CHR ''/'' # i)) = [w, i]"
proof -
  have "i \<noteq> []" using assms(1) by (simp add: id_ok_def)
  moreover have "href_path (CHR ''/'' # w @ CHR ''/'' # i) = CHR ''/'' # w @ CHR ''/'' # i"
    using id_ok_chars[OF assms(1)] assms by (intro href_path_plain) auto
  ultimately show ?thesis using id_ok_chars[OF assms(1)] assms by (simp add: path_segs_seg path_segs_leaf)
qed

lemma route_source: "id_ok i \<Longrightarrow> route_of (''/sources/'' @ i) = Some ([''sources'', ''[id]''], [i])"
  using segs_two[of i "''sources''"]
  by (auto simp: route_of_def web_routes_def placeholder_def id_ok_def)

lemma route_file: "id_ok i \<Longrightarrow> route_of (''/files/'' @ i) = Some ([''files'', ''[id]''], [i])"
  using segs_two[of i "''files''"]
  by (auto simp: route_of_def web_routes_def placeholder_def id_ok_def)

lemma route_manage: "id_ok i \<Longrightarrow> route_of (''/sources/'' @ i @ ''/manage'') = Some ([''sources'', ''[id]'', ''manage''], [i])"
proof -
  assume i: "id_ok i"
  have "href_path (''/sources/'' @ i @ ''/manage'') = ''/sources/'' @ i @ ''/manage''"
    using id_ok_chars[OF i] by (intro href_path_plain) auto
  moreover have "path_segs (i @ ''/manage'') = [i, ''manage'']"
    using path_segs_seg[of i "''manage''"] path_segs_leaf[of "''manage''"] id_ok_chars[OF i] i
    by (simp add: id_ok_def)
  then have "path_segs (''/sources/'' @ i @ ''/manage'') = [''sources'', i, ''manage'']"
    using path_segs_seg[of "''sources''" "i @ ''/manage''"] by simp
  ultimately show ?thesis using i
    by (auto simp: route_of_def web_routes_def placeholder_def id_ok_def)
qed

lemma route_query: "route_of (p @ CHR ''?'' # q) = route_of p" if "CHR ''?'' \<notin> set p" "CHR ''#'' \<notin> set p"
proof -
  have "href_path (p @ CHR ''?'' # q) = p" using that by (induction p) (auto simp: href_path_def)
  then show ?thesis using href_path_plain[OF that] by (simp add: route_of_def)
qed

lemma query_pages: "is_page (''/files?connection='' @ i)" "is_page (''/sources?connected='' @ i)"
  using route_query[of "''/files''" "''connection='' @ i"] route_query[of "''/sources''" "''connected='' @ i"]
    static_pages(5,7) by (simp_all add: is_page_def)

lemma href_connection:
  "id_ok (conn_id c) \<Longrightarrow> route_of (connectionHref c) =
     Some (if conn_onboarded c then ([''sources'', ''[id]''], [conn_id c])
           else ([''sources'', ''[id]'', ''manage''], [conn_id c]))"
  using route_source route_manage by (simp add: connectionHref_def)

lemma token_marker: "id_ok i \<Longrightarrow> params_get (query_of (''/sources?connected='' @ i)) ''connected'' = Some i"
proof -
  assume i: "id_ok i"
  have no: "CHR ''&'' \<notin> set i" "CHR ''='' \<notin> set i" "CHR ''+'' \<notin> set i" "CHR ''%'' \<notin> set i"
  proof -
    have "\<not> uri_unreserved (CHR ''&'')" "\<not> uri_unreserved (CHR ''='')" "\<not> uri_unreserved (CHR ''+'')"
      "\<not> uri_unreserved (CHR ''%'')" by code_simp+
    with i show "CHR ''&'' \<notin> set i" "CHR ''='' \<notin> set i" "CHR ''+'' \<notin> set i" "CHR ''%'' \<notin> set i"
      by (auto simp: id_ok_def list_all_iff)
  qed
  have plain: "percent_decode s = s" if "CHR ''%'' \<notin> set s" for s using that by (induction s) auto
  have "map (\<lambda>c. if c = CHR ''+'' then CHR '' '' else c) i = i" using no(3) by (intro map_idI) auto
  then have dec: "form_decode i = i" using plain[OF no(4)] by (simp add: form_decode_def)
  have nm: "form_decode ''connected'' = ''connected''" by code_simp
  have q: "query_of (''/sources?connected='' @ i) = ''connected='' @ i" by (simp add: query_of_def)
  have "CHR ''&'' \<notin> set (''connected='' @ i)" using no(1) by auto
  then have "search_params (''connected='' @ i) = [query_pair (''connected='' @ i)]"
    using split_char_no_sep by (simp add: search_params_def split_char_no_sep)
  moreover have "query_pair (''connected='' @ i) = (''connected'', i)"
    using dec nm by (simp add: query_pair_def)
  ultimately show ?thesis by (simp only: params_get_def q) simp
qed

lemma autoOpen_waits:
  assumes "\<forall>cs' \<in> set pre. \<forall>c' \<in> set cs'. conn_id c' = i \<longrightarrow> conn_catalogDiscoveredAt c' = None"
  shows "autoOpen_run (Some i) (pre @ rest) False = autoOpen_run (Some i) rest False"
  using assms
proof (induction pre)
  case (Cons cs pre)
  then have "autoOpen_effect (Some i) cs False = (False, [])"
    by (auto simp: autoOpen_effect_def find_Some_iff split: option.splits)
  with Cons show ?case by simp
qed simp

lemma autoOpen_opens:
  assumes "i \<noteq> []" "find (\<lambda>c. conn_id c = i) cs = Some c" "conn_catalogDiscoveredAt c \<noteq> None"
  shows "autoOpen_run (Some i) (cs # rest) False = [RouterReplace (connectionHref c)]"
  using assms by (auto simp: autoOpen_effect_def truthy_str_def autoOpen_latched)

section \<open>Every way to a page\<close>

inductive web_dest :: "string \<Rightarrow> bool" where
  wd_rail: "h \<in> set (page_links (AppSpine pathname expanded d)) \<Longrightarrow> web_dest h"
| wd_jump: "SearchSelect hr \<in> set (clicks (AppSearch s)) \<Longrightarrow> h \<in> set (goes (snd (search_step (SearchSelect hr) s))) \<Longrightarrow>
     web_dest h"
| wd_crumb: "href_path pathname = pathname \<Longrightarrow>
     h \<in> set (page_links (AppContextBar pathname lf [] :: unit node)) \<Longrightarrow> web_dest h"
| wd_entry: "h \<in> set (goes (snd (Home_getUser r b))) \<Longrightarrow> web_dest h"
| wd_callback: "h \<in> set (goes (snd (Callback_settle r cb))) \<Longrightarrow> web_dest h"
| wd_signed_out: "h \<in> set (goes (SignedOut_settle r)) \<Longrightarrow> web_dest h"
| wd_gate: "h \<in> set (goes (AppGate_effect q)) \<Longrightarrow> web_dest h"
| wd_unknown: "h \<in> set (page_links (NotFound :: unit node)) \<Longrightarrow> web_dest h"
| wd_setup: "h \<in> set (goes (OnboardingLayout_effect q)) \<union> set (goes [OnboardingIndex]) \<Longrightarrow> web_dest h"
| wd_wizard: "onb_page p isPending err fs = Some page \<Longrightarrow> a \<in> set (clicks page) \<Longrightarrow>
     onb_handle p a fs = Inr (fs', es, rpcs) \<Longrightarrow> h \<in> set (goes es) \<Longrightarrow> web_dest h"
| wd_finish: "h \<in> set (goes (finish_settle fs r)) \<Longrightarrow> web_dest h"
| wd_setup_menu: "h \<in> set (page_links (OnboardingProfileMenu d :: unit node)) \<Longrightarrow> web_dest h"
| wd_sources: "conns_ok (nullish cs []) \<Longrightarrow>
     h \<in> set (page_links (SourcesView_view connectors cs err :: unit node)) \<Longrightarrow> web_dest h"
| wd_auto: "\<forall>cs \<in> set snaps. conns_ok cs \<Longrightarrow> h \<in> set (goes (autoOpen_run cid snaps opened)) \<Longrightarrow> web_dest h"
| wd_gallery: "h \<in> set (page_links (AddSourcePage connectors flags authorizing query category)) \<Longrightarrow> web_dest h"
| wd_connect: "h \<in> set (goes (snd (gallery_connect c))) \<Longrightarrow> web_dest h"
| wd_token: "h \<in> set (page_links (ConnectTokenSourcePage connector connectors flags f)) \<Longrightarrow> web_dest h"
| wd_token_step: "h \<in> set (goes (snd (snd (token_step connector te f)))) \<Longrightarrow> web_dest h"
| wd_details: "conns_ok (nullish cs []) \<Longrightarrow>
     h \<in> set (page_links (details_view fmt lc exact cur cid connectors cs err g ps sp stp)) \<Longrightarrow> web_dest h"
| wd_manage: "h \<in> set (page_links (ManagePage_view fmt lc env s phase)) \<Longrightarrow> web_dest h"
| wd_manage_step: "id_ok (mp_connectionId mp) \<Longrightarrow> h \<in> set (goes (snd (snd (manage_step mp env me s)))) \<Longrightarrow> web_dest h"
| wd_files: "h \<in> set (page_links (FilesView local cid project arts conns)) \<Longrightarrow> web_dest h"
| wd_open_file: "\<forall>x \<in> set (case q_data arts of None \<Rightarrow> [] | Some d \<Rightarrow> lar_artifacts d). id_ok (art_id x) \<Longrightarrow>
     a \<in> set (clicks (FilesView local cid project arts conns)) \<Longrightarrow>
     h \<in> set (goes (snd (files_handle a project))) \<Longrightarrow> web_dest h"
| wd_file: "h \<in> set (page_links (FileDetailPage local decode parse fid arts (content :: unit query) opn)) \<Longrightarrow> web_dest h"
| wd_settings: "h \<in> set (page_links (SettingsPage iss session ws flags setting members)) \<Longrightarrow> web_dest h"

lemma links_lift [simp]: "page_links (lift_node f n) = page_links n"
proof (induction n)
  case (El t as cs)
  have "attr_values n (map (map_attr' f) as) = attr_values n as" for n
    by (induction as rule: attr_values.induct) auto
  with El show ?case by (simp add: comp_def cong: map_cong)
qed simp

lemma links_none: "(\<And>n. n \<in> set ns \<Longrightarrow> page_links n = []) \<Longrightarrow> concat (map page_links ns) = []"
  by (induction ns) auto

lemma links_status [simp]: "page_links (ProjectStatus fmt p) = []"
  by (simp add: ProjectStatus_def)

lemma links_relative [simp]: "page_links (RelativeTime exact cur d) = []"
  by (simp add: RelativeTime_def split: option.split)

lemma links_skeleton [simp]: "page_links (ManageSkeleton :: 'a node) = []"
  by (simp add: ManageSkeleton_def)

lemma links_back [simp]: "page_links (back_to_sources n) = [''/sources'']"
  by (simp add: back_to_sources_def)

lemma links_segmented [simp]: "page_links (Segmented os v f l) = []"
  by (auto simp: Segmented_def intro: links_none)

lemma links_schedule [simp]: "page_links (SyncSchedule e i s) = []"
  by (simp add: SyncSchedule_def shown_if_def)

lemma links_dialog [simp]: "page_links (ConfirmDestructiveDialog t d w l p o' s) = []"
  by (simp add: ConfirmDestructiveDialog_def shown_if_def)

lemma links_json: "page_links (JsonNode opn name path v) = []"
proof (induction opn name path v rule: JsonNode.induct)
  case (1 opn name path vs)
  then show ?case
    by (auto simp: json_button_def json_key_def shown_if_def in_set_enumerate_eq intro!: links_none split: prod.splits option.splits)
next
  case (2 opn name path es)
  then show ?case
    by (auto simp: json_button_def json_key_def shown_if_def in_set_enumerate_eq intro!: links_none split: prod.splits option.splits)
qed (auto simp: json_key_def split: option.splits)

lemma rail_links: "list_all is_page (page_links (AppSpine pathname expanded d))"
  by (simp add: AppSpine_def Let_def SpineLink_def SpineHeader_def Notifications_def ProfileMenu_def NAV_def nav_item_def
      shown_if_def)

lemma jump_pages: "list_all (\<lambda>e. case e of SearchSelect h \<Rightarrow> is_page h | _ \<Rightarrow> True) (clicks (AppSearch s))"
  by (simp add: AppSearch_def NAV_def nav_item_def shown_if_def)

lemma split_char_parts: "w \<in> set (split_char d s) \<Longrightarrow> d \<notin> set w \<and> set w \<subseteq> set s"
proof (induction s arbitrary: w)
  case (Cons c s)
  then show ?case by (auto split: if_splits list.splits) fastforce+
qed simp

lemma path_segs_parts:
  assumes "w \<in> set (path_segs p)"
  shows "w \<noteq> [] \<and> CHR ''/'' \<notin> set w \<and> set w \<subseteq> set p"
  using assms split_char_parts by (auto simp: path_segs_def)

lemma source_segment_page:
  assumes "w \<noteq> []" "CHR ''/'' \<notin> set w" "CHR ''?'' \<notin> set w" "CHR ''#'' \<notin> set w"
  shows "is_page (''/sources/'' @ w)"
proof -
  have "href_path (''/sources/'' @ w) = ''/sources/'' @ w" using assms by (intro href_path_plain) auto
  moreover have "path_segs (''/sources/'' @ w) = [''sources'', w]"
    using path_segs_seg[of "''sources''" w] path_segs_leaf[of w] assms by simp
  ultimately show ?thesis
    by (auto simp: is_page_def route_of_def web_routes_def placeholder_def)
qed

lemma section_pages: "section_of k = Some (l, h) \<Longrightarrow> is_page h"
proof -
  assume s: "section_of k = Some (l, h)"
  have nav: "list_all (\<lambda>n. is_page (nav_href n)) NAV" by (simp add: NAV_def nav_item_def)
  have "n \<in> set NAV" if "navByKey k = Some n" for n
    using that unfolding navByKey_def by (auto dest!: map_of_SomeD)
  with s nav show ?thesis
    by (auto simp: section_of_def EXTRA_def list_all_iff split: option.splits if_splits)
qed

lemma crumb_pages:
  assumes "href_path p = p"
  shows "list_all (\<lambda>c. case crumb_href c of None \<Rightarrow> True | Some h \<Rightarrow> is_page h) (buildCrumbs p)"
proof -
  have "CHR ''?'' \<notin> set p" "CHR ''#'' \<notin> set p"
    using assms unfolding href_path_def takeWhile_eq_all_conv by auto
  then have seg: "is_page (''/sources/'' @ w)" if "w \<in> set (path_segs p)" for w
    using path_segs_parts[OF that] source_segment_page[of w] by blast
  have deep: "list_all (\<lambda>c. case crumb_href c of None \<Rightarrow> True | Some h \<Rightarrow> is_page h) (deeper_crumbs k (path_segs p))" for k
    using seg[of "path_segs p ! 1"] by (auto simp: deeper_crumbs_def crumb_def Let_def seg_is_def)
  show ?thesis
    using deep by (auto simp: buildCrumbs_def Let_def crumb_def dest: section_pages split: option.splits)
qed

lemma crumb_links: "n \<in> set (crumb_node lst i c) \<Longrightarrow> h \<in> set (page_links n) \<Longrightarrow> crumb_href c = Some h"
  by (auto simp: crumb_node_def shown_if_def truthy_str_def split: if_splits option.splits)

lemma bar_links:
  assumes "href_path p = p" "h \<in> set (page_links (AppContextBar p lf []))"
  shows "is_page h"
proof -
  have hrefs: "map crumb_href (bar_crumbs p lf) = map crumb_href (buildCrumbs p)"
    using name_detail_shape by (auto simp: bar_crumbs_def)
  from assms(2) obtain c where "c \<in> set (bar_crumbs p lf)" "crumb_href c = Some h"
    by (auto simp: AppContextBar_def Let_def dest!: crumb_links in_set_enumerate_eq[THEN iffD1]) (metis nth_mem)
  then have "Some h \<in> set (map crumb_href (buildCrumbs p))" unfolding hrefs[symmetric] by force
  with crumb_pages[OF assms(1)] show ?thesis by (force simp: list_all_iff split: option.splits)
qed

lemma setup_links: "list_all is_page (page_links (OnboardingProfileMenu d))"
  by (simp add: OnboardingProfileMenu_def Let_def shown_if_def)

lemma wizard_pages: "nextPath p = Some h \<Longrightarrow> is_page h" "prevPath p = Some h \<Longrightarrow> is_page h"
proof -
  have paths: "list_all (\<lambda>s. is_page (step_path s)) ONBOARDING_STEPS"
    by (simp add: ONBOARDING_STEPS_def step_path_def BASE_def)
  then show "nextPath p = Some h \<Longrightarrow> is_page h" "prevPath p = Some h \<Longrightarrow> is_page h"
    by (auto simp: nextPath_def prevPath_def list_all_iff Let_def js_nth_def split: if_splits option.splits)
qed

lemma sources_links:
  assumes "conns_ok (nullish cs [])" "h \<in> set (page_links (SourcesView_view connectors cs err))"
  shows "is_page h"
proof -
  have card: "page_links (SourceCard c n) = [connectionHref c]" for c n by (simp add: SourceCard_def)
  have "is_page (connectionHref c)" if "c \<in> set (nullish cs [])" for c
    using href_connection[of c] assms(1) that by (simp add: is_page_def)
  with assms(2) show ?thesis
    by (auto simp: SourcesView_view_def SourcesView_def Let_def card shown_if_def nullish_def
        split: if_splits option.splits sources_body.splits)
qed

lemma auto_pages:
  assumes "\<forall>cs \<in> set snaps. conns_ok cs" "h \<in> set (goes (autoOpen_run cid snaps opened))"
  shows "is_page h"
proof -
  have "opened = False" using assms(2) autoOpen_latched by (cases opened) auto
  with assms(2) auto_open_once[of cid snaps] obtain cs c where
    "cs \<in> set snaps" "c \<in> set cs" "h = connectionHref c"
    by (auto simp: connectionHref_def)
  with assms(1) href_connection[of c] show ?thesis by (auto simp: is_page_def)
qed

lemma details_links:
  assumes "conns_ok (nullish cs [])" "h \<in> set (page_links (details_view fmt lc exact cur cid connectors cs err g ps sp stp))"
  shows "is_page h"
proof (cases "details_phase cid cs err g")
  case (Details c)
  then have "c \<in> set (nullish cs [])"
    by (auto simp: details_phase_def dest!: find_Some_mem split: if_splits option.splits)
  then have "is_page (''/sources/'' @ conn_id c @ ''/manage'')"
    using assms(1) route_manage by (simp add: is_page_def)
  with assms(2) Details query_pages show ?thesis
    by (auto simp: details_view_def SourceDetails_def Let_def sync_button_def items_synced_def
        split: if_splits option.splits)
qed (use assms(2) in \<open>auto simp: details_view_def\<close>)

lemma manage_links: "list_all is_page (page_links (ManagePage_view fmt lc env s phase))"
  by (cases phase)
    (auto simp: ManagePage_view_def ManagePanel_def manage_header_def manage_list_def manage_row_def Let_def shown_if_def
      list_all_iff)

lemma manage_pages:
  assumes "id_ok (mp_connectionId mp)" "h \<in> set (goes (snd (snd (manage_step mp env me s))))"
  shows "is_page h"
proof -
  have src: "is_page (''/sources/'' @ mp_connectionId mp)" using assms(1) route_source by (simp add: is_page_def)
  show ?thesis
    using assms(2) src
    by (cases "(mp, env, me, s)" rule: manage_step.cases)
      (auto simp: Let_def save_reply_def save_refetched_def split: prod.splits if_splits option.splits list.splits thrown.splits)
qed

lemma files_links: "list_all is_page (page_links (FilesView local cid project arts conns))"
  by (auto simp: FilesView_def Let_def file_row_def SourceCell_def shown_if_def list_all_iff split: option.splits)

lemma open_file_pages:
  assumes "\<forall>x \<in> set (case q_data arts of None \<Rightarrow> [] | Some d \<Rightarrow> lar_artifacts d). id_ok (art_id x)"
    "a \<in> set (clicks (FilesView local cid project arts conns))" "h \<in> set (goes (snd (files_handle a project)))"
  shows "is_page h"
proof -
  obtain fid where a: "a = OpenFile fid" "h = ''/files/'' @ fid" using assms(3) by (cases a) auto
  have "fid \<in> art_id ` set (case q_data arts of None \<Rightarrow> [] | Some d \<Rightarrow> lar_artifacts d)"
    using assms(2) a
    by (auto simp: FilesView_def Let_def file_row_def SourceCell_def shown_if_def files_shown_def
        split: option.splits if_splits)
  with assms(1) route_file a show ?thesis by (auto simp: is_page_def)
qed

lemma file_links: "list_all is_page (page_links (FileDetailPage local decode parse fid arts content opn))"
  by (auto simp: FileDetailPage_def Let_def shown_if_def list_all_iff links_json split: option.splits)

lemma settings_links: "list_all is_page (page_links (SettingsPage iss session ws flags setting members))"
  by (auto simp: SettingsPage_def Let_def Workspace_view_def FeatureFlags_def MembersSummary_def Account_def Section_def
      Row_def shown_if_def list_all_iff split: option.splits)

section \<open>Properties\<close>

text \<open>
  C12. No link is dead: every address that a page of the client links to, and every address that one of
  its handlers, gates and redirects goes to, belongs to a page of the route table, as long as sources
  and files have identifiers of letters, digits and marks.
\<close>

theorem web_links_are_pages:
  assumes "web_dest h"
  shows "is_page h"
  using assms
proof cases
  case (wd_rail pathname expanded d)
  then show ?thesis using rail_links by (auto simp: list_all_iff)
next
  case (wd_jump hr s)
  with jump_pages[of s] show ?thesis by (auto simp: list_all_iff)
next
  case (wd_crumb pathname lf)
  then show ?thesis using bar_links by blast
next
  case (wd_unknown)
  then show ?thesis by (simp add: NotFound_def)
next
  case (wd_wizard p isPending err fs page a fs' es rpcs)
  then show ?thesis
    by (cases a) (auto simp: push_path_def dest: wizard_pages split: option.splits sum.splits)
next
  case (wd_setup_menu d)
  then show ?thesis using setup_links by (auto simp: list_all_iff)
next
  case (wd_gallery connectors flags authorizing query category)
  then show ?thesis by (auto simp: AddSourcePage_def Let_def shown_if_def split: if_splits)
next
  case (wd_connect c)
  then show ?thesis by (auto simp: gallery_connect_def TOKEN_CONNECTORS_def split: if_splits)
next
  case (wd_token connector connectors flags f)
  then show ?thesis
    by (auto simp: ConnectTokenSourcePage_def Let_def Field_def shown_if_def split: if_splits option.splits)
next
  case (wd_token_step connector te f)
  then show ?thesis
    by (cases "(connector, te, f)" rule: token_step.cases)
      (auto simp: token_fire_def query_pages(2)[simplified] split: option.splits if_splits)
next
  case (wd_open_file arts a local cid project conns)
  then show ?thesis by (rule open_file_pages)
qed (auto simp: Home_getUser_def Callback_settle_def SignedOut_settle_def AppGate_effect_def
      OnboardingLayout_effect_def OnboardingIndex_def finish_settle_def list_all_iff
      intro: sources_links auto_pages details_links manage_pages
      dest: manage_links[unfolded list_all_iff, THEN bspec] files_links[unfolded list_all_iff, THEN bspec]
        file_links[unfolded list_all_iff, THEN bspec] settings_links[unfolded list_all_iff, THEN bspec]
      split: option.splits sum.splits if_splits)

text \<open>The link of a source's card in the list, at a concrete source.\<close>

definition sample_connection :: "bool \<Rightarrow> Connection" where
  "sample_connection ready =
     \<lparr>conn_id = ''c-1'', conn_connectorId = ''github'', conn_status = CONNECTED, conn_account = ''acme'',
      conn_lastSyncedAt = None, conn_lastError = [], conn_catalogDiscoveredAt = (if ready then Some 0 else None),
      conn_onboarded = False, conn_autoSyncEnabled = False, conn_syncIntervalSeconds = 3600\<rparr>"

lemma sample_id_ok: "id_ok (conn_id (sample_connection ready))"
  by (simp add: sample_connection_def) code_simp

theorem web_links_are_pages_witness:
  "web_dest ''/sources/c-1/manage'' \<and> is_page ''/sources/c-1/manage''"
proof -
  let ?connectors = "\<lparr>q_data = Some [], q_isPending = False, q_error = None\<rparr>"
  have "''/sources/c-1/manage'' \<in>
      set (page_links (SourcesView_view ?connectors (Some [sample_connection False]) None :: unit node))"
    by (simp add: SourcesView_view_def SourcesView_def SourceCard_def connectionHref_def sample_connection_def
        q_isError_def shown_if_def)
  then have "web_dest ''/sources/c-1/manage''"
    by (rule wd_sources[rotated]) (simp add: sample_id_ok)
  with web_links_are_pages show ?thesis by blast
qed

text \<open>
  C8. Connecting a source with a token ends at that source: the form's answer leads to the list with
  the new source marked in the address; whatever the stream pushes first, the first snapshot in which
  the source's catalog is discovered opens exactly one further address, once; that address is the
  source's manage page while it is not set up and its details afterwards, and the page there shows
  this source over the same snapshot.
\<close>

theorem connect_opens_the_source:
  assumes "id_ok i"
    and "\<forall>cs' \<in> set pre. \<forall>c' \<in> set cs'. conn_id c' = i \<longrightarrow> conn_catalogDiscoveredAt c' = None"
    and "find (\<lambda>c. conn_id c = i) cs = Some c" and "conn_catalogDiscoveredAt c \<noteq> None"
  shows "\<exists>h h'.
     snd (snd (token_step connector (TSettled (Inr (Some i))) f)) = [RouterPush h] \<and>
     route_of h = Some ([''sources''], []) \<and>
     autoOpen_run (params_get (query_of h) ''connected'') (pre @ cs # post) False = [RouterReplace h'] \<and>
     (if conn_onboarded c
      then route_of h' = Some ([''sources'', ''[id]''], [i]) \<and> details_phase i (Some cs) None g = Details c
      else route_of h' = Some ([''sources'', ''[id]'', ''manage''], [i]) \<and>
           (\<exists>p. ManageConnectionPage i connectors (Some cs) None g = Manage p \<and> mp_connectionId p = i \<and>
                mp_catalogDiscovered p \<and> \<not> mp_onboarded p))"
proof -
  let ?h = "''/sources?connected='' @ i"
  have c: "conn_id c = i" using assms(3) by (auto simp: find_Some_iff)
  have push: "snd (snd (token_step connector (TSettled (Inr (Some i))) f)) = [RouterPush ?h]" by simp
  have "route_of ''/sources'' = Some ([''sources''], [])" by code_simp
  then have list: "route_of ?h = Some ([''sources''], [])"
    using route_query[of "''/sources''" "''connected='' @ i"] by simp
  have opn: "autoOpen_run (params_get (query_of ?h) ''connected'') (pre @ cs # post) False =
      [RouterReplace (connectionHref c)]"
    unfolding token_marker[OF assms(1)] autoOpen_waits[OF assms(2)]
    using assms by (intro autoOpen_opens) (auto simp: id_ok_def)
  have "route_of (connectionHref c) =
      Some (if conn_onboarded c then ([''sources'', ''[id]''], [i]) else ([''sources'', ''[id]'', ''manage''], [i]))"
    using href_connection[of c] assms(1) c by simp
  moreover have "details_phase i (Some cs) None g = Details c" using assms(3) by (simp add: details_phase_def)
  moreover have "\<exists>p. ManageConnectionPage i connectors (Some cs) None g = Manage p \<and> mp_connectionId p = i \<and>
      mp_catalogDiscovered p \<and> mp_onboarded p = conn_onboarded c"
    using assms(3,4) c by (auto simp: ManageConnectionPage_def Let_def)
  ultimately show ?thesis using push list opn
    by (intro exI[of _ ?h] exI[of _ "connectionHref c"]) auto
qed

theorem connect_opens_the_source_witness:
  "let c = sample_connection True; snaps = [[], [sample_connection False]] @ [c] # [[c]]
   in \<exists>h h'.
     snd (snd (token_step ''github_pat'' (TSettled (Inr (Some ''c-1''))) \<lparr>tf_name = ''n'', tf_token = ''t'', tf_pending = True\<rparr>)) =
       [RouterPush h] \<and>
     autoOpen_run (params_get (query_of h) ''connected'') snaps False = [RouterReplace h'] \<and>
     route_of h' = Some ([''sources'', ''[id]'', ''manage''], [''c-1''])"
proof -
  have i: "conn_id (sample_connection r) = ''c-1''" for r by (simp add: sample_connection_def)
  have "id_ok ''c-1''" using sample_id_ok[of True] i by simp
  moreover have "\<forall>cs' \<in> set [[], [sample_connection False]]. \<forall>c' \<in> set cs'.
      conn_id c' = ''c-1'' \<longrightarrow> conn_catalogDiscoveredAt c' = None" by (simp add: sample_connection_def)
  moreover have "find (\<lambda>c. conn_id c = ''c-1'') [sample_connection True] = Some (sample_connection True)" by (simp add: i)
  moreover have "conn_catalogDiscoveredAt (sample_connection True) \<noteq> None" "\<not> conn_onboarded (sample_connection True)"
    by (simp_all add: sample_connection_def)
  ultimately show ?thesis
    using connect_opens_the_source[of "''c-1''" "[[], [sample_connection False]]" "[sample_connection True]"
        "sample_connection True" "''github_pat''" "\<lparr>tf_name = ''n'', tf_token = ''t'', tf_pending = True\<rparr>"
        "[[sample_connection True]]"]
    unfolding Let_def by auto
qed

end
