(* ===== verification/Journeys.thy ===== *)
theory Journeys
  imports Routes
begin

text \<open>
  Where a visit ends. Four places of the web client send a visitor on without a click: the entry
  page (\<open>app/page.tsx\<close>), the index of the setup wizard (\<open>app/onboarding/page.tsx\<close>), the wizard's
  layout (\<open>app/onboarding/layout.tsx\<close>) and the gate around the application
  (\<open>components/app/app-gate.tsx\<close>); the sign-in callback and the sign-out page return to the entry.
  Each decides alone. Here they are run together on the address and the user kept in the browser's
  storage, for one answer of the session query, which all of them share.

  The user manager is third-party code: reading and removing the stored user are parameters.
\<close>

section \<open>The redirects together\<close>

record 'st visit =
  visit_at :: string
  visit_kept :: 'st

record 'st visit_env =
  ve_getUser :: "'st \<Rightarrow> thrown + oidc_user option"
  ve_removeUser :: "'st \<Rightarrow> 'st"
  ve_session :: "thrown + GetSessionResponse"
  ve_callback :: "thrown option"    \<comment> \<open>how the code exchange of the callback page settles\<close>
  ve_signout :: "thrown option"

datatype page_place = Entry | Exchange | Leaving | Renewal | SetupIndex | Setup | Shell | Unknown

text \<open>The layouts and pages an address is rendered by, from the directories of its route.\<close>

definition place_of :: "string \<Rightarrow> page_place" where
  "place_of href =
     (case route_of href of
        None \<Rightarrow> Unknown
      | Some (r, _) \<Rightarrow>
          if r = [] then Entry
          else if r = [''callback''] then Exchange
          else if r = [''signed-out''] then Leaving
          else if r = [''silent-renew''] then Renewal
          else if r = [''onboarding''] then SetupIndex
          else if hd r = ''onboarding'' then Setup
          else Shell)"

text \<open>What the page at an address does once mounted, with the session query settled.\<close>

definition arrive :: "'st visit_env \<Rightarrow> 'st visit \<Rightarrow> effect list" where
  "arrive env v =
     (case place_of (visit_at v) of
        Entry \<Rightarrow> snd (Home_getUser (ve_getUser env (visit_kept v)) False)
      | Exchange \<Rightarrow> snd (Callback_settle (ve_callback env) callback_init)
      | Leaving \<Rightarrow> SignedOut_effect @ SignedOut_settle (ve_signout env)
      | Renewal \<Rightarrow> snd (SilentRenew None :: unit node list \<times> effect list)
      | SetupIndex \<Rightarrow> [OnboardingIndex]
      | Setup \<Rightarrow> OnboardingLayout_effect (settled_query (ve_session env))
      | Shell \<Rightarrow> AppGate_effect (settled_query (ve_session env))
      | Unknown \<Rightarrow> [])"

fun apply_effects :: "('st \<Rightarrow> 'st) \<Rightarrow> effect list \<Rightarrow> 'st visit \<Rightarrow> 'st visit" where
  "apply_effects rm [] v = v"
| "apply_effects rm (RemoveUser # es) v = apply_effects rm es (v\<lparr>visit_kept := rm (visit_kept v)\<rparr>)"
| "apply_effects rm (RouterReplace h # es) v = apply_effects rm es (v\<lparr>visit_at := h\<rparr>)"
| "apply_effects rm (LocationAssign h # es) v = apply_effects rm es (v\<lparr>visit_at := h\<rparr>)"
| "apply_effects rm (_ # es) v = apply_effects rm es v"

inductive redirect :: "'st visit_env \<Rightarrow> 'st visit \<Rightarrow> 'st visit \<Rightarrow> bool" for env where
  redirect: "goes (arrive env v) \<noteq> [] \<Longrightarrow> redirect env v (apply_effects (ve_removeUser env) (arrive env v) v)"

inductive_cases redirectE: "redirect env v w"

text \<open>The addresses of a visit in order, when it ends within the given number of redirects.\<close>

fun journey :: "nat \<Rightarrow> 'st visit_env \<Rightarrow> 'st visit \<Rightarrow> 'st visit list option" where
  "journey n env v =
     (if goes (arrive env v) = [] then Some [v]
      else case n of 0 \<Rightarrow> None
        | Suc m \<Rightarrow> map_option (Cons v) (journey m env (apply_effects (ve_removeUser env) (arrive env v) v)))"

declare journey.simps [simp del]

section \<open>The access policy\<close>

text \<open>
  What the client promises a visitor (design-doc 0005): a rejected credential leads to the sign-in
  page, an unfinished setup to the wizard, a finished one to the application; a passing failure
  moves nobody.
\<close>

definition signed_in :: "thrown + oidc_user option \<Rightarrow> bool" where
  "signed_in r = (case r of Inl _ \<Rightarrow> False | Inr None \<Rightarrow> False | Inr (Some u) \<Rightarrow> \<not> expired u)"

definition shell_lands :: "thrown + GetSessionResponse \<Rightarrow> string \<Rightarrow> string" where
  "shell_lands r h =
     (case r of Inl e \<Rightarrow> if isAuthError e then ''/'' else h
      | Inr d \<Rightarrow> if session_onboarded (settled_query r) then h else ''/onboarding/organization'')"

definition setup_lands :: "thrown + GetSessionResponse \<Rightarrow> string \<Rightarrow> string" where
  "setup_lands r h =
     (case r of Inl e \<Rightarrow> if isAuthError e then ''/'' else h
      | Inr d \<Rightarrow> if session_onboarded (settled_query r) then ''/book'' else h)"

definition entry_lands :: "thrown + GetSessionResponse \<Rightarrow> bool \<Rightarrow> string \<Rightarrow> string" where
  "entry_lands r present h = (if present then shell_lands r ''/book'' else h)"

definition lands :: "thrown + GetSessionResponse \<Rightarrow> bool \<Rightarrow> thrown option \<Rightarrow> thrown option \<Rightarrow> string \<Rightarrow> string" where
  "lands r present callback signout h =
     (case place_of h of
        Entry \<Rightarrow> entry_lands r present h
      | Exchange \<Rightarrow> if callback = None then entry_lands r present ''/'' else h
      | Leaving \<Rightarrow> if signout \<noteq> None then entry_lands r present ''/'' else h
      | SetupIndex \<Rightarrow> setup_lands r ''/onboarding/organization''
      | Setup \<Rightarrow> setup_lands r h
      | Shell \<Rightarrow> shell_lands r h
      | _ \<Rightarrow> h)"

section \<open>Lemmas\<close>

lemma redirect_iff:
  "redirect env v w \<longleftrightarrow> goes (arrive env v) \<noteq> [] \<and> w = apply_effects (ve_removeUser env) (arrive env v) v"
  by (auto intro: redirect.intros elim: redirectE)

lemma journey_stays: "goes (arrive env v) = [] \<Longrightarrow> journey n env v = Some [v]"
  by (simp add: journey.simps)

lemma journey_moves:
  "redirect env v w \<Longrightarrow> journey (Suc n) env v = map_option (Cons v) (journey n env w)"
  by (simp add: journey.simps[of "Suc n"] redirect_iff)

text \<open>A finished visit is a path of the relation that cannot be continued.\<close>

lemma journey_path:
  "journey n env v = Some vs \<Longrightarrow>
     vs \<noteq> [] \<and> hd vs = v \<and> length vs \<le> Suc n \<and> (redirect env)\<^sup>*\<^sup>* v (last vs) \<and> \<not> (\<exists>w. redirect env (last vs) w)"
proof (induction n arbitrary: v vs)
  case 0
  then show ?case by (auto simp: journey.simps[of 0] redirect_iff split: if_splits)
next
  case (Suc n)
  show ?case
  proof (cases "goes (arrive env v) = []")
    case True
    with Suc.prems show ?thesis by (auto simp: journey_stays redirect_iff)
  next
    case False
    define w where "w = apply_effects (ve_removeUser env) (arrive env v) v"
    have step: "redirect env v w" using False by (simp add: redirect_iff w_def)
    then obtain ws where "journey n env w = Some ws" "vs = v # ws"
      using Suc.prems journey_moves[of env v w n] by (cases "journey n env w") auto
    with Suc.IH[of w ws] step show ?thesis by (auto intro: converse_rtranclp_into_rtranclp)
  qed
qed

text \<open>A visit without end has no finished path of any length.\<close>

lemma journey_endless:
  assumes "\<And>v. P v \<Longrightarrow> \<exists>w. redirect env v w \<and> P w" "P v"
  shows "journey n env v = None"
  using assms(2)
proof (induction n arbitrary: v)
  case 0
  then show ?case using assms(1)[of v] by (auto simp: journey.simps[of 0] redirect_iff)
next
  case (Suc n)
  then show ?case using assms(1)[of v] journey_moves[of env v _ n] by auto
qed

lemma places [simp]:
  "place_of ''/'' = Entry" "place_of ''/book'' = Shell" "place_of ''/onboarding'' = SetupIndex"
  "place_of ''/onboarding/organization'' = Setup"
  by code_simp+

lemma setup_decides:
  "OnboardingLayout_effect (settled_query r) =
     (case r of Inl e \<Rightarrow> if isAuthError e then [RouterReplace ''/''] else []
      | Inr d \<Rightarrow> if session_onboarded (settled_query r) then [RouterReplace ''/book''] else [])"
  by (cases r) (auto simp: OnboardingLayout_effect_def settled_query_def)

lemma shell_decides:
  "AppGate_effect (settled_query r) =
     (case r of Inl e \<Rightarrow> if isAuthError e then [RemoveUser, RouterReplace ''/''] else []
      | Inr d \<Rightarrow> if session_onboarded (settled_query r) then [] else [RouterReplace ''/onboarding''])"
  by (cases r) (auto simp: AppGate_effect_def settled_query_def)

lemma entry_decides:
  "snd (Home_getUser u b) = (if signed_in u then [RouterReplace ''/book''] else [])"
  by (auto simp: Home_getUser_def signed_in_def split: sum.splits option.splits)

lemmas decides = setup_decides shell_decides entry_decides

text \<open>A visit that ends within a number of redirects at an address, over pages only.\<close>

definition ends :: "nat \<Rightarrow> 'st visit_env \<Rightarrow> 'st visit \<Rightarrow> string \<Rightarrow> bool" where
  "ends n env v h \<longleftrightarrow>
     (\<exists>vs. journey n env v = Some vs \<and> visit_at (last vs) = h \<and>
           (is_page (visit_at v) \<longrightarrow> list_all (\<lambda>w. is_page (visit_at w)) vs))"

lemma ends_stays: "goes (arrive env v) = [] \<Longrightarrow> ends n env v (visit_at v)"
  by (simp add: ends_def journey_stays)

lemma ends_moves:
  assumes "arrive env v = es" "goes es \<noteq> []" "ends n env (apply_effects (ve_removeUser env) es v) h"
    "is_page (visit_at (apply_effects (ve_removeUser env) es v))"
  shows "ends (Suc n) env v h"
proof -
  let ?w = "apply_effects (ve_removeUser env) es v"
  obtain ws where ws: "journey n env ?w = Some ws" "visit_at (last ws) = h" "list_all (\<lambda>w. is_page (visit_at w)) ws"
    using assms(3,4) by (auto simp: ends_def)
  have "redirect env v ?w" using assms(1,2) by (simp add: redirect_iff)
  then have "journey (Suc n) env v = Some (v # ws)" using ws(1) by (simp add: journey_moves)
  moreover have "ws \<noteq> []" using journey_path[OF ws(1)] by simp
  ultimately show ?thesis using ws by (auto simp: ends_def)
qed

text \<open>
  What the gate relies on: once \<open>removeUser\<close> has run, \<open>getUser\<close> no longer returns a valid user.
\<close>

definition clears_user :: "'st visit_env \<Rightarrow> bool" where
  "clears_user env \<longleftrightarrow> (\<forall>s. \<not> signed_in (ve_getUser env (ve_removeUser env s)))"

lemma shell_ends:
  assumes removed: "clears_user env" and v: "place_of (visit_at v) = Shell"
  shows "ends (Suc (Suc n)) env v (shell_lands (ve_session env) (visit_at v))"
proof -
  have a: "arrive env v = AppGate_effect (settled_query (ve_session env))" using v by (simp add: arrive_def)
  show ?thesis
  proof (cases "goes (arrive env v) = []")
    case True
    then show ?thesis using ends_stays[OF True, of "Suc (Suc n)"] a
      by (auto simp: shell_decides shell_lands_def split: sum.splits if_splits)
  next
    case False
    then consider (out) e where "ve_session env = Inl e" "isAuthError e"
      | (wizard) d where "ve_session env = Inr d" "\<not> session_onboarded (settled_query (ve_session env))"
      using a by (auto simp: shell_decides split: sum.splits if_splits)
    then show ?thesis
    proof cases
      case out
      let ?w = "v\<lparr>visit_kept := ve_removeUser env (visit_kept v), visit_at := ''/''\<rparr>"
      have "ends (Suc n) env ?w ''/''"
        using ends_stays[of env ?w "Suc n"] removed by (simp add: arrive_def entry_decides clears_user_def)
      then show ?thesis using ends_moves[OF a, of "Suc n" "''/''"] out by (simp add: shell_decides shell_lands_def)
    next
      case wizard
      have "ends n env (v\<lparr>visit_at := ''/onboarding/organization''\<rparr>) ''/onboarding/organization''"
        using ends_stays[of env "v\<lparr>visit_at := ''/onboarding/organization''\<rparr>" n] wizard
        by (simp add: arrive_def setup_decides)
      then have "ends (Suc n) env (v\<lparr>visit_at := ''/onboarding''\<rparr>) ''/onboarding/organization''"
        using ends_moves[of env "v\<lparr>visit_at := ''/onboarding''\<rparr>" "[OnboardingIndex]" n]
        by (simp add: arrive_def OnboardingIndex_def)
      then show ?thesis using ends_moves[OF a, of "Suc n"] wizard by (simp add: shell_decides shell_lands_def)
    qed
  qed
qed

lemma entry_ends:
  "clears_user env \<Longrightarrow> place_of (visit_at v) = Entry \<Longrightarrow>
     ends (Suc (Suc (Suc n))) env v
       (entry_lands (ve_session env) (signed_in (ve_getUser env (visit_kept v))) (visit_at v))"
  using ends_stays[of env v "Suc (Suc (Suc n))"] shell_ends[of env "v\<lparr>visit_at := ''/book''\<rparr>" n]
    ends_moves[of env v "[RouterReplace ''/book'']" "Suc (Suc n)"]
  by (auto simp: arrive_def entry_decides entry_lands_def)

lemma rejected_ends:
  assumes removed: "clears_user env" and "ve_session env = Inl e" "isAuthError e" "visit_at v = ''/''"
  shows "ends (Suc (Suc n)) env v ''/''"
proof (cases "signed_in (ve_getUser env (visit_kept v))")
  case False
  then show ?thesis using ends_stays[of env v "Suc (Suc n)"] assms by (simp add: arrive_def entry_decides)
next
  case True
  let ?b = "v\<lparr>visit_at := ''/book''\<rparr>"
  let ?o = "v\<lparr>visit_kept := ve_removeUser env (visit_kept v), visit_at := ''/''\<rparr>"
  have "ends n env ?o ''/''"
    using ends_stays[of env ?o n] removed by (simp add: arrive_def entry_decides clears_user_def)
  then have "ends (Suc n) env ?b ''/''"
    using ends_moves[of env ?b "[RemoveUser, RouterReplace ''/'']" n] assms(2,3)
    by (simp add: arrive_def shell_decides)
  then show ?thesis using ends_moves[of env v "[RouterReplace ''/book'']" "Suc n"] True assms(4)
    by (simp add: arrive_def entry_decides)
qed

lemma setup_ends:
  assumes removed: "clears_user env" and v: "place_of (visit_at v) = Setup"
  shows "ends (Suc (Suc (Suc n))) env v (setup_lands (ve_session env) (visit_at v))"
proof -
  have a: "arrive env v = OnboardingLayout_effect (settled_query (ve_session env))" using v by (simp add: arrive_def)
  show ?thesis
  proof (cases "goes (arrive env v) = []")
    case True
    then show ?thesis using ends_stays[OF True, of "Suc (Suc (Suc n))"] a
      by (auto simp: setup_decides setup_lands_def split: sum.splits if_splits)
  next
    case False
    then consider (out) e where "ve_session env = Inl e" "isAuthError e"
      | (ready) d where "ve_session env = Inr d" "session_onboarded (settled_query (ve_session env))"
      using a by (auto simp: setup_decides split: sum.splits if_splits)
    then show ?thesis
    proof cases
      case out
      then show ?thesis
        using ends_moves[OF a, of "Suc (Suc n)" "''/''"] rejected_ends[OF removed, of e "v\<lparr>visit_at := ''/''\<rparr>" n]
        by (simp add: setup_decides setup_lands_def)
    next
      case ready
      then show ?thesis
        using ends_moves[OF a, of "Suc (Suc n)" "''/book''"] removed shell_ends[of env "v\<lparr>visit_at := ''/book''\<rparr>" n]
        by (simp add: setup_decides setup_lands_def shell_lands_def)
    qed
  qed
qed

lemma visit_ends:
  assumes removed: "clears_user env"
  shows "ends 4 env v (lands (ve_session env) (signed_in (ve_getUser env (visit_kept v))) (ve_callback env) (ve_signout env)
     (visit_at v))"
proof -
  let ?o = "v\<lparr>visit_at := ''/''\<rparr>"
  have four: "4 = Suc (Suc (Suc (Suc 0)))" by simp
  have home: "ends 3 env ?o (entry_lands (ve_session env) (signed_in (ve_getUser env (visit_kept v))) ''/'')"
    using entry_ends[OF removed, of ?o 0] by (simp add: numeral_3_eq_3)
  have again: "arrive env v = es \<Longrightarrow> goes es \<noteq> [] \<Longrightarrow> apply_effects (ve_removeUser env) es v = ?o \<Longrightarrow>
      ends 4 env v (entry_lands (ve_session env) (signed_in (ve_getUser env (visit_kept v))) ''/'')" for es
    using ends_moves[of env v es 3] home by simp
  show ?thesis
  proof (cases "place_of (visit_at v)")
    case Exchange
    then show ?thesis using again[of "snd (Callback_settle None callback_init)"] ends_stays[of env v 4]
      by (cases "ve_callback env") (auto simp: arrive_def lands_def Callback_settle_def)
  next
    case Leaving
    then show ?thesis using again[of "SignedOut_effect @ SignedOut_settle (ve_signout env)"] ends_stays[of env v 4]
      by (cases "ve_signout env") (auto simp: arrive_def lands_def SignedOut_settle_def SignedOut_effect_def)
  next
    case SetupIndex
    have "ends 3 env (v\<lparr>visit_at := ''/onboarding/organization''\<rparr>)
        (setup_lands (ve_session env) ''/onboarding/organization'')"
      using setup_ends[OF removed, of "v\<lparr>visit_at := ''/onboarding/organization''\<rparr>" 0] by (simp add: numeral_3_eq_3)
    then show ?thesis using ends_moves[of env v "[OnboardingIndex]" 3] SetupIndex
      by (simp add: arrive_def lands_def OnboardingIndex_def)
  next
    case Entry
    then show ?thesis using entry_ends[OF removed, of v 1] by (simp add: lands_def four del: Suc_1 numeral_eq_Suc)
  next
    case Setup
    then show ?thesis using setup_ends[OF removed, of v 1] by (simp add: lands_def four)
  next
    case Shell
    then show ?thesis using shell_ends[OF removed, of v 2] by (simp add: lands_def four numeral_2_eq_2)
  next
    case Renewal
    then show ?thesis using ends_stays[of env v 4] by (simp add: arrive_def lands_def SilentRenew_def)
  next
    case Unknown
    then show ?thesis using ends_stays[of env v 4] by (simp add: arrive_def lands_def)
  qed
qed

text \<open>
  A user manager that keeps its user in the browser's storage: the removal empties it, unless the
  storage refuses, in which case the promise is rejected and nothing has changed.
\<close>

definition storage_env :: "bool \<Rightarrow> thrown + GetSessionResponse \<Rightarrow> oidc_user option visit_env" where
  "storage_env works r =
     \<lparr>ve_getUser = Inr, ve_removeUser = (\<lambda>u. if works then None else u), ve_session = r,
      ve_callback = None, ve_signout = None\<rparr>"

lemma storage_clears: "clears_user (storage_env True r)"
  by (simp add: clears_user_def storage_env_def signed_in_def)

section \<open>Properties\<close>



text \<open>
  The hypothesis is needed: the gate swallows a failed removal. With a valid user left in the
  storage and the credential rejected, the entry page and the gate send the visitor back and forth
  without end.
\<close>

lemma failed_removal_loops:
  assumes "isAuthError e" "\<not> expired u"
  shows "journey n (storage_env False (Inl e)) \<lparr>visit_at = ''/book'', visit_kept = Some u\<rparr> = None"
proof (rule journey_endless[where P = "\<lambda>v. visit_at v \<in> {''/book'', ''/''} \<and> visit_kept v = Some u"])
  fix v :: "oidc_user option visit"
  assume "visit_at v \<in> {''/book'', ''/''} \<and> visit_kept v = Some u"
  then show "\<exists>w. redirect (storage_env False (Inl e)) v w \<and> visit_at w \<in> {''/book'', ''/''} \<and> visit_kept w = Some u"
    using assms by (auto simp: redirect_iff arrive_def decides storage_env_def signed_in_def)
qed simp

end
