(* ===== verification/Kit.thy ===== *)
theory Kit
  imports Routes
begin

text \<open>
  The component kit of the web client (\<open>web/components/ui\<close>). A component of the kit takes the
  attributes its caller gives, removes the ones it names itself, puts its own in front and spreads the
  caller's behind them, so that a caller's attribute replaces an own one of the same name. Class names
  and inline styles are left out; elements of third-party libraries keep the names the code gives them.

  The pages of the other theories use the kit by name (\<open>El ''Button'' ...\<close>). The theorems say that
  nothing is lost by that: what a user can do and read on a page, and where its links lead, is the same
  when every component of the kit is replaced by what it renders.
\<close>

section \<open>Attributes of JSX elements\<close>

text \<open>The name of a property; handlers have names of their own.\<close>

fun attr_key :: "'a attr \<Rightarrow> string" where
  "attr_key (AStr n v) = n"
| "attr_key (ABool n v) = n"
| "attr_key (ANum n v) = n"
| "attr_key (On n a) = ''on:'' @ n"
| "attr_key (OnValue n h) = ''on:'' @ n"
| "attr_key (OnFlag n h) = ''on:'' @ n"

fun is_handler :: "'a attr \<Rightarrow> bool" where
  "is_handler (On n a) = True"
| "is_handler (OnValue n h) = True"
| "is_handler (OnFlag n h) = True"
| "is_handler a = False"

text \<open>\<open>own ... {...props}\<close>: later attributes win.\<close>

definition spread :: "'a attr list \<Rightarrow> 'a attr list \<Rightarrow> 'a attr list" where
  "spread own props = filter (\<lambda>a. attr_key a \<notin> set (map attr_key props)) own @ props"

text \<open>\<open>{ variant, size, ...props }\<close>: what is left when the named data attributes are taken out.\<close>

definition rest :: "string list \<Rightarrow> 'a attr list \<Rightarrow> 'a attr list" where
  "rest ns props = filter (\<lambda>a. is_handler a \<or> attr_key a \<notin> set ns) props"

text \<open>\<open>name={old}\<close> for a taken data attribute: absent when the caller does not give it.\<close>

fun given :: "string \<Rightarrow> string \<Rightarrow> 'a attr list \<Rightarrow> 'a attr list" where
  "given new old [] = []"
| "given new old (AStr n v # as) = (if n = old then [AStr new v] else given new old as)"
| "given new old (ABool n v # as) = (if n = old then [ABool new v] else given new old as)"
| "given new old (ANum n v # as) = (if n = old then [ANum new v] else given new old as)"
| "given new old (_ # as) = given new old as"

text \<open>The same with a default; the default carries the new name.\<close>

definition given_or :: "'a attr \<Rightarrow> string \<Rightarrow> 'a attr list \<Rightarrow> 'a attr list" where
  "given_or dflt old props =
     (if given (attr_key dflt) old props = [] then [dflt] else given (attr_key dflt) old props)"

fun flag_of :: "string \<Rightarrow> bool \<Rightarrow> 'a attr list \<Rightarrow> bool" where
  "flag_of n dflt [] = dflt"
| "flag_of n dflt (ABool m v # as) = (if m = n then v else flag_of n dflt as)"
| "flag_of n dflt (_ # as) = flag_of n dflt as"

fun str_of :: "string \<Rightarrow> 'a attr list \<Rightarrow> string option" where
  "str_of n [] = None"
| "str_of n (AStr m v # as) = (if m = n then Some v else str_of n as)"
| "str_of n (_ # as) = str_of n as"

fun num_of :: "string \<Rightarrow> 'a attr list \<Rightarrow> int option" where
  "num_of n [] = None"
| "num_of n (ANum m v # as) = (if m = n then Some v else num_of n as)"
| "num_of n (_ # as) = num_of n as"

section \<open>What a user meets in a tree\<close>

text \<open>The handlers of the enabled elements, in the order of the tree.\<close>

fun listeners :: "'a node \<Rightarrow> 'a attr list" where
  "listeners (Txt s) = []"
| "listeners (El t as cs) = (if is_disabled as then [] else filter is_handler as) @ concat (map listeners cs)"

lemma handlers_filter: "handlers ev (filter is_handler as) = handlers ev as"
  by (induction as rule: handlers.induct) auto

lemma value_handlers_filter: "value_handlers ev v (filter is_handler as) = value_handlers ev v as"
  by (induction as rule: value_handlers.induct) auto

lemma handlers_append: "handlers ev (as @ bs) = handlers ev as @ handlers ev bs"
  by (induction as rule: handlers.induct) auto

lemma value_handlers_append: "value_handlers ev v (as @ bs) = value_handlers ev v as @ value_handlers ev v bs"
  by (induction as rule: value_handlers.induct) auto

lemma handlers_concat: "handlers ev (concat ass) = concat (map (handlers ev) ass)"
  by (induction ass) (auto simp: handlers_append)

lemma value_handlers_concat: "value_handlers ev v (concat ass) = concat (map (value_handlers ev v) ass)"
  by (induction ass) (auto simp: value_handlers_append)

text \<open>Clicks and entered texts are among them.\<close>

lemma clicks_listeners: "clicks n = handlers ''click'' (listeners n)"
  by (induction n) (auto simp: handlers_append handlers_filter handlers_concat comp_def cong: map_cong)

lemma entries_listeners: "entries v n = value_handlers ''change'' v (listeners n)"
  by (induction n)
    (auto simp: value_handlers_append value_handlers_filter value_handlers_concat comp_def cong: map_cong)

section \<open>Components that keep what they are given\<close>

text \<open>
  The contract of a component: it reacts as an element with the caller's attributes would, shows the
  caller's children as its only text and adds no link. A component that renders no children keeps the
  contract for an empty list of children.
\<close>

locale kit_component =
  fixes render :: "'a attr list \<Rightarrow> 'a node list \<Rightarrow> 'a node"
  assumes reacts: "listeners (render as cs) =
      (if is_disabled as then [] else filter is_handler as) @ concat (map listeners cs)"
    and shows_children: "texts (render as cs) = concat (map texts cs)"
    and links_kept: "page_links (render as cs) = concat (map page_links cs)"

locale leaf_component =
  fixes render :: "'a attr list \<Rightarrow> 'a node list \<Rightarrow> 'a node"
  assumes leaf_reacts: "listeners (render as []) = (if is_disabled as then [] else filter is_handler as)"
    and leaf_silent: "texts (render as []) = []"
    and leaf_links: "page_links (render as []) = []"

text \<open>Replacing the components of a kit by what they render.\<close>

type_synonym 'a kit = "(string \<times> ('a attr list \<Rightarrow> 'a node list \<Rightarrow> 'a node)) list"

fun expand :: "'a kit \<Rightarrow> 'a kit \<Rightarrow> 'a node \<Rightarrow> 'a node" where
  "expand kit leaves (Txt s) = Txt s"
| "expand kit leaves (El t as cs) =
     (case map_of (kit @ leaves) t of
        Some f \<Rightarrow> f as (map (expand kit leaves) cs)
      | None \<Rightarrow> El t as (map (expand kit leaves) cs))"

text \<open>Components without children are used without children, and no component of the kit is a link.\<close>

fun leaves_bare :: "string list \<Rightarrow> 'a node \<Rightarrow> bool" where
  "leaves_bare ls (Txt s) = True"
| "leaves_bare ls (El t as cs) = ((t \<in> set ls \<longrightarrow> cs = []) \<and> list_all (leaves_bare ls) cs)"

locale component_kit =
  fixes kit leaves :: "'a kit"
  assumes kit_ok: "list_all (\<lambda>(n, f). kit_component f) kit"
    and leaves_ok: "list_all (\<lambda>(n, f). leaf_component f) leaves"
    and not_links: "list_all (\<lambda>(n, f). n \<noteq> ''Link'' \<and> n \<noteq> ''PageHeader'') (kit @ leaves)"
    and apart: "list_all (\<lambda>(n, f). n \<notin> set (map fst leaves)) kit"
begin

lemma entry:
  assumes "map_of (kit @ leaves) t = Some f"
  shows "t \<noteq> ''Link'' \<and> t \<noteq> ''PageHeader'' \<and>
    (t \<notin> set (map fst leaves) \<and> kit_component f \<or> t \<in> set (map fst leaves) \<and> leaf_component f)"
proof -
  from assms consider "(t, f) \<in> set kit" | "(t, f) \<in> set leaves"
    by (auto simp: map_add_Some_iff dest: map_of_SomeD)
  then show ?thesis
  proof cases
    case 1
    have "kit_component f" using bspec[OF kit_ok[unfolded list_all_iff] 1] by simp
    moreover have "t \<notin> set (map fst leaves)" using bspec[OF apart[unfolded list_all_iff] 1] by simp
    moreover have "t \<noteq> ''Link'' \<and> t \<noteq> ''PageHeader''" using bspec[OF not_links[unfolded list_all_iff], of "(t, f)"] 1 by simp
    ultimately show ?thesis by blast
  next
    case 2
    have "leaf_component f" using bspec[OF leaves_ok[unfolded list_all_iff] 2] by simp
    moreover have "t \<in> set (map fst leaves)" using 2 by force
    moreover have "t \<noteq> ''Link'' \<and> t \<noteq> ''PageHeader''" using bspec[OF not_links[unfolded list_all_iff], of "(t, f)"] 2 by simp
    ultimately show ?thesis by blast
  qed
qed

lemma expand_keeps:
  "leaves_bare (map fst leaves) n \<Longrightarrow>
     listeners (expand kit leaves n) = listeners n \<and> texts (expand kit leaves n) = texts n \<and>
     page_links (expand kit leaves n) = page_links n"
proof (induction n)
  case (El t as cs)
  let ?cs = "map (expand kit leaves) cs"
  have eqs: "map listeners ?cs = map listeners cs" "map texts ?cs = map texts cs" "map page_links ?cs = map page_links cs"
    using El by (auto simp: list_all_iff)
  show ?case
  proof (cases "map_of (kit @ leaves) t")
    case None
    then have "expand kit leaves (El t as cs) = El t as ?cs" by (simp only: expand.simps option.case)
    then show ?thesis using eqs by (simp del: expand.simps map_map)
  next
    case (Some f)
    from entry[OF Some] have tag: "t \<noteq> ''Link''" "t \<noteq> ''PageHeader''" by auto
    from entry[OF Some] show ?thesis
    proof (elim conjE disjE)
      assume "kit_component f"
      with Some tag eqs show ?thesis
        by (simp del: map_map map_of_append add: kit_component.reacts kit_component.shows_children kit_component.links_kept)
    next
      assume l: "t \<in> set (map fst leaves)" and f: "leaf_component f"
      from El.prems l have "cs = []" by simp
      with Some f tag show ?thesis
        by (simp del: map_of_append add: leaf_component.leaf_reacts leaf_component.leaf_silent leaf_component.leaf_links)
    qed
  qed
qed simp

end

section \<open>Lemmas on attributes\<close>

lemma disabled_filter: "is_disabled (filter P as) \<Longrightarrow> is_disabled as"
  by (induction as rule: is_disabled.induct) (auto split: if_splits)

lemma disabled_append [simp]: "is_disabled (as @ bs) \<longleftrightarrow> is_disabled as \<or> is_disabled bs"
  by (induction as rule: is_disabled.induct) auto

lemma spread_reacts [simp]:
  assumes "\<not> is_disabled own" "filter is_handler own = []"
  shows "is_disabled (spread own props) = is_disabled props"
    "filter is_handler (spread own props) = filter is_handler props"
  using assms disabled_filter[of _ own] by (auto simp: spread_def filter_empty_conv)

lemma rest_reacts [simp]:
  assumes "''disabled'' \<notin> set ns"
  shows "is_disabled (rest ns props) = is_disabled props"
    "filter is_handler (rest ns props) = filter is_handler props"
proof -
  show "is_disabled (rest ns props) = is_disabled props"
    using assms by (induction props rule: is_disabled.induct) (auto simp: rest_def)
  show "filter is_handler (rest ns props) = filter is_handler props"
    by (induction props) (auto simp: rest_def)
qed

lemma given_data [simp]:
  "new \<noteq> ''disabled'' \<Longrightarrow> \<not> is_disabled (given new old props)" "filter is_handler (given new old props) = []"
  by (induction props rule: given.induct) auto

lemma given_or_data [simp]:
  "attr_key d \<noteq> ''disabled'' \<Longrightarrow> \<not> is_disabled [d] \<Longrightarrow> \<not> is_disabled (given_or d old props)"
  "\<not> is_handler d \<Longrightarrow> filter is_handler (given_or d old props) = []"
  using given_data[of "attr_key d" old props] by (auto simp: given_or_def)

lemma spread_nothing [simp]: "spread [] props = props"
  by (simp add: spread_def)

section \<open>\<open>alert-dialog\<close>\<close>

definition AlertDialog_ui :: "'a attr list \<Rightarrow> 'a node list \<Rightarrow> 'a node" where
  "AlertDialog_ui props children =
     El ''AlertDialogPrimitive.Root'' (spread [AStr ''data-slot'' ''alert-dialog''] props) children"

definition AlertDialogTrigger_ui :: "'a attr list \<Rightarrow> 'a node list \<Rightarrow> 'a node" where
  "AlertDialogTrigger_ui props children =
     El ''AlertDialogPrimitive.Trigger'' (spread [AStr ''data-slot'' ''alert-dialog-trigger''] props) children"

definition AlertDialogContent_ui :: "'a attr list \<Rightarrow> 'a node list \<Rightarrow> 'a node" where
  "AlertDialogContent_ui props children =
     El ''AlertDialogPrimitive.Portal'' [] [El ''AlertDialogPrimitive.Overlay''
       [AStr ''data-slot'' ''alert-dialog-overlay''] [], El ''AlertDialogPrimitive.Content''
       (spread [AStr ''data-slot'' ''alert-dialog-content''] props) children]"

definition AlertDialogHeader_ui :: "'a attr list \<Rightarrow> 'a node list \<Rightarrow> 'a node" where
  "AlertDialogHeader_ui props children =
     El ''div'' (spread [AStr ''data-slot'' ''alert-dialog-header''] props) children"

definition AlertDialogFooter_ui :: "'a attr list \<Rightarrow> 'a node list \<Rightarrow> 'a node" where
  "AlertDialogFooter_ui props children =
     El ''div'' (spread [AStr ''data-slot'' ''alert-dialog-footer''] props) children"

definition AlertDialogTitle_ui :: "'a attr list \<Rightarrow> 'a node list \<Rightarrow> 'a node" where
  "AlertDialogTitle_ui props children =
     El ''AlertDialogPrimitive.Title'' (spread [AStr ''data-slot'' ''alert-dialog-title''] props) children"

definition AlertDialogDescription_ui :: "'a attr list \<Rightarrow> 'a node list \<Rightarrow> 'a node" where
  "AlertDialogDescription_ui props children =
     El ''AlertDialogPrimitive.Description'' (spread [AStr ''data-slot'' ''alert-dialog-description''] props)
       children"

definition AlertDialogAction_ui :: "'a attr list \<Rightarrow> 'a node list \<Rightarrow> 'a node" where
  "AlertDialogAction_ui props children = El ''AlertDialogPrimitive.Action'' (spread ([]) props) children"

definition AlertDialogCancel_ui :: "'a attr list \<Rightarrow> 'a node list \<Rightarrow> 'a node" where
  "AlertDialogCancel_ui props children = El ''AlertDialogPrimitive.Cancel'' (spread ([]) props) children"

section \<open>\<open>breadcrumb\<close>\<close>

definition Breadcrumb_ui :: "'a attr list \<Rightarrow> 'a node list \<Rightarrow> 'a node" where
  "Breadcrumb_ui props children =
     El ''nav'' (spread [AStr ''aria-label'' ''breadcrumb'', AStr ''data-slot'' ''breadcrumb''] props) children"

definition BreadcrumbList_ui :: "'a attr list \<Rightarrow> 'a node list \<Rightarrow> 'a node" where
  "BreadcrumbList_ui props children =
     El ''ol'' (spread [AStr ''data-slot'' ''breadcrumb-list''] props) children"

definition BreadcrumbItem_ui :: "'a attr list \<Rightarrow> 'a node list \<Rightarrow> 'a node" where
  "BreadcrumbItem_ui props children =
     El ''li'' (spread [AStr ''data-slot'' ''breadcrumb-item''] props) children"

definition BreadcrumbLink_ui :: "'a attr list \<Rightarrow> 'a node list \<Rightarrow> 'a node" where
  "BreadcrumbLink_ui props children =
     El (if given ''asChild'' ''asChild'' props = [] then ''a'' else ''Slot.Root'')
       (spread [AStr ''data-slot'' ''breadcrumb-link''] (rest [''asChild''] props)) children"

definition BreadcrumbPage_ui :: "'a attr list \<Rightarrow> 'a node list \<Rightarrow> 'a node" where
  "BreadcrumbPage_ui props children =
     El ''span'' (spread [AStr ''data-slot'' ''breadcrumb-page'', AStr ''role'' ''link'',
       AStr ''aria-disabled'' ''true'', AStr ''aria-current'' ''page''] props) children"

definition BreadcrumbSeparator_ui :: "'a attr list \<Rightarrow> 'a node list \<Rightarrow> 'a node" where
  "BreadcrumbSeparator_ui props children =
     El ''li'' (spread [AStr ''data-slot'' ''breadcrumb-separator'', AStr ''role'' ''presentation'',
       AStr ''aria-hidden'' ''true''] props) (if children = [] then [El ''RiArrowRightSLine'' [] []]
       else children)"

definition BreadcrumbEllipsis_ui :: "'a attr list \<Rightarrow> 'a node list \<Rightarrow> 'a node" where
  "BreadcrumbEllipsis_ui props children =
     El ''span'' (spread [AStr ''data-slot'' ''breadcrumb-ellipsis'', AStr ''role'' ''presentation'',
       AStr ''aria-hidden'' ''true''] props) [El ''RiMoreLine'' [] [], El ''span'' [] [Txt ''More'']]"

section \<open>\<open>separator\<close>\<close>

definition Separator_ui :: "'a attr list \<Rightarrow> 'a node list \<Rightarrow> 'a node" where
  "Separator_ui props children =
     El ''SeparatorPrimitive.Root'' (spread ([AStr ''data-slot'' ''separator''] @
       given_or (ABool ''decorative'' True) ''decorative'' props @
       given_or (AStr ''orientation'' ''horizontal'') ''orientation'' props)
       (rest [''orientation'', ''decorative''] props)) children"

section \<open>\<open>button-group\<close>\<close>

definition ButtonGroup_ui :: "'a attr list \<Rightarrow> 'a node list \<Rightarrow> 'a node" where
  "ButtonGroup_ui props children =
     El ''div'' (spread ([AStr ''role'' ''group'', AStr ''data-slot'' ''button-group''] @
       given ''data-orientation'' ''orientation'' props) (rest [''orientation''] props)) children"

definition ButtonGroupText_ui :: "'a attr list \<Rightarrow> 'a node list \<Rightarrow> 'a node" where
  "ButtonGroupText_ui props children =
     El (if given ''asChild'' ''asChild'' props = [] then ''div'' else ''Slot.Root'') (spread ([])
       (rest [''asChild''] props)) children"

definition ButtonGroupSeparator_ui :: "'a attr list \<Rightarrow> 'a node list \<Rightarrow> 'a node" where
  "ButtonGroupSeparator_ui props children =
     Separator_ui (spread ([AStr ''data-slot'' ''button-group-separator''] @
       given_or (AStr ''orientation'' ''vertical'') ''orientation'' props) (rest [''orientation''] props))
       children"

section \<open>\<open>button\<close>\<close>

definition Button_ui :: "'a attr list \<Rightarrow> 'a node list \<Rightarrow> 'a node" where
  "Button_ui props children =
     El (if given ''asChild'' ''asChild'' props = [] then ''button'' else ''Slot.Root'')
       (spread ([AStr ''data-slot'' ''button''] @
       given_or (AStr ''data-variant'' ''default'') ''variant'' props @
       given_or (AStr ''data-size'' ''default'') ''size'' props)
       (rest [''variant'', ''size'', ''asChild''] props)) children"

section \<open>\<open>checkbox\<close>\<close>

text \<open>The mark shows the third state.\<close>

definition Checkbox_ui :: "'a attr list \<Rightarrow> 'a node list \<Rightarrow> 'a node" where
  "Checkbox_ui props children =
     El ''CheckboxPrimitive.Root'' (spread [AStr ''data-slot'' ''checkbox''] props)
       [El ''CheckboxPrimitive.Indicator'' [AStr ''data-slot'' ''checkbox-indicator'']
       [if str_of ''checked'' props = Some ''indeterminate'' then El ''Minus'' [] [] else El ''Check'' [] []]]"

section \<open>\<open>context-menu\<close>\<close>

definition ContextMenu_ui :: "'a attr list \<Rightarrow> 'a node list \<Rightarrow> 'a node" where
  "ContextMenu_ui props children =
     El ''ContextMenuPrimitive.Root'' (spread [AStr ''data-slot'' ''context-menu''] props) children"

definition ContextMenuTrigger_ui :: "'a attr list \<Rightarrow> 'a node list \<Rightarrow> 'a node" where
  "ContextMenuTrigger_ui props children =
     El ''ContextMenuPrimitive.Trigger'' (spread [AStr ''data-slot'' ''context-menu-trigger''] props) children"

definition ContextMenuGroup_ui :: "'a attr list \<Rightarrow> 'a node list \<Rightarrow> 'a node" where
  "ContextMenuGroup_ui props children =
     El ''ContextMenuPrimitive.Group'' (spread [AStr ''data-slot'' ''context-menu-group''] props) children"

definition ContextMenuPortal_ui :: "'a attr list \<Rightarrow> 'a node list \<Rightarrow> 'a node" where
  "ContextMenuPortal_ui props children =
     El ''ContextMenuPrimitive.Portal'' (spread [AStr ''data-slot'' ''context-menu-portal''] props) children"

definition ContextMenuSub_ui :: "'a attr list \<Rightarrow> 'a node list \<Rightarrow> 'a node" where
  "ContextMenuSub_ui props children =
     El ''ContextMenuPrimitive.Sub'' (spread [AStr ''data-slot'' ''context-menu-sub''] props) children"

definition ContextMenuRadioGroup_ui :: "'a attr list \<Rightarrow> 'a node list \<Rightarrow> 'a node" where
  "ContextMenuRadioGroup_ui props children =
     El ''ContextMenuPrimitive.RadioGroup'' (spread [AStr ''data-slot'' ''context-menu-radio-group''] props)
       children"

definition ContextMenuContent_ui :: "'a attr list \<Rightarrow> 'a node list \<Rightarrow> 'a node" where
  "ContextMenuContent_ui props children =
     El ''ContextMenuPrimitive.Portal'' [] [El ''ContextMenuPrimitive.Content''
       (spread [AStr ''data-slot'' ''context-menu-content''] props) children]"

definition ContextMenuItem_ui :: "'a attr list \<Rightarrow> 'a node list \<Rightarrow> 'a node" where
  "ContextMenuItem_ui props children =
     El ''ContextMenuPrimitive.Item'' (spread ([AStr ''data-slot'' ''context-menu-item''] @
       given ''data-inset'' ''inset'' props @ given_or (AStr ''data-variant'' ''default'') ''variant'' props)
       (rest [''inset'', ''variant''] props)) children"

definition ContextMenuSubTrigger_ui :: "'a attr list \<Rightarrow> 'a node list \<Rightarrow> 'a node" where
  "ContextMenuSubTrigger_ui props children =
     El ''ContextMenuPrimitive.SubTrigger'' (spread ([AStr ''data-slot'' ''context-menu-sub-trigger''] @
       given ''data-inset'' ''inset'' props) (rest [''inset''] props)) (children @ [El ''RiArrowRightSLine'' []
       []])"

definition ContextMenuSubContent_ui :: "'a attr list \<Rightarrow> 'a node list \<Rightarrow> 'a node" where
  "ContextMenuSubContent_ui props children =
     El ''ContextMenuPrimitive.SubContent'' (spread [AStr ''data-slot'' ''context-menu-sub-content''] props)
       children"

definition ContextMenuCheckboxItem_ui :: "'a attr list \<Rightarrow> 'a node list \<Rightarrow> 'a node" where
  "ContextMenuCheckboxItem_ui props children =
     El ''ContextMenuPrimitive.CheckboxItem'' (spread ([AStr ''data-slot'' ''context-menu-checkbox-item''] @
       given ''data-inset'' ''inset'' props @ given ''checked'' ''checked'' props)
       (rest [''checked'', ''inset''] props)) ([El ''span'' [] [El ''ContextMenuPrimitive.ItemIndicator'' []
       [El ''RiCheckLine'' [] []]]] @ children)"

definition ContextMenuRadioItem_ui :: "'a attr list \<Rightarrow> 'a node list \<Rightarrow> 'a node" where
  "ContextMenuRadioItem_ui props children =
     El ''ContextMenuPrimitive.RadioItem'' (spread ([AStr ''data-slot'' ''context-menu-radio-item''] @
       given ''data-inset'' ''inset'' props) (rest [''inset''] props)) ([El ''span'' []
       [El ''ContextMenuPrimitive.ItemIndicator'' [] [El ''RiCheckLine'' [] []]]] @ children)"

definition ContextMenuLabel_ui :: "'a attr list \<Rightarrow> 'a node list \<Rightarrow> 'a node" where
  "ContextMenuLabel_ui props children =
     El ''ContextMenuPrimitive.Label'' (spread ([AStr ''data-slot'' ''context-menu-label''] @
       given ''data-inset'' ''inset'' props) (rest [''inset''] props)) children"

definition ContextMenuSeparator_ui :: "'a attr list \<Rightarrow> 'a node list \<Rightarrow> 'a node" where
  "ContextMenuSeparator_ui props children =
     El ''ContextMenuPrimitive.Separator'' (spread [AStr ''data-slot'' ''context-menu-separator''] props)
       children"

definition ContextMenuShortcut_ui :: "'a attr list \<Rightarrow> 'a node list \<Rightarrow> 'a node" where
  "ContextMenuShortcut_ui props children =
     El ''span'' (spread [AStr ''data-slot'' ''context-menu-shortcut''] props) children"

section \<open>\<open>dropdown-menu\<close>\<close>

definition DropdownMenu_ui :: "'a attr list \<Rightarrow> 'a node list \<Rightarrow> 'a node" where
  "DropdownMenu_ui props children =
     El ''DropdownMenuPrimitive.Root'' (spread [AStr ''data-slot'' ''dropdown-menu''] props) children"

definition DropdownMenuPortal_ui :: "'a attr list \<Rightarrow> 'a node list \<Rightarrow> 'a node" where
  "DropdownMenuPortal_ui props children =
     El ''DropdownMenuPrimitive.Portal'' (spread [AStr ''data-slot'' ''dropdown-menu-portal''] props) children"

definition DropdownMenuTrigger_ui :: "'a attr list \<Rightarrow> 'a node list \<Rightarrow> 'a node" where
  "DropdownMenuTrigger_ui props children =
     El ''DropdownMenuPrimitive.Trigger'' (spread [AStr ''data-slot'' ''dropdown-menu-trigger''] props)
       children"

definition DropdownMenuContent_ui :: "'a attr list \<Rightarrow> 'a node list \<Rightarrow> 'a node" where
  "DropdownMenuContent_ui props children =
     El ''DropdownMenuPrimitive.Portal'' [] [El ''DropdownMenuPrimitive.Content''
       (spread ([AStr ''data-slot'' ''dropdown-menu-content''] @
       given_or (ANum ''sideOffset'' 4) ''sideOffset'' props @
       given_or (AStr ''align'' ''start'') ''align'' props) (rest [''align'', ''sideOffset''] props)) children]"

definition DropdownMenuGroup_ui :: "'a attr list \<Rightarrow> 'a node list \<Rightarrow> 'a node" where
  "DropdownMenuGroup_ui props children =
     El ''DropdownMenuPrimitive.Group'' (spread [AStr ''data-slot'' ''dropdown-menu-group''] props) children"

definition DropdownMenuItem_ui :: "'a attr list \<Rightarrow> 'a node list \<Rightarrow> 'a node" where
  "DropdownMenuItem_ui props children =
     El ''DropdownMenuPrimitive.Item'' (spread ([AStr ''data-slot'' ''dropdown-menu-item''] @
       given ''data-inset'' ''inset'' props @ given_or (AStr ''data-variant'' ''default'') ''variant'' props)
       (rest [''inset'', ''variant''] props)) children"

definition DropdownMenuCheckboxItem_ui :: "'a attr list \<Rightarrow> 'a node list \<Rightarrow> 'a node" where
  "DropdownMenuCheckboxItem_ui props children =
     El ''DropdownMenuPrimitive.CheckboxItem'' (spread ([AStr ''data-slot'' ''dropdown-menu-checkbox-item''] @
       given ''data-inset'' ''inset'' props @ given ''checked'' ''checked'' props)
       (rest [''checked'', ''inset''] props)) ([El ''span''
       [AStr ''data-slot'' ''dropdown-menu-checkbox-item-indicator'']
       [El ''DropdownMenuPrimitive.ItemIndicator'' [] [El ''RiCheckLine'' [] []]]] @ children)"

definition DropdownMenuRadioGroup_ui :: "'a attr list \<Rightarrow> 'a node list \<Rightarrow> 'a node" where
  "DropdownMenuRadioGroup_ui props children =
     El ''DropdownMenuPrimitive.RadioGroup'' (spread [AStr ''data-slot'' ''dropdown-menu-radio-group''] props)
       children"

definition DropdownMenuRadioItem_ui :: "'a attr list \<Rightarrow> 'a node list \<Rightarrow> 'a node" where
  "DropdownMenuRadioItem_ui props children =
     El ''DropdownMenuPrimitive.RadioItem'' (spread ([AStr ''data-slot'' ''dropdown-menu-radio-item''] @
       given ''data-inset'' ''inset'' props) (rest [''inset''] props)) ([El ''span''
       [AStr ''data-slot'' ''dropdown-menu-radio-item-indicator''] [El ''DropdownMenuPrimitive.ItemIndicator''
       [] [El ''RiCheckLine'' [] []]]] @ children)"

definition DropdownMenuLabel_ui :: "'a attr list \<Rightarrow> 'a node list \<Rightarrow> 'a node" where
  "DropdownMenuLabel_ui props children =
     El ''DropdownMenuPrimitive.Label'' (spread ([AStr ''data-slot'' ''dropdown-menu-label''] @
       given ''data-inset'' ''inset'' props) (rest [''inset''] props)) children"

definition DropdownMenuSeparator_ui :: "'a attr list \<Rightarrow> 'a node list \<Rightarrow> 'a node" where
  "DropdownMenuSeparator_ui props children =
     El ''DropdownMenuPrimitive.Separator'' (spread [AStr ''data-slot'' ''dropdown-menu-separator''] props)
       children"

definition DropdownMenuShortcut_ui :: "'a attr list \<Rightarrow> 'a node list \<Rightarrow> 'a node" where
  "DropdownMenuShortcut_ui props children =
     El ''span'' (spread [AStr ''data-slot'' ''dropdown-menu-shortcut''] props) children"

definition DropdownMenuSub_ui :: "'a attr list \<Rightarrow> 'a node list \<Rightarrow> 'a node" where
  "DropdownMenuSub_ui props children =
     El ''DropdownMenuPrimitive.Sub'' (spread [AStr ''data-slot'' ''dropdown-menu-sub''] props) children"

definition DropdownMenuSubTrigger_ui :: "'a attr list \<Rightarrow> 'a node list \<Rightarrow> 'a node" where
  "DropdownMenuSubTrigger_ui props children =
     El ''DropdownMenuPrimitive.SubTrigger'' (spread ([AStr ''data-slot'' ''dropdown-menu-sub-trigger''] @
       given ''data-inset'' ''inset'' props) (rest [''inset''] props)) (children @ [El ''RiArrowRightSLine'' []
       []])"

definition DropdownMenuSubContent_ui :: "'a attr list \<Rightarrow> 'a node list \<Rightarrow> 'a node" where
  "DropdownMenuSubContent_ui props children =
     El ''DropdownMenuPrimitive.SubContent'' (spread [AStr ''data-slot'' ''dropdown-menu-sub-content''] props)
       children"

section \<open>\<open>flag\<close>\<close>

definition Flag_ui :: "'a attr list \<Rightarrow> 'a node list \<Rightarrow> 'a node" where
  "Flag_ui props children =
     El ''FlagpackFlag'' (given ''code'' ''code'' props @ given_or (AStr ''size'' ''l'') ''size'' props @
       [ABool ''hasBorder'' True, ABool ''hasBorderRadius'' True, ABool ''hasDropShadow'' True,
       AStr ''gradient'' ''real-linear'']) []"

section \<open>\<open>input\<close>\<close>

definition Input_ui :: "'a attr list \<Rightarrow> 'a node list \<Rightarrow> 'a node" where
  "Input_ui props children =
     El ''input'' (spread (given ''type'' ''type'' props @ [AStr ''data-slot'' ''input''])
       (rest [''type'', ''inputSize''] props)) children"

section \<open>\<open>textarea\<close>\<close>

definition Textarea_ui :: "'a attr list \<Rightarrow> 'a node list \<Rightarrow> 'a node" where
  "Textarea_ui props children = El ''textarea'' (spread [AStr ''data-slot'' ''textarea''] props) children"

section \<open>\<open>input-group\<close>\<close>

definition InputGroup_ui :: "'a attr list \<Rightarrow> 'a node list \<Rightarrow> 'a node" where
  "InputGroup_ui props children =
     El ''div'' (spread [AStr ''data-slot'' ''input-group'', AStr ''role'' ''group''] props) children"

text \<open>A click on the addon outside a button focuses the input; a handler of the caller replaces this.\<close>

definition InputGroupAddon_ui :: "'a attr list \<Rightarrow> 'a node list \<Rightarrow> 'a node" where
  "InputGroupAddon_ui props children =
     El ''div'' (spread ([AStr ''role'' ''group'', AStr ''data-slot'' ''input-group-addon''] @
       given_or (AStr ''data-align'' ''inline-start'') ''align'' props @
       [AStr ''on:click'' ''focus the input of the group'']) (rest [''align''] props)) children"

definition InputGroupButton_ui :: "'a attr list \<Rightarrow> 'a node list \<Rightarrow> 'a node" where
  "InputGroupButton_ui props children =
     Button_ui (spread (given_or (AStr ''type'' ''button'') ''type'' props @
       given_or (AStr ''data-size'' ''xs'') ''size'' props @
       given_or (AStr ''variant'' ''ghost'') ''variant'' props) (rest [''type'', ''variant'', ''size''] props))
       children"

definition InputGroupText_ui :: "'a attr list \<Rightarrow> 'a node list \<Rightarrow> 'a node" where
  "InputGroupText_ui props children = El ''span'' (spread ([]) props) children"

definition InputGroupInput_ui :: "'a attr list \<Rightarrow> 'a node list \<Rightarrow> 'a node" where
  "InputGroupInput_ui props children =
     Input_ui (spread [AStr ''data-slot'' ''input-group-control''] props) children"

definition InputGroupTextarea_ui :: "'a attr list \<Rightarrow> 'a node list \<Rightarrow> 'a node" where
  "InputGroupTextarea_ui props children =
     Textarea_ui (spread [AStr ''data-slot'' ''input-group-control''] props) children"

section \<open>\<open>kbd\<close>\<close>

definition Kbd_ui :: "'a attr list \<Rightarrow> 'a node list \<Rightarrow> 'a node" where
  "Kbd_ui props children = El ''kbd'' (spread [AStr ''data-slot'' ''kbd''] props) children"

definition KbdGroup_ui :: "'a attr list \<Rightarrow> 'a node list \<Rightarrow> 'a node" where
  "KbdGroup_ui props children = El ''kbd'' (spread [AStr ''data-slot'' ''kbd-group''] props) children"

section \<open>\<open>scroll-area\<close>\<close>

definition ScrollBar_ui :: "'a attr list \<Rightarrow> 'a node list \<Rightarrow> 'a node" where
  "ScrollBar_ui props children =
     El ''ScrollAreaPrimitive.ScrollAreaScrollbar'' (spread ([AStr ''data-slot'' ''scroll-area-scrollbar''] @
       given_or (AStr ''data-orientation'' ''vertical'') ''orientation'' props @
       given_or (AStr ''orientation'' ''vertical'') ''orientation'' props) (rest [''orientation''] props))
       [El ''ScrollAreaPrimitive.ScrollAreaThumb'' [AStr ''data-slot'' ''scroll-area-thumb''] []]"

definition ScrollArea_ui :: "'a attr list \<Rightarrow> 'a node list \<Rightarrow> 'a node" where
  "ScrollArea_ui props children =
     El ''ScrollAreaPrimitive.Root'' (spread [AStr ''data-slot'' ''scroll-area''] props)
       [El ''ScrollAreaPrimitive.Viewport'' [AStr ''data-slot'' ''scroll-area-viewport''] children,
       ScrollBar_ui [] [], El ''ScrollAreaPrimitive.Corner'' [] []]"

section \<open>\<open>skeleton\<close>\<close>

definition Skeleton_ui :: "'a attr list \<Rightarrow> 'a node list \<Rightarrow> 'a node" where
  "Skeleton_ui props children = El ''div'' (spread [AStr ''data-slot'' ''skeleton''] props) children"

section \<open>\<open>sonner\<close>\<close>

text \<open>\<open>theme\<close> is what \<open>useTheme\<close> gives.\<close>

definition Toaster_ui :: "string option \<Rightarrow> 'a attr list \<Rightarrow> 'a node list \<Rightarrow> 'a node" where
  "Toaster_ui theme props children =
     El ''Sonner''
       (spread [AStr ''theme'' (nullish theme ''system''), AStr ''icons.success'' ''RiCheckboxCircleLine'',
       AStr ''icons.info'' ''RiInformationLine'', AStr ''icons.warning'' ''RiErrorWarningLine'',
       AStr ''icons.error'' ''RiCloseCircleLine'', AStr ''icons.loading'' ''RiLoaderLine''] props) children"

section \<open>\<open>switch\<close>\<close>

definition Switch_ui :: "'a attr list \<Rightarrow> 'a node list \<Rightarrow> 'a node" where
  "Switch_ui props children =
     El ''SwitchPrimitive.Root'' (spread [AStr ''data-slot'' ''switch''] props) [El ''SwitchPrimitive.Thumb''
       [AStr ''data-slot'' ''switch-thumb''] []]"

section \<open>\<open>tooltip\<close>\<close>

definition TooltipProvider_ui :: "'a attr list \<Rightarrow> 'a node list \<Rightarrow> 'a node" where
  "TooltipProvider_ui props children =
     El ''TooltipPrimitive.Provider'' (spread ([AStr ''data-slot'' ''tooltip-provider''] @
       given_or (ANum ''delayDuration'' 0) ''delayDuration'' props) (rest [''delayDuration''] props)) children"

definition Tooltip_ui :: "'a attr list \<Rightarrow> 'a node list \<Rightarrow> 'a node" where
  "Tooltip_ui props children =
     El ''TooltipPrimitive.Root'' (spread [AStr ''data-slot'' ''tooltip''] props) children"

definition TooltipTrigger_ui :: "'a attr list \<Rightarrow> 'a node list \<Rightarrow> 'a node" where
  "TooltipTrigger_ui props children =
     El ''TooltipPrimitive.Trigger'' (spread [AStr ''data-slot'' ''tooltip-trigger''] props) children"

definition TooltipContent_ui :: "'a attr list \<Rightarrow> 'a node list \<Rightarrow> 'a node" where
  "TooltipContent_ui props children =
     El ''TooltipPrimitive.Portal'' [] [El ''TooltipPrimitive.Content''
       (spread ([AStr ''data-slot'' ''tooltip-content''] @
       given_or (ANum ''sideOffset'' 0) ''sideOffset'' props) (rest [''sideOffset''] props)) (children @
       [El ''TooltipPrimitive.Arrow'' [] []])]"

section \<open>The kit\<close>

text \<open>
  The components that keep their children, and those without. The ellipsis of the breadcrumb brings a
  text of its own, the flag takes no handlers and the toaster is not part of a page.
\<close>

definition web_kit :: "'a kit" where
  "web_kit =
    [(''AlertDialog'', AlertDialog_ui), (''AlertDialogTrigger'', AlertDialogTrigger_ui),
     (''AlertDialogContent'', AlertDialogContent_ui), (''AlertDialogHeader'', AlertDialogHeader_ui),
     (''AlertDialogFooter'', AlertDialogFooter_ui), (''AlertDialogTitle'', AlertDialogTitle_ui),
     (''AlertDialogDescription'', AlertDialogDescription_ui),
     (''AlertDialogAction'', AlertDialogAction_ui), (''AlertDialogCancel'', AlertDialogCancel_ui),
     (''Breadcrumb'', Breadcrumb_ui), (''BreadcrumbList'', BreadcrumbList_ui),
     (''BreadcrumbItem'', BreadcrumbItem_ui), (''BreadcrumbLink'', BreadcrumbLink_ui),
     (''BreadcrumbPage'', BreadcrumbPage_ui), (''BreadcrumbSeparator'', BreadcrumbSeparator_ui),
     (''Separator'', Separator_ui), (''ButtonGroup'', ButtonGroup_ui),
     (''ButtonGroupText'', ButtonGroupText_ui), (''ButtonGroupSeparator'', ButtonGroupSeparator_ui),
     (''Button'', Button_ui), (''ContextMenu'', ContextMenu_ui),
     (''ContextMenuTrigger'', ContextMenuTrigger_ui), (''ContextMenuGroup'', ContextMenuGroup_ui),
     (''ContextMenuPortal'', ContextMenuPortal_ui), (''ContextMenuSub'', ContextMenuSub_ui),
     (''ContextMenuRadioGroup'', ContextMenuRadioGroup_ui),
     (''ContextMenuContent'', ContextMenuContent_ui), (''ContextMenuItem'', ContextMenuItem_ui),
     (''ContextMenuSubTrigger'', ContextMenuSubTrigger_ui),
     (''ContextMenuSubContent'', ContextMenuSubContent_ui),
     (''ContextMenuCheckboxItem'', ContextMenuCheckboxItem_ui),
     (''ContextMenuRadioItem'', ContextMenuRadioItem_ui), (''ContextMenuLabel'', ContextMenuLabel_ui),
     (''ContextMenuSeparator'', ContextMenuSeparator_ui),
     (''ContextMenuShortcut'', ContextMenuShortcut_ui), (''DropdownMenu'', DropdownMenu_ui),
     (''DropdownMenuPortal'', DropdownMenuPortal_ui), (''DropdownMenuTrigger'', DropdownMenuTrigger_ui),
     (''DropdownMenuContent'', DropdownMenuContent_ui), (''DropdownMenuGroup'', DropdownMenuGroup_ui),
     (''DropdownMenuItem'', DropdownMenuItem_ui),
     (''DropdownMenuCheckboxItem'', DropdownMenuCheckboxItem_ui),
     (''DropdownMenuRadioGroup'', DropdownMenuRadioGroup_ui),
     (''DropdownMenuRadioItem'', DropdownMenuRadioItem_ui),
     (''DropdownMenuLabel'', DropdownMenuLabel_ui),
     (''DropdownMenuSeparator'', DropdownMenuSeparator_ui),
     (''DropdownMenuShortcut'', DropdownMenuShortcut_ui), (''DropdownMenuSub'', DropdownMenuSub_ui),
     (''DropdownMenuSubTrigger'', DropdownMenuSubTrigger_ui),
     (''DropdownMenuSubContent'', DropdownMenuSubContent_ui), (''Input'', Input_ui),
     (''Textarea'', Textarea_ui), (''InputGroup'', InputGroup_ui),
     (''InputGroupAddon'', InputGroupAddon_ui), (''InputGroupButton'', InputGroupButton_ui),
     (''InputGroupText'', InputGroupText_ui), (''InputGroupInput'', InputGroupInput_ui),
     (''InputGroupTextarea'', InputGroupTextarea_ui), (''Kbd'', Kbd_ui), (''KbdGroup'', KbdGroup_ui),
     (''ScrollArea'', ScrollArea_ui), (''Skeleton'', Skeleton_ui),
     (''TooltipProvider'', TooltipProvider_ui), (''Tooltip'', Tooltip_ui),
     (''TooltipTrigger'', TooltipTrigger_ui), (''TooltipContent'', TooltipContent_ui)]"

definition web_leaves :: "'a kit" where
  "web_leaves =
    [(''Checkbox'', Checkbox_ui), (''ScrollBar'', ScrollBar_ui), (''Switch'', Switch_ui)]"

lemmas kit_defs =
  AlertDialog_ui_def AlertDialogTrigger_ui_def AlertDialogContent_ui_def AlertDialogHeader_ui_def
  AlertDialogFooter_ui_def AlertDialogTitle_ui_def AlertDialogDescription_ui_def AlertDialogAction_ui_def
  AlertDialogCancel_ui_def Breadcrumb_ui_def BreadcrumbList_ui_def BreadcrumbItem_ui_def
  BreadcrumbLink_ui_def BreadcrumbPage_ui_def BreadcrumbSeparator_ui_def Separator_ui_def
  ButtonGroup_ui_def ButtonGroupText_ui_def ButtonGroupSeparator_ui_def Button_ui_def ContextMenu_ui_def
  ContextMenuTrigger_ui_def ContextMenuGroup_ui_def ContextMenuPortal_ui_def ContextMenuSub_ui_def
  ContextMenuRadioGroup_ui_def ContextMenuContent_ui_def ContextMenuItem_ui_def
  ContextMenuSubTrigger_ui_def ContextMenuSubContent_ui_def ContextMenuCheckboxItem_ui_def
  ContextMenuRadioItem_ui_def ContextMenuLabel_ui_def ContextMenuSeparator_ui_def
  ContextMenuShortcut_ui_def DropdownMenu_ui_def DropdownMenuPortal_ui_def DropdownMenuTrigger_ui_def
  DropdownMenuContent_ui_def DropdownMenuGroup_ui_def DropdownMenuItem_ui_def
  DropdownMenuCheckboxItem_ui_def DropdownMenuRadioGroup_ui_def DropdownMenuRadioItem_ui_def
  DropdownMenuLabel_ui_def DropdownMenuSeparator_ui_def DropdownMenuShortcut_ui_def DropdownMenuSub_ui_def
  DropdownMenuSubTrigger_ui_def DropdownMenuSubContent_ui_def Input_ui_def Textarea_ui_def
  InputGroup_ui_def InputGroupAddon_ui_def InputGroupButton_ui_def InputGroupText_ui_def
  InputGroupInput_ui_def InputGroupTextarea_ui_def Kbd_ui_def KbdGroup_ui_def ScrollArea_ui_def
  Skeleton_ui_def TooltipProvider_ui_def Tooltip_ui_def TooltipTrigger_ui_def TooltipContent_ui_def
  Checkbox_ui_def ScrollBar_ui_def Switch_ui_def

lemma web_kit_components: "list_all (\<lambda>(n, f). kit_component f) (web_kit :: 'a kit)"
  unfolding web_kit_def list.pred_inject prod.case
  by (intro conjI TrueI; unfold_locales; simp add: kit_defs)

lemma web_leaf_components: "list_all (\<lambda>(n, f). leaf_component f) (web_leaves :: 'a kit)"
  unfolding web_leaves_def list.pred_inject prod.case
  by (intro conjI TrueI; unfold_locales; simp add: kit_defs)

lemma web_leaf_names: "map fst web_leaves = [''Checkbox'', ''ScrollBar'', ''Switch'']"
  by (simp add: web_leaves_def)

lemma web_kit_names:
  "list_all (\<lambda>n. n \<notin> {''Link'', ''PageHeader'', ''Checkbox'', ''ScrollBar'', ''Switch''}) (map fst web_kit)"
  by (simp add: web_kit_def)

interpretation web: component_kit "web_kit :: 'a kit" "web_leaves :: 'a kit"
proof
  show "list_all (\<lambda>(n, f). kit_component f) (web_kit :: 'a kit)" by (rule web_kit_components)
  show "list_all (\<lambda>(n, f). leaf_component f) (web_leaves :: 'a kit)" by (rule web_leaf_components)
  show "list_all (\<lambda>(n, f). n \<noteq> ''Link'' \<and> n \<noteq> ''PageHeader'') (web_kit @ web_leaves :: 'a kit)"
    using web_kit_names[where 'a = 'a] by (force simp: list_all_iff web_leaves_def)
  show "list_all (\<lambda>(n, f). n \<notin> set (map fst (web_leaves :: 'a kit))) (web_kit :: 'a kit)"
    unfolding web_leaf_names using web_kit_names[where 'a = 'a] by (force simp: list_all_iff)
qed

text \<open>The root layout around all pages.\<close>

definition RootLayout :: "string option \<Rightarrow> 'a node list \<Rightarrow> 'a node" where
  "RootLayout theme children =
     El ''html'' [AStr ''lang'' ''en'']
       [El ''body'' []
         [El ''Providers'' []
           [El ''ThemeProvider'' []
             [TooltipProvider_ui [ANum ''delayDuration'' 150] children,
              Toaster_ui theme [AStr ''position'' ''bottom-center''] []]]]]"

text \<open>The pages use the switches and check boxes without children.\<close>

lemma bare_lift [simp]: "leaves_bare ls (lift_node f n) = leaves_bare ls n"
  by (induction n) (auto simp: list_all_iff)

lemma bare_all: "list_all (leaves_bare ls) ns \<longleftrightarrow> (\<forall>n \<in> set ns. leaves_bare ls n)"
  by (simp add: list_all_iff)

lemma settings_bare:
  "leaves_bare [''Checkbox'', ''ScrollBar'', ''Switch''] (SettingsPage iss session ws flags setting members)"
  by (auto simp: SettingsPage_def Let_def Workspace_view_def FeatureFlags_def MembersSummary_def Account_def Section_def
      Row_def shown_if_def bare_all split: option.splits)

lemma manage_bare:
  "leaves_bare [''Checkbox'', ''ScrollBar'', ''Switch''] (ManagePanel fmt lc p env s)"
  by (auto simp: ManagePanel_def manage_header_def manage_list_def manage_row_def Let_def shown_if_def bare_all
      SyncSchedule_def Segmented_def ConfirmDestructiveDialog_def ProjectStatus_def)

section \<open>Properties\<close>


definition one_flag :: "FeatureFlag list query" where
  "one_flag =
     \<lparr>q_data = Some [\<lparr>flag_key = ''k'', flag_name = ''Flag'', flag_description = ''Text'', flag_enabled = True\<rparr>],
      q_isPending = False, q_error = None\<rparr>"


end
