(* ===== verification/Kit_Proto.thy ===== *)
theory Kit_Proto
  imports Kit
begin

text \<open>
  The component kit of the prototype (\<open>prototype/components/ui\<close>), translated as the kit of the web
  client (theory \<open>Kit\<close>), and the same contract for it.
\<close>

section \<open>\<open>accordion\<close>\<close>

definition Accordion_pui :: "'a attr list \<Rightarrow> 'a node list \<Rightarrow> 'a node" where
  "Accordion_pui props children =
     El ''AccordionPrimitive.Root'' (spread [AStr ''data-slot'' ''accordion''] props) children"

definition AccordionItem_pui :: "'a attr list \<Rightarrow> 'a node list \<Rightarrow> 'a node" where
  "AccordionItem_pui props children =
     El ''AccordionPrimitive.Item'' (spread [AStr ''data-slot'' ''accordion-item''] props) children"

definition AccordionTrigger_pui :: "'a attr list \<Rightarrow> 'a node list \<Rightarrow> 'a node" where
  "AccordionTrigger_pui props children =
     El ''AccordionPrimitive.Header'' [] [El ''AccordionPrimitive.Trigger''
       (spread [AStr ''data-slot'' ''accordion-trigger''] props) (children @ [El ''RiArrowDownSLine''
       [AStr ''data-slot'' ''accordion-trigger-icon''] [], El ''RiArrowUpSLine''
       [AStr ''data-slot'' ''accordion-trigger-icon''] []])]"

definition AccordionContent_pui :: "'a attr list \<Rightarrow> 'a node list \<Rightarrow> 'a node" where
  "AccordionContent_pui props children =
     El ''AccordionPrimitive.Content'' (spread [AStr ''data-slot'' ''accordion-content''] props) [El ''div'' []
       children]"

section \<open>\<open>alert\<close>\<close>

definition Alert_pui :: "'a attr list \<Rightarrow> 'a node list \<Rightarrow> 'a node" where
  "Alert_pui props children =
     El ''div'' (spread [AStr ''data-slot'' ''alert'', AStr ''role'' ''alert''] (rest [''variant''] props))
       children"

definition AlertTitle_pui :: "'a attr list \<Rightarrow> 'a node list \<Rightarrow> 'a node" where
  "AlertTitle_pui props children = El ''div'' (spread [AStr ''data-slot'' ''alert-title''] props) children"

definition AlertDescription_pui :: "'a attr list \<Rightarrow> 'a node list \<Rightarrow> 'a node" where
  "AlertDescription_pui props children =
     El ''div'' (spread [AStr ''data-slot'' ''alert-description''] props) children"

definition AlertAction_pui :: "'a attr list \<Rightarrow> 'a node list \<Rightarrow> 'a node" where
  "AlertAction_pui props children = El ''div'' (spread [AStr ''data-slot'' ''alert-action''] props) children"

section \<open>\<open>avatar\<close>\<close>

definition Avatar_pui :: "'a attr list \<Rightarrow> 'a node list \<Rightarrow> 'a node" where
  "Avatar_pui props children =
     El ''AvatarPrimitive.Root'' (spread ([AStr ''data-slot'' ''avatar''] @
       given_or (AStr ''data-size'' ''default'') ''size'' props) (rest [''size''] props)) children"

definition AvatarImage_pui :: "'a attr list \<Rightarrow> 'a node list \<Rightarrow> 'a node" where
  "AvatarImage_pui props children =
     El ''AvatarPrimitive.Image'' (spread [AStr ''data-slot'' ''avatar-image''] props) children"

definition AvatarFallback_pui :: "'a attr list \<Rightarrow> 'a node list \<Rightarrow> 'a node" where
  "AvatarFallback_pui props children =
     El ''AvatarPrimitive.Fallback'' (spread [AStr ''data-slot'' ''avatar-fallback''] props) children"

definition AvatarBadge_pui :: "'a attr list \<Rightarrow> 'a node list \<Rightarrow> 'a node" where
  "AvatarBadge_pui props children = El ''span'' (spread [AStr ''data-slot'' ''avatar-badge''] props) children"

definition AvatarGroup_pui :: "'a attr list \<Rightarrow> 'a node list \<Rightarrow> 'a node" where
  "AvatarGroup_pui props children = El ''div'' (spread [AStr ''data-slot'' ''avatar-group''] props) children"

definition AvatarGroupCount_pui :: "'a attr list \<Rightarrow> 'a node list \<Rightarrow> 'a node" where
  "AvatarGroupCount_pui props children =
     El ''div'' (spread [AStr ''data-slot'' ''avatar-group-count''] props) children"

section \<open>\<open>badge\<close>\<close>

definition Badge_pui :: "'a attr list \<Rightarrow> 'a node list \<Rightarrow> 'a node" where
  "Badge_pui props children =
     El (if given ''asChild'' ''asChild'' props = [] then ''span'' else ''Slot.Root'')
       (spread ([AStr ''data-slot'' ''badge''] @
       given_or (AStr ''data-variant'' ''default'') ''variant'' props) (rest [''variant'', ''asChild''] props))
       children"

section \<open>\<open>button\<close>\<close>

definition Button_pui :: "'a attr list \<Rightarrow> 'a node list \<Rightarrow> 'a node" where
  "Button_pui props children =
     El (if given ''asChild'' ''asChild'' props = [] then ''button'' else ''Slot.Root'')
       (spread ([AStr ''data-slot'' ''button''] @
       given_or (AStr ''data-variant'' ''default'') ''variant'' props @
       given_or (AStr ''data-size'' ''default'') ''size'' props)
       (rest [''variant'', ''size'', ''asChild''] props)) children"

section \<open>\<open>card\<close>\<close>

definition Card_pui :: "'a attr list \<Rightarrow> 'a node list \<Rightarrow> 'a node" where
  "Card_pui props children =
     El ''div'' (spread ([AStr ''data-slot'' ''card''] @
       given_or (AStr ''data-size'' ''default'') ''size'' props) (rest [''size''] props)) children"

definition CardHeader_pui :: "'a attr list \<Rightarrow> 'a node list \<Rightarrow> 'a node" where
  "CardHeader_pui props children = El ''div'' (spread [AStr ''data-slot'' ''card-header''] props) children"

definition CardTitle_pui :: "'a attr list \<Rightarrow> 'a node list \<Rightarrow> 'a node" where
  "CardTitle_pui props children = El ''div'' (spread [AStr ''data-slot'' ''card-title''] props) children"

definition CardDescription_pui :: "'a attr list \<Rightarrow> 'a node list \<Rightarrow> 'a node" where
  "CardDescription_pui props children =
     El ''div'' (spread [AStr ''data-slot'' ''card-description''] props) children"

definition CardAction_pui :: "'a attr list \<Rightarrow> 'a node list \<Rightarrow> 'a node" where
  "CardAction_pui props children = El ''div'' (spread [AStr ''data-slot'' ''card-action''] props) children"

definition CardContent_pui :: "'a attr list \<Rightarrow> 'a node list \<Rightarrow> 'a node" where
  "CardContent_pui props children = El ''div'' (spread [AStr ''data-slot'' ''card-content''] props) children"

definition CardFooter_pui :: "'a attr list \<Rightarrow> 'a node list \<Rightarrow> 'a node" where
  "CardFooter_pui props children = El ''div'' (spread [AStr ''data-slot'' ''card-footer''] props) children"

section \<open>\<open>checkbox\<close>\<close>

definition Checkbox_pui :: "'a attr list \<Rightarrow> 'a node list \<Rightarrow> 'a node" where
  "Checkbox_pui props children =
     El ''CheckboxPrimitive.Root'' (spread [AStr ''data-slot'' ''checkbox''] props)
       [El ''CheckboxPrimitive.Indicator'' [AStr ''data-slot'' ''checkbox-indicator''] [El ''RiCheckLine'' []
       []]]"

section \<open>\<open>dialog\<close>\<close>

definition Dialog_pui :: "'a attr list \<Rightarrow> 'a node list \<Rightarrow> 'a node" where
  "Dialog_pui props children =
     El ''DialogPrimitive.Root'' (spread [AStr ''data-slot'' ''dialog''] props) children"

definition DialogTrigger_pui :: "'a attr list \<Rightarrow> 'a node list \<Rightarrow> 'a node" where
  "DialogTrigger_pui props children =
     El ''DialogPrimitive.Trigger'' (spread [AStr ''data-slot'' ''dialog-trigger''] props) children"

definition DialogPortal_pui :: "'a attr list \<Rightarrow> 'a node list \<Rightarrow> 'a node" where
  "DialogPortal_pui props children =
     El ''DialogPrimitive.Portal'' (spread [AStr ''data-slot'' ''dialog-portal''] props) children"

definition DialogClose_pui :: "'a attr list \<Rightarrow> 'a node list \<Rightarrow> 'a node" where
  "DialogClose_pui props children =
     El ''DialogPrimitive.Close'' (spread [AStr ''data-slot'' ''dialog-close''] props) children"

definition DialogOverlay_pui :: "'a attr list \<Rightarrow> 'a node list \<Rightarrow> 'a node" where
  "DialogOverlay_pui props children =
     El ''DialogPrimitive.Overlay'' (spread [AStr ''data-slot'' ''dialog-overlay''] props) children"

definition DialogContent_pui :: "'a attr list \<Rightarrow> 'a node list \<Rightarrow> 'a node" where
  "DialogContent_pui props children =
     DialogPortal_pui [] [DialogOverlay_pui [] [], El ''DialogPrimitive.Content''
       (spread [AStr ''data-slot'' ''dialog-content''] (rest [''showCloseButton''] props)) (children @
       shown_if (flag_of ''showCloseButton'' True props) [El ''DialogPrimitive.Close''
       [AStr ''data-slot'' ''dialog-close'', ABool ''asChild'' True] [Button_pui [AStr ''variant'' ''ghost'',
       AStr ''size'' ''icon-sm''] [El ''RiCloseLine'' [] [], El ''span'' [] [Txt ''Close'']]]])]"

definition DialogHeader_pui :: "'a attr list \<Rightarrow> 'a node list \<Rightarrow> 'a node" where
  "DialogHeader_pui props children = El ''div'' (spread [AStr ''data-slot'' ''dialog-header''] props) children"

definition DialogFooter_pui :: "'a attr list \<Rightarrow> 'a node list \<Rightarrow> 'a node" where
  "DialogFooter_pui props children =
     El ''div'' (spread [AStr ''data-slot'' ''dialog-footer''] (rest [''showCloseButton''] props)) (children @
       shown_if (flag_of ''showCloseButton'' False props) [El ''DialogPrimitive.Close''
       [ABool ''asChild'' True] [Button_pui [AStr ''variant'' ''outline''] [Txt ''Close'']]])"

definition DialogTitle_pui :: "'a attr list \<Rightarrow> 'a node list \<Rightarrow> 'a node" where
  "DialogTitle_pui props children =
     El ''DialogPrimitive.Title'' (spread [AStr ''data-slot'' ''dialog-title''] props) children"

definition DialogDescription_pui :: "'a attr list \<Rightarrow> 'a node list \<Rightarrow> 'a node" where
  "DialogDescription_pui props children =
     El ''DialogPrimitive.Description'' (spread [AStr ''data-slot'' ''dialog-description''] props) children"

section \<open>\<open>input\<close>\<close>

definition Input_pui :: "'a attr list \<Rightarrow> 'a node list \<Rightarrow> 'a node" where
  "Input_pui props children =
     El ''input'' (spread (given ''type'' ''type'' props @ [AStr ''data-slot'' ''input''])
       (rest [''type''] props)) children"

section \<open>\<open>textarea\<close>\<close>

definition Textarea_pui :: "'a attr list \<Rightarrow> 'a node list \<Rightarrow> 'a node" where
  "Textarea_pui props children = El ''textarea'' (spread [AStr ''data-slot'' ''textarea''] props) children"

section \<open>\<open>input-group\<close>\<close>

definition InputGroup_pui :: "'a attr list \<Rightarrow> 'a node list \<Rightarrow> 'a node" where
  "InputGroup_pui props children =
     El ''div'' (spread [AStr ''data-slot'' ''input-group'', AStr ''role'' ''group''] props) children"

text \<open>A click on the addon outside a button focuses the input; a handler of the caller replaces this.\<close>

definition InputGroupAddon_pui :: "'a attr list \<Rightarrow> 'a node list \<Rightarrow> 'a node" where
  "InputGroupAddon_pui props children =
     El ''div'' (spread ([AStr ''role'' ''group'', AStr ''data-slot'' ''input-group-addon''] @
       given_or (AStr ''data-align'' ''inline-start'') ''align'' props @
       [AStr ''on:click'' ''focus the input of the group'']) (rest [''align''] props)) children"

definition InputGroupButton_pui :: "'a attr list \<Rightarrow> 'a node list \<Rightarrow> 'a node" where
  "InputGroupButton_pui props children =
     Button_pui (spread (given_or (AStr ''type'' ''button'') ''type'' props @
       given_or (AStr ''data-size'' ''xs'') ''size'' props @
       given_or (AStr ''variant'' ''ghost'') ''variant'' props) (rest [''type'', ''variant'', ''size''] props))
       children"

definition InputGroupText_pui :: "'a attr list \<Rightarrow> 'a node list \<Rightarrow> 'a node" where
  "InputGroupText_pui props children = El ''span'' (spread ([]) props) children"

definition InputGroupInput_pui :: "'a attr list \<Rightarrow> 'a node list \<Rightarrow> 'a node" where
  "InputGroupInput_pui props children =
     Input_pui (spread [AStr ''data-slot'' ''input-group-control''] props) children"

definition InputGroupTextarea_pui :: "'a attr list \<Rightarrow> 'a node list \<Rightarrow> 'a node" where
  "InputGroupTextarea_pui props children =
     Textarea_pui (spread [AStr ''data-slot'' ''input-group-control''] props) children"

section \<open>\<open>command\<close>\<close>

definition Command_pui :: "'a attr list \<Rightarrow> 'a node list \<Rightarrow> 'a node" where
  "Command_pui props children =
     El ''CommandPrimitive'' (spread [AStr ''data-slot'' ''command''] props) children"

definition CommandDialog_pui :: "'a attr list \<Rightarrow> 'a node list \<Rightarrow> 'a node" where
  "CommandDialog_pui props children =
     Dialog_pui (rest [''title'', ''description'', ''showCloseButton''] props)
       [DialogHeader_pui [] [DialogTitle_pui [] [Txt (nullish (str_of ''title'' props) ''Command Palette'')],
       DialogDescription_pui [] [Txt (nullish (str_of ''description'' props) ''Search for a command to run...'')]],
       DialogContent_pui [ABool ''showCloseButton'' (flag_of ''showCloseButton'' False props)] children]"

definition CommandInput_pui :: "'a attr list \<Rightarrow> 'a node list \<Rightarrow> 'a node" where
  "CommandInput_pui props children =
     El ''div'' [AStr ''data-slot'' ''command-input-wrapper''] [InputGroup_pui []
       [El ''CommandPrimitive.Input'' (spread [AStr ''data-slot'' ''command-input''] props) children,
       InputGroupAddon_pui [] [El ''RiSearchLine'' [] []]]]"

definition CommandList_pui :: "'a attr list \<Rightarrow> 'a node list \<Rightarrow> 'a node" where
  "CommandList_pui props children =
     El ''CommandPrimitive.List'' (spread [AStr ''data-slot'' ''command-list''] props) children"

definition CommandEmpty_pui :: "'a attr list \<Rightarrow> 'a node list \<Rightarrow> 'a node" where
  "CommandEmpty_pui props children =
     El ''CommandPrimitive.Empty'' (spread [AStr ''data-slot'' ''command-empty''] props) children"

definition CommandGroup_pui :: "'a attr list \<Rightarrow> 'a node list \<Rightarrow> 'a node" where
  "CommandGroup_pui props children =
     El ''CommandPrimitive.Group'' (spread [AStr ''data-slot'' ''command-group''] props) children"

definition CommandSeparator_pui :: "'a attr list \<Rightarrow> 'a node list \<Rightarrow> 'a node" where
  "CommandSeparator_pui props children =
     El ''CommandPrimitive.Separator'' (spread [AStr ''data-slot'' ''command-separator''] props) children"

definition CommandItem_pui :: "'a attr list \<Rightarrow> 'a node list \<Rightarrow> 'a node" where
  "CommandItem_pui props children =
     El ''CommandPrimitive.Item'' (spread [AStr ''data-slot'' ''command-item''] props) (children @
       [El ''RiCheckLine'' [] []])"

definition CommandShortcut_pui :: "'a attr list \<Rightarrow> 'a node list \<Rightarrow> 'a node" where
  "CommandShortcut_pui props children =
     El ''span'' (spread [AStr ''data-slot'' ''command-shortcut''] props) children"

section \<open>\<open>dropdown-menu\<close>\<close>

definition DropdownMenu_pui :: "'a attr list \<Rightarrow> 'a node list \<Rightarrow> 'a node" where
  "DropdownMenu_pui props children =
     El ''DropdownMenuPrimitive.Root'' (spread [AStr ''data-slot'' ''dropdown-menu''] props) children"

definition DropdownMenuPortal_pui :: "'a attr list \<Rightarrow> 'a node list \<Rightarrow> 'a node" where
  "DropdownMenuPortal_pui props children =
     El ''DropdownMenuPrimitive.Portal'' (spread [AStr ''data-slot'' ''dropdown-menu-portal''] props) children"

definition DropdownMenuTrigger_pui :: "'a attr list \<Rightarrow> 'a node list \<Rightarrow> 'a node" where
  "DropdownMenuTrigger_pui props children =
     El ''DropdownMenuPrimitive.Trigger'' (spread [AStr ''data-slot'' ''dropdown-menu-trigger''] props)
       children"

definition DropdownMenuContent_pui :: "'a attr list \<Rightarrow> 'a node list \<Rightarrow> 'a node" where
  "DropdownMenuContent_pui props children =
     El ''DropdownMenuPrimitive.Portal'' [] [El ''DropdownMenuPrimitive.Content''
       (spread ([AStr ''data-slot'' ''dropdown-menu-content''] @
       given_or (ANum ''sideOffset'' 4) ''sideOffset'' props @
       given_or (AStr ''align'' ''start'') ''align'' props) (rest [''align'', ''sideOffset''] props)) children]"

definition DropdownMenuGroup_pui :: "'a attr list \<Rightarrow> 'a node list \<Rightarrow> 'a node" where
  "DropdownMenuGroup_pui props children =
     El ''DropdownMenuPrimitive.Group'' (spread [AStr ''data-slot'' ''dropdown-menu-group''] props) children"

definition DropdownMenuItem_pui :: "'a attr list \<Rightarrow> 'a node list \<Rightarrow> 'a node" where
  "DropdownMenuItem_pui props children =
     El ''DropdownMenuPrimitive.Item'' (spread ([AStr ''data-slot'' ''dropdown-menu-item''] @
       given ''data-inset'' ''inset'' props @ given_or (AStr ''data-variant'' ''default'') ''variant'' props)
       (rest [''inset'', ''variant''] props)) children"

definition DropdownMenuCheckboxItem_pui :: "'a attr list \<Rightarrow> 'a node list \<Rightarrow> 'a node" where
  "DropdownMenuCheckboxItem_pui props children =
     El ''DropdownMenuPrimitive.CheckboxItem'' (spread ([AStr ''data-slot'' ''dropdown-menu-checkbox-item''] @
       given ''data-inset'' ''inset'' props @ given ''checked'' ''checked'' props)
       (rest [''checked'', ''inset''] props)) ([El ''span''
       [AStr ''data-slot'' ''dropdown-menu-checkbox-item-indicator'']
       [El ''DropdownMenuPrimitive.ItemIndicator'' [] [El ''RiCheckLine'' [] []]]] @ children)"

definition DropdownMenuRadioGroup_pui :: "'a attr list \<Rightarrow> 'a node list \<Rightarrow> 'a node" where
  "DropdownMenuRadioGroup_pui props children =
     El ''DropdownMenuPrimitive.RadioGroup'' (spread [AStr ''data-slot'' ''dropdown-menu-radio-group''] props)
       children"

definition DropdownMenuRadioItem_pui :: "'a attr list \<Rightarrow> 'a node list \<Rightarrow> 'a node" where
  "DropdownMenuRadioItem_pui props children =
     El ''DropdownMenuPrimitive.RadioItem'' (spread ([AStr ''data-slot'' ''dropdown-menu-radio-item''] @
       given ''data-inset'' ''inset'' props) (rest [''inset''] props)) ([El ''span''
       [AStr ''data-slot'' ''dropdown-menu-radio-item-indicator''] [El ''DropdownMenuPrimitive.ItemIndicator''
       [] [El ''RiCheckLine'' [] []]]] @ children)"

definition DropdownMenuLabel_pui :: "'a attr list \<Rightarrow> 'a node list \<Rightarrow> 'a node" where
  "DropdownMenuLabel_pui props children =
     El ''DropdownMenuPrimitive.Label'' (spread ([AStr ''data-slot'' ''dropdown-menu-label''] @
       given ''data-inset'' ''inset'' props) (rest [''inset''] props)) children"

definition DropdownMenuSeparator_pui :: "'a attr list \<Rightarrow> 'a node list \<Rightarrow> 'a node" where
  "DropdownMenuSeparator_pui props children =
     El ''DropdownMenuPrimitive.Separator'' (spread [AStr ''data-slot'' ''dropdown-menu-separator''] props)
       children"

definition DropdownMenuShortcut_pui :: "'a attr list \<Rightarrow> 'a node list \<Rightarrow> 'a node" where
  "DropdownMenuShortcut_pui props children =
     El ''span'' (spread [AStr ''data-slot'' ''dropdown-menu-shortcut''] props) children"

definition DropdownMenuSub_pui :: "'a attr list \<Rightarrow> 'a node list \<Rightarrow> 'a node" where
  "DropdownMenuSub_pui props children =
     El ''DropdownMenuPrimitive.Sub'' (spread [AStr ''data-slot'' ''dropdown-menu-sub''] props) children"

definition DropdownMenuSubTrigger_pui :: "'a attr list \<Rightarrow> 'a node list \<Rightarrow> 'a node" where
  "DropdownMenuSubTrigger_pui props children =
     El ''DropdownMenuPrimitive.SubTrigger'' (spread ([AStr ''data-slot'' ''dropdown-menu-sub-trigger''] @
       given ''data-inset'' ''inset'' props) (rest [''inset''] props)) (children @ [El ''RiArrowRightSLine'' []
       []])"

definition DropdownMenuSubContent_pui :: "'a attr list \<Rightarrow> 'a node list \<Rightarrow> 'a node" where
  "DropdownMenuSubContent_pui props children =
     El ''DropdownMenuPrimitive.SubContent'' (spread [AStr ''data-slot'' ''dropdown-menu-sub-content''] props)
       children"

section \<open>\<open>input-otp\<close>\<close>

definition InputOTP_pui :: "'a attr list \<Rightarrow> 'a node list \<Rightarrow> 'a node" where
  "InputOTP_pui props children =
     El ''OTPInput'' (spread [AStr ''data-slot'' ''input-otp'', ABool ''spellCheck'' False]
       (rest [''containerClassName''] props)) children"

definition InputOTPGroup_pui :: "'a attr list \<Rightarrow> 'a node list \<Rightarrow> 'a node" where
  "InputOTPGroup_pui props children =
     El ''div'' (spread [AStr ''data-slot'' ''input-otp-group''] props) children"

text \<open>A slot of the code input, as the library's context describes it; \<open>ctx\<close> is that context.\<close>

record otp_slot =
  os_char :: "string option"
  os_hasFakeCaret :: bool
  os_isActive :: bool

definition InputOTPSlot_pui :: "otp_slot list option \<Rightarrow> int \<Rightarrow> 'a attr list \<Rightarrow> 'a node" where
  "InputOTPSlot_pui ctx index props =
     (let slot = (case ctx of None \<Rightarrow> None | Some slots \<Rightarrow> js_nth slots index) in
       El ''div'' (spread (AStr ''data-slot'' ''input-otp-slot'' #
       (case slot of None \<Rightarrow> [] | Some sl \<Rightarrow> [ABool ''data-active'' (os_isActive sl)])) props)
       (case slot of None \<Rightarrow> [] | Some sl \<Rightarrow>
       (case os_char sl of None \<Rightarrow> [] | Some c \<Rightarrow> [Txt c]) @
       shown_if (os_hasFakeCaret sl) [El ''div'' [] [El ''div'' [] []]]))"

definition InputOTPSeparator_pui :: "'a attr list \<Rightarrow> 'a node list \<Rightarrow> 'a node" where
  "InputOTPSeparator_pui props children =
     El ''div'' (spread [AStr ''data-slot'' ''input-otp-separator'', AStr ''role'' ''separator''] props)
       [El ''RiSubtractLine'' [] []]"

section \<open>\<open>kbd\<close>\<close>

definition Kbd_pui :: "'a attr list \<Rightarrow> 'a node list \<Rightarrow> 'a node" where
  "Kbd_pui props children = El ''kbd'' (spread [AStr ''data-slot'' ''kbd''] props) children"

definition KbdGroup_pui :: "'a attr list \<Rightarrow> 'a node list \<Rightarrow> 'a node" where
  "KbdGroup_pui props children = El ''kbd'' (spread [AStr ''data-slot'' ''kbd-group''] props) children"

section \<open>\<open>label\<close>\<close>

definition Label_pui :: "'a attr list \<Rightarrow> 'a node list \<Rightarrow> 'a node" where
  "Label_pui props children =
     El ''LabelPrimitive.Root'' (spread [AStr ''data-slot'' ''label''] props) children"

section \<open>\<open>popover\<close>\<close>

definition Popover_pui :: "'a attr list \<Rightarrow> 'a node list \<Rightarrow> 'a node" where
  "Popover_pui props children =
     El ''PopoverPrimitive.Root'' (spread [AStr ''data-slot'' ''popover''] props) children"

definition PopoverTrigger_pui :: "'a attr list \<Rightarrow> 'a node list \<Rightarrow> 'a node" where
  "PopoverTrigger_pui props children =
     El ''PopoverPrimitive.Trigger'' (spread [AStr ''data-slot'' ''popover-trigger''] props) children"

definition PopoverContent_pui :: "'a attr list \<Rightarrow> 'a node list \<Rightarrow> 'a node" where
  "PopoverContent_pui props children =
     El ''PopoverPrimitive.Portal'' [] [El ''PopoverPrimitive.Content''
       (spread ([AStr ''data-slot'' ''popover-content''] @
       given_or (AStr ''align'' ''center'') ''align'' props @
       given_or (ANum ''sideOffset'' 4) ''sideOffset'' props) (rest [''align'', ''sideOffset''] props))
       children]"

definition PopoverAnchor_pui :: "'a attr list \<Rightarrow> 'a node list \<Rightarrow> 'a node" where
  "PopoverAnchor_pui props children =
     El ''PopoverPrimitive.Anchor'' (spread [AStr ''data-slot'' ''popover-anchor''] props) children"

definition PopoverHeader_pui :: "'a attr list \<Rightarrow> 'a node list \<Rightarrow> 'a node" where
  "PopoverHeader_pui props children =
     El ''div'' (spread [AStr ''data-slot'' ''popover-header''] props) children"

definition PopoverTitle_pui :: "'a attr list \<Rightarrow> 'a node list \<Rightarrow> 'a node" where
  "PopoverTitle_pui props children = El ''div'' (spread [AStr ''data-slot'' ''popover-title''] props) children"

definition PopoverDescription_pui :: "'a attr list \<Rightarrow> 'a node list \<Rightarrow> 'a node" where
  "PopoverDescription_pui props children =
     El ''p'' (spread [AStr ''data-slot'' ''popover-description''] props) children"

section \<open>\<open>progress\<close>\<close>

text \<open>The bar is moved by the share that is missing; the value itself is not passed on.\<close>

definition Progress_pui :: "'a attr list \<Rightarrow> 'a node list \<Rightarrow> 'a node" where
  "Progress_pui props children =
     El ''ProgressPrimitive.Root'' (spread [AStr ''data-slot'' ''progress''] (rest [''value''] props))
       [El ''ProgressPrimitive.Indicator''
       [AStr ''data-slot'' ''progress-indicator'', ANum ''translateX'' (- (100 - nullish (num_of ''value'' props) 0))] []]"

section \<open>\<open>radio-group\<close>\<close>

definition RadioGroup_pui :: "'a attr list \<Rightarrow> 'a node list \<Rightarrow> 'a node" where
  "RadioGroup_pui props children =
     El ''RadioGroupPrimitive.Root'' (spread [AStr ''data-slot'' ''radio-group''] props) children"

definition RadioGroupItem_pui :: "'a attr list \<Rightarrow> 'a node list \<Rightarrow> 'a node" where
  "RadioGroupItem_pui props children =
     El ''RadioGroupPrimitive.Item'' (spread [AStr ''data-slot'' ''radio-group-item''] props)
       [El ''RadioGroupPrimitive.Indicator'' [AStr ''data-slot'' ''radio-group-indicator''] [El ''span'' []
       []]]"

section \<open>\<open>scroll-area\<close>\<close>

definition ScrollBar_pui :: "'a attr list \<Rightarrow> 'a node list \<Rightarrow> 'a node" where
  "ScrollBar_pui props children =
     El ''ScrollAreaPrimitive.ScrollAreaScrollbar'' (spread ([AStr ''data-slot'' ''scroll-area-scrollbar''] @
       given_or (AStr ''data-orientation'' ''vertical'') ''orientation'' props @
       given_or (AStr ''orientation'' ''vertical'') ''orientation'' props) (rest [''orientation''] props))
       [El ''ScrollAreaPrimitive.ScrollAreaThumb'' [AStr ''data-slot'' ''scroll-area-thumb''] []]"

definition ScrollArea_pui :: "'a attr list \<Rightarrow> 'a node list \<Rightarrow> 'a node" where
  "ScrollArea_pui props children =
     El ''ScrollAreaPrimitive.Root'' (spread [AStr ''data-slot'' ''scroll-area''] props)
       [El ''ScrollAreaPrimitive.Viewport'' [AStr ''data-slot'' ''scroll-area-viewport''] children,
       ScrollBar_pui [] [], El ''ScrollAreaPrimitive.Corner'' [] []]"

section \<open>\<open>select\<close>\<close>

definition Select_pui :: "'a attr list \<Rightarrow> 'a node list \<Rightarrow> 'a node" where
  "Select_pui props children =
     El ''SelectPrimitive.Root'' (spread [AStr ''data-slot'' ''select''] props) children"

definition SelectGroup_pui :: "'a attr list \<Rightarrow> 'a node list \<Rightarrow> 'a node" where
  "SelectGroup_pui props children =
     El ''SelectPrimitive.Group'' (spread [AStr ''data-slot'' ''select-group''] props) children"

definition SelectValue_pui :: "'a attr list \<Rightarrow> 'a node list \<Rightarrow> 'a node" where
  "SelectValue_pui props children =
     El ''SelectPrimitive.Value'' (spread [AStr ''data-slot'' ''select-value''] props) children"

definition SelectTrigger_pui :: "'a attr list \<Rightarrow> 'a node list \<Rightarrow> 'a node" where
  "SelectTrigger_pui props children =
     El ''SelectPrimitive.Trigger'' (spread ([AStr ''data-slot'' ''select-trigger''] @
       given_or (AStr ''data-size'' ''default'') ''size'' props) (rest [''size''] props)) (children @
       [El ''SelectPrimitive.Icon'' [ABool ''asChild'' True] [El ''RiArrowDownSLine'' [] []]])"

definition SelectScrollUpButton_pui :: "'a attr list \<Rightarrow> 'a node list \<Rightarrow> 'a node" where
  "SelectScrollUpButton_pui props children =
     El ''SelectPrimitive.ScrollUpButton'' (spread [AStr ''data-slot'' ''select-scroll-up-button''] props)
       [El ''RiArrowUpSLine'' [] []]"

definition SelectScrollDownButton_pui :: "'a attr list \<Rightarrow> 'a node list \<Rightarrow> 'a node" where
  "SelectScrollDownButton_pui props children =
     El ''SelectPrimitive.ScrollDownButton'' (spread [AStr ''data-slot'' ''select-scroll-down-button''] props)
       [El ''RiArrowDownSLine'' [] []]"

definition SelectContent_pui :: "'a attr list \<Rightarrow> 'a node list \<Rightarrow> 'a node" where
  "SelectContent_pui props children =
     El ''SelectPrimitive.Portal'' [] [El ''SelectPrimitive.Content''
       (spread ([AStr ''data-slot'' ''select-content'',
       ABool ''data-align-trigger'' (nullish (str_of ''position'' props) ''item-aligned'' = ''item-aligned'')] @
       given_or (AStr ''position'' ''item-aligned'') ''position'' props @
       given_or (AStr ''align'' ''center'') ''align'' props) (rest [''position'', ''align''] props))
       [SelectScrollUpButton_pui [] [],
       El ''SelectPrimitive.Viewport'' (given_or (AStr ''data-position'' ''item-aligned'') ''position'' props) children,
       SelectScrollDownButton_pui [] []]]"

definition SelectLabel_pui :: "'a attr list \<Rightarrow> 'a node list \<Rightarrow> 'a node" where
  "SelectLabel_pui props children =
     El ''SelectPrimitive.Label'' (spread [AStr ''data-slot'' ''select-label''] props) children"

definition SelectItem_pui :: "'a attr list \<Rightarrow> 'a node list \<Rightarrow> 'a node" where
  "SelectItem_pui props children =
     El ''SelectPrimitive.Item'' (spread [AStr ''data-slot'' ''select-item''] props) [El ''span'' []
       [El ''SelectPrimitive.ItemIndicator'' [] [El ''RiCheckLine'' [] []]], El ''SelectPrimitive.ItemText'' []
       children]"

definition SelectSeparator_pui :: "'a attr list \<Rightarrow> 'a node list \<Rightarrow> 'a node" where
  "SelectSeparator_pui props children =
     El ''SelectPrimitive.Separator'' (spread [AStr ''data-slot'' ''select-separator''] props) children"

section \<open>\<open>separator\<close>\<close>

definition Separator_pui :: "'a attr list \<Rightarrow> 'a node list \<Rightarrow> 'a node" where
  "Separator_pui props children =
     El ''SeparatorPrimitive.Root'' (spread ([AStr ''data-slot'' ''separator''] @
       given_or (ABool ''decorative'' True) ''decorative'' props @
       given_or (AStr ''orientation'' ''horizontal'') ''orientation'' props)
       (rest [''orientation'', ''decorative''] props)) children"

section \<open>\<open>skeleton\<close>\<close>

definition Skeleton_pui :: "'a attr list \<Rightarrow> 'a node list \<Rightarrow> 'a node" where
  "Skeleton_pui props children = El ''div'' (spread [AStr ''data-slot'' ''skeleton''] props) children"

section \<open>\<open>sonner\<close>\<close>

text \<open>\<open>theme\<close> is what \<open>useTheme\<close> gives.\<close>

definition Toaster_pui :: "string option \<Rightarrow> 'a attr list \<Rightarrow> 'a node list \<Rightarrow> 'a node" where
  "Toaster_pui theme props children =
     El ''Sonner''
       (spread [AStr ''theme'' (nullish theme ''system''), AStr ''icons.success'' ''RiCheckboxCircleLine'',
       AStr ''icons.info'' ''RiInformationLine'', AStr ''icons.warning'' ''RiErrorWarningLine'',
       AStr ''icons.error'' ''RiCloseCircleLine'', AStr ''icons.loading'' ''RiLoaderLine''] props) children"

section \<open>\<open>switch\<close>\<close>

definition Switch_pui :: "'a attr list \<Rightarrow> 'a node list \<Rightarrow> 'a node" where
  "Switch_pui props children =
     El ''SwitchPrimitive.Root'' (spread ([AStr ''data-slot'' ''switch''] @
       given_or (AStr ''data-size'' ''default'') ''size'' props) (rest [''size''] props))
       [El ''SwitchPrimitive.Thumb'' [AStr ''data-slot'' ''switch-thumb''] []]"

section \<open>\<open>tabs\<close>\<close>

definition Tabs_pui :: "'a attr list \<Rightarrow> 'a node list \<Rightarrow> 'a node" where
  "Tabs_pui props children =
     El ''TabsPrimitive.Root'' (spread ([AStr ''data-slot'' ''tabs''] @
       given_or (AStr ''data-orientation'' ''horizontal'') ''orientation'' props)
       (rest [''orientation''] props)) children"

definition TabsList_pui :: "'a attr list \<Rightarrow> 'a node list \<Rightarrow> 'a node" where
  "TabsList_pui props children =
     El ''TabsPrimitive.List'' (spread ([AStr ''data-slot'' ''tabs-list''] @
       given_or (AStr ''data-variant'' ''default'') ''variant'' props) (rest [''variant''] props)) children"

definition TabsTrigger_pui :: "'a attr list \<Rightarrow> 'a node list \<Rightarrow> 'a node" where
  "TabsTrigger_pui props children =
     El ''TabsPrimitive.Trigger'' (spread [AStr ''data-slot'' ''tabs-trigger''] props) children"

definition TabsContent_pui :: "'a attr list \<Rightarrow> 'a node list \<Rightarrow> 'a node" where
  "TabsContent_pui props children =
     El ''TabsPrimitive.Content'' (spread [AStr ''data-slot'' ''tabs-content''] props) children"

section \<open>\<open>toggle-group\<close>\<close>

text \<open>The context a group hands to its items, and the group: its context and its element.\<close>

record toggle_context =
  tg_variant :: "string option"
  tg_size :: "string option"
  tg_spacing :: int
  tg_orientation :: string

definition ToggleGroup_pui :: "'a attr list \<Rightarrow> 'a node list \<Rightarrow> toggle_context \<times> 'a node" where
  "ToggleGroup_pui props children =
     (\<lparr>tg_variant = str_of ''variant'' props, tg_size = str_of ''size'' props,
       tg_spacing = nullish (num_of ''spacing'' props) 2,
       tg_orientation = nullish (str_of ''orientation'' props) ''horizontal''\<rparr>,
       El ''ToggleGroupPrimitive.Root''
       (spread ([AStr ''data-slot'' ''toggle-group''] @ given ''data-variant'' ''variant'' props @
       given ''data-size'' ''size'' props @ given_or (ANum ''data-spacing'' 2) ''spacing'' props @
       given_or (AStr ''data-orientation'' ''horizontal'') ''orientation'' props)
       (rest [''variant'', ''size'', ''spacing'', ''orientation''] props)) children)"

definition ToggleGroupItem_pui :: "toggle_context \<Rightarrow> 'a attr list \<Rightarrow> 'a node list \<Rightarrow> 'a node" where
  "ToggleGroupItem_pui ctx props children =
     El ''ToggleGroupPrimitive.Item'' (spread [AStr ''data-slot'' ''toggle-group-item'',
       AStr ''data-variant'' (opt_str_or (tg_variant ctx) (nullish (str_of ''variant'' props) ''default'')),
       AStr ''data-size'' (opt_str_or (tg_size ctx) (nullish (str_of ''size'' props) ''default'')),
       ANum ''data-spacing'' (tg_spacing ctx)] (rest [''variant'', ''size''] props)) children"

section \<open>\<open>toggle\<close>\<close>

definition Toggle_pui :: "'a attr list \<Rightarrow> 'a node list \<Rightarrow> 'a node" where
  "Toggle_pui props children =
     El ''TogglePrimitive.Root'' (spread [AStr ''data-slot'' ''toggle''] (rest [''variant'', ''size''] props))
       children"

section \<open>\<open>tooltip\<close>\<close>

definition TooltipProvider_pui :: "'a attr list \<Rightarrow> 'a node list \<Rightarrow> 'a node" where
  "TooltipProvider_pui props children =
     El ''TooltipPrimitive.Provider'' (spread ([AStr ''data-slot'' ''tooltip-provider''] @
       given_or (ANum ''delayDuration'' 0) ''delayDuration'' props) (rest [''delayDuration''] props)) children"

definition Tooltip_pui :: "'a attr list \<Rightarrow> 'a node list \<Rightarrow> 'a node" where
  "Tooltip_pui props children =
     El ''TooltipPrimitive.Root'' (spread [AStr ''data-slot'' ''tooltip''] props) children"

definition TooltipTrigger_pui :: "'a attr list \<Rightarrow> 'a node list \<Rightarrow> 'a node" where
  "TooltipTrigger_pui props children =
     El ''TooltipPrimitive.Trigger'' (spread [AStr ''data-slot'' ''tooltip-trigger''] props) children"

definition TooltipContent_pui :: "'a attr list \<Rightarrow> 'a node list \<Rightarrow> 'a node" where
  "TooltipContent_pui props children =
     El ''TooltipPrimitive.Portal'' [] [El ''TooltipPrimitive.Content''
       (spread ([AStr ''data-slot'' ''tooltip-content''] @
       given_or (ANum ''sideOffset'' 0) ''sideOffset'' props) (rest [''sideOffset''] props)) (children @
       [El ''TooltipPrimitive.Arrow'' [] []])]"

section \<open>The kit\<close>

text \<open>
  The components that keep their children, and those without. Dialogs bring a button of their own, the
  toggle group and the code slots need their contexts, and the toaster is not part of a page.
\<close>

definition proto_kit :: "'a kit" where
  "proto_kit =
    [(''Accordion'', Accordion_pui), (''AccordionItem'', AccordionItem_pui),
     (''AccordionTrigger'', AccordionTrigger_pui), (''AccordionContent'', AccordionContent_pui),
     (''Alert'', Alert_pui), (''AlertTitle'', AlertTitle_pui),
     (''AlertDescription'', AlertDescription_pui), (''AlertAction'', AlertAction_pui),
     (''Avatar'', Avatar_pui), (''AvatarImage'', AvatarImage_pui),
     (''AvatarFallback'', AvatarFallback_pui), (''AvatarBadge'', AvatarBadge_pui),
     (''AvatarGroup'', AvatarGroup_pui), (''AvatarGroupCount'', AvatarGroupCount_pui),
     (''Badge'', Badge_pui), (''Button'', Button_pui), (''Card'', Card_pui),
     (''CardHeader'', CardHeader_pui), (''CardTitle'', CardTitle_pui),
     (''CardDescription'', CardDescription_pui), (''CardAction'', CardAction_pui),
     (''CardContent'', CardContent_pui), (''CardFooter'', CardFooter_pui), (''Dialog'', Dialog_pui),
     (''DialogTrigger'', DialogTrigger_pui), (''DialogPortal'', DialogPortal_pui),
     (''DialogClose'', DialogClose_pui), (''DialogOverlay'', DialogOverlay_pui),
     (''DialogHeader'', DialogHeader_pui), (''DialogTitle'', DialogTitle_pui),
     (''DialogDescription'', DialogDescription_pui), (''Input'', Input_pui),
     (''Textarea'', Textarea_pui), (''InputGroup'', InputGroup_pui),
     (''InputGroupAddon'', InputGroupAddon_pui), (''InputGroupButton'', InputGroupButton_pui),
     (''InputGroupText'', InputGroupText_pui), (''InputGroupInput'', InputGroupInput_pui),
     (''InputGroupTextarea'', InputGroupTextarea_pui), (''Command'', Command_pui),
     (''CommandInput'', CommandInput_pui), (''CommandList'', CommandList_pui),
     (''CommandEmpty'', CommandEmpty_pui), (''CommandGroup'', CommandGroup_pui),
     (''CommandSeparator'', CommandSeparator_pui), (''CommandItem'', CommandItem_pui),
     (''CommandShortcut'', CommandShortcut_pui), (''DropdownMenu'', DropdownMenu_pui),
     (''DropdownMenuPortal'', DropdownMenuPortal_pui),
     (''DropdownMenuTrigger'', DropdownMenuTrigger_pui),
     (''DropdownMenuContent'', DropdownMenuContent_pui), (''DropdownMenuGroup'', DropdownMenuGroup_pui),
     (''DropdownMenuItem'', DropdownMenuItem_pui),
     (''DropdownMenuCheckboxItem'', DropdownMenuCheckboxItem_pui),
     (''DropdownMenuRadioGroup'', DropdownMenuRadioGroup_pui),
     (''DropdownMenuRadioItem'', DropdownMenuRadioItem_pui),
     (''DropdownMenuLabel'', DropdownMenuLabel_pui),
     (''DropdownMenuSeparator'', DropdownMenuSeparator_pui),
     (''DropdownMenuShortcut'', DropdownMenuShortcut_pui), (''DropdownMenuSub'', DropdownMenuSub_pui),
     (''DropdownMenuSubTrigger'', DropdownMenuSubTrigger_pui),
     (''DropdownMenuSubContent'', DropdownMenuSubContent_pui), (''InputOTP'', InputOTP_pui),
     (''InputOTPGroup'', InputOTPGroup_pui), (''Kbd'', Kbd_pui), (''KbdGroup'', KbdGroup_pui),
     (''Label'', Label_pui), (''Popover'', Popover_pui), (''PopoverTrigger'', PopoverTrigger_pui),
     (''PopoverContent'', PopoverContent_pui), (''PopoverAnchor'', PopoverAnchor_pui),
     (''PopoverHeader'', PopoverHeader_pui), (''PopoverTitle'', PopoverTitle_pui),
     (''PopoverDescription'', PopoverDescription_pui), (''RadioGroup'', RadioGroup_pui),
     (''ScrollArea'', ScrollArea_pui), (''Select'', Select_pui), (''SelectGroup'', SelectGroup_pui),
     (''SelectValue'', SelectValue_pui), (''SelectTrigger'', SelectTrigger_pui),
     (''SelectContent'', SelectContent_pui), (''SelectLabel'', SelectLabel_pui),
     (''SelectItem'', SelectItem_pui), (''SelectSeparator'', SelectSeparator_pui),
     (''Separator'', Separator_pui), (''Skeleton'', Skeleton_pui), (''Tabs'', Tabs_pui),
     (''TabsList'', TabsList_pui), (''TabsTrigger'', TabsTrigger_pui),
     (''TabsContent'', TabsContent_pui), (''Toggle'', Toggle_pui),
     (''TooltipProvider'', TooltipProvider_pui), (''Tooltip'', Tooltip_pui),
     (''TooltipTrigger'', TooltipTrigger_pui), (''TooltipContent'', TooltipContent_pui)]"

definition proto_leaves :: "'a kit" where
  "proto_leaves =
    [(''Checkbox'', Checkbox_pui), (''InputOTPSeparator'', InputOTPSeparator_pui),
     (''Progress'', Progress_pui), (''RadioGroupItem'', RadioGroupItem_pui),
     (''ScrollBar'', ScrollBar_pui), (''SelectScrollUpButton'', SelectScrollUpButton_pui),
     (''SelectScrollDownButton'', SelectScrollDownButton_pui), (''Switch'', Switch_pui)]"

lemmas proto_kit_defs =
  Accordion_pui_def AccordionItem_pui_def AccordionTrigger_pui_def AccordionContent_pui_def Alert_pui_def
  AlertTitle_pui_def AlertDescription_pui_def AlertAction_pui_def Avatar_pui_def AvatarImage_pui_def
  AvatarFallback_pui_def AvatarBadge_pui_def AvatarGroup_pui_def AvatarGroupCount_pui_def Badge_pui_def
  Button_pui_def Card_pui_def CardHeader_pui_def CardTitle_pui_def CardDescription_pui_def
  CardAction_pui_def CardContent_pui_def CardFooter_pui_def Dialog_pui_def DialogTrigger_pui_def
  DialogPortal_pui_def DialogClose_pui_def DialogOverlay_pui_def DialogHeader_pui_def DialogTitle_pui_def
  DialogDescription_pui_def Input_pui_def Textarea_pui_def InputGroup_pui_def InputGroupAddon_pui_def
  InputGroupButton_pui_def InputGroupText_pui_def InputGroupInput_pui_def InputGroupTextarea_pui_def
  Command_pui_def CommandInput_pui_def CommandList_pui_def CommandEmpty_pui_def CommandGroup_pui_def
  CommandSeparator_pui_def CommandItem_pui_def CommandShortcut_pui_def DropdownMenu_pui_def
  DropdownMenuPortal_pui_def DropdownMenuTrigger_pui_def DropdownMenuContent_pui_def
  DropdownMenuGroup_pui_def DropdownMenuItem_pui_def DropdownMenuCheckboxItem_pui_def
  DropdownMenuRadioGroup_pui_def DropdownMenuRadioItem_pui_def DropdownMenuLabel_pui_def
  DropdownMenuSeparator_pui_def DropdownMenuShortcut_pui_def DropdownMenuSub_pui_def
  DropdownMenuSubTrigger_pui_def DropdownMenuSubContent_pui_def InputOTP_pui_def InputOTPGroup_pui_def
  Kbd_pui_def KbdGroup_pui_def Label_pui_def Popover_pui_def PopoverTrigger_pui_def PopoverContent_pui_def
  PopoverAnchor_pui_def PopoverHeader_pui_def PopoverTitle_pui_def PopoverDescription_pui_def
  RadioGroup_pui_def ScrollArea_pui_def Select_pui_def SelectGroup_pui_def SelectValue_pui_def
  SelectTrigger_pui_def SelectContent_pui_def SelectLabel_pui_def SelectItem_pui_def
  SelectSeparator_pui_def Separator_pui_def Skeleton_pui_def Tabs_pui_def TabsList_pui_def
  TabsTrigger_pui_def TabsContent_pui_def Toggle_pui_def TooltipProvider_pui_def Tooltip_pui_def
  TooltipTrigger_pui_def TooltipContent_pui_def Checkbox_pui_def InputOTPSeparator_pui_def Progress_pui_def
  RadioGroupItem_pui_def ScrollBar_pui_def SelectScrollUpButton_pui_def SelectScrollDownButton_pui_def
  Switch_pui_def

lemma proto_kit_components: "list_all (\<lambda>(n, f). kit_component f) (proto_kit :: 'a kit)"
  unfolding proto_kit_def list.pred_inject prod.case
  by (intro conjI TrueI; unfold_locales; simp add: proto_kit_defs)

lemma proto_leaf_components: "list_all (\<lambda>(n, f). leaf_component f) (proto_leaves :: 'a kit)"
  unfolding proto_leaves_def list.pred_inject prod.case
  by (intro conjI TrueI; unfold_locales; simp add: proto_kit_defs)

lemma proto_kit_names:
  "list_all (\<lambda>n. n \<noteq> ''Link'' \<and> n \<noteq> ''PageHeader'' \<and> n \<notin> set (map fst proto_leaves)) (map fst proto_kit)"
  by (simp add: proto_kit_def proto_leaves_def)

interpretation proto_ui: component_kit "proto_kit :: 'a kit" "proto_leaves :: 'a kit"
proof
  show "list_all (\<lambda>(n, f). kit_component f) (proto_kit :: 'a kit)" by (rule proto_kit_components)
  show "list_all (\<lambda>(n, f). leaf_component f) (proto_leaves :: 'a kit)" by (rule proto_leaf_components)
  show "list_all (\<lambda>(n, f). n \<noteq> ''Link'' \<and> n \<noteq> ''PageHeader'') (proto_kit @ proto_leaves :: 'a kit)"
    using proto_kit_names[where 'a = 'a and 'b = 'a] by (force simp: list_all_iff proto_leaves_def)
  show "list_all (\<lambda>(n, f). n \<notin> set (map fst (proto_leaves :: 'a kit))) (proto_kit :: 'a kit)"
    using proto_kit_names[where 'a = 'a and 'b = 'a] unfolding list_all_iff by (metis (mono_tags, lifting) case_prodI2 fst_conv image_eqI list.set_map)
qed

text \<open>The kit of the prototype keeps what its pages are made of, too.\<close>

lemma proto_kit_is_transparent:
  fixes n :: "'a node"
  assumes "leaves_bare (map fst (proto_leaves :: 'a kit)) n"
  shows "clicks (expand proto_kit proto_leaves n) = clicks n" "entries v (expand proto_kit proto_leaves n) = entries v n"
    "texts (expand proto_kit proto_leaves n) = texts n"
  using proto_ui.expand_keeps[OF assms] by (simp_all add: clicks_listeners entries_listeners)

section \<open>What gets lost\<close>

text \<open>
  The progress bar takes its value out of the attributes it hands on: the element that describes the
  progress to assistive technology never has one.
\<close>

lemma rest_taken: "a \<in> set (rest ns props) \<Longrightarrow> is_handler a \<or> attr_key a \<notin> set ns"
  by (auto simp: rest_def)

lemma progress_has_no_value:
  "\<exists>as ks. Progress_pui props children = El ''ProgressPrimitive.Root'' as ks \<and>
     (\<forall>a \<in> set as. is_handler a \<or> attr_key a \<noteq> ''value'')"
  by (auto simp: Progress_pui_def spread_def dest: rest_taken)

text \<open>The toggle group does the same with its orientation, so the arrow keys follow the default one.\<close>

lemma toggle_group_has_no_orientation:
  "\<exists>as ks. snd (ToggleGroup_pui props children) = El ''ToggleGroupPrimitive.Root'' as ks \<and>
     (\<forall>a \<in> set as. is_handler a \<or> attr_key a \<noteq> ''orientation'')"
proof -
  have given: "attr_key a = new" if "a \<in> set (given new old ps)" for a :: "'a attr" and new old ps
    using that by (induction new old ps rule: given.induct) (auto split: if_splits)
  have given_or: "attr_key a = attr_key d" if "a \<in> set (given_or d old ps)" for a d :: "'a attr" and old ps
    using that given[of a "attr_key d"] by (auto simp: given_or_def split: if_splits)
  show ?thesis
    by (auto simp: ToggleGroup_pui_def spread_def dest!: given given_or dest: rest_taken)
qed

text \<open>
  The command dialog puts its title and description beside its content, not into it: they are in the
  page whether the dialog is open or not, and the open dialog has no title.
\<close>

lemma command_dialog_title_outside:
  "\<exists>as h c. CommandDialog_pui props children = El ''DialogPrimitive.Root'' as [h, c] \<and>
     texts h = [nullish (str_of ''title'' props) ''Command Palette'',
                nullish (str_of ''description'' props) ''Search for a command to run...''] \<and>
     (\<not> flag_of ''showCloseButton'' False props \<longrightarrow> texts c = concat (map texts children))"
  by (simp add: CommandDialog_pui_def Dialog_pui_def DialogHeader_pui_def DialogTitle_pui_def DialogDescription_pui_def
      DialogContent_pui_def DialogPortal_pui_def DialogOverlay_pui_def shown_if_def)

end
