(* ===== verification/Book.thy ===== *)
theory Book
  imports Prelude Doubles "HOL-Library.Multiset" "HOL-Library.Monad_Syntax"
begin

text \<open>
  The company book of the prototype (\<open>prototype/lib/mock-book.ts\<close>): a tree of chapters, topics
  and sub-topics with cited summaries, and the queries every page asks of it.

  The module reads its own constant arrays. Here the arrays are the fields of a record \<open>corpus\<close>
  that every query takes, so that the theorems hold for every book of the right shape; the
  arrays of the source are the constant \<open>mock\<close> of the theory \<open>Mock_Book\<close>.

  \<open>pathOf\<close> walks from an entry to its parent until there is none, \<open>descendantsOf\<close> works off a
  stack. Both loops run forever on a cyclic book, so they are partial functions in the option
  monad: \<open>None\<close> is "does not return". The lemmas show that on a tree both return, that \<open>pathOf\<close>
  is the chain of ancestors, and that \<open>descendantsOf\<close> lists exactly the entries whose path leads
  through the given one, each once.
\<close>

section \<open>Data\<close>

datatype EntryLevel = Chapter | Topic | Subtopic
datatype EntryStatus = Current | Stale | Building

record BookEntry =
  be_id :: string
  be_level :: EntryLevel
  be_parentId :: "string option"
  be_title :: string
  be_status :: EntryStatus
  be_summary :: "string option"
  be_lastRebuilt :: "string option"
  be_citationIds :: "string list option"
  be_entityIds :: "string list option"

datatype SourceHealth = Synced | Syncing | SyncFailed | AuthLapse

record Source =
  so_id :: string
  so_name :: string
  so_kind :: string
  so_color :: string
  so_letter :: string
  so_health :: SourceHealth
  so_artifacts :: nat
  so_containers :: nat
  so_lastSync :: string

datatype EntityType = Policy | Team | RoleEntity | EventEntity | SystemEntity
datatype EntityStatus = Canonical | Ambiguous

record Entity =
  en_id :: string
  en_name :: string
  en_type :: EntityType
  en_aliases :: nat
  en_mentions :: nat
  en_sources :: nat
  en_status :: EntityStatus

record BookArtifact =
  ba_id :: string
  ba_source :: string
  ba_sourceLabel :: string
  ba_container :: string
  ba_author :: string
  ba_timestamp :: string
  ba_text :: string

record Citation =
  ci_id :: string
  ci_artifactId :: string
  ci_quote :: string

text \<open>The arrays of the module.\<close>

record corpus =
  ARTIFACTS :: "BookArtifact list"
  CITATIONS :: "Citation list"
  BOOK :: "BookEntry list"
  SOURCES :: "Source list"
  ENTITIES :: "Entity list"

section \<open>Lookups\<close>

definition getEntry :: "corpus \<Rightarrow> string \<Rightarrow> BookEntry option" where
  "getEntry c i = find (\<lambda>e. be_id e = i) (BOOK c)"

definition childrenOf :: "corpus \<Rightarrow> string option \<Rightarrow> BookEntry list" where
  "childrenOf c i = filter (\<lambda>e. be_parentId e = i) (BOOK c)"

definition chapters :: "corpus \<Rightarrow> BookEntry list" where
  "chapters c = childrenOf c None"

text \<open>\<open>cur.parentId ? getEntry(cur.parentId) : undefined\<close>.\<close>

definition parent_of :: "corpus \<Rightarrow> BookEntry \<Rightarrow> BookEntry option" where
  "parent_of c e =
     (case be_parentId e of None \<Rightarrow> None | Some p \<Rightarrow> if p = [] then None else getEntry c p)"

partial_function (option) path_loop ::
  "corpus \<Rightarrow> BookEntry option \<Rightarrow> BookEntry list \<Rightarrow> BookEntry list option" where
  "path_loop c cur chain =
     (case cur of None \<Rightarrow> Some chain | Some e \<Rightarrow> path_loop c (parent_of c e) (e # chain))"

definition pathOf :: "corpus \<Rightarrow> string \<Rightarrow> BookEntry list option" where
  "pathOf c i = path_loop c (getEntry c i) []"

definition getCitation :: "corpus \<Rightarrow> string \<Rightarrow> Citation option" where
  "getCitation c i = find (\<lambda>x. ci_id x = i) (CITATIONS c)"

definition getArtifact :: "corpus \<Rightarrow> string \<Rightarrow> BookArtifact option" where
  "getArtifact c i = find (\<lambda>a. ba_id a = i) (ARTIFACTS c)"

definition getEntity :: "corpus \<Rightarrow> string \<Rightarrow> Entity option" where
  "getEntity c i = find (\<lambda>e. en_id e = i) (ENTITIES c)"

definition sourceByKind :: "corpus \<Rightarrow> string \<Rightarrow> Source option" where
  "sourceByKind c k = find (\<lambda>s. so_kind s = k) (SOURCES c)"

definition recentEntries :: "corpus \<Rightarrow> BookEntry list" where
  "recentEntries c = take 6 (filter (\<lambda>e. be_level e \<noteq> Chapter \<and> truthy_str (be_summary e)) (BOOK c))"

section \<open>Branches\<close>

partial_function (option) desc_loop ::
  "corpus \<Rightarrow> BookEntry list \<Rightarrow> BookEntry list \<Rightarrow> BookEntry list option" where
  "desc_loop c stack out =
     (if stack = [] then Some out
      else (let e = last stack
            in desc_loop c (butlast stack @ childrenOf c (Some (be_id e))) (out @ [e])))"

definition descendantsOf :: "corpus \<Rightarrow> string \<Rightarrow> BookEntry list option" where
  "descendantsOf c i = desc_loop c (childrenOf c (Some i)) []"

text \<open>\<open>e.level === "subtopic" ? [e] : [e, ...descendantsOf(id)]\<close>.\<close>

definition scopeOf :: "corpus \<Rightarrow> BookEntry \<Rightarrow> BookEntry list option" where
  "scopeOf c e =
     (if be_level e = Subtopic then Some [e] else map_option ((#) e) (descendantsOf c (be_id e)))"

definition scope_citations :: "BookEntry list \<Rightarrow> string list" where
  "scope_citations scope = js_set [] (concat (map (\<lambda>n. nullish (be_citationIds n) []) scope))"

definition scope_artifacts :: "corpus \<Rightarrow> BookEntry list \<Rightarrow> string list" where
  "scope_artifacts c scope =
     js_set [] (map ci_artifactId
       (List.map_filter (getCitation c) (concat (map (\<lambda>n. nullish (be_citationIds n) []) scope))))"

definition scope_entities :: "BookEntry list \<Rightarrow> string list" where
  "scope_entities scope = js_set [] (concat (map (\<lambda>n. nullish (be_entityIds n) []) scope))"

definition artifactsOfEntry :: "corpus \<Rightarrow> string \<Rightarrow> BookArtifact list option" where
  "artifactsOfEntry c i =
     (case getEntry c i of
        None \<Rightarrow> Some []
      | Some e \<Rightarrow> map_option (\<lambda>scope. List.map_filter (getArtifact c) (scope_artifacts c scope)) (scopeOf c e))"

definition entitiesOfEntry :: "corpus \<Rightarrow> string \<Rightarrow> Entity list option" where
  "entitiesOfEntry c i =
     (case getEntry c i of
        None \<Rightarrow> Some []
      | Some e \<Rightarrow> map_option (\<lambda>scope. List.map_filter (getEntity c) (scope_entities scope)) (scopeOf c e))"

section \<open>Rolled-up counts\<close>

record EntryStats =
  st_topics :: nat
  st_subtopics :: nat
  st_sources :: nat
  st_citations :: nat
  st_entities :: nat
  st_current :: nat
  st_stale :: nat
  st_building :: nat
  st_coverage :: rat

definition count_if :: "('a \<Rightarrow> bool) \<Rightarrow> 'a list \<Rightarrow> nat" where
  "count_if P xs = length (filter P xs)"

definition stats_of_scope :: "corpus \<Rightarrow> BookEntry list \<Rightarrow> EntryStats" where
  "stats_of_scope c scope =
     (let counted = filter (\<lambda>n. be_level n \<noteq> Chapter) scope;
          current = count_if (\<lambda>n. be_status n = Current) counted
      in \<lparr>st_topics = count_if (\<lambda>n. be_level n = Topic) scope,
          st_subtopics = count_if (\<lambda>n. be_level n = Subtopic) scope,
          st_sources = length (scope_artifacts c scope),
          st_citations = length (scope_citations scope),
          st_entities = length (scope_entities scope),
          st_current = current,
          st_stale = count_if (\<lambda>n. be_status n = Stale) counted,
          st_building = count_if (\<lambda>n. be_status n = Building) counted,
          st_coverage = (if counted = [] then 0 else js_div (of_nat current) (of_nat (length counted)))\<rparr>)"

definition entryStats :: "corpus \<Rightarrow> string \<Rightarrow> EntryStats option" where
  "entryStats c i =
     (case getEntry c i of
        None \<Rightarrow> Some \<lparr>st_topics = 0, st_subtopics = 0, st_sources = 0, st_citations = 0, st_entities = 0,
                      st_current = 0, st_stale = 0, st_building = 0, st_coverage = 0\<rparr>
      | Some e \<Rightarrow> map_option (stats_of_scope c) (scopeOf c e))"

record Lineage =
  li_artifacts :: nat
  li_sources :: nat
  li_lastRebuilt :: "string option"
  li_queued :: bool

definition lineageOfEntry :: "corpus \<Rightarrow> string \<Rightarrow> Lineage option" where
  "lineageOfEntry c i =
     (let e = getEntry c i
      in map_option (\<lambda>arts.
           \<lparr>li_artifacts = length arts,
            li_sources = length (js_set [] (map ba_source arts)),
            li_lastRebuilt = Option.bind e be_lastRebuilt,
            li_queued = (map_option be_status e = Some Stale \<or> map_option be_status e = Some Building)\<rparr>)
         (artifactsOfEntry c i))"

record SystemStatus =
  sy_sources :: nat
  sy_sourcesHealthy :: nat
  sy_artifacts :: nat
  sy_entries :: nat
  sy_entities :: nat
  sy_current :: nat
  sy_stale :: nat
  sy_building :: nat
  sy_lastSync :: string

definition healthy :: "Source \<Rightarrow> bool" where
  "healthy s \<longleftrightarrow> so_health s = Synced \<or> so_health s = Syncing"

definition systemStatus :: "corpus \<Rightarrow> SystemStatus" where
  "systemStatus c =
     (let counted = filter (\<lambda>e. be_level e \<noteq> Chapter) (BOOK c)
      in \<lparr>sy_sources = length (SOURCES c),
          sy_sourcesHealthy = count_if healthy (SOURCES c),
          sy_artifacts = foldl (\<lambda>n s. n + so_artifacts s) 0 (SOURCES c),
          sy_entries = length (BOOK c),
          sy_entities = length (ENTITIES c),
          sy_current = count_if (\<lambda>e. be_status e = Current) counted,
          sy_stale = count_if (\<lambda>e. be_status e = Stale) counted,
          sy_building = count_if (\<lambda>e. be_status e = Building) (BOOK c),
          sy_lastSync = ''2 min ago''\<rparr>)"

section \<open>Trees\<close>

text \<open>The relation from an entry to the entry \<open>pathOf\<close> visits next.\<close>

definition up :: "corpus \<Rightarrow> (BookEntry \<times> BookEntry) set" where
  "up c = {(x, e). x \<in> set (BOOK c) \<and> parent_of c x = Some e}"

text \<open>A book whose ids are distinct and not empty and whose parent links have no cycle.\<close>

definition tree_book :: "corpus \<Rightarrow> bool" where
  "tree_book c \<longleftrightarrow>
     distinct (map be_id (BOOK c)) \<and> [] \<notin> be_id ` set (BOOK c) \<and> acyclic (up c)"

text \<open>
  The shape the header of the module describes: chapters at the top, topics in chapters,
  sub-topics in topics. It can be evaluated, and it implies that the book is a tree.
\<close>

definition three_levels :: "corpus \<Rightarrow> bool" where
  "three_levels c \<longleftrightarrow>
     distinct (map be_id (BOOK c)) \<and> list_all (\<lambda>e. be_id e \<noteq> []) (BOOK c) \<and>
     list_all (\<lambda>e. case be_level e of
         Chapter \<Rightarrow> be_parentId e = None
       | Topic \<Rightarrow> list_ex (\<lambda>p. be_parentId e = Some (be_id p) \<and> be_level p = Chapter) (BOOK c)
       | Subtopic \<Rightarrow> list_ex (\<lambda>p. be_parentId e = Some (be_id p) \<and> be_level p = Topic) (BOOK c)) (BOOK c)"

lemma getEntry_mem: "getEntry c i = Some e \<Longrightarrow> e \<in> set (BOOK c) \<and> be_id e = i"
  unfolding getEntry_def by (rule find_Some_mem)

lemma getEntry_self:
  assumes "distinct (map be_id (BOOK c))" "e \<in> set (BOOK c)"
  shows "getEntry c (be_id e) = Some e"
proof -
  have "getEntry c (be_id e) \<noteq> None" using assms(2) by (auto simp: getEntry_def find_None_iff)
  then obtain e' where e': "getEntry c (be_id e) = Some e'" by auto
  with getEntry_mem[OF e'] assms have "e' = e" by (auto simp: distinct_map inj_on_def)
  with e' show ?thesis by simp
qed

lemma parent_of_mem: "parent_of c x = Some e \<Longrightarrow> e \<in> set (BOOK c)"
  by (auto simp: parent_of_def split: option.splits if_splits dest: getEntry_mem)

lemma up_mem: "(x, e) \<in> up c \<Longrightarrow> x \<in> set (BOOK c) \<and> e \<in> set (BOOK c)"
  by (auto simp: up_def parent_of_mem)

lemma up_functional: "(x, e) \<in> up c \<Longrightarrow> (x, e') \<in> up c \<Longrightarrow> e = e'"
  by (simp add: up_def)

lemma finite_up: "finite (up c)"
  by (rule finite_subset[of _ "set (BOOK c) \<times> set (BOOK c)"]) (auto dest: up_mem)

lemma up_trancl_mem: "(x, e) \<in> (up c)\<^sup>+ \<Longrightarrow> x \<in> set (BOOK c) \<and> e \<in> set (BOOK c)"
  by (induction rule: trancl_induct) (auto dest: up_mem)

lemma three_levels_tree:
  assumes "three_levels c"
  shows "tree_book c"
proof -
  define rank where "rank e = (case be_level e of Chapter \<Rightarrow> 0 | Topic \<Rightarrow> 1 | Subtopic \<Rightarrow> (2 :: nat))" for e :: BookEntry
  have dist: "distinct (map be_id (BOOK c))" using assms by (simp add: three_levels_def)
  have "rank e < rank x" if "(x, e) \<in> up c" for x e
  proof -
    from that have x: "x \<in> set (BOOK c)" and "parent_of c x = Some e" by (auto simp: up_def)
    then obtain p where p: "be_parentId x = Some p" and e: "getEntry c p = Some e"
      by (auto simp: parent_of_def split: option.splits if_splits)
    have "case be_level x of Chapter \<Rightarrow> be_parentId x = None
         | Topic \<Rightarrow> list_ex (\<lambda>q. be_parentId x = Some (be_id q) \<and> be_level q = Chapter) (BOOK c)
         | Subtopic \<Rightarrow> list_ex (\<lambda>q. be_parentId x = Some (be_id q) \<and> be_level q = Topic) (BOOK c)"
      using assms x by (simp add: three_levels_def list_all_iff)
    moreover have "q = e" if "q \<in> set (BOOK c)" "be_parentId x = Some (be_id q)" for q
      using getEntry_self[OF dist that(1)] that(2) p e by simp
    ultimately show ?thesis
      using p by (auto simp: rank_def list_ex_iff split: EntryLevel.splits)
  qed
  then have "up c \<subseteq> (measure rank)\<inverse>" by auto
  then have "acyclic (up c)"
    by (meson acyclic_converse acyclic_subset wf_acyclic wf_measure)
  moreover have "[] \<notin> be_id ` set (BOOK c)"
    using assms by (auto simp: three_levels_def list_all_iff)
  ultimately show ?thesis using dist by (simp add: tree_book_def)
qed

section \<open>Paths\<close>

definition linked :: "corpus \<Rightarrow> BookEntry list \<Rightarrow> bool" where
  "linked c ch \<longleftrightarrow> ch \<noteq> [] \<and> parent_of c (hd ch) = None \<and> successively (\<lambda>p x. parent_of c x = Some p) ch"

lemma trancl_up_parent:
  assumes "e \<in> set (BOOK c)" "parent_of c e = Some a"
  shows "{b. (e, b) \<in> (up c)\<^sup>+} = insert a {b. (a, b) \<in> (up c)\<^sup>+}"
proof -
  have ea: "(e, a) \<in> up c" using assms by (simp add: up_def)
  have "b = a \<or> (a, b) \<in> (up c)\<^sup>+" if "(e, b) \<in> (up c)\<^sup>+" for b
    using that by (cases rule: converse_tranclE) (auto dest: up_functional[OF ea])
  with ea show ?thesis by (auto intro: trancl_into_trancl2)
qed

lemma path_loop_ancestors:
  assumes "acyclic (up c)" "e \<in> set (BOOK c)"
  shows "\<exists>ch. path_loop c (Some e) acc = Some (ch @ e # acc) \<and> linked c (ch @ [e]) \<and>
              set ch = {a. (e, a) \<in> (up c)\<^sup>+}"
proof -
  have "wf ((up c)\<inverse>)" by (rule finite_acyclic_wf_converse[OF finite_up assms(1)])
  then show ?thesis using assms(2)
  proof (induction e arbitrary: acc rule: wf_induct_rule)
    case (less e)
    show ?case
    proof (cases "parent_of c e")
      case None
      then have "{a. (e, a) \<in> (up c)\<^sup>+} = {}"
        by (auto simp: up_def elim: converse_tranclE)
      with None show ?thesis
        by (intro exI[of _ "[]"]) (simp add: path_loop.simps[of c "Some e"] path_loop.simps[of c None] linked_def)
    next
      case (Some a)
      then have "(a, e) \<in> (up c)\<inverse>" "a \<in> set (BOOK c)"
        using less.prems by (auto simp: up_def parent_of_mem)
      from less.IH[OF this, of "e # acc"] obtain ch where
        ch: "path_loop c (Some a) (e # acc) = Some (ch @ a # e # acc)" "linked c (ch @ [a])"
          "set ch = {b. (a, b) \<in> (up c)\<^sup>+}" by blast
      have "linked c ((ch @ [a]) @ [e])"
        using ch(2) Some by (auto simp: linked_def successively_append_iff hd_append split: if_splits)
      with ch Some show ?thesis
        by (intro exI[of _ "ch @ [a]"])
          (simp add: path_loop.simps[of c "Some e"] trancl_up_parent[OF less.prems Some])
    qed
  qed
qed

lemma pathOf_entry:
  assumes "acyclic (up c)" "getEntry c i = Some e"
  shows "\<exists>ch. pathOf c i = Some (ch @ [e]) \<and> linked c (ch @ [e]) \<and> set ch = {a. (e, a) \<in> (up c)\<^sup>+}"
  using path_loop_ancestors[OF assms(1), of e "[]"] getEntry_mem[OF assms(2)] assms(2)
  by (simp add: pathOf_def)

lemma linked_ancestors:
  assumes "successively (\<lambda>p x. parent_of c x = Some p) ch" "set ch \<subseteq> set (BOOK c)"
  shows "sorted_wrt (\<lambda>a x. (x, a) \<in> (up c)\<^sup>+) ch"
  using assms
proof (induction ch)
  case (Cons a ch)
  show ?case
  proof (cases ch)
    case (Cons b rest)
    then have "(b, a) \<in> up c" using Cons.prems by (auto simp: up_def)
    with Cons Cons.IH Cons.prems show ?thesis
      by (auto simp: successively_Cons dest: trancl_into_trancl)
  qed simp
qed simp

lemma linked_distinct:
  assumes "acyclic (up c)" "linked c ch" "set ch \<subseteq> set (BOOK c)"
  shows "distinct ch"
proof -
  have "sorted_wrt (\<lambda>a x. (x, a) \<in> (up c)\<^sup>+) ch"
    using linked_ancestors assms(2,3) by (auto simp: linked_def)
  then show ?thesis
    using assms(1) by (induction ch) (auto simp: acyclic_def)
qed

lemma pathOf_unknown: "getEntry c i = None \<Longrightarrow> pathOf c i = Some []"
  by (simp add: pathOf_def path_loop.simps)

lemma in_pathOf:
  assumes "tree_book c" "x \<in> set (BOOK c)"
  shows "e \<in> set (the (pathOf c (be_id x))) \<longleftrightarrow> x = e \<or> (x, e) \<in> (up c)\<^sup>+"
proof -
  have "getEntry c (be_id x) = Some x" "acyclic (up c)"
    using assms getEntry_self by (auto simp: tree_book_def)
  from pathOf_entry[OF this(2,1)] obtain ch where
    "pathOf c (be_id x) = Some (ch @ [x])" "set ch = {a. (x, a) \<in> (up c)\<^sup>+}" by blast
  then show ?thesis by auto
qed

section \<open>Descendants\<close>

text \<open>The entries below an entry, itself included.\<close>

definition branch :: "corpus \<Rightarrow> BookEntry \<Rightarrow> BookEntry multiset" where
  "branch c e = mset_set {x. (x, e) \<in> (up c)\<^sup>*}"

lemma rtrancl_up_finite:
  assumes "e \<in> set (BOOK c)"
  shows "finite {x. (x, e) \<in> (up c)\<^sup>*}"
proof (rule finite_subset)
  show "{x. (x, e) \<in> (up c)\<^sup>*} \<subseteq> set (BOOK c)"
    using assms up_trancl_mem by (auto simp: rtrancl_eq_or_trancl)
qed simp

lemma set_childrenOf:
  assumes "tree_book c" "e \<in> set (BOOK c)"
  shows "set (childrenOf c (Some (be_id e))) = {x. (x, e) \<in> up c}"
proof -
  have dist: "distinct (map be_id (BOOK c))" and ne: "be_id e \<noteq> []"
    using assms by (simp add: tree_book_def) (metis assms image_eqI tree_book_def)
  have "parent_of c x = Some e \<longleftrightarrow> be_parentId x = Some (be_id e)" for x
    using getEntry_self[OF dist assms(2)] ne
    by (auto simp: parent_of_def split: option.splits dest: getEntry_mem)
  then show ?thesis by (auto simp: childrenOf_def up_def)
qed

lemma distinct_childrenOf: "tree_book c \<Longrightarrow> distinct (childrenOf c i)"
  by (auto simp: childrenOf_def tree_book_def distinct_map)

lemma ancestors_comparable:
  assumes "(y, a) \<in> (up c)\<^sup>*" "(y, b) \<in> (up c)\<^sup>*"
  shows "(a, b) \<in> (up c)\<^sup>* \<or> (b, a) \<in> (up c)\<^sup>*"
proof -
  have "single_valued (up c)" by (auto simp: single_valued_def dest: up_functional)
  then show ?thesis using single_valued_confluent[of "up c"] assms by blast
qed

lemma branches_disjoint:
  assumes "acyclic (up c)" "(a, e) \<in> up c" "(b, e) \<in> up c" "a \<noteq> b"
  shows "{x. (x, a) \<in> (up c)\<^sup>*} \<inter> {x. (x, b) \<in> (up c)\<^sup>*} = {}"
proof (rule ccontr)
  assume "\<not> ?thesis"
  then obtain y where "(y, a) \<in> (up c)\<^sup>*" "(y, b) \<in> (up c)\<^sup>*" by blast
  then have "(a, b) \<in> (up c)\<^sup>+ \<or> (b, a) \<in> (up c)\<^sup>+"
    using ancestors_comparable assms(4) by (metis rtranclD)
  moreover have False if ab: "(p, q) \<in> (up c)\<^sup>+" and p: "(p, e) \<in> up c" and q: "(q, e) \<in> up c" for p q
  proof -
    obtain r where "(p, r) \<in> up c" "(r, q) \<in> (up c)\<^sup>*"
      using ab by (metis tranclD)
    then have "(e, q) \<in> (up c)\<^sup>*" using up_functional[OF p] by blast
    with q have "(q, q) \<in> (up c)\<^sup>+" by (rule rtrancl_into_trancl2)
    with assms(1) show False by (simp add: acyclic_def)
  qed
  ultimately show False using assms(2,3) by blast
qed

lemma mset_set_disjoint_UN:
  assumes "finite K" and "\<And>x. x \<in> K \<Longrightarrow> finite (D x)"
    and "\<And>x y. x \<in> K \<Longrightarrow> y \<in> K \<Longrightarrow> x \<noteq> y \<Longrightarrow> D x \<inter> D y = {}"
  shows "mset_set (\<Union>x\<in>K. D x) = (\<Sum>x\<in>K. mset_set (D x))"
  using assms
proof (induction K rule: finite_induct)
  case (insert k K)
  have "D k \<inter> (\<Union>x\<in>K. D x) = {}" using insert.prems(2)[of k] insert.hyps(2) by blast
  then have "mset_set (D k \<union> (\<Union>x\<in>K. D x)) = mset_set (D k) + mset_set (\<Union>x\<in>K. D x)"
    using insert.hyps(1) insert.prems(1) by (intro mset_set_Union) auto
  then show ?case using insert by simp
qed simp

lemma branch_children:
  assumes "tree_book c" "e \<in> set (BOOK c)"
  shows "branch c e = add_mset e (\<Sum>x\<in>#mset (childrenOf c (Some (be_id e))). branch c x)"
proof -
  let ?K = "{x. (x, e) \<in> up c}" and ?D = "\<lambda>x. {y. (y, x) \<in> (up c)\<^sup>*}"
  have acyc: "acyclic (up c)" using assms(1) by (simp add: tree_book_def)
  have K: "finite ?K" by (rule finite_subset[of _ "set (BOOK c)"]) (auto dest: up_mem)
  have fin: "finite (?D x)" if "x \<in> ?K" for x using that rtrancl_up_finite up_mem by blast
  have split: "?D e = insert e (\<Union>x\<in>?K. ?D x)"
    by (auto elim: rtranclE intro: rtrancl_into_rtrancl)
  have notin: "e \<notin> (\<Union>x\<in>?K. ?D x)"
    using acyc by (auto simp: acyclic_def intro: rtrancl_into_trancl1)
  have sum: "mset_set (\<Union>x\<in>?K. ?D x) = (\<Sum>x\<in>?K. mset_set (?D x))"
    by (rule mset_set_disjoint_UN[OF K fin branches_disjoint[OF acyc]]) auto
  have "mset (childrenOf c (Some (be_id e))) = mset_set ?K"
    using distinct_childrenOf[OF assms(1)] set_childrenOf[OF assms] by (metis mset_set_set)
  then have "(\<Sum>x\<in>#mset (childrenOf c (Some (be_id e))). branch c x) = mset_set (\<Union>x\<in>?K. ?D x)"
    by (simp add: branch_def sum sum_unfold_sum_mset)
  moreover have "branch c e = add_mset e (mset_set (\<Union>x\<in>?K. ?D x))"
    unfolding branch_def split using K fin notin by (subst mset_set.insert) auto
  ultimately show ?thesis by simp
qed

text \<open>
  Every round of the loop moves one entry from the stack to the result, so the entries still to
  come are those of the branches on the stack, and their number bounds the rounds.
\<close>

lemma desc_loop_branches:
  assumes "tree_book c"
  shows "set stack \<subseteq> set (BOOK c) \<Longrightarrow> size (\<Sum>x\<in>#mset stack. branch c x) = n \<Longrightarrow>
    \<exists>ds. desc_loop c stack out = Some (out @ ds) \<and> mset ds = (\<Sum>x\<in>#mset stack. branch c x)"
proof (induction n arbitrary: stack out rule: less_induct)
  case (less n)
  show ?case
  proof (cases "stack = []")
    case True
    then show ?thesis by (simp add: desc_loop.simps)
  next
    case False
    let ?e = "last stack"
    let ?kids = "childrenOf c (Some (be_id ?e))"
    have e: "?e \<in> set (BOOK c)" using False less.prems(1) by auto
    have stack: "mset stack = add_mset ?e (mset (butlast stack))"
      using False by (metis append_butlast_last_id mset_append mset.simps union_commute add_mset_add_single union_mset_add_mset_right empty_neutral(1))
    have sum: "(\<Sum>x\<in>#mset stack. branch c x) =
        add_mset ?e (\<Sum>x\<in>#mset (butlast stack @ ?kids). branch c x)"
      by (simp add: stack branch_children[OF assms e] ac_simps)
    have sub: "set (butlast stack @ ?kids) \<subseteq> set (BOOK c)"
      using less.prems(1) by (auto simp: childrenOf_def dest: in_set_butlastD)
    have lt: "size (\<Sum>x\<in>#mset (butlast stack @ ?kids). branch c x) < n"
      using less.prems(2) by (simp add: sum)
    from less.IH[OF lt sub refl, of "out @ [?e]"] obtain ds where
      "desc_loop c (butlast stack @ ?kids) (out @ [?e]) = Some (out @ ?e # ds)"
      "mset ds = (\<Sum>x\<in>#mset (butlast stack @ ?kids). branch c x)" by auto
    with False show ?thesis
      by (intro exI[of _ "?e # ds"]) (simp add: desc_loop.simps[of c stack] Let_def sum)
  qed
qed

lemma descendantsOf_entry:
  assumes "tree_book c" "getEntry c i = Some e"
  shows "\<exists>ds. descendantsOf c i = Some ds \<and> distinct ds \<and> set ds = {x. (x, e) \<in> (up c)\<^sup>+}"
proof -
  have e: "e \<in> set (BOOK c)" "be_id e = i" using getEntry_mem[OF assms(2)] by auto
  have "set (childrenOf c (Some i)) \<subseteq> set (BOOK c)" by (auto simp: childrenOf_def)
  from desc_loop_branches[OF assms(1) this refl, of "[]"] obtain ds where
    ds: "descendantsOf c i = Some ds"
      "mset ds = (\<Sum>x\<in>#mset (childrenOf c (Some i)). branch c x)" by (auto simp: descendantsOf_def)
  let ?B = "{x. (x, e) \<in> (up c)\<^sup>*}"
  have "add_mset e (mset ds) = mset_set ?B"
    using branch_children[OF assms(1) e(1)] ds(2) e(2) by (simp add: branch_def)
  moreover have "mset_set ?B = add_mset e (mset_set (?B - {e}))"
    using rtrancl_up_finite[OF e(1)] by (intro mset_set.remove) auto
  ultimately have m: "mset ds = mset_set (?B - {e})" by simp
  have "?B - {e} = {x. (x, e) \<in> (up c)\<^sup>+}"
    using assms(1) by (auto simp: rtrancl_eq_or_trancl tree_book_def acyclic_def)
  moreover have set: "set ds = ?B - {e}"
    using arg_cong[OF m, of set_mset] rtrancl_up_finite[OF e(1)] by simp
  moreover have "distinct ds"
    unfolding distinct_count_atmost_1 using m set rtrancl_up_finite[OF e(1)]
    by (simp add: count_mset_set')
  ultimately show ?thesis using ds(1) by simp
qed

text \<open>Where the parent links run into a cycle, the walk never returns.\<close>

lemma path_loop_cycle:
  assumes "path_loop c cur acc = Some r"
  shows "\<forall>e a. cur = Some e \<longrightarrow> (e, a) \<in> (up c)\<^sup>* \<longrightarrow> (a, a) \<notin> (up c)\<^sup>+"
proof (rule path_loop.raw_induct[OF _ assms])
  fix loop :: "corpus \<Rightarrow> BookEntry option \<Rightarrow> BookEntry list \<Rightarrow> BookEntry list option" and c cur acc r
  assume IH: "\<And>c cur acc r. loop c cur acc = Some r \<Longrightarrow>
      \<forall>e a. cur = Some e \<longrightarrow> (e, a) \<in> (up c)\<^sup>* \<longrightarrow> (a, a) \<notin> (up c)\<^sup>+"
    and step: "(case cur of None \<Rightarrow> Some acc | Some e \<Rightarrow> loop c (parent_of c e) (e # acc)) = Some r"
  have False if cur: "cur = Some e" and ea: "(e, a) \<in> (up c)\<^sup>*" and aa: "(a, a) \<in> (up c)\<^sup>+" for e a
  proof -
    obtain e' where e': "(e, e') \<in> up c" "(e', a) \<in> (up c)\<^sup>*"
      using rtrancl_trancl_trancl[OF ea aa] by (metis tranclD)
    then have "loop c (Some e') (e # acc) = Some r" using step cur by (simp add: up_def)
    from IH[OF this] e'(2) aa show False by blast
  qed
  then show "\<forall>e a. cur = Some e \<longrightarrow> (e, a) \<in> (up c)\<^sup>* \<longrightarrow> (a, a) \<notin> (up c)\<^sup>+" by blast
qed

section \<open>Counts\<close>

lemma count_if_split: "count_if P xs = count_if (\<lambda>x. P x \<and> Q x) xs + count_if (\<lambda>x. P x \<and> \<not> Q x) xs"
  by (induction xs) (auto simp: count_if_def)

lemma count_if_filter: "count_if P (filter Q xs) = count_if (\<lambda>x. Q x \<and> P x) xs"
  by (simp add: count_if_def conj_commute)

lemma statuses_partition:
  "count_if (\<lambda>n. be_status n = Current) xs + count_if (\<lambda>n. be_status n = Stale) xs +
   count_if (\<lambda>n. be_status n = Building) xs = length xs"
proof (induction xs)
  case (Cons x xs)
  then show ?case by (cases "be_status x") (simp_all add: count_if_def)
qed (simp add: count_if_def)

lemma levels_partition:
  "count_if (\<lambda>n. be_level n = Topic) xs + count_if (\<lambda>n. be_level n = Subtopic) xs =
   count_if (\<lambda>n. be_level n \<noteq> Chapter) xs"
proof (induction xs)
  case (Cons x xs)
  then show ?case by (cases "be_level x") (simp_all add: count_if_def)
qed (simp add: count_if_def)

lemma scope_artifacts_le: "length (scope_artifacts c scope) \<le> length (scope_citations scope)"
proof -
  let ?ids = "concat (map (\<lambda>n. nullish (be_citationIds n) []) scope)"
  have "set (map ci_artifactId (List.map_filter (getCitation c) ?ids)) \<subseteq>
        (\<lambda>i. ci_artifactId (the (getCitation c i))) ` set ?ids"
    by (force simp: List.map_filter_def)
  then have "card (set (map ci_artifactId (List.map_filter (getCitation c) ?ids))) \<le> card (set ?ids)"
    by (meson List.finite_set card_image_le card_mono finite_imageI le_trans)
  then show ?thesis by (simp only: scope_artifacts_def scope_citations_def length_js_set)
qed

lemma coverage_bounds:
  "0 \<le> st_coverage (stats_of_scope c scope) \<and> st_coverage (stats_of_scope c scope) \<le> 1"
proof -
  let ?n = "filter (\<lambda>n. be_level n \<noteq> Chapter) scope"
  have "count_if (\<lambda>n. be_status n = Current) ?n \<le> length ?n"
    unfolding count_if_def by (rule length_filter_le)
  then show ?thesis
    by (auto simp: stats_of_scope_def Let_def js_div_def intro!: dbl_nonneg dbl_le_1)
qed

lemma stats_of_scope_counts:
  "st_current (stats_of_scope c scope) + st_stale (stats_of_scope c scope) + st_building (stats_of_scope c scope) =
     st_topics (stats_of_scope c scope) + st_subtopics (stats_of_scope c scope)"
  "st_topics (stats_of_scope c scope) + st_subtopics (stats_of_scope c scope) =
     count_if (\<lambda>n. be_level n \<noteq> Chapter) scope"
  using statuses_partition[of "filter (\<lambda>n. be_level n \<noteq> Chapter) scope"] levels_partition[of scope]
  by (simp_all add: stats_of_scope_def Let_def count_if_def)

text \<open>The scope of a chapter or topic: the entries whose path leads through it.\<close>

lemma scopeOf_branch:
  assumes "tree_book c" "getEntry c i = Some e" "be_level e \<noteq> Subtopic"
  shows "\<exists>scope. scopeOf c e = Some scope \<and> distinct scope \<and>
           set scope = {x \<in> set (BOOK c). e \<in> set (the (pathOf c (be_id x)))}"
proof -
  have e: "e \<in> set (BOOK c)" "be_id e = i" using getEntry_mem[OF assms(2)] by auto
  have dist: "distinct (map be_id (BOOK c))" and acyc: "acyclic (up c)"
    using assms(1) by (auto simp: tree_book_def)
  from descendantsOf_entry[OF assms(1,2)] obtain ds where
    ds: "descendantsOf c i = Some ds" "distinct ds" "set ds = {x. (x, e) \<in> (up c)\<^sup>+}" by blast
  note path = in_pathOf[OF assms(1)]
  have "distinct (e # ds)" using ds(2,3) acyc by (auto simp: acyclic_def)
  moreover have "set (e # ds) = {x \<in> set (BOOK c). e \<in> set (the (pathOf c (be_id x)))}"
    using ds(3) e(1) path up_trancl_mem[of _ e c] by auto
  moreover have "scopeOf c e = Some (e # ds)" using assms(3) e(2) ds(1) by (simp add: scopeOf_def)
  ultimately show ?thesis by blast
qed

lemma scopeOf_returns: "tree_book c \<Longrightarrow> getEntry c i = Some e \<Longrightarrow> \<exists>scope. scopeOf c e = Some scope"
  using scopeOf_branch[of c i e] by (cases "be_level e = Subtopic") (auto simp: scopeOf_def)

section \<open>Properties\<close>

text \<open>
  \<open>pathOf\<close> returns on every book without cycles: nothing for an unknown id, and for an
  entry the chain that starts at an entry without parent, follows the parent links and ends at
  the entry, without repetition.
\<close>

theorem pathOf_returns_chain:
  assumes "acyclic (up c)"
  shows "\<exists>ch. pathOf c i = Some ch \<and> distinct ch \<and>
           (case getEntry c i of None \<Rightarrow> ch = [] | Some e \<Rightarrow> linked c ch \<and> last ch = e)"
proof (cases "getEntry c i")
  case None
  then show ?thesis by (simp add: pathOf_unknown)
next
  case (Some e)
  from pathOf_entry[OF assms Some] obtain ch where
    ch: "pathOf c i = Some (ch @ [e])" "linked c (ch @ [e])" "set ch = {a. (e, a) \<in> (up c)\<^sup>+}" by blast
  moreover have "distinct (ch @ [e])"
    using linked_distinct[OF assms ch(2)] getEntry_mem[OF Some] ch(3) up_trancl_mem by fastforce
  ultimately show ?thesis using Some by simp
qed

text \<open>
  C10. \<open>descendantsOf\<close> returns on every book that is a tree and agrees with \<open>pathOf\<close>: it lists,
  each once, exactly the entries whose path leads through the given entry before it ends.
\<close>

theorem descendantsOf_inverts_pathOf:
  assumes "tree_book c" and "getEntry c i = Some r"
  shows "\<exists>ds. descendantsOf c i = Some ds \<and> distinct ds \<and>
           set ds = {x \<in> set (BOOK c). r \<in> set (butlast (the (pathOf c (be_id x))))}"
proof -
  from descendantsOf_entry[OF assms] obtain ds where
    ds: "descendantsOf c i = Some ds" "distinct ds" "set ds = {x. (x, r) \<in> (up c)\<^sup>+}" by blast
  have dist: "distinct (map be_id (BOOK c))" and acyc: "acyclic (up c)"
    using assms(1) by (auto simp: tree_book_def)
  have "(x, r) \<in> (up c)\<^sup>+ \<longleftrightarrow> r \<in> set (butlast (the (pathOf c (be_id x))))" if "x \<in> set (BOOK c)" for x
  proof -
    from pathOf_entry[OF acyc getEntry_self[OF dist that]] obtain ch where
      "pathOf c (be_id x) = Some (ch @ [x])" "set ch = {a. (x, a) \<in> (up c)\<^sup>+}" by blast
    then show ?thesis by simp
  qed
  then have "set ds = {x \<in> set (BOOK c). r \<in> set (butlast (the (pathOf c (be_id x))))}"
    using ds(3) up_trancl_mem[of _ r c] by auto
  with ds show ?thesis by blast
qed

text \<open>
  C11. The walk to the root returns for every entry exactly when the parent links have no cycle;
  an entry that is its own ancestor makes \<open>pathOf\<close>, and with it the breadcrumb and the search
  row of every entry below, run forever.
\<close>

theorem pathOf_returns_iff_acyclic:
  assumes "distinct (map be_id (BOOK c))"
  shows "list_all (\<lambda>e. pathOf c (be_id e) \<noteq> None) (BOOK c) \<longleftrightarrow> acyclic (up c)"
proof
  assume ret: "list_all (\<lambda>e. pathOf c (be_id e) \<noteq> None) (BOOK c)"
  show "acyclic (up c)"
  proof (rule acyclicI, rule allI, rule notI)
    fix a assume a: "(a, a) \<in> (up c)\<^sup>+"
    then have mem: "a \<in> set (BOOK c)" by (auto dest: up_trancl_mem)
    with ret obtain r where "path_loop c (Some a) [] = Some r"
      using getEntry_self[OF assms mem] by (auto simp: list_all_iff pathOf_def)
    from path_loop_cycle[OF this] a show False by blast
  qed
next
  assume "acyclic (up c)"
  then show "list_all (\<lambda>e. pathOf c (be_id e) \<noteq> None) (BOOK c)"
    using pathOf_entry[OF _ getEntry_self[OF assms]] by (fastforce simp: list_all_iff)
qed

text \<open>
  C33. The rolled-up counts of a tree are consistent: the three states partition the counted
  entries, these are the topics and sub-topics of the branch (for a chapter or topic, exactly
  the entries whose path leads through it), no more raw artifacts than citations are cited,
  and the coverage is a share between 0 and 1.
\<close>

theorem entryStats_consistent:
  assumes "tree_book c" and "getEntry c i = Some e"
  shows "\<exists>s. entryStats c i = Some s \<and>
           st_current s + st_stale s + st_building s = st_topics s + st_subtopics s \<and>
           st_sources s \<le> st_citations s \<and> 0 \<le> st_coverage s \<and> st_coverage s \<le> 1 \<and>
           (be_level e \<noteq> Subtopic \<longrightarrow>
             st_topics s + st_subtopics s =
               card {x \<in> set (BOOK c). be_level x \<noteq> Chapter \<and> e \<in> set (the (pathOf c (be_id x)))})"
proof -
  obtain scope where scope: "scopeOf c e = Some scope" using scopeOf_returns[OF assms] by blast
  let ?s = "stats_of_scope c scope"
  have "entryStats c i = Some ?s" using assms(2) scope by (simp add: entryStats_def)
  moreover have "st_sources ?s \<le> st_citations ?s"
    using scope_artifacts_le[of c scope] by (simp add: stats_of_scope_def Let_def)
  moreover have "count_if (\<lambda>n. be_level n \<noteq> Chapter) scope =
      card {x \<in> set (BOOK c). be_level x \<noteq> Chapter \<and> e \<in> set (the (pathOf c (be_id x)))}"
    if "be_level e \<noteq> Subtopic"
  proof -
    from scopeOf_branch[OF assms that] scope have "distinct scope"
      and set: "set scope = {x \<in> set (BOOK c). e \<in> set (the (pathOf c (be_id x)))}" by auto
    then have "count_if (\<lambda>n. be_level n \<noteq> Chapter) scope = card {x \<in> set scope. be_level x \<noteq> Chapter}"
      by (simp add: count_if_def flip: distinct_card)
    also have "{x \<in> set scope. be_level x \<noteq> Chapter} =
        {x \<in> set (BOOK c). be_level x \<noteq> Chapter \<and> e \<in> set (the (pathOf c (be_id x)))}"
      using set by auto
    finally show ?thesis .
  qed
  ultimately show ?thesis
    using stats_of_scope_counts[of c scope] coverage_bounds[of c scope] by (intro exI[of _ ?s]) simp
qed

lemma systemStatus_accounting:
  "sy_current (systemStatus c) + sy_stale (systemStatus c) + sy_building (systemStatus c) +
     count_if (\<lambda>e. be_level e = Chapter \<and> be_status e \<noteq> Building) (BOOK c) = sy_entries (systemStatus c)"
proof -
  let ?n = "filter (\<lambda>e. be_level e \<noteq> Chapter) (BOOK c)"
  have "count_if (\<lambda>e. be_status e = Building) (BOOK c) =
      count_if (\<lambda>e. be_status e = Building) ?n + count_if (\<lambda>e. be_level e = Chapter \<and> be_status e = Building) (BOOK c)"
    by (subst count_if_split[of _ _ "\<lambda>e. be_level e \<noteq> Chapter"]) (simp add: count_if_def conj_commute)
  moreover have "length (BOOK c) = length ?n + count_if (\<lambda>e. be_level e = Chapter) (BOOK c)"
    using sum_length_filter_compl[of "\<lambda>e. be_level e \<noteq> Chapter" "BOOK c"] by (simp add: count_if_def)
  moreover have "count_if (\<lambda>e. be_level e = Chapter) (BOOK c) =
      count_if (\<lambda>e. be_level e = Chapter \<and> be_status e = Building) (BOOK c) +
      count_if (\<lambda>e. be_level e = Chapter \<and> be_status e \<noteq> Building) (BOOK c)"
    by (rule count_if_split)
  ultimately show ?thesis
    using statuses_partition[of ?n] by (simp add: systemStatus_def Let_def)
qed

end
