(* ===== verification/Mock_Book.thy ===== *)
theory Mock_Book
  imports Book
begin

text \<open>
  The arrays of \<open>prototype/lib/mock-book.ts\<close>: raw artifacts, citations, the book's entries,
  sources and entities, transcribed as they stand (longer texts as constants of their own), and
  the facts about them the prototype relies on.
\<close>

section \<open>The arrays\<close>

definition text_a_slack_1 :: string where
  "text_a_slack_1 =
     ''For EU VAT refunds above '' @ euro @ ''500 we always route to Finance for a second sign-off before issuing. Below that, support can issue directly. This came out of the Q4 audit '' @ emdash @ '' anything over the threshold needs the paper trail.''"

definition text_a_notion_1 :: string where
  "text_a_notion_1 =
     ''Refund policy v3. Thresholds: '' @ euro @ ''500 (EU) / $600 (US). Above threshold requires Finance approval and a logged reason code. Reason codes live in the billing console.''"

definition text_a_jira_1 :: string where
  "text_a_jira_1 =
     ''OPS-4471: customer issued '' @ euro @ ''820 refund without Finance sign-off. Root cause: agent unaware of the EU threshold. Action: surface the threshold in the refund flow.''"

definition text_a_slack_2 :: string where
  "text_a_slack_2 =
     ''Sev-1 page goes to the on-call SRE first. If unacked in 5 min it escalates to the secondary, then the EM. Open the incident channel before anything else so the timeline is captured.''"

definition text_a_notion_2 :: string where
  "text_a_notion_2 =
     ''Incident severities. Sev-1: customer-facing outage. Escalation: on-call '' @ rarrow @ '' secondary (5 min) '' @ rarrow @ '' EM (10 min). Comms owner posts status every 15 min.''"

definition quote_c1 :: string where
  "quote_c1 =
     ''For EU VAT refunds above '' @ euro @ ''500 we always route to Finance for a second sign-off before issuing.''"

definition quote_c2 :: string where
  "quote_c2 =
     ''Above threshold requires Finance approval and a logged reason code.''"

definition quote_c3 :: string where
  "quote_c3 =
     ''customer issued '' @ euro @ ''820 refund without Finance sign-off. Root cause: agent unaware of the EU threshold.''"

definition quote_c4 :: string where
  "quote_c4 =
     ''Sev-1 page goes to the on-call SRE first. If unacked in 5 min it escalates to the secondary, then the EM.''"

definition quote_c5 :: string where
  "quote_c5 =
     ''Escalation: on-call '' @ rarrow @ '' secondary (5 min) '' @ rarrow @ '' EM (10 min). Comms owner posts status every 15 min.''"

definition summary_ch_ops :: string where
  "summary_ch_ops =
     ''How the company runs day to day '' @ emdash @ '' refunds, approvals, and operational policy. [1]''"

definition summary_ch_eng :: string where
  "summary_ch_eng =
     ''How engineering builds and operates '' @ emdash @ '' incidents, runbooks, and release process.''"

definition summary_t_refunds :: string where
  "summary_t_refunds =
     ''Refund handling is threshold-based: support issues small refunds directly; anything above the regional threshold needs Finance sign-off and a logged reason. [1][2]''"

definition summary_s_eu_vat :: string where
  "summary_s_eu_vat =
     ''EU VAT refunds above '' @ euro @ ''500 are routed to Finance for a second sign-off before they're issued; below the threshold, support can issue directly. [1] The threshold and a logged reason code became mandatory after the Q4 audit, [2] and a missed sign-off on an '' @ euro @ ''820 refund is why the threshold is now surfaced in the refund flow. [3]''"

definition summary_s_us_refunds :: string where
  "summary_s_us_refunds =
     ''US refunds follow the same shape as EU with a $600 threshold; above it requires Finance approval and a reason code. [1]''"

definition summary_t_incidents :: string where
  "summary_t_incidents =
     ''Incident response is severity-driven with a fixed escalation ladder and a comms cadence. [1]''"

definition summary_s_sev1 :: string where
  "summary_s_sev1 =
     ''A Sev-1 page goes to the on-call SRE first; if it's unacknowledged within 5 minutes it escalates to the secondary, then to the EM. [1] Severity definitions and the comms cadence (status every 15 minutes) live in the runbook. [2]''"

definition mock_ARTIFACTS :: "BookArtifact list" where
  "mock_ARTIFACTS =
     [\<lparr>ba_id = ''a-slack-1'', ba_source = ''slack'', ba_sourceLabel = ''Slack'', ba_container = ''#cs-refunds'', 
        ba_author = ''Dana Olsen'', ba_timestamp = (''Mar 14, 2026 '' @ middot @ '' 11:02''), ba_text = text_a_slack_1\<rparr>,
      \<lparr>ba_id = ''a-notion-1'', ba_source = ''notion'', ba_sourceLabel = ''Notion'', ba_container = ''Finance / Policies'', 
        ba_author = ''Priya Raman'', ba_timestamp = ''Feb 2, 2026'', ba_text = text_a_notion_1\<rparr>,
      \<lparr>ba_id = ''a-jira-1'', ba_source = ''jira'', ba_sourceLabel = ''Jira'', ba_container = ''OPS'', 
        ba_author = ''Sam Okafor'', ba_timestamp = ''Mar 9, 2026'', ba_text = text_a_jira_1\<rparr>,
      \<lparr>ba_id = ''a-slack-2'', ba_source = ''slack'', ba_sourceLabel = ''Slack'', ba_container = ''#incidents'', 
        ba_author = ''Lee Carter'', ba_timestamp = (''Mar 22, 2026 '' @ middot @ '' 03:14''), ba_text = text_a_slack_2\<rparr>,
      \<lparr>ba_id = ''a-notion-2'', ba_source = ''notion'', ba_sourceLabel = ''Notion'', ba_container = ''Engineering / Runbooks'', 
        ba_author = ''Priya Raman'', ba_timestamp = ''Jan 18, 2026'', ba_text = text_a_notion_2\<rparr>]"

definition mock_CITATIONS :: "Citation list" where
  "mock_CITATIONS =
     [\<lparr>ci_id = ''c1'', ci_artifactId = ''a-slack-1'', ci_quote = quote_c1\<rparr>,
      \<lparr>ci_id = ''c2'', ci_artifactId = ''a-notion-1'', ci_quote = quote_c2\<rparr>,
      \<lparr>ci_id = ''c3'', ci_artifactId = ''a-jira-1'', ci_quote = quote_c3\<rparr>,
      \<lparr>ci_id = ''c4'', ci_artifactId = ''a-slack-2'', ci_quote = quote_c4\<rparr>,
      \<lparr>ci_id = ''c5'', ci_artifactId = ''a-notion-2'', ci_quote = quote_c5\<rparr>]"

definition mock_BOOK :: "BookEntry list" where
  "mock_BOOK =
     [\<lparr>be_id = ''ch-ops'', be_level = Chapter, be_parentId = None, be_title = ''Operations'', be_status = Current, 
        be_summary = Some summary_ch_ops, be_lastRebuilt = Some ''2 days ago'', 
        be_citationIds = Some [], be_entityIds = None\<rparr>,
      \<lparr>be_id = ''ch-eng'', be_level = Chapter, be_parentId = None, be_title = ''Engineering'', be_status = Current, 
        be_summary = Some summary_ch_eng, be_lastRebuilt = Some ''1 day ago'', 
        be_citationIds = None, be_entityIds = None\<rparr>,
      \<lparr>be_id = ''ch-cust'', be_level = Chapter, be_parentId = None, be_title = ''Customer'', be_status = Building, 
        be_summary = None, be_lastRebuilt = None, 
        be_citationIds = None, be_entityIds = None\<rparr>,
      \<lparr>be_id = ''ch-fin'', be_level = Chapter, be_parentId = None, be_title = ''Finance'', be_status = Building, 
        be_summary = None, be_lastRebuilt = None, 
        be_citationIds = None, be_entityIds = None\<rparr>,
      \<lparr>be_id = ''ch-people'', be_level = Chapter, be_parentId = None, be_title = ''People'', be_status = Building, 
        be_summary = None, be_lastRebuilt = None, 
        be_citationIds = None, be_entityIds = None\<rparr>,
      \<lparr>be_id = ''ch-product'', be_level = Chapter, be_parentId = None, be_title = ''Product'', be_status = Building, 
        be_summary = None, be_lastRebuilt = None, 
        be_citationIds = None, be_entityIds = None\<rparr>,
      \<lparr>be_id = ''t-refunds'', be_level = Topic, be_parentId = Some ''ch-ops'', be_title = ''Refunds & adjustments'', be_status = Current, 
        be_summary = Some summary_t_refunds, be_lastRebuilt = Some ''2 days ago'', 
        be_citationIds = None, be_entityIds = None\<rparr>,
      \<lparr>be_id = ''t-approvals'', be_level = Topic, be_parentId = Some ''ch-ops'', be_title = ''Approvals & sign-offs'', be_status = Building, 
        be_summary = None, be_lastRebuilt = None, 
        be_citationIds = None, be_entityIds = None\<rparr>,
      \<lparr>be_id = ''s-eu-vat'', be_level = Subtopic, be_parentId = Some ''t-refunds'', be_title = (''EU VAT refunds over '' @ euro @ ''500''), be_status = Current, 
        be_summary = Some summary_s_eu_vat, be_lastRebuilt = Some ''Mar 15, 2026'', 
        be_citationIds = Some [''c1'', ''c2'', ''c3''], be_entityIds = Some [''e-eu-threshold'', ''e-finance'', ''e-q4-audit'', ''e-reason-code'']\<rparr>,
      \<lparr>be_id = ''s-us-refunds'', be_level = Subtopic, be_parentId = Some ''t-refunds'', be_title = ''US refunds over $600'', be_status = Stale, 
        be_summary = Some summary_s_us_refunds, be_lastRebuilt = Some ''Jan 30, 2026'', 
        be_citationIds = Some [''c2''], be_entityIds = Some [''e-finance'', ''e-reason-code'']\<rparr>,
      \<lparr>be_id = ''t-incidents'', be_level = Topic, be_parentId = Some ''ch-eng'', be_title = ''Incident response'', be_status = Current, 
        be_summary = Some summary_t_incidents, be_lastRebuilt = Some ''1 day ago'', 
        be_citationIds = None, be_entityIds = None\<rparr>,
      \<lparr>be_id = ''s-sev1'', be_level = Subtopic, be_parentId = Some ''t-incidents'', be_title = ''Sev-1 escalation path'', be_status = Current, 
        be_summary = Some summary_s_sev1, be_lastRebuilt = Some ''Mar 23, 2026'', 
        be_citationIds = Some [''c4'', ''c5''], be_entityIds = Some [''e-sev1'', ''e-oncall'', ''e-em'']\<rparr>]"

definition mock_SOURCES :: "Source list" where
  "mock_SOURCES =
     [\<lparr>so_id = ''src-slack'', so_name = ''Slack'', so_kind = ''slack'', so_color = ''#4A154B'', so_letter = ''S'', 
        so_health = Synced, so_artifacts = 18420, so_containers = 34, so_lastSync = ''2 min ago''\<rparr>,
      \<lparr>so_id = ''src-notion'', so_name = ''Notion'', so_kind = ''notion'', so_color = ''#111111'', so_letter = ''N'', 
        so_health = Synced, so_artifacts = 1240, so_containers = 52, so_lastSync = ''9 min ago''\<rparr>,
      \<lparr>so_id = ''src-jira'', so_name = ''Jira'', so_kind = ''jira'', so_color = ''#2684FF'', so_letter = ''J'', 
        so_health = Synced, so_artifacts = 6310, so_containers = 7, so_lastSync = ''14 min ago''\<rparr>,
      \<lparr>so_id = ''src-github'', so_name = ''GitHub'', so_kind = ''github'', so_color = ''#1F2328'', so_letter = ''G'', 
        so_health = Syncing, so_artifacts = 9870, so_containers = 18, so_lastSync = (''syncing'' @ ellipsis)\<rparr>,
      \<lparr>so_id = ''src-gdrive'', so_name = ''Google Drive'', so_kind = ''gdrive'', so_color = ''#1FA463'', so_letter = ''D'', 
        so_health = AuthLapse, so_artifacts = 0, so_containers = 0, so_lastSync = ''auth expired 2h ago''\<rparr>]"

definition mock_ENTITIES :: "Entity list" where
  "mock_ENTITIES =
     [\<lparr>en_id = ''e-eu-threshold'', en_name = (''EU VAT threshold ('' @ euro @ ''500)''), en_type = Policy, 
        en_aliases = 3, en_mentions = 14, en_sources = 3, en_status = Canonical\<rparr>,
      \<lparr>en_id = ''e-finance'', en_name = ''Finance'', en_type = Team, 
        en_aliases = 2, en_mentions = 38, en_sources = 4, en_status = Canonical\<rparr>,
      \<lparr>en_id = ''e-q4-audit'', en_name = ''Q4 2025 audit'', en_type = EventEntity, 
        en_aliases = 1, en_mentions = 6, en_sources = 2, en_status = Canonical\<rparr>,
      \<lparr>en_id = ''e-reason-code'', en_name = ''Reason code'', en_type = Policy, 
        en_aliases = 2, en_mentions = 11, en_sources = 2, en_status = Canonical\<rparr>,
      \<lparr>en_id = ''e-sev1'', en_name = ''Sev-1'', en_type = Policy, 
        en_aliases = 4, en_mentions = 27, en_sources = 3, en_status = Canonical\<rparr>,
      \<lparr>en_id = ''e-oncall'', en_name = ''On-call SRE'', en_type = RoleEntity, 
        en_aliases = 3, en_mentions = 19, en_sources = 2, en_status = Canonical\<rparr>,
      \<lparr>en_id = ''e-em'', en_name = ''Engineering Manager'', en_type = RoleEntity, 
        en_aliases = 5, en_mentions = 9, en_sources = 2, en_status = Ambiguous\<rparr>]"

definition mock :: corpus where
  "mock = \<lparr>ARTIFACTS = mock_ARTIFACTS, CITATIONS = mock_CITATIONS, BOOK = mock_BOOK,
           SOURCES = mock_SOURCES, ENTITIES = mock_ENTITIES\<rparr>"

section \<open>Facts about the arrays\<close>

lemmas mock_book_defs = mock_def mock_BOOK_def mock_CITATIONS_def mock_ARTIFACTS_def mock_ENTITIES_def mock_SOURCES_def

lemma mock_three_levels: "three_levels mock"
  by code_simp

lemma mock_tree: "tree_book mock"
  by (rule three_levels_tree[OF mock_three_levels])

text \<open>Every id that occurs in an array names an element of the array it refers to.\<close>

definition refs_resolve :: "corpus \<Rightarrow> bool" where
  "refs_resolve c \<longleftrightarrow>
     list_all (\<lambda>e. list_all (\<lambda>i. getCitation c i \<noteq> None) (nullish (be_citationIds e) []) \<and>
                   list_all (\<lambda>i. getEntity c i \<noteq> None) (nullish (be_entityIds e) [])) (BOOK c) \<and>
     list_all (\<lambda>a. sourceByKind c (ba_source a) \<noteq> None) (ARTIFACTS c)"

text \<open>The quote of a citation is a span of the artifact it cites.\<close>

definition quotes_are_spans :: "corpus \<Rightarrow> bool" where
  "quotes_are_spans c \<longleftrightarrow>
     list_all (\<lambda>q. case getArtifact c (ci_artifactId q) of
                     None \<Rightarrow> False | Some a \<Rightarrow> str_includes (ba_text a) (ci_quote q)) (CITATIONS c)"

text \<open>
  The mock data is what its types and comments promise: the entries form a book of three
  levels with distinct ids, every citation, entity and source id resolves, and each quote is an
  exact span of the artifact it cites.
\<close>

theorem mock_corpus_well_formed:
  "three_levels mock \<and> refs_resolve mock \<and> quotes_are_spans mock"
proof -
  have "refs_resolve mock" by code_simp
  moreover have "quotes_are_spans mock" by code_simp
  ultimately show ?thesis using mock_three_levels by blast
qed

text \<open>The general theorems on books, at the mock book.\<close>

lemma mock_entry: "getEntry mock ''t-refunds'' \<noteq> None" "getEntry mock ''s-eu-vat'' \<noteq> None"
  by code_simp+

theorem pathOf_returns_chain_witness:
  "\<exists>ch. pathOf mock ''s-eu-vat'' = Some ch \<and> ch \<noteq> []"
proof -
  have "acyclic (up mock)" using mock_tree by (simp add: tree_book_def)
  from pathOf_returns_chain[OF this, of "''s-eu-vat''"] mock_entry show ?thesis
    by (auto simp: linked_def)
qed

theorem descendantsOf_inverts_pathOf_witness:
  "\<exists>ds. descendantsOf mock ''t-refunds'' = Some ds \<and> distinct ds"
  using descendantsOf_inverts_pathOf[OF mock_tree] mock_entry(1) by blast

theorem pathOf_returns_iff_acyclic_witness:
  "list_all (\<lambda>e. pathOf mock (be_id e) \<noteq> None) (BOOK mock)"
  using pathOf_returns_iff_acyclic[of mock] mock_tree by (simp add: tree_book_def)

theorem entryStats_consistent_witness:
  "\<exists>s. entryStats mock ''t-refunds'' = Some s \<and>
       st_current s + st_stale s + st_building s = st_topics s + st_subtopics s"
  using entryStats_consistent[OF mock_tree] mock_entry(1) by blast

end
