(* ===== verification/Markers.thy ===== *)
theory Markers
  imports Schedule
begin

text \<open>
  Citation markers in prose: \<open>text.split(/(\[\d+\])/g)\<close> and \<open>part.match(/^\[(\d+)\]$/)\<close>, as the
  summary of an entry (\<open>prototype/app/(app)/book/[id]/page.tsx\<close>) and the demo answer
  (\<open>prototype/app/(app)/ask/page.tsx\<close>) use them. The split keeps the text, alternates prose and
  markers, and leaves no marker in the prose.
\<close>

section \<open>Definitions\<close>

text \<open>The expression matched at the start of a string: the digits between the brackets and the rest.\<close>

definition match_marker :: "string \<Rightarrow> (string \<times> string) option" where
  "match_marker s =
     (case s of
        [] \<Rightarrow> None
      | c # t \<Rightarrow>
          (let ds = takeWhile is_digit t; r = dropWhile is_digit t
           in if c = CHR ''['' \<and> ds \<noteq> [] \<and> starts_with r '']'' then Some (ds, drop 1 r) else None))"

definition marker_text :: "string \<Rightarrow> string" where
  "marker_text ds = CHR ''['' # ds @ '']''"

lemma match_marker_Some:
  "match_marker s = Some (ds, r) \<longleftrightarrow> s = marker_text ds @ r \<and> ds \<noteq> [] \<and> list_all is_digit ds"
proof
  assume "match_marker s = Some (ds, r)"
  then obtain t where s: "s = CHR ''['' # t" and ds: "ds = takeWhile is_digit t" "ds \<noteq> []"
    and st: "starts_with (dropWhile is_digit t) '']''" and r: "r = drop 1 (dropWhile is_digit t)"
    by (cases s) (simp_all add: match_marker_def Let_def split: if_splits)
  from st r have "dropWhile is_digit t = CHR '']'' # r" by (cases "dropWhile is_digit t") auto
  then have "t = ds @ CHR '']'' # r" using ds(1) by (metis takeWhile_dropWhile_id)
  moreover have "list_all is_digit ds" unfolding ds(1) list_all_iff by (blast dest: set_takeWhileD)
  ultimately show "s = marker_text ds @ r \<and> ds \<noteq> [] \<and> list_all is_digit ds"
    using s ds(2) by (simp add: marker_text_def)
next
  assume a: "s = marker_text ds @ r \<and> ds \<noteq> [] \<and> list_all is_digit ds"
  have "\<not> is_digit (CHR '']'')" by code_simp
  moreover have "\<forall>x \<in> set ds. is_digit x" using a by (simp add: list_all_iff)
  ultimately have "takeWhile is_digit (ds @ CHR '']'' # r) = ds"
    "dropWhile is_digit (ds @ CHR '']'' # r) = CHR '']'' # r" by simp_all
  with a show "match_marker s = Some (ds, r)"
    by (simp add: match_marker_def marker_text_def Let_def)
qed

text \<open>The split, with the prose collected so far as an accumulator.\<close>

function split_marks :: "string \<Rightarrow> string \<Rightarrow> string list" where
  "split_marks acc s =
     (case s of
        [] \<Rightarrow> [acc]
      | c # t \<Rightarrow>
          (case match_marker s of
             Some (ds, r) \<Rightarrow> acc # marker_text ds # split_marks [] r
           | None \<Rightarrow> split_marks (acc @ [c]) t))"
  by pat_completeness auto

termination
  by (relation "measure (\<lambda>(acc, s). length s)") (auto simp: match_marker_Some marker_text_def)

declare split_marks.simps [simp del]

definition split_markers :: "string \<Rightarrow> string list" where
  "split_markers s = split_marks [] s"

text \<open>\<open>part.match(/^\[(\d+)\]$/)\<close>: the digits when the whole part is a marker.\<close>

definition whole_marker :: "string \<Rightarrow> string option" where
  "whole_marker part =
     (case match_marker part of Some (ds, []) \<Rightarrow> Some ds | _ \<Rightarrow> None)"

section \<open>Lemmas\<close>

lemma split_marks_Nil [simp]: "split_marks acc [] = [acc]"
  by (simp add: split_marks.simps)

lemma split_marks_match:
  "match_marker s = Some (ds, r) \<Longrightarrow> split_marks acc s = acc # marker_text ds # split_marks [] r"
  by (cases s) (simp add: match_marker_def, simp add: split_marks.simps[of acc "_ # _"])

lemma split_marks_skip:
  "match_marker (c # t) = None \<Longrightarrow> split_marks acc (c # t) = split_marks (acc @ [c]) t"
  by (simp add: split_marks.simps[of acc "c # t"])

lemma concat_split_marks: "concat (split_marks acc s) = acc @ s"
proof (induction acc s rule: split_marks.induct)
  case (1 acc s)
  show ?case
  proof (cases s)
    case (Cons c t)
    then show ?thesis
    proof (cases "match_marker s")
      case None
      with 1 Cons show ?thesis by (simp add: split_marks_skip)
    next
      case (Some p)
      obtain ds r where p: "p = (ds, r)" by (cases p)
      with 1(2)[OF Cons Some[unfolded p] refl] Some show ?thesis
        using match_marker_Some[of s ds r] by (simp add: split_marks_match)
    qed
  qed simp
qed

lemma whole_marker_iff: "whole_marker p = Some ds \<longleftrightarrow> p = marker_text ds \<and> ds \<noteq> [] \<and> list_all is_digit ds"
proof -
  have "whole_marker p = Some ds \<longleftrightarrow> match_marker p = Some (ds, [])"
    by (auto simp: whole_marker_def split: option.splits list.splits)
  then show ?thesis by (simp add: match_marker_Some)
qed

text \<open>Prose that contains no marker.\<close>

definition markerless :: "string \<Rightarrow> bool" where
  "markerless s \<longleftrightarrow> (\<forall>u v. s = u @ v \<longrightarrow> match_marker v = None)"

fun alternating :: "string list \<Rightarrow> bool" where
  "alternating [p] = markerless p"
| "alternating (p # m # ps) = (markerless p \<and> whole_marker m \<noteq> None \<and> alternating ps)"
| "alternating [] = False"

text \<open>No marker begins inside the collected prose, whatever follows it.\<close>

definition scanned :: "string \<Rightarrow> string \<Rightarrow> bool" where
  "scanned acc s \<longleftrightarrow> (\<forall>u v. acc = u @ v \<and> v \<noteq> [] \<longrightarrow> match_marker (v @ s) = None)"

lemma match_marker_append: "match_marker v = Some (ds, r) \<Longrightarrow> match_marker (v @ s) = Some (ds, r @ s)"
  by (simp add: match_marker_Some)

lemma scanned_markerless: "scanned acc s \<Longrightarrow> markerless acc"
  unfolding scanned_def markerless_def
proof (intro allI impI)
  fix u v assume s: "\<forall>u v. acc = u @ v \<and> v \<noteq> [] \<longrightarrow> match_marker (v @ s) = None" and uv: "acc = u @ v"
  show "match_marker v = None"
  proof (cases "v = []")
    case True
    then show ?thesis by (simp add: match_marker_def)
  next
    case False
    with s uv have "match_marker (v @ s) = None" by blast
    then show ?thesis using match_marker_append[of v _ _ s] by (cases "match_marker v") auto
  qed
qed

lemma scanned_snoc:
  assumes "scanned acc (c # t)" "match_marker (c # t) = None"
  shows "scanned (acc @ [c]) t"
  unfolding scanned_def
proof (intro allI impI)
  fix u v assume uv: "acc @ [c] = u @ v \<and> v \<noteq> []"
  then obtain w where w: "v = w @ [c]" "acc = u @ w"
    by (metis append_assoc append_butlast_last_id append_eq_append_conv last_append last_snoc butlast_append butlast_snoc)
  show "match_marker (v @ t) = None"
    using assms w by (cases "w = []") (auto simp: scanned_def)
qed

lemma alternating_split_marks: "scanned acc s \<Longrightarrow> alternating (split_marks acc s)"
proof (induction acc s rule: split_marks.induct)
  case (1 acc s)
  show ?case
  proof (cases s)
    case Nil
    with 1 show ?thesis by (simp add: scanned_markerless)
  next
    case (Cons c t)
    show ?thesis
    proof (cases "match_marker s")
      case None
      with 1(1)[OF Cons None] 1(3) Cons show ?thesis by (simp add: split_marks_skip scanned_snoc)
    next
      case (Some p)
      obtain ds r where p: "p = (ds, r)" by (cases p)
      have "alternating (split_marks [] r)" using 1(2)[OF Cons Some[unfolded p] refl] by (simp add: scanned_def)
      moreover have "whole_marker (marker_text ds) = Some ds"
        using Some p by (simp add: whole_marker_iff match_marker_Some)
      ultimately show ?thesis
        using Some p 1(3) by (simp add: split_marks_match scanned_markerless)
    qed
  qed
qed

section \<open>Properties\<close>

text \<open>
  C29. Splitting prose at its citation markers loses nothing and misses nothing: the parts joined
  are the text, they alternate prose and whole markers beginning and ending with prose, and no
  prose part contains a marker.
\<close>

theorem split_markers_roundtrip:
  "concat (split_markers s) = s \<and> alternating (split_markers s)"
  by (simp add: split_markers_def concat_split_marks alternating_split_marks scanned_def)

end
