(* ===== verification/Page_Kit.thy ===== *)
theory Page_Kit
  imports Schedule
begin

text \<open>
  The building blocks of the prototype's pages (\<open>prototype/components/app/page-kit.tsx\<close>) and the
  way numbers are shortened for display: \<open>fmtCount\<close> there and \<open>fmt\<close> of the book's home page.

  The quotients are doubles (theory \<open>Doubles\<close>); the printed decimals are read back by \<open>Number\<close>
  of the theory \<open>Schedule\<close> to state how close the text is to the count. A definition with the
  suffix \<open>_p\<close> is the prototype's namesake of a definition of the product's client.
\<close>

section \<open>Elements\<close>

datatype Tone = ToneSuccess | ToneWarning | ToneDestructive | ToneInfo | ToneMuted

definition PageShell :: "'a node list \<Rightarrow> 'a node" where
  "PageShell children = El ''div'' [] [El ''div'' [] children]"

definition PageHeading :: "string \<Rightarrow> string option \<Rightarrow> 'a node" where
  "PageHeading title description =
     El ''div'' [] (El ''h1'' [] [Txt title] #
       shown_if (truthy_str description) [El ''p'' [] [Txt (nullish description [])]])"

text \<open>Label, value and optional sub-line of each figure.\<close>

definition StatBar :: "(string \<times> string \<times> string option) list \<Rightarrow> 'a node" where
  "StatBar items =
     El ''div'' [] (map (\<lambda>(label, value, sub).
       El ''div'' [AStr ''key'' label]
         ([El ''div'' [] [Txt label], El ''div'' [] [Txt value]] @
          shown_if (truthy_str sub) [El ''div'' [] [Txt (nullish sub [])]])) items)"

definition Section_p :: "string \<Rightarrow> nat option \<Rightarrow> 'a node list \<Rightarrow> 'a node" where
  "Section_p title count children =
     El ''section'' [] (El ''div'' []
       (El ''h2'' [] [Txt title] #
        shown_if (count \<noteq> None) [El ''span'' [] [Txt (show_nat (nullish count 0))]]) # children)"

definition TableCard :: "'a node list \<Rightarrow> 'a node" where
  "TableCard children = El ''div'' [] children"

definition HeadRow :: "'a node list \<Rightarrow> 'a node" where
  "HeadRow children = El ''div'' [] children"

definition Th :: "string \<Rightarrow> 'a node" where
  "Th label = El ''div'' [] [Txt label]"

definition Row_p :: "string option \<Rightarrow> 'a node list \<Rightarrow> 'a node" where
  "Row_p href children =
     (if truthy_str href then El ''Link'' [AStr ''href'' (nullish href [])] children
      else El ''div'' [] children)"

definition Td :: "'a node list \<Rightarrow> 'a node" where
  "Td children = El ''div'' [] children"

definition Num :: "string \<Rightarrow> 'a node" where
  "Num text = El ''div'' [] [Txt text]"

definition TONE_DOT :: "Tone \<Rightarrow> string" where
  "TONE_DOT t =
     (case t of ToneSuccess \<Rightarrow> ''bg-success'' | ToneWarning \<Rightarrow> ''bg-warning''
      | ToneDestructive \<Rightarrow> ''bg-destructive'' | ToneInfo \<Rightarrow> ''bg-primary'' | ToneMuted \<Rightarrow> ''bg-muted-foreground/50'')"

definition TONE_VARIANT :: "Tone \<Rightarrow> string" where
  "TONE_VARIANT t =
     (case t of ToneSuccess \<Rightarrow> ''success'' | ToneWarning \<Rightarrow> ''warning''
      | ToneDestructive \<Rightarrow> ''destructive'' | ToneInfo \<Rightarrow> ''brand'' | ToneMuted \<Rightarrow> ''muted'')"

definition Dot :: "Tone \<Rightarrow> bool \<Rightarrow> 'a node" where
  "Dot tone pulse =
     El ''span'' ([AStr ''class'' (TONE_DOT tone)] @ (if pulse then [AStr ''class'' ''animate-pulse''] else [])) []"

definition Tag :: "Tone \<Rightarrow> 'a node list \<Rightarrow> 'a node" where
  "Tag tone children = El ''Badge'' [AStr ''variant'' (TONE_VARIANT tone)] children"

definition Avatar :: "string \<Rightarrow> 'a node" where
  "Avatar initial = El ''span'' [] [Txt initial]"

section \<open>Numbers\<close>

definition pad_zeros :: "nat \<Rightarrow> string \<Rightarrow> string" where
  "pad_zeros f s = replicate (f - length s) (CHR ''0'') @ s"

text \<open>\<open>x.toFixed(f)\<close> of a number that is not negative, \<open>f\<close> positive.\<close>

definition toFixed :: "nat \<Rightarrow> rat \<Rightarrow> string" where
  "toFixed f x =
     (let m = nat (toFixed_scaled f x)
      in show_nat (m div 10 ^ f) @ ''.'' @ pad_zeros f (show_nat (m mod 10 ^ f)))"

text \<open>\<open>s.replace(/\.?0+$/, "")\<close>: the zeros at the end, and the point before them.\<close>

definition strip_zeros :: "string \<Rightarrow> string" where
  "strip_zeros s =
     (let z = dropWhile (\<lambda>c. c = CHR ''0'') (rev s)
      in if length z = length s then s
         else (case z of [] \<Rightarrow> [] | c # y \<Rightarrow> rev (if c = CHR ''.'' then y else z)))"

text \<open>\<open>s.replace(/\.0$/, "")\<close>.\<close>

definition strip_point_zero :: "string \<Rightarrow> string" where
  "strip_point_zero s = (if starts_with (rev s) ''0.'' then rev (drop 2 (rev s)) else s)"

definition fmtCount :: "nat \<Rightarrow> string" where
  "fmtCount n =
     (if 1000000 \<le> n then strip_zeros (toFixed 2 (js_div (of_nat n) 1000000)) @ ''M''
      else if 1000 \<le> n then strip_point_zero (toFixed 1 (js_div (of_nat n) 1000)) @ ''k''
      else show_nat n)"

definition fmt :: "nat \<Rightarrow> string" where
  "fmt n = (if 1000 \<le> n then toFixed 1 (js_div (of_nat n) 1000) @ ''k'' else show_nat n)"

text \<open>\<open>Math.round(value * 100)\<close>.\<close>

definition percent :: "rat \<Rightarrow> int" where
  "percent v = Math_round (js_mul v 100)"

section \<open>Reading decimals back\<close>

lemma digits_val_append: "digits_val (s @ r) = digits_val s * 10 ^ length r + digits_val r"
proof (induction r rule: rev_induct)
  case (snoc c r)
  have "digits_val (s @ r @ [c]) = 10 * digits_val (s @ r) + (of_char c - 48)"
    using digits_val_snoc[of "s @ r" c] by simp
  with snoc show ?case by (simp add: digits_val_snoc algebra_simps)
qed (simp add: digits_val_def)

lemma parse_decimal:
  assumes "list_all is_digit ip" "ip \<noteq> []" "list_all is_digit fp"
  shows "parse_unsigned (ip @ ''.'' @ fp) = Some (of_nat (digits_val (ip @ fp)) / 10 ^ length fp)"
proof -
  have dot: "\<not> is_digit (CHR ''.'')" by code_simp
  have "takeWhile is_digit (ip @ ''.'' @ fp) = ip" "dropWhile is_digit (ip @ ''.'' @ fp) = ''.'' @ fp"
    using assms(1) dot by (simp_all add: list_all_iff)
  moreover have "takeWhile is_digit fp = fp" "dropWhile is_digit fp = []"
    using assms(3) by (simp_all add: list_all_iff)
  ultimately show ?thesis using assms(2)
    by (simp add: parse_unsigned_def Let_def del: takeWhile_eq_all_conv dropWhile_eq_Nil_conv)
qed

lemma show_nat_read [simp]:
  "list_all is_digit (show_nat n)" "digits_val (show_nat n) = n" "show_nat n \<noteq> []"
  using nat_digits_read[of n] by auto

lemma show_nat_digit: "d < 10 \<Longrightarrow> show_nat d = [char_of (48 + d)]"
  by (simp add: nat_digits.simps[of d])

lemma digit_char_eq: "d < 10 \<Longrightarrow> char_of (48 + d :: nat) = c \<longleftrightarrow> 48 + d = of_char c"
proof -
  assume d: "d < 10"
  have "char_of (48 + d :: nat) = c \<longleftrightarrow> (of_char (char_of (48 + d :: nat) :: char) :: nat) = of_char c"
    by (simp only: of_char_eq_iff)
  with d show ?thesis by simp
qed

lemma digit_zero_iff: "d < 10 \<Longrightarrow> char_of (48 + d :: nat) = CHR ''0'' \<longleftrightarrow> d = 0"
  by (simp add: digit_char_eq)

lemma digit_not_point: "d < 10 \<Longrightarrow> char_of (48 + d :: nat) \<noteq> CHR ''.''"
  by (simp add: digit_char_eq)

text \<open>One decimal: \<open>t\<close> tenths, the fraction dropped when it is zero.\<close>

lemma tenths_text:
  "parse_unsigned (strip_point_zero (show_nat (t div 10) @ ''.'' @ show_nat (t mod 10))) = Some (of_nat t / 10)"
proof (cases "t mod 10 = 0")
  case True
  then have "strip_point_zero (show_nat (t div 10) @ ''.'' @ show_nat (t mod 10)) = show_nat (t div 10)"
    using digit_zero_iff[of 0] by (simp add: strip_point_zero_def show_nat_digit)
  moreover have "(of_nat t :: rat) / 10 = of_nat (t div 10)"
  proof -
    have "t = t div 10 * 10" using True by presburger
    then have "(of_nat t :: rat) = of_nat (t div 10) * 10" by (metis of_nat_mult of_nat_numeral)
    then show ?thesis by simp
  qed
  ultimately show ?thesis by (simp add: parse_unsigned_digits)
next
  case False
  then have "strip_point_zero (show_nat (t div 10) @ ''.'' @ show_nat (t mod 10)) =
      show_nat (t div 10) @ ''.'' @ show_nat (t mod 10)"
    by (simp add: strip_point_zero_def show_nat_digit digit_zero_iff)
  then show ?thesis
    using parse_decimal[of "show_nat (t div 10)" "show_nat (t mod 10)"] digit_char[of "t mod 10"]
    by (simp add: digits_val_append show_nat_digit[of "t mod 10"] digits_val_def[of "[_]"] flip: of_nat_add of_nat_mult)
qed

text \<open>Two decimals: \<open>t\<close> hundredths, zeros at the end dropped.\<close>

lemma pad_two: "d < 100 \<Longrightarrow> pad_zeros 2 (show_nat d) = [char_of (48 + d div 10), char_of (48 + d mod 10)]"
  using digit_zero_iff[of 0]
  by (simp add: pad_zeros_def nat_digits.simps[of d] nat_digits.simps[of "d div 10"] numeral_2_eq_2 less_mult_imp_div_less)

lemma hundredths_text:
  "parse_unsigned (strip_zeros (show_nat (t div 100) @ ''.'' @ pad_zeros 2 (show_nat (t mod 100)))) =
     Some (of_nat t / 100)"
proof -
  define a where "a = t mod 100 div 10"
  define b where "b = t mod 10"
  let ?ip = "show_nat (t div 100)" and ?a = "char_of (48 + a) :: char" and ?b = "char_of (48 + b) :: char"
  have ab: "a < 10" "b < 10" unfolding a_def b_def by simp_all
  have "t mod 100 mod 10 = b" unfolding b_def by (rule mod_mod_cancel) simp
  then have t: "t = t div 100 * 100 + a * 10 + b"
    using div_mult_mod_eq[of t 100] div_mult_mod_eq[of "t mod 100" 10] unfolding a_def by linarith
  have tr: "(of_nat t :: rat) = of_nat (t div 100) * 100 + of_nat a * 10 + of_nat b"
    by (subst t) simp
  have shown: "?ip @ ''.'' @ pad_zeros 2 (show_nat (t mod 100)) = ?ip @ [CHR ''.'', ?a, ?b]"
    by (simp add: pad_two a_def b_def mod_mod_cancel)
  have dig: "is_digit ?a" "is_digit ?b" "(of_char ?a :: nat) = 48 + a" "(of_char ?b :: nat) = 48 + b"
    using digit_char ab by auto
  consider "b \<noteq> 0" | "b = 0" "a \<noteq> 0" | "b = 0" "a = 0" by blast
  then show ?thesis
  proof cases
    case 1
    then have "strip_zeros (?ip @ [CHR ''.'', ?a, ?b]) = ?ip @ ''.'' @ [?a, ?b]"
      using ab by (simp add: strip_zeros_def digit_zero_iff)
    then show ?thesis
      unfolding shown tr using parse_decimal[of ?ip "[?a, ?b]"] dig
      by (simp add: digits_val_append digits_val_def[of "[_, _]"] ac_simps)
  next
    case 2
    then have "strip_zeros (?ip @ [CHR ''.'', ?a, ?b]) = ?ip @ ''.'' @ [?a]"
      using ab digit_zero_iff[of 0] by (simp add: strip_zeros_def digit_zero_iff digit_not_point)
    then show ?thesis
      unfolding shown tr using parse_decimal[of ?ip "[?a]"] dig 2
      by (simp add: digits_val_append digits_val_def[of "[_]"] field_simps)
  next
    case 3
    then have "strip_zeros (?ip @ [CHR ''.'', ?a, ?b]) = ?ip"
      using digit_zero_iff[of 0] by (simp add: strip_zeros_def)
    then show ?thesis unfolding shown tr using 3 by (simp add: parse_unsigned_digits)
  qed
qed

section \<open>Properties\<close>

lemma scaled_nonneg: "0 \<le> toFixed_scaled f (js_div (of_nat n) (10 ^ k))"
  using dbl_nonneg[of "of_nat n / 10 ^ k"] by (simp add: toFixed_scaled_def js_div_def)

text \<open>
  C34. A shortened count reads back as the count to half a unit of its last decimal: below a
  thousand it is exact, below a million it is within 50, above within 5000, for every count a
  double holds exactly, the rounding of the division included.
\<close>

theorem fmtCount_accurate:
  assumes "n < 2 ^ 52"
  shows "if n < 1000 then parse_unsigned (fmtCount n) = Some (of_nat n)
         else if n < 1000000 then
           \<exists>txt t. fmtCount n = txt @ ''k'' \<and> parse_unsigned txt = Some (of_nat t / 10) \<and>
                   \<bar>100 * int t - int n\<bar> \<le> 50
         else \<exists>txt t. fmtCount n = txt @ ''M'' \<and> parse_unsigned txt = Some (of_nat t / 100) \<and>
                      \<bar>10000 * int t - int n\<bar> \<le> 5000"
proof -
  let ?k = "toFixed_scaled 1 (js_div (of_nat n) (10 ^ 3))"
  let ?m = "toFixed_scaled 2 (js_div (of_nat n) (10 ^ 6))"
  have k: "\<bar>100 * int (nat ?k) - int n\<bar> \<le> 50"
    using toFixed_div_accurate[of 1 3 n] assms scaled_nonneg[of 1 n 3] by simp
  have m: "\<bar>10000 * int (nat ?m) - int n\<bar> \<le> 5000"
    using toFixed_div_accurate[of 2 6 n] assms scaled_nonneg[of 2 n 6] by simp
  have tk: "fmtCount n = strip_point_zero (show_nat (nat ?k div 10) @ ''.'' @ show_nat (nat ?k mod 10)) @ ''k''"
    if "1000 \<le> n" "n < 1000000"
    using that by (simp add: fmtCount_def toFixed_def Let_def pad_zeros_def show_nat_digit)
  have tm: "fmtCount n = strip_zeros (show_nat (nat ?m div 100) @ ''.'' @ pad_zeros 2 (show_nat (nat ?m mod 100))) @ ''M''"
    if "1000000 \<le> n"
    using that by (simp add: fmtCount_def toFixed_def Let_def)
  consider "n < 1000" | "1000 \<le> n" "n < 1000000" | "1000000 \<le> n" by linarith
  then show ?thesis
  proof cases
    case 1
    then show ?thesis by (simp add: fmtCount_def parse_unsigned_digits)
  next
    case 2
    with k tk[OF 2] tenths_text[of "nat ?k"] show ?thesis by auto
  next
    case 3
    with m tm[OF 3] hundredths_text[of "nat ?m"] show ?thesis by auto
  qed
qed

theorem fmtCount_accurate_witness:
  "\<exists>txt t. fmtCount 18420 = txt @ ''k'' \<and> parse_unsigned txt = Some (of_nat t / 10) \<and> \<bar>100 * int t - 18420\<bar> \<le> 50"
  using fmtCount_accurate[of 18420] by simp

text \<open>Just below a million the text is "1000k" and not "1M".\<close>

lemma fmtCount_below_million: "fmtCount 999960 = ''1000k'' \<and> fmtCount 1000000 = ''1M''"
proof -
  have a: "toFixed_scaled (Suc 0) (js_div 999960 1000) = 10000"
    "toFixed_scaled 2 (js_div 1000000 1000000) = 100" by code_simp+
  have "char_of (48 :: nat) = CHR ''0''" "char_of (49 :: nat) = CHR ''1''" by code_simp+
  then show ?thesis
    by (simp add: fmtCount_def toFixed_def Let_def a nat_digits.simps strip_point_zero_def strip_zeros_def pad_zeros_def)
qed

end
