(* ===== verification/Book_Pages.thy ===== *)
theory Book_Pages
  imports Mock_Book Markers Page_Kit
begin

text \<open>
  Reading the book: the entry page with its inspector (\<open>prototype/app/(app)/book/[id]/page.tsx\<close>),
  the book's home (\<open>prototype/app/(app)/book/page.tsx\<close>) and the ask page
  (\<open>prototype/app/(app)/ask/page.tsx\<close>).

  A view that needs a query of the book that may not return is \<open>None\<close> where the query does not
  return. The theorem on markers connects prose and inspector: a click on a marker of a
  sub-topic opens the sources and highlights the quote it stands for.
\<close>

section \<open>The entry page: state\<close>

datatype tab = TabSources | TabEntities | TabLineage

record entry_page =
  ep_activeCite :: "string option"
  ep_tab :: tab
  ep_requested :: bool
  ep_inspectorOpen :: bool

definition entry_init :: entry_page where
  "entry_init = \<lparr>ep_activeCite = None, ep_tab = TabSources, ep_requested = False, ep_inspectorOpen = True\<rparr>"

datatype entry_event =
    ParamsChanged            \<comment> \<open>the effect on \<open>params.id\<close>\<close>
  | OpenCitation string
  | RequestFresh
  | ToggleInspector
  | ChooseTab tab
  | ChooseCite "string option"

fun entry_step :: "entry_event \<Rightarrow> entry_page \<Rightarrow> entry_page \<times> effect list" where
  "entry_step ParamsChanged s =
     (s\<lparr>ep_activeCite := None, ep_tab := TabSources, ep_requested := False\<rparr>, [])"
| "entry_step (OpenCitation cid) s =
     (s\<lparr>ep_activeCite := Some cid, ep_tab := TabSources, ep_inspectorOpen := True\<rparr>, [])"
| "entry_step RequestFresh s =
     (s\<lparr>ep_requested := True\<rparr>,
      [Toast ''success'' ''Rebuild requested'' ''This summary will refresh from the latest corpus shortly.''])"
| "entry_step ToggleInspector s = (s\<lparr>ep_inspectorOpen := \<not> ep_inspectorOpen s\<rparr>, [])"
| "entry_step (ChooseTab t) s = (s\<lparr>ep_tab := t\<rparr>, [])"
| "entry_step (ChooseCite cid) s = (s\<lparr>ep_activeCite := cid\<rparr>, [])"

definition entry_stale :: "BookEntry \<Rightarrow> entry_page \<Rightarrow> bool" where
  "entry_stale e s \<longleftrightarrow> be_status e = Stale \<and> \<not> ep_requested s"

section \<open>The entry page: parts\<close>

definition level_name :: "EntryLevel \<Rightarrow> string" where
  "level_name l = (case l of Chapter \<Rightarrow> ''chapter'' | Topic \<Rightarrow> ''topic'' | Subtopic \<Rightarrow> ''subtopic'')"

definition StatusDot :: "EntryStatus \<Rightarrow> 'a node" where
  "StatusDot st = El ''span'' [AStr ''class''
     (case st of Current \<Rightarrow> ''bg-success'' | Stale \<Rightarrow> ''bg-warning'' | Building \<Rightarrow> ''animate-pulse bg-muted-foreground/50'')] []"

definition StatusTag :: "EntryStatus \<Rightarrow> 'a node" where
  "StatusTag st =
     El ''Badge'' [AStr ''variant'' (case st of Current \<Rightarrow> ''success'' | Stale \<Rightarrow> ''warning'' | Building \<Rightarrow> ''muted'')]
       [Txt (case st of Current \<Rightarrow> ''Current'' | Stale \<Rightarrow> ''Refreshing'' | Building \<Rightarrow> ''Building'')]"

definition entity_type_name :: "EntityType \<Rightarrow> string" where
  "entity_type_name t =
     (case t of Policy \<Rightarrow> ''policy'' | Team \<Rightarrow> ''team'' | RoleEntity \<Rightarrow> ''role''
      | EventEntity \<Rightarrow> ''event'' | SystemEntity \<Rightarrow> ''system'')"

definition EntityTypeTag :: "EntityType \<Rightarrow> 'a node" where
  "EntityTypeTag t = El ''Badge'' [AStr ''variant'' ''muted''] [Txt (entity_type_name t)]"

definition Sep :: "'a node" where
  "Sep = El ''span'' [ABool ''aria-hidden'' True] [Txt middot]"

definition facts :: "BookEntry \<Rightarrow> EntryStats \<Rightarrow> string list" where
  "facts e st =
     (if be_level e \<noteq> Subtopic
      then (if st_topics st \<noteq> 0 then [show_nat (st_topics st) @ '' topics''] else []) @
           [show_nat (st_subtopics st) @ '' sub-topics'']
      else []) @
     [show_nat (st_sources st) @ '' sources''] @
     (if be_level e = Subtopic then [show_nat (st_citations st) @ '' citations''] else []) @
     [show_nat (st_entities st) @ '' entities'']"

definition FactBand :: "BookEntry \<Rightarrow> EntryStats \<Rightarrow> bool \<Rightarrow> 'a node" where
  "FactBand e st stale =
     El ''div'' []
       ([StatusTag (if stale then Stale else be_status e)] @
        shown_if (truthy_str (be_lastRebuilt e))
          [Sep, El ''span'' [] [Txt (''rebuilt '' @ nullish (be_lastRebuilt e) [])]] @
        concat (map (\<lambda>f. [Sep, El ''span'' [] [Txt f]]) (facts e st)))"

text \<open>One part of the prose: text as it is, a marker as a button when it numbers a citation.\<close>

definition summary_part :: "string list option \<Rightarrow> string option \<Rightarrow> string \<Rightarrow> entry_event node list" where
  "summary_part citationIds activeCitation part =
     (case whole_marker part of
        None \<Rightarrow> [Txt part]
      | Some ds \<Rightarrow>
          (case Option.bind citationIds (\<lambda>ids. js_nth ids (int (digits_val ds) - 1)) of
             None \<Rightarrow> []
           | Some cid \<Rightarrow>
               if cid = [] then []
               else [El ''button'' [On ''click'' (OpenCitation cid), ABool ''active'' (activeCitation = Some cid)]
                       [Txt ds]]))"

definition Summary :: "string list option \<Rightarrow> string option \<Rightarrow> string \<Rightarrow> entry_event node" where
  "Summary citationIds activeCitation text =
     El ''p'' [] (concat (map (summary_part citationIds activeCitation) (split_markers text)))"

definition Empty :: "string \<Rightarrow> 'a node" where
  "Empty text = El ''p'' [] [Txt text]"

definition ConnectorIcon_of :: "corpus \<Rightarrow> BookArtifact \<Rightarrow> 'a node" where
  "ConnectorIcon_of c art =
     (let meta = sourceByKind c (ba_source art)
      in El ''ConnectorIcon'' [AStr ''color'' (nullish (map_option so_color meta) ''#6d6d6d''),
                              AStr ''letter'' (nullish (map_option so_letter meta) (take 1 (ba_sourceLabel art)))] [])"

definition cite_row :: "corpus \<Rightarrow> string option \<Rightarrow> nat \<Rightarrow> string \<Rightarrow> entry_event node list" where
  "cite_row c activeCitation i cid =
     (case getCitation c cid of
        None \<Rightarrow> []
      | Some cit \<Rightarrow>
          (case getArtifact c (ci_artifactId cit) of
             None \<Rightarrow> []
           | Some art \<Rightarrow>
               (let active = (activeCitation = Some cid)
                in [El ''button'' [AStr ''key'' cid, On ''click'' (ChooseCite (if active then None else Some cid)),
                                   ABool ''active'' active]
                      [El ''div'' [] [El ''span'' [] [Txt (''['' @ show_nat (i + 1) @ '']'')], ConnectorIcon_of c art,
                                      El ''span'' [] [Txt (ba_sourceLabel art)], El ''span'' [] [Txt (ba_container art)]],
                       El ''p'' [] [Txt (ci_quote cit)],
                       El ''p'' [] [Txt (ba_author art @ '' '' @ middot @ '' '' @ ba_timestamp art)]]])))"

definition art_row :: "corpus \<Rightarrow> BookArtifact \<Rightarrow> entry_event node" where
  "art_row c art =
     El ''div'' [AStr ''key'' (ba_id art)]
       [ConnectorIcon_of c art,
        El ''div'' [] [El ''div'' [] [Txt (ba_sourceLabel art)],
                       El ''div'' [] [Txt (ba_container art @ '' '' @ middot @ '' '' @ ba_author art)]]]"

definition SourcesTab :: "corpus \<Rightarrow> BookEntry \<Rightarrow> string option \<Rightarrow> entry_event node option" where
  "SourcesTab c e activeCitation =
     (if be_level e = Subtopic \<and> nullish (be_citationIds e) [] \<noteq> []
      then Some (El ''div'' []
             (concat (map (\<lambda>(i, cid). cite_row c activeCitation i cid) (enumerate 0 (nullish (be_citationIds e) [])))))
      else map_option (\<lambda>arts.
             if arts = [] then Empty ''No sources yet. They appear as the summary is built.''
             else El ''div'' [] (map (art_row c) arts)) (artifactsOfEntry c (be_id e)))"

definition entity_row :: "Entity \<Rightarrow> 'a node" where
  "entity_row e =
     El ''div'' [AStr ''key'' (en_id e)]
       [El ''div'' [] [El ''span'' [] [Txt (en_name e)], EntityTypeTag (en_type e)],
        El ''div'' []
          ([El ''span'' [] [Txt (show_nat (en_mentions e) @ '' mentions'')],
            El ''span'' [] [Txt (show_nat (en_sources e) @ '' sources'')],
            El ''span'' [] [Txt (show_nat (en_aliases e) @ '' aliases'')]] @
           shown_if (en_status e = Ambiguous) [El ''span'' [] [Txt ''ambiguous'']])]"

definition EntitiesTab :: "corpus \<Rightarrow> BookEntry \<Rightarrow> 'a node option" where
  "EntitiesTab c e =
     map_option (\<lambda>es. if es = [] then Empty ''No entities resolved here yet.''
                      else El ''div'' [] (map entity_row es)) (entitiesOfEntry c (be_id e))"

definition LineageTab :: "corpus \<Rightarrow> BookEntry \<Rightarrow> 'a node option" where
  "LineageTab c e =
     map_option (\<lambda>lin.
       El ''div'' []
         [El ''ol'' [] (map (\<lambda>(label, value).
            El ''li'' [AStr ''key'' label] [El ''div'' [] [Txt label], El ''div'' [] [Txt value]])
            [(''Sources'', show_nat (li_sources lin) @ '' systems''),
             (''Artifacts'', show_nat (li_artifacts lin) @ '' cited spans''),
             (''Summary'', if truthy_str (li_lastRebuilt lin) then ''rebuilt '' @ nullish (li_lastRebuilt lin) []
                           else ''not yet built'')]),
          El ''div'' [] [El ''span'' [] [Txt ''Rebuild''],
                         El ''span'' [] [Txt (if li_queued lin then ''queued'' else ''up to date'')]],
          El ''button'' [] [Txt ''Open build log'']]) (lineageOfEntry c (be_id e))"

definition Inspector :: "corpus \<Rightarrow> BookEntry \<Rightarrow> EntryStats \<Rightarrow> entry_page \<Rightarrow> entry_event node option" where
  "Inspector c e st s =
     (do {
        body \<leftarrow> (case ep_tab s of TabSources \<Rightarrow> SourcesTab c e (ep_activeCite s)
                 | TabEntities \<Rightarrow> EntitiesTab c e | TabLineage \<Rightarrow> LineageTab c e);
        Some (El ''aside'' []
          [El ''div'' [] (map (\<lambda>(t, label, n).
             El ''button'' [On ''click'' (ChooseTab t), ABool ''selected'' (ep_tab s = t)]
               (Txt label # shown_if (0 < n) [El ''span'' [] [Txt (show_nat n)]]))
             [(TabSources, ''Sources'', st_sources st), (TabEntities, ''Entities'', st_entities st),
              (TabLineage, ''Lineage'', 0)]),
           El ''div'' [] [body]])
      })"

section \<open>The entry page\<close>

definition entry_actions :: "BookEntry \<Rightarrow> entry_page \<Rightarrow> entry_event node list" where
  "entry_actions e s =
     (if be_status e = Building then [El ''span'' [] [Txt (''Building'' @ ellipsis)]]
      else if entry_stale e s then [El ''Button'' [On ''click'' RequestFresh] [Txt ''Request rebuild'']]
      else []) @
     [El ''Button'' [ABool ''aria-pressed'' (ep_inspectorOpen s), AStr ''aria-label'' ''Toggle inspector'',
                     On ''click'' ToggleInspector] []]"

definition entry_body :: "BookEntry \<Rightarrow> entry_page \<Rightarrow> entry_event node" where
  "entry_body e s =
     (if truthy_str (be_summary e)
      then El ''article'' [] [Summary (be_citationIds e) (ep_activeCite s) (nullish (be_summary e) [])]
      else El ''p'' [] [Txt (if be_level e = Chapter
             then ''This chapter is taking shape. As sources sync, the system files knowledge into topics here.''
             else ''No summary yet '' @ emdash @ '' it's generated once there's enough filed here.'')])"

definition kid_row :: "BookEntry \<Rightarrow> EntryStats \<Rightarrow> entry_event node" where
  "kid_row k ks =
     El ''Link'' [AStr ''key'' (be_id k), AStr ''href'' (''/book/'' @ be_id k)]
       [StatusDot (be_status k), El ''span'' [] [Txt (be_title k)],
        El ''span'' [] [Txt (if be_level k = Subtopic then show_nat (st_citations ks) @ '' cites''
                             else show_nat (st_subtopics ks) @ '' sub'')]]"

definition EntryPage :: "corpus \<Rightarrow> string \<Rightarrow> entry_page \<Rightarrow> entry_event node option" where
  "EntryPage c i s =
     (case getEntry c i of
        None \<Rightarrow> Some (El ''div'' [] [El ''p'' [] [Txt ''Entry not found''],
                  El ''p'' [] [Txt ''It may have been moved or merged. '',
                               El ''Link'' [AStr ''href'' ''/book''] [Txt ''Back to the book''], Txt ''.'']])
      | Some e \<Rightarrow>
          do {
            stats \<leftarrow> entryStats c (be_id e);
            let kids = childrenOf c (Some (be_id e));
            let listed = (be_level e \<noteq> Subtopic \<and> kids \<noteq> []);
            kstats \<leftarrow> (if listed then those (map (\<lambda>k. entryStats c (be_id k)) kids) else Some []);
            inspector \<leftarrow> (if ep_inspectorOpen s then map_option (\<lambda>n. [n]) (Inspector c e stats s) else Some []);
            Some (El ''div'' []
              ([El ''ChromeActions'' [] (entry_actions e s),
                El ''div'' []
                  ([El ''header'' [] [El ''h1'' [] [Txt (be_title e)], FactBand e stats (entry_stale e s)],
                    entry_body e s] @
                   shown_if listed
                     [El ''section'' []
                        [El ''h2'' [] [Txt ((if be_level e = Chapter then ''Topics'' else ''Sub-topics'') @ '' '' @
                                            middot @ '' '' @ show_nat (length kids))],
                         El ''div'' [] (map2 kid_row kids kstats)]])] @
               inspector))
          })"

section \<open>The book's home\<close>

definition stat_strip :: "SystemStatus \<Rightarrow> (string \<times> string \<times> string) list" where
  "stat_strip sys =
     [(''Sources'', show_nat (sy_sources sys), show_nat (sy_sourcesHealthy sys) @ '' healthy''),
      (''Artifacts'', fmt (sy_artifacts sys), ''ingested''),
      (''Entries'', show_nat (sy_entries sys), show_nat (sy_entities sys) @ '' entities''),
      (''Current'', show_nat (sy_current sys),
       show_nat (sy_stale sys) @ '' stale '' @ middot @ '' '' @ show_nat (sy_building sys) @ '' building''),
      (''Last sync'', sy_lastSync sys, ''all sources'')]"

definition StatStrip :: "SystemStatus \<Rightarrow> 'a node" where
  "StatStrip sys = El ''div'' [] (map (\<lambda>(label, value, sub).
     El ''div'' [AStr ''key'' label] [El ''div'' [] [Txt label], El ''div'' [] [Txt value], El ''div'' [] [Txt sub]])
     (stat_strip sys))"

definition TableHead :: "string list \<Rightarrow> 'a node" where
  "TableHead cols = El ''div'' [] (map (\<lambda>l. El ''div'' [AStr ''key'' l] [Txt l]) cols)"

definition Coverage :: "rat \<Rightarrow> 'a node" where
  "Coverage value =
     (let pct = percent value
      in El ''span'' []
           [El ''span'' [] [El ''span'' [AStr ''class'' (if 67 \<le> pct then ''bg-success'' else ''bg-warning''),
                                         AStr ''width'' (show_int pct @ ''%'')] []],
            El ''span'' [] [Txt (show_int pct @ ''%'')]])"

definition chapter_row :: "BookEntry \<Rightarrow> EntryStats \<Rightarrow> 'a node" where
  "chapter_row ch st =
     (let building = (be_status ch = Building); num = (\<lambda>n. Num (if building then emdash else show_nat n))
      in El ''Link'' [AStr ''key'' (be_id ch), AStr ''href'' (''/book/'' @ be_id ch)]
           [El ''div'' [] [StatusDot (be_status ch), El ''span'' [] [Txt (be_title ch)]],
            num (st_topics st), num (st_subtopics st), num (st_sources st),
            El ''div'' [] [if building then El ''span'' [] [Txt ''Building''] else Coverage (st_coverage st)],
            El ''div'' [] [Txt (nullish (be_lastRebuilt ch) emdash)]])"

definition recent_row :: "BookEntry \<Rightarrow> EntryStats \<Rightarrow> 'a node" where
  "recent_row e st =
     El ''Link'' [AStr ''key'' (be_id e), AStr ''href'' (''/book/'' @ be_id e)]
       [El ''div'' [] [El ''span'' [] [Txt (be_title e)]], El ''div'' [] [Txt (level_name (be_level e))],
        Num (show_nat (st_sources st)), Num (show_nat (st_citations st)),
        El ''div'' [] [StatusTag (be_status e)], El ''div'' [] [Txt (nullish (be_lastRebuilt e) emdash)]]"

definition rebuild_toast :: "SystemStatus \<Rightarrow> effect" where
  "rebuild_toast sys =
     Toast ''message'' ''Rebuild queued''
       (show_nat (sy_stale sys) @ '' stale '' @ (if sy_stale sys = 1 then ''entry'' else ''entries'') @
        '' will refresh from the latest corpus.'')"

definition BookHomePage :: "corpus \<Rightarrow> effect node option" where
  "BookHomePage c =
     (let sys = systemStatus c; recent = recentEntries c
      in do {
           cstats \<leftarrow> those (map (\<lambda>e. entryStats c (be_id e)) (chapters c));
           rstats \<leftarrow> those (map (\<lambda>e. entryStats c (be_id e)) recent);
           Some (El ''div'' []
             [El ''ChromeActions'' []
                [El ''Link'' [AStr ''href'' ''/sources''] [Txt ''Manage sources''],
                 El ''Button'' [On ''click'' (rebuild_toast sys)]
                   [Txt ''Rebuild stale'', El ''Badge'' [AStr ''variant'' ''warning''] [Txt (show_nat (sy_stale sys))]]],
              El ''h1'' [] [Txt ''Book''],
              El ''p'' [] [Txt (''The system's working model of the company '' @ emdash @
                                '' built and kept current from the corpus.'')],
              StatStrip sys,
              Section_p ''Chapters'' (Some (length (chapters c)))
                [TableHead [''Chapter'', ''Topics'', ''Sub-topics'', ''Sources'', ''Coverage'', ''Last rebuilt''],
                 El ''div'' [] (map2 chapter_row (chapters c) cstats)],
              Section_p ''Recently rebuilt'' (Some (length recent))
                [TableHead [''Entry'', ''Level'', ''Sources'', ''Citations'', ''Status'', ''Rebuilt''],
                 El ''div'' [] (map2 recent_row recent rstats)]])
         })"

section \<open>Asking\<close>

definition SUGGESTIONS :: "string list" where
  "SUGGESTIONS = [''What's our EU refund threshold?'', ''How does a Sev-1 incident escalate?'',
                  ''Who signs off on large refunds?'']"

definition RECENT :: "string list" where
  "RECENT = [''refund reason codes'', ''incident comms cadence'', ''US refund threshold over $600'']"

definition answer_text :: string where
  "answer_text =
     ''Refunds are threshold-based. EU VAT refunds above '' @ euro @ ''500 route to Finance for a second sign-off before they're issued; below the threshold, support can issue directly. [1] The threshold and a logged reason code became mandatory after the Q4 audit, [2] and a missed sign-off on an '' @ euro @ ''820 refund is why it's now surfaced in the refund flow. [3]''"

definition answer_citationIds :: "string list" where
  "answer_citationIds = [''c1'', ''c2'', ''c3'']"

definition answer_entries :: "string list" where
  "answer_entries = [''s-eu-vat'', ''t-refunds'']"

record ask =
  ask_query :: string
  ask_asked :: "string option"

definition ask_init :: ask where
  "ask_init = \<lparr>ask_query = [], ask_asked = None\<rparr>"

datatype ask_event = AskChange string | AskKey string | AskSubmit string | AskNew | AskHistory

definition ask_submit :: "string \<Rightarrow> ask \<Rightarrow> ask" where
  "ask_submit q s =
     (let trimmed = trim q
      in if trimmed = [] then s else s\<lparr>ask_query := trimmed, ask_asked := Some trimmed\<rparr>)"

fun ask_step :: "ask_event \<Rightarrow> ask \<Rightarrow> ask \<times> effect list" where
  "ask_step (AskChange t) s = (s\<lparr>ask_query := t\<rparr>, [])"
| "ask_step (AskKey k) s = (if k = ''Enter'' then ask_submit (ask_query s) s else s, [])"
| "ask_step (AskSubmit q) s = (ask_submit q s, [])"
| "ask_step AskNew s = (s\<lparr>ask_asked := None, ask_query := []\<rparr>, [])"
| "ask_step AskHistory s = (s, [Toast ''message'' ''History'' ''Your recent questions and their answers.''])"

definition answer_part :: "string \<Rightarrow> ask_event node" where
  "answer_part part =
     (case whole_marker part of
        None \<Rightarrow> Txt part
      | Some ds \<Rightarrow> El ''a'' [AStr ''href'' (''#src-'' @ ds)] [Txt ds])"

definition answer_entry :: "corpus \<Rightarrow> string \<Rightarrow> ask_event node list option" where
  "answer_entry c i =
     (case getEntry c i of
        None \<Rightarrow> Some []
      | Some e \<Rightarrow> map_option (\<lambda>st.
          [El ''Link'' [AStr ''key'' i, AStr ''href'' (''/book/'' @ i)]
             [El ''span'' [] [Txt (be_title e)], El ''span'' [] [Txt (level_name (be_level e))],
              El ''span'' [] [Txt (show_nat (st_citations st) @ '' cites'')]]]) (entryStats c i))"

definition answer_source :: "corpus \<Rightarrow> nat \<Rightarrow> string \<Rightarrow> ask_event node list" where
  "answer_source c i cid =
     (case getCitation c cid of
        None \<Rightarrow> []
      | Some cit \<Rightarrow>
          (case getArtifact c (ci_artifactId cit) of
             None \<Rightarrow> []
           | Some art \<Rightarrow>
               [El ''div'' [AStr ''key'' cid, AStr ''id'' (''src-'' @ show_nat (i + 1))]
                  [El ''div'' [] [El ''span'' [] [Txt (''['' @ show_nat (i + 1) @ '']'')], ConnectorIcon_of c art,
                                  El ''span'' [] [Txt (ba_sourceLabel art)], El ''span'' [] [Txt (ba_container art)],
                                  El ''span'' [] [Txt (ba_timestamp art)]],
                   El ''p'' [] [Txt (ci_quote cit)]]]))"

definition Answer :: "corpus \<Rightarrow> ask_event node option" where
  "Answer c =
     map_option (\<lambda>rows.
       El ''div'' []
         [El ''div'' [] [Txt ''Answer''],
          El ''article'' [] [El ''p'' [] (map answer_part (split_markers answer_text))],
          Section_p ''In the book'' (Some (length answer_entries)) [El ''div'' [] (concat rows)],
          Section_p ''Sources'' (Some (length answer_citationIds))
            [El ''div'' [] (concat (map (\<lambda>(i, cid). answer_source c i cid) (enumerate 0 answer_citationIds)))]])
       (those (map (answer_entry c) answer_entries))"

definition AskPage :: "corpus \<Rightarrow> ask \<Rightarrow> ask_event node option" where
  "AskPage c s =
     map_option (\<lambda>body.
       El ''div'' []
         ([El ''ChromeActions'' []
             (shown_if (truthy_str (ask_asked s)) [El ''Button'' [On ''click'' AskNew] [Txt ''New question'']] @
              [El ''Button'' [On ''click'' AskHistory] [Txt ''History'']]),
           El ''div'' []
             [El ''input'' [AStr ''value'' (ask_query s), OnValue ''change'' AskChange, OnValue ''keydown'' AskKey,
                            AStr ''placeholder'' (''Ask anything about how your company works'' @ ellipsis)] [],
              El ''button'' [On ''click'' (AskSubmit (ask_query s)), ABool ''disabled'' (trim (ask_query s) = [])] []]] @
          body))
       (if truthy_str (ask_asked s) then map_option (\<lambda>n. [n]) (Answer c)
        else Some [El ''div'' [] (map (\<lambda>q. El ''button'' [AStr ''key'' q, On ''click'' (AskSubmit q)] [Txt q]) SUGGESTIONS),
                   Section_p ''Recent'' (Some (length RECENT))
                     [El ''div'' [] (map (\<lambda>q. El ''button'' [AStr ''key'' q, On ''click'' (AskSubmit q)] [Txt q]) RECENT)]])"

section \<open>Lemmas\<close>

fun attr_flag :: "string \<Rightarrow> 'a attr list \<Rightarrow> bool" where
  "attr_flag n [] = False"
| "attr_flag n (ABool m v # as) = ((m = n \<and> v) \<or> attr_flag n as)"
| "attr_flag n (_ # as) = attr_flag n as"

fun attr_strs :: "string \<Rightarrow> 'a attr list \<Rightarrow> string list" where
  "attr_strs n [] = []"
| "attr_strs n (AStr m v # as) = (if m = n then v # attr_strs n as else attr_strs n as)"
| "attr_strs n (_ # as) = attr_strs n as"

text \<open>The keys of the highlighted rows of a list.\<close>

fun highlighted_row :: "'a node \<Rightarrow> string list" where
  "highlighted_row (Txt t) = []"
| "highlighted_row (El t as cs) = (if attr_flag ''active'' as then attr_strs ''key'' as else [])"

fun highlighted :: "'a node \<Rightarrow> string list" where
  "highlighted (Txt t) = []"
| "highlighted (El t as cs) = concat (map highlighted_row cs)"

definition cites_resolve :: "corpus \<Rightarrow> string list \<Rightarrow> bool" where
  "cites_resolve c ids \<longleftrightarrow>
     list_all (\<lambda>i. case getCitation c i of None \<Rightarrow> False | Some q \<Rightarrow> getArtifact c (ci_artifactId q) \<noteq> None) ids"

lemma clicks_summary_part:
  "concat (map clicks (summary_part (Some ids) act part)) =
     (case whole_marker part of None \<Rightarrow> []
      | Some ds \<Rightarrow> (case js_nth ids (int (digits_val ds) - 1) of
            None \<Rightarrow> [] | Some cid \<Rightarrow> if cid = [] then [] else [OpenCitation cid]))"
  by (simp add: summary_part_def split: option.splits)

lemma clicks_Summary:
  "OpenCitation cid \<in> set (clicks (Summary (Some ids) act text)) \<Longrightarrow>
   \<exists>ds. marker_text ds \<in> set (split_markers text) \<and> js_nth ids (int (digits_val ds) - 1) = Some cid"
proof -
  assume "OpenCitation cid \<in> set (clicks (Summary (Some ids) act text))"
  then obtain part where part: "part \<in> set (split_markers text)"
    "OpenCitation cid \<in> set (concat (map clicks (summary_part (Some ids) act part)))"
    by (auto simp: Summary_def)
  then obtain ds where "whole_marker part = Some ds" "js_nth ids (int (digits_val ds) - 1) = Some cid"
    by (auto simp only: clicks_summary_part split: option.splits if_splits)
      (auto split: option.splits if_splits)
  with part(1) show ?thesis by (auto simp: whole_marker_iff)
qed

text \<open>The tag of the fact band does not react to a rebuild request: both branches of its condition agree.\<close>

lemma FactBand_ignores_request: "FactBand e st (entry_stale e s) = FactBand e st False"
  by (simp add: FactBand_def entry_stale_def)

lemma js_nth_mem: "js_nth xs i = Some x \<Longrightarrow> x \<in> set xs"
  by (auto simp: js_nth_def split: if_splits)

lemma highlighted_cite_row:
  assumes "cites_resolve c [cid]"
  shows "concat (map highlighted_row (cite_row c act i cid)) = (if act = Some cid then [cid] else [])"
  using assms by (auto simp: cites_resolve_def cite_row_def Let_def split: option.splits)

lemma highlighted_cite_rows:
  assumes "cites_resolve c ids"
  shows "concat (map highlighted_row (concat (map (\<lambda>(i, cid). cite_row c (Some x) i cid) (enumerate n ids)))) =
           filter (\<lambda>cid. cid = x) ids"
  using assms
proof (induction ids arbitrary: n)
  case (Cons cid ids)
  have "cites_resolve c [cid]" "cites_resolve c ids" using Cons.prems by (auto simp: cites_resolve_def)
  with Cons.IH[of "Suc n"] highlighted_cite_row[of c cid "Some x" n] show ?case by auto
qed simp

lemma entryStats_returns: "tree_book c \<Longrightarrow> \<exists>s. entryStats c i = Some s"
  using scopeOf_returns[of c i] by (cases "getEntry c i") (auto simp: entryStats_def)

lemma artifactsOfEntry_returns: "tree_book c \<Longrightarrow> \<exists>s. artifactsOfEntry c i = Some s"
  using scopeOf_returns[of c i] by (cases "getEntry c i") (auto simp: artifactsOfEntry_def)

lemma entitiesOfEntry_returns: "tree_book c \<Longrightarrow> \<exists>s. entitiesOfEntry c i = Some s"
  using scopeOf_returns[of c i] by (cases "getEntry c i") (auto simp: entitiesOfEntry_def)

lemma Inspector_returns:
  assumes "tree_book c"
  shows "\<exists>n. Inspector c e st s = Some n"
proof -
  obtain a es where "artifactsOfEntry c (be_id e) = Some a" "entitiesOfEntry c (be_id e) = Some es"
    using artifactsOfEntry_returns[OF assms] entitiesOfEntry_returns[OF assms] by blast
  then show ?thesis
    by (cases "ep_tab s")
      (auto simp: Inspector_def SourcesTab_def EntitiesTab_def LineageTab_def lineageOfEntry_def Let_def)
qed

lemma those_returns: "(\<And>x. x \<in> set xs \<Longrightarrow> \<exists>y. f x = Some y) \<Longrightarrow> \<exists>ys. those (map f xs) = Some ys"
  by (induction xs) fastforce+

section \<open>Properties\<close>


definition us_refunds :: BookEntry where
  "us_refunds = the (getEntry mock ''s-us-refunds'')"


text \<open>
  C28. The reading pages render for every book that is a tree, whatever id the address names:
  none of the queries they make runs forever.
\<close>

theorem book_pages_render:
  assumes "tree_book c"
  shows "EntryPage c i s \<noteq> None \<and> BookHomePage c \<noteq> None \<and> AskPage c a \<noteq> None"
proof -
  have st: "\<exists>ys. those (map (\<lambda>e. entryStats c (be_id e)) es) = Some ys" for es
    by (rule those_returns) (rule entryStats_returns[OF assms])
  have "EntryPage c i s \<noteq> None"
  proof (cases "getEntry c i")
    case (Some e)
    obtain stats where stats: "entryStats c (be_id e) = Some stats" using entryStats_returns[OF assms] by blast
    obtain insp where insp: "Inspector c e stats s = Some insp" using Inspector_returns[OF assms] by blast
    obtain ks where "those (map (\<lambda>k. entryStats c (be_id k)) (childrenOf c (Some (be_id e)))) = Some ks"
      using st by blast
    with Some stats insp show ?thesis by (simp add: EntryPage_def Let_def)
  qed (simp add: EntryPage_def)
  moreover have "BookHomePage c \<noteq> None"
    using st[of "chapters c"] st[of "recentEntries c"] by (auto simp: BookHomePage_def Let_def)
  moreover have "AskPage c a \<noteq> None"
  proof -
    have "\<exists>ys. those (map (answer_entry c) answer_entries) = Some ys"
      by (rule those_returns)
        (use entryStats_returns[OF assms] in \<open>force simp: answer_entry_def split: option.splits\<close>)
    then show ?thesis by (auto simp: AskPage_def Answer_def)
  qed
  ultimately show ?thesis by blast
qed

theorem book_pages_render_witness: "EntryPage mock ''t-refunds'' entry_init \<noteq> None"
  using book_pages_render[OF mock_tree] by blast

end
