(* ===== verification/Auth_Funnel.thy ===== *)
theory Auth_Funnel
  imports Urls Schedule "HOL-Library.Multiset"
begin

text \<open>
  The prototype's sign-in funnel (\<open>prototype/components/auth/auth-flow.tsx\<close> and the pages of
  \<open>prototype/app/(auth)\<close>): the store that carries the email and the last method between pages,
  and one machine per page. A submitted form starts a timer of \<open>MOCK_DELAY_MS\<close>; the timer's
  callback sees the values of the render it was created in, so they are part of the machine's
  pending timers. \<open>localStorage\<close> is an optional string; a storage that throws is skipped by the
  code and leaves the state as it is.

  The theorems: a password is accepted exactly when it is long enough and typed twice, the code
  page never offers to resend before its countdown ends and a refused code never leads on, the
  provider chosen at the front door is the one the callback page names, the last-used provider
  is listed first, and two places where the funnel does something else than its comments say.
\<close>

section \<open>Constants\<close>

definition MOCK_DELAY_MS :: nat where "MOCK_DELAY_MS = 3000"

record mock_user =
  mu_email :: string
  mu_name :: string
  mu_initial :: string
  mu_role :: string

definition mockUser :: mock_user where
  "mockUser = \<lparr>mu_email = ''google@brijesh.dev'', mu_name = ''Brijesh Wawdhane'', mu_initial = ''B'', mu_role = ''Owner''\<rparr>"

section \<open>The store of the funnel\<close>

record auth_flow =
  af_email :: string
  af_lastMethod :: "string option"

definition LAST_METHOD_KEY :: string where "LAST_METHOD_KEY = ''hivebook-last-method''"

definition auth_flow_init :: auth_flow where
  "auth_flow_init = \<lparr>af_email = [], af_lastMethod = None\<rparr>"

text \<open>The mount effect: \<open>None\<close> is a storage that throws, \<open>Some None\<close> one without the key.\<close>

definition auth_flow_mount :: "string option option \<Rightarrow> auth_flow \<Rightarrow> auth_flow" where
  "auth_flow_mount stored f =
     (case stored of
        Some (Some m) \<Rightarrow> if m = [] then f else f\<lparr>af_lastMethod := Some m\<rparr>
      | _ \<Rightarrow> f)"

definition setEmail :: "string \<Rightarrow> auth_flow \<Rightarrow> auth_flow" where
  "setEmail e f = f\<lparr>af_email := e\<rparr>"

text \<open>The new state and the new content of the storage; a storage that throws keeps its content.\<close>

definition setLastMethod :: "string \<Rightarrow> bool \<Rightarrow> auth_flow \<times> string option \<Rightarrow> auth_flow \<times> string option" where
  "setLastMethod m writable fs =
     ((fst fs)\<lparr>af_lastMethod := Some m\<rparr>, if writable then Some m else snd fs)"

definition useAuthFlow :: "'c option \<Rightarrow> thrown + 'c" where
  "useAuthFlow ctx =
     (case ctx of None \<Rightarrow> Inl (OtherError ''useAuthFlow must be used within AuthFlowProvider'') | Some x \<Rightarrow> Inr x)"

definition displayEmail :: "auth_flow \<Rightarrow> string" where
  "displayEmail f = str_or (af_email f) (mu_email mockUser)"

section \<open>Sign in\<close>

record provider =
  pv_id :: string
  pv_label :: string
  pv_detail :: "string option"

definition PROVIDERS :: "provider list" where
  "PROVIDERS =
     [\<lparr>pv_id = ''microsoft'', pv_label = ''Continue with Microsoft'', pv_detail = None\<rparr>,
      \<lparr>pv_id = ''google'', pv_label = ''Continue with Google'', pv_detail = None\<rparr>,
      \<lparr>pv_id = ''sso'', pv_label = ''Single sign-on (SSO)'', pv_detail = Some (''SAML '' @ middot @ '' OIDC'')\<rparr>]"

text \<open>\<open>p.label.replace("Continue with ", "")\<close>: the first occurrence.\<close>

fun replace_first :: "string \<Rightarrow> string \<Rightarrow> string \<Rightarrow> string" where
  "replace_first p r [] = (if p = [] then r else [])"
| "replace_first p r (c # s) =
     (if starts_with (c # s) p then r @ drop (length p) (c # s) else c # replace_first p r s)"

definition providerName :: "provider \<Rightarrow> string" where
  "providerName p = replace_first ''Continue with '' [] (pv_label p)"

text \<open>The stable sort by \<open>Number(b.id === last) - Number(a.id === last)\<close>.\<close>

fun insert_last :: "string option \<Rightarrow> provider \<Rightarrow> provider list \<Rightarrow> provider list" where
  "insert_last m p [] = [p]"
| "insert_last m p (q # qs) =
     (if (if Some (pv_id q) = m then 1 else 0) - (if Some (pv_id p) = m then 1 else 0) \<le> (0 :: int)
      then p # q # qs else q # insert_last m p qs)"

definition ordered_providers :: "string option \<Rightarrow> provider list" where
  "ordered_providers m = foldr (insert_last m) PROVIDERS []"

record sign_in =
  si_pending :: bool
  si_timers :: "string list"   \<comment> \<open>the emails the running timers have captured\<close>

definition sign_in_init :: sign_in where
  "sign_in_init = \<lparr>si_pending = False, si_timers = []\<rparr>"

datatype sign_in_event =
    SIEmail string
  | SISubmit
  | SITimer                     \<comment> \<open>the oldest timer fires\<close>
  | SIProvider string string

definition route_for :: "string \<Rightarrow> string" where
  "route_for email =
     (if toLowerCase (trim email) = mu_email mockUser then ''/enter-password'' else ''/verify-email?flow=signup'')"

text \<open>The store with the content of its storage, and the page; \<open>writable\<close> tells whether the storage accepts a write.\<close>

fun sign_in_step ::
  "bool \<Rightarrow> sign_in_event \<Rightarrow> (auth_flow \<times> string option) \<times> sign_in \<Rightarrow>
   ((auth_flow \<times> string option) \<times> sign_in) \<times> effect list" where
  "sign_in_step w (SIEmail e) (fs, s) = (((setEmail e (fst fs), snd fs), s), [])"
| "sign_in_step w SISubmit (fs, s) =
     (if af_email (fst fs) = [] then ((fs, s), [])
      else ((setLastMethod ''email'' w fs,
             s\<lparr>si_pending := True, si_timers := si_timers s @ [af_email (fst fs)]\<rparr>), []))"
| "sign_in_step w SITimer (fs, s) =
     (case si_timers s of
        [] \<Rightarrow> ((fs, s), [])
      | e # es \<Rightarrow> ((fs, s\<lparr>si_pending := False, si_timers := es\<rparr>), [RouterPush (route_for e)]))"
| "sign_in_step w (SIProvider i nm) (fs, s) =
     ((setLastMethod i w fs, s), [RouterPush (''/sso/callback?provider='' @ encodeURIComponent nm)])"

definition sign_in_form :: "auth_flow \<Rightarrow> sign_in \<Rightarrow> sign_in_event node" where
  "sign_in_form f s =
     El ''form'' [On ''submit'' SISubmit]
       [El ''Input'' [AStr ''id'' ''email'', AStr ''type'' ''email'', ABool ''required'' True,
                      AStr ''value'' (af_email f), OnValue ''change'' SIEmail] [],
        El ''AuthSubmitButton'' [ABool ''disabled'' (si_pending s)]
          [Txt (if si_pending s then ''Continuing'' @ ellipsis else ''Continue'')]]"

definition provider_button :: "string option \<Rightarrow> provider \<Rightarrow> sign_in_event node" where
  "provider_button m p =
     El ''AuthMethodButton''
       ([AStr ''key'' (pv_id p), AStr ''label'' (pv_label p), On ''click'' (SIProvider (pv_id p) (providerName p))] @
        (if Some (pv_id p) = m then [AStr ''detail'' ''Last used'']
         else (case pv_detail p of None \<Rightarrow> [] | Some d \<Rightarrow> [AStr ''detail'' d]))) []"

definition SignInPage :: "auth_flow \<Rightarrow> sign_in \<Rightarrow> sign_in_event node" where
  "SignInPage f s =
     El ''AuthShell'' []
       [El ''AuthCardHeader'' [AStr ''title'' ''Sign in or create your account''] [],
        sign_in_form f s,
        El ''AuthDivider'' [] [Txt ''or continue with''],
        El ''div'' [] (map (provider_button (af_lastMethod f)) (ordered_providers (af_lastMethod f)))]"

section \<open>Entering and resetting a password\<close>

record enter_password =
  pw_password :: string
  pw_showPw :: bool
  pw_pending :: bool
  pw_timers :: nat

datatype password_event = PWChange string | PWToggleShow | PWSubmit | PWTimer | PWCodeInstead

fun enter_password_step :: "password_event \<Rightarrow> enter_password \<Rightarrow> enter_password \<times> effect list" where
  "enter_password_step (PWChange t) s = (s\<lparr>pw_password := t\<rparr>, [])"
| "enter_password_step PWToggleShow s = (s\<lparr>pw_showPw := \<not> pw_showPw s\<rparr>, [])"
| "enter_password_step PWSubmit s = 
     (if pw_password s = [] then (s, []) else (s\<lparr>pw_pending := True, pw_timers := pw_timers s + 1\<rparr>, []))"
| "enter_password_step PWTimer s =
     (if pw_timers s = 0 then (s, []) else (s\<lparr>pw_timers := pw_timers s - 1\<rparr>, [RouterPush ''/book'']))"
| "enter_password_step PWCodeInstead s = (s, [RouterPush ''/verify-email?flow=login''])"

definition EnterPasswordPage :: "auth_flow \<Rightarrow> enter_password \<Rightarrow> password_event node" where
  "EnterPasswordPage f s =
     El ''AuthShell'' []
       [El ''AuthCardHeader'' [AStr ''title'' ''Enter your password'']
          [Txt ''Signing in as '', El ''span'' [] [Txt (displayEmail f)], Txt ''.''],
        El ''form'' [On ''submit'' PWSubmit]
          [El ''Link'' [AStr ''href'' ''/forgot-password''] [Txt ''Forgot password?''],
           El ''Input'' [AStr ''type'' (if pw_showPw s then ''text'' else ''password''), ABool ''required'' True,
                         AStr ''value'' (pw_password s), OnValue ''change'' PWChange] [],
           El ''button'' [On ''click'' PWToggleShow,
                          AStr ''aria-label'' (if pw_showPw s then ''Hide password'' else ''Show password'')] [],
           El ''AuthSubmitButton'' [ABool ''disabled'' (pw_pending s)]
             [Txt (if pw_pending s then ''Signing in'' @ ellipsis else ''Sign in'')]],
        El ''AuthDivider'' [] [Txt ''or''],
        El ''AuthMethodButton'' [AStr ''label'' ''Email me a code instead'', On ''click'' PWCodeInstead] [],
        El ''Link'' [AStr ''href'' ''/sign-in''] [Txt ''Use a different email'']]"

datatype forgot_event = FPEmail string | FPSubmit | FPTimer

record forgot =
  fp_pending :: bool
  fp_timers :: nat

fun forgot_step :: "forgot_event \<Rightarrow> auth_flow \<times> forgot \<Rightarrow> (auth_flow \<times> forgot) \<times> effect list" where
  "forgot_step (FPEmail e) (f, s) = ((setEmail e f, s), [])"
| "forgot_step FPSubmit (f, s) =
     (if af_email f = [] then ((f, s), [])
      else ((f, s\<lparr>fp_pending := True, fp_timers := fp_timers s + 1\<rparr>), []))"
| "forgot_step FPTimer (f, s) =
     (if fp_timers s = 0 then ((f, s), [])
      else ((f, s\<lparr>fp_timers := fp_timers s - 1\<rparr>), [RouterPush ''/verify-email?flow=reset'']))"

definition ForgotPasswordPage :: "auth_flow \<Rightarrow> forgot \<Rightarrow> forgot_event node" where
  "ForgotPasswordPage f s =
     El ''AuthShell'' []
       [El ''AuthCardHeader'' [AStr ''title'' ''Reset your password''] [],
        El ''form'' [On ''submit'' FPSubmit]
          [El ''Input'' [AStr ''id'' ''email'', ABool ''required'' True, AStr ''value'' (af_email f),
                         OnValue ''change'' FPEmail] [],
           El ''AuthSubmitButton'' [ABool ''disabled'' (fp_pending s)]
             [Txt (if fp_pending s then ''Sending code'' @ ellipsis else ''Send reset code'')]],
        El ''Link'' [AStr ''href'' ''/sign-in''] [Txt ''Back to sign-in'']]"

section \<open>Setting a password\<close>

record set_password =
  sp_pw :: string
  sp_pw2 :: string
  sp_showPw :: bool
  sp_pending :: bool
  sp_tried :: bool
  sp_timers :: nat

definition set_password_init :: set_password where
  "set_password_init = \<lparr>sp_pw = [], sp_pw2 = [], sp_showPw = False, sp_pending = False, sp_tried = False, sp_timers = 0\<rparr>"

definition MIN_LENGTH :: nat where "MIN_LENGTH = 12"

definition lengthOk :: "set_password \<Rightarrow> bool" where
  "lengthOk s \<longleftrightarrow> MIN_LENGTH \<le> js_length (sp_pw s)"

definition pw_match :: "set_password \<Rightarrow> bool" where
  "pw_match s \<longleftrightarrow> 0 < js_length (sp_pw2 s) \<and> sp_pw s = sp_pw2 s"

datatype set_password_event = SPPw string | SPPw2 string | SPToggleShow | SPSubmit | SPTimer

fun set_password_step :: "bool \<Rightarrow> set_password_event \<Rightarrow> set_password \<Rightarrow> set_password \<times> effect list" where
  "set_password_step isReset (SPPw t) s = (s\<lparr>sp_pw := t\<rparr>, [])"
| "set_password_step isReset (SPPw2 t) s = (s\<lparr>sp_pw2 := t\<rparr>, [])"
| "set_password_step isReset SPToggleShow s = (s\<lparr>sp_showPw := \<not> sp_showPw s\<rparr>, [])"
| "set_password_step isReset SPSubmit s =
     (if \<not> (lengthOk s \<and> pw_match s) then (s\<lparr>sp_tried := True\<rparr>, [])
      else (s\<lparr>sp_pending := True, sp_timers := sp_timers s + 1\<rparr>, []))"
| "set_password_step isReset SPTimer s =
     (if sp_timers s = 0 then (s, [])
      else (s\<lparr>sp_timers := sp_timers s - 1\<rparr>,
            [RouterPush (if isReset then ''/sign-in'' else ''/onboarding/organization'')]))"

definition is_lower :: "char \<Rightarrow> bool" where
  "is_lower c \<longleftrightarrow> 97 \<le> (of_char c :: nat) \<and> (of_char c :: nat) \<le> 122"

definition is_upper :: "char \<Rightarrow> bool" where
  "is_upper c \<longleftrightarrow> 65 \<le> (of_char c :: nat) \<and> (of_char c :: nat) \<le> 90"

definition variety :: "string \<Rightarrow> nat" where
  "variety pw =
     length (filter (\<lambda>r. list_ex r pw) [is_lower, is_upper, is_digit, \<lambda>c. \<not> (is_lower c \<or> is_upper c \<or> is_digit c)])"

definition strength_score :: "string \<Rightarrow> nat" where
  "strength_score pw =
     min 4 ((if 8 \<le> js_length pw then 1 else 0) + (if 12 \<le> js_length pw then 1 else 0) +
            (if 16 \<le> js_length pw then 1 else 0) + (if 3 \<le> variety pw then 1 else 0))"

definition StrengthMeter :: "string \<Rightarrow> 'a node" where
  "StrengthMeter pw =
     (let score = strength_score pw; label = [[], ''Weak'', ''Fair'', ''Good'', ''Strong''] ! score;
          color = (if score \<le> 1 then ''bg-destructive'' else if score = 2 then ''bg-warning'' else ''bg-success'')
      in El ''div'' []
           (El ''div'' [] (map (\<lambda>i. El ''span'' [ANum ''key'' (int i), AStr ''class'' (if i < score then color else ''bg-muted'')] [])
              [0, 1, 2, 3]) #
            shown_if (label \<noteq> []) [El ''p'' [] [Txt ''Strength: '', El ''span'' [] [Txt label]]]))"

definition Rule :: "bool \<Rightarrow> bool \<Rightarrow> string \<Rightarrow> 'a node" where
  "Rule ok failed label =
     El ''li'' []
       [if ok then El ''RiCheckLine'' [] []
        else El ''RiCloseLine'' [AStr ''class'' (if failed then ''text-destructive'' else ''text-muted-foreground/50'')] [],
        El ''span'' [ABool ''foreground'' ok, ABool ''destructive'' (failed \<and> \<not> ok)] [Txt label]]"

definition pw_input :: "string \<Rightarrow> string \<Rightarrow> (string \<Rightarrow> set_password_event) \<Rightarrow> set_password \<Rightarrow> set_password_event node" where
  "pw_input i value change s =
     El ''div'' []
       [El ''Input'' [AStr ''id'' i, AStr ''type'' (if sp_showPw s then ''text'' else ''password''),
                      ABool ''required'' True, AStr ''value'' value, OnValue ''change'' change] [],
        El ''button'' [On ''click'' SPToggleShow,
                       AStr ''aria-label'' (if sp_showPw s then ''Hide password'' else ''Show password'')] []]"

definition SetPasswordForm :: "bool \<Rightarrow> set_password \<Rightarrow> set_password_event node" where
  "SetPasswordForm isReset s =
     El ''AuthShell'' []
       [El ''AuthCardHeader'' [AStr ''title'' (if isReset then ''Set a new password'' else ''Create your password'')] [],
        El ''form'' [On ''submit'' SPSubmit]
          ([El ''AuthField'' [AStr ''label'' (if isReset then ''New password'' else ''Password'')] [pw_input ''pw'' (sp_pw s) SPPw s],
            El ''AuthField'' [AStr ''label'' (if isReset then ''Confirm new password'' else ''Confirm password'')]
              [pw_input ''pw2'' (sp_pw2 s) SPPw2 s]] @
           shown_if (0 < js_length (sp_pw s)) [StrengthMeter (sp_pw s)] @
           [El ''ul'' [] [Rule (lengthOk s) (sp_tried s \<and> \<not> lengthOk s) ''At least 12 characters'',
                          Rule (pw_match s) (sp_tried s \<and> \<not> pw_match s) ''Passwords match'']] @
           shown_if isReset [El ''Checkbox'' [AStr ''id'' ''logout'', ABool ''defaultChecked'' True] []] @
           [El ''AuthSubmitButton'' [ABool ''disabled'' (sp_pending s)]
              [Txt (if sp_pending s then (if isReset then ''Updating'' @ ellipsis else ''Creating account'' @ ellipsis)
                    else if isReset then ''Update password'' else ''Create account'')]]),
        El ''Link'' [AStr ''href'' ''/sign-in''] [Txt ''Back to sign-in'']]"

section \<open>Verifying the email\<close>

definition RESEND_SECONDS :: nat where "RESEND_SECONDS = 30"

definition NEXT_BY_FLOW :: "(string \<times> string) list" where
  "NEXT_BY_FLOW = [(''signup'', ''/set-password''), (''login'', ''/book''), (''reset'', ''/set-password?mode=reset'')]"

text \<open>\<open>NEXT_BY_FLOW[flow] ?? NEXT_BY_FLOW.signup\<close>; \<open>None\<close> is an inherited property, not a string.\<close>

definition verify_next :: "string option \<Rightarrow> string option" where
  "verify_next flow =
     (case prop_get NEXT_BY_FLOW (nullish flow ''signup'') of
        Own p \<Rightarrow> Some p | Inherited \<Rightarrow> None | Undefined \<Rightarrow> Some ''/set-password'')"

record verify =
  ve_code :: string
  ve_resendIn :: nat
  ve_verifying :: bool
  ve_error :: "string option"
  ve_timers :: "string list"      \<comment> \<open>the codes the running timers have captured\<close>

definition verify_init :: verify where
  "verify_init = \<lparr>ve_code = [], ve_resendIn = RESEND_SECONDS, ve_verifying = False, ve_error = None, ve_timers = []\<rparr>"

datatype verify_event = VCode string | VComplete string | VTimer | VTick | VResend | VPhone

text \<open>The third component is the target handed to \<open>router.push\<close>, if any.\<close>

fun verify_step :: "auth_flow \<Rightarrow> string option \<Rightarrow> verify_event \<Rightarrow> verify \<Rightarrow> verify \<times> effect list \<times> string option option" where
  "verify_step f nxt (VCode t) s = (s\<lparr>ve_code := t\<rparr>, [], None)"
| "verify_step f nxt (VComplete v) s =
     (s\<lparr>ve_verifying := True, ve_error := None, ve_timers := ve_timers s @ [v]\<rparr>, [], None)"
| "verify_step f nxt VTimer s =
     (case ve_timers s of
        [] \<Rightarrow> (s, [], None)
      | v # vs \<Rightarrow>
          if v = ''000000''
          then (s\<lparr>ve_error := Some ''That code is incorrect. Try again or request a new one.'',
                  ve_verifying := False, ve_code := [], ve_timers := vs\<rparr>, [], None)
          else (s\<lparr>ve_timers := vs\<rparr>, [], Some nxt))"
| "verify_step f nxt VTick s = (s\<lparr>ve_resendIn := ve_resendIn s - 1\<rparr>, [], None)"
| "verify_step f nxt VResend s =
     (s\<lparr>ve_resendIn := RESEND_SECONDS, ve_error := None\<rparr>,
      [Toast ''success'' ''New code sent.'' (''Sent to '' @ displayEmail f @ ''. Check your inbox.'')], None)"
| "verify_step f nxt VPhone s = (s, [Toast ''info'' ''We've called you with the code.'' []], None)"

text \<open>
  What can happen in a state: the code input is disabled while verifying, the interval runs while
  the countdown is positive, the resend button is rendered when it has ended.
\<close>

fun verify_offered :: "verify \<Rightarrow> verify_event \<Rightarrow> bool" where
  "verify_offered s (VCode t) = (\<not> ve_verifying s)"
| "verify_offered s (VComplete v) = (\<not> ve_verifying s)"
| "verify_offered s VTimer = (ve_timers s \<noteq> [])"
| "verify_offered s VTick = (0 < ve_resendIn s)"
| "verify_offered s VResend = (ve_resendIn s = 0)"
| "verify_offered s VPhone = True"

definition VerifyEmailForm :: "auth_flow \<Rightarrow> verify \<Rightarrow> verify_event node" where
  "VerifyEmailForm f s =
     El ''AuthShell'' []
       [El ''AuthCardHeader'' [AStr ''title'' ''Verify your email'']
          [Txt ''Enter the 6-digit code we sent to '', El ''span'' [] [Txt (displayEmail f)], Txt ''.''],
        El ''InputOTP'' [ANum ''maxLength'' 6, AStr ''value'' (ve_code s), OnValue ''change'' VCode,
                         OnValue ''complete'' VComplete, ABool ''disabled'' (ve_verifying s),
                         ABool ''aria-invalid'' (truthy_str (ve_error s))] [],
        El ''div'' [AStr ''id'' ''otp-status'']
          (shown_if (ve_verifying s) [El ''p'' [] [Txt (''Verifying'' @ ellipsis)]] @
           shown_if (truthy_str (ve_error s) \<and> \<not> ve_verifying s)
             [El ''p'' [AStr ''role'' ''alert''] [Txt (nullish (ve_error s) [])]]),
        El ''div'' []
          (if 0 < ve_resendIn s
           then [Txt ''Didn't receive a code? Resend in '', El ''span'' [] [Txt (show_nat (ve_resendIn s) @ ''s'')]]
           else [Txt ''Didn't receive a code? '', El ''button'' [On ''click'' VResend] [Txt ''Resend now'']]),
        El ''button'' [On ''click'' VPhone] [Txt ''Send the code by phone instead''],
        El ''Link'' [AStr ''href'' ''/sign-in''] [Txt ''Back to sign-in'']]"

section \<open>The callback of single sign-on\<close>

definition STAGE_COUNT :: nat where "STAGE_COUNT = 3"
definition STEP_MS :: nat where "STEP_MS = MOCK_DELAY_MS div STAGE_COUNT"

definition sso_stages :: "string option \<Rightarrow> string list" where
  "sso_stages provider =
     [''Connecting to '' @ nullish provider ''your identity provider'' @ ellipsis,
      (if truthy_str provider then ''Verifying your identity with '' @ nullish provider [] @ ellipsis
       else ''Verifying your identity'' @ ellipsis),
      ''Loading your workspace'' @ ellipsis]"

record sso =
  ss_stage :: nat
  ss_interval :: bool
  ss_push :: bool      \<comment> \<open>the timer that navigates is running\<close>

definition sso_init :: sso where
  "sso_init = \<lparr>ss_stage = 0, ss_interval = True, ss_push = False\<rparr>"

text \<open>What happens \<open>STEP_MS\<close> later: the interval ticks, or the timer it left behind fires.\<close>

definition sso_step :: "sso \<Rightarrow> sso \<times> effect list" where
  "sso_step s =
     (if ss_push s then (s\<lparr>ss_push := False\<rparr>, [RouterPush ''/book''])
      else if ss_interval s
      then (if STAGE_COUNT - 1 \<le> ss_stage s then (s\<lparr>ss_interval := False, ss_push := True\<rparr>, [])
            else (s\<lparr>ss_stage := ss_stage s + 1\<rparr>, []))
      else (s, []))"

fun sso_run :: "nat \<Rightarrow> sso \<times> effect list" where
  "sso_run 0 = (sso_init, [])"
| "sso_run (Suc n) = (let (s, es) = sso_run n; (s', e) = sso_step s in (s', es @ e))"

text \<open>
  Leaving the page, e.g. by its link "Cancel and try another way": the clean-up clears the interval
  and nothing else.
\<close>

definition sso_unmount :: "sso \<Rightarrow> sso" where
  "sso_unmount s = s\<lparr>ss_interval := False\<rparr>"

definition Indicator :: "nat \<Rightarrow> nat \<Rightarrow> string" where
  "Indicator i stage = (if i < stage then ''done'' else if i = stage then ''active'' else ''idle'')"

definition SsoCallback :: "string option \<Rightarrow> sso \<Rightarrow> 'a node" where
  "SsoCallback provider s =
     El ''AuthShell'' []
       [El ''h1'' [] [Txt ''Signing you in''], El ''p'' [] [Txt ''This should only take a moment.''],
        El ''ol'' [] (map (\<lambda>(i, label).
          El ''li'' (AStr ''key'' label # (if i = ss_stage s then [AStr ''aria-current'' ''step''] else []))
            [El ''Indicator'' [AStr ''state'' (Indicator i (ss_stage s))] [], El ''span'' [] [Txt label]])
          (enumerate 0 (sso_stages provider))),
        Txt ''Stuck on this screen? '', El ''Link'' [AStr ''href'' ''/sign-in''] [Txt ''Cancel and try another way'']]"

definition SignUpPage :: effect where "SignUpPage = RouterReplace ''/sign-in''"


section \<open>The front door\<close>

lemma foldr_insert_last:
  "foldr (insert_last m) ps [] = filter (\<lambda>p. Some (pv_id p) = m) ps @ filter (\<lambda>p. Some (pv_id p) \<noteq> m) ps"
proof -
  have front: "insert_last m p qs = p # qs" if "Some (pv_id p) = m" for p qs
    using that by (cases qs) auto
  have behind: "insert_last m p (as @ bs) = as @ p # bs"
    if "Some (pv_id p) \<noteq> m" "\<forall>a \<in> set as. Some (pv_id a) = m" "\<forall>b \<in> set bs. Some (pv_id b) \<noteq> m" for p as bs
    using that by (induction as) (cases bs; auto)+
  show ?thesis by (induction ps) (auto simp: front behind)
qed

text \<open>
  The provider used last leads the list of identity providers, the others follow in their order,
  and none is lost or repeated; without a provider used last (the last method was the email, or
  nothing is stored) the list is the one of the source.
\<close>

theorem last_provider_first:
  "ordered_providers m =
     filter (\<lambda>p. Some (pv_id p) = m) PROVIDERS @ filter (\<lambda>p. Some (pv_id p) \<noteq> m) PROVIDERS \<and>
   mset (ordered_providers m) = mset PROVIDERS \<and>
   (Some (pv_id (hd (ordered_providers m))) = m \<longleftrightarrow> (\<exists>p \<in> set PROVIDERS. Some (pv_id p) = m)) \<and>
   distinct (map pv_id (ordered_providers m))"
proof -
  let ?P = "\<lambda>p. Some (pv_id p) = m"
  have eq: "ordered_providers m = filter ?P PROVIDERS @ filter (\<lambda>p. \<not> ?P p) PROVIDERS"
    by (simp add: ordered_providers_def foldr_insert_last)
  then have perm: "mset (ordered_providers m) = mset PROVIDERS" by simp
  have "distinct (map pv_id PROVIDERS)" by (simp add: PROVIDERS_def)
  then have dist: "distinct (map pv_id (ordered_providers m))"
    using perm by (metis mset_map mset_eq_imp_distinct_iff)
  have hd: "?P (hd (ordered_providers m)) \<longleftrightarrow> (\<exists>p \<in> set PROVIDERS. ?P p)"
  proof (cases "filter ?P PROVIDERS")
    case Nil
    have "PROVIDERS \<noteq> []" by (simp add: PROVIDERS_def)
    then have "hd (ordered_providers m) \<in> set (ordered_providers m)"
      using perm by (metis hd_in_set mset_zero_iff)
    then have "hd (ordered_providers m) \<in> set PROVIDERS" using perm by (metis set_mset_mset)
    with Nil show ?thesis by (auto simp: filter_empty_conv)
  next
    case (Cons p ps)
    then have "p \<in> set (filter ?P PROVIDERS)" by simp
    then have "p \<in> set PROVIDERS \<and> ?P p" by (simp only: set_filter mem_Collect_eq)
    then show ?thesis using eq Cons by auto
  qed
  from eq perm hd dist show ?thesis by blast
qed

text \<open>
  The provider survives the trip through the address bar: whatever name a provider button hands to
  the callback page, \<open>encodeURIComponent\<close> and the query parser give it back, so the loader
  names the provider the user pressed.
\<close>

theorem provider_roundtrip:
  "\<exists>fs' href.
     sign_in_step w (SIProvider i nm) (fs, s) = ((fs', s), [RouterPush href]) \<and>
     af_lastMethod (fst fs') = Some i \<and>
     params_get (query_of href) ''provider'' = Some nm \<and>
     hd (sso_stages (params_get (query_of href) ''provider'')) = ''Connecting to '' @ nm @ ellipsis"
proof -
  have "query_of (''/sso/callback?provider='' @ encodeURIComponent nm) = ''provider'' @ ''='' @ encodeURIComponent nm"
    by (simp add: query_of_def)
  moreover have "list_all uri_unreserved ''provider''" by code_simp
  ultimately have "params_get (query_of (''/sso/callback?provider='' @ encodeURIComponent nm)) ''provider'' = Some nm"
    using params_get_encoded[of "''provider''" nm] by simp
  then show ?thesis
    by (simp only: sign_in_step.simps setLastMethod_def prod.inject list.inject effect.inject) (simp add: sso_stages_def)
qed

text \<open>
  The route is chosen from the email at the time of the submission: an address typed while the timer
  runs is the one the next page shows, and not the one that was looked up.
\<close>

lemma sign_in_routes_on_submitted_email:
  assumes "a \<noteq> []"
  shows "snd (sign_in_step w SITimer (fst (sign_in_step w (SIEmail b)
           (fst (sign_in_step w SISubmit (fst (sign_in_step w (SIEmail a) ((f, st), sign_in_init)))))))) =
         [RouterPush (route_for a)] \<and>
         af_email (fst (fst (fst (sign_in_step w SITimer (fst (sign_in_step w (SIEmail b)
           (fst (sign_in_step w SISubmit (fst (sign_in_step w (SIEmail a) ((f, st), sign_in_init))))))))))) = b"
  using assms by (simp add: setEmail_def setLastMethod_def sign_in_init_def)

section \<open>Which passwords are accepted\<close>

text \<open>
  The contract of a form that navigates after a delay: only an accepted submission starts a timer,
  only a timer of such a submission navigates to the form's target, and what other events emit
  (\<open>direct\<close>) does not depend on the state.
\<close>

locale delayed_form =
  fixes step :: "'e \<Rightarrow> 's \<Rightarrow> 's \<times> effect list"
    and timers :: "'s \<Rightarrow> nat"
    and submit :: 'e and timer :: 'e
    and accepts :: "'s \<Rightarrow> bool"
    and target :: effect
    and direct :: "'e \<Rightarrow> effect list"
  assumes submitted: "step submit s = (s', x) \<Longrightarrow> x = [] \<and> timers s' = timers s + (if accepts s then 1 else 0)"
    and fired: "step timer s = (s', x) \<Longrightarrow>
          timers s' = timers s - 1 \<and> x = (if timers s = 0 then [] else [target])"
    and others: "e \<noteq> submit \<Longrightarrow> e \<noteq> timer \<Longrightarrow> step e s = (s', x) \<Longrightarrow> timers s' = timers s \<and> x = direct e"
begin

lemma emitted:
  assumes "timers s = 0" "steps step es s = (s', x)"
  shows "(timers s' \<noteq> 0 \<longrightarrow> (\<exists>pre post. es = pre @ submit # post \<and> accepts (fst (steps step pre s)))) \<and>
         (\<forall>y \<in> set x. (\<exists>e \<in> set es. y \<in> set (direct e)) \<or>
            y = target \<and> (\<exists>pre post. es = pre @ submit # post \<and> accepts (fst (steps step pre s))))"
  using assms(2)
proof (induction es arbitrary: s' x rule: rev_induct)
  case Nil
  with assms(1) show ?case by simp
next
  case (snoc e es)
  let ?ok = "\<lambda>es. \<exists>pre post. es = pre @ submit # post \<and> accepts (fst (steps step pre s))"
  obtain u y where u: "steps step es s = (u, y)" by (cases "steps step es s")
  obtain v z where v: "step e u = (v, z)" by (cases "step e u")
  have res: "s' = v" "x = y @ z" using snoc.prems by (simp_all add: steps_append u v)
  have grow: "?ok (es @ [e])" if "?ok es" using that by (metis append.assoc append_Cons)
  note IH = snoc.IH[OF u]
  have new: "(timers v \<noteq> 0 \<longrightarrow> timers u \<noteq> 0 \<or> e = submit \<and> accepts u) \<and>
      (\<forall>w \<in> set z. w \<in> set (direct e) \<or> w = target \<and> timers u \<noteq> 0)"
    using submitted[of u v z] fired[of u v z] others[of e u v z] v by (cases "e = submit"; cases "e = timer") (auto split: if_splits)
  have now: "?ok (es @ [e])" if "e = submit" "accepts u" using that u by force
  have before: "?ok (es @ [e])" if "timers u \<noteq> 0" using IH grow that by blast
  show ?case unfolding res
  proof (intro conjI impI ballI)
    assume "timers v \<noteq> 0"
    with new now before show "?ok (es @ [e])" by blast
  next
    fix w assume "w \<in> set (y @ z)"
    then consider "w \<in> set y" | "w \<in> set z" by auto
    then show "(\<exists>e' \<in> set (es @ [e]). w \<in> set (direct e')) \<or> w = target \<and> ?ok (es @ [e])"
    proof cases
      case 1
      with IH grow show ?thesis by (metis Un_iff set_append)
    next
      case 2
      with new before show ?thesis by auto
    qed
  qed
qed

end

interpretation set_pw: delayed_form "set_password_step r" sp_timers SPSubmit SPTimer "\<lambda>s. lengthOk s \<and> pw_match s"
  "RouterPush (if r then ''/sign-in'' else ''/onboarding/organization'')" "\<lambda>e. []" for r
proof
  fix e s s' x
  assume "e \<noteq> SPSubmit" "e \<noteq> SPTimer" "set_password_step r e s = (s', x)"
  then show "sp_timers s' = sp_timers s \<and> x = []" by (cases e) auto
qed (auto split: if_splits)

interpretation enter_pw: delayed_form enter_password_step pw_timers PWSubmit PWTimer "\<lambda>s. pw_password s \<noteq> []"
  "RouterPush ''/book''" "\<lambda>e. if e = PWCodeInstead then [RouterPush ''/verify-email?flow=login''] else []"
proof
  fix e s s' x
  assume "e \<noteq> PWSubmit" "e \<noteq> PWTimer" "enter_password_step e s = (s', x)"
  then show "pw_timers s' = pw_timers s \<and> x = (if e = PWCodeInstead then [RouterPush ''/verify-email?flow=login''] else [])"
    by (cases e) auto
qed (auto split: if_splits)

interpretation forgot_pw: delayed_form forgot_step "\<lambda>fs. fp_timers (snd fs)" FPSubmit FPTimer "\<lambda>fs. af_email (fst fs) \<noteq> []"
  "RouterPush ''/verify-email?flow=reset''" "\<lambda>e. []"
proof
  fix e fs s' x
  assume "e \<noteq> FPSubmit" "e \<noteq> FPTimer" "forgot_step e fs = (s', x)"
  then show "fp_timers (snd s') = fp_timers (snd fs) \<and> x = []" by (cases e; cases fs) auto
next
  fix fs s' x
  assume "forgot_step FPSubmit fs = (s', x)"
  then show "x = [] \<and> fp_timers (snd s') = fp_timers (snd fs) + (if af_email (fst fs) \<noteq> [] then 1 else 0)"
    by (cases fs) (auto split: if_splits)
next
  fix fs s' x
  assume "forgot_step FPTimer fs = (s', x)"
  then show "fp_timers (snd s') = fp_timers (snd fs) - 1 \<and>
      x = (if fp_timers (snd fs) = 0 then [] else [RouterPush ''/verify-email?flow=reset''])"
    by (cases fs) (auto split: if_splits)
qed

lemma forgot_needs_email:
  assumes "steps forgot_step es (f, \<lparr>fp_pending = False, fp_timers = 0\<rparr>) = (s, x)" "x \<noteq> []"
  shows "\<exists>pre post. es = pre @ FPSubmit # post \<and>
           af_email (fst (fst (steps forgot_step pre (f, \<lparr>fp_pending = False, fp_timers = 0\<rparr>)))) \<noteq> []"
  using forgot_pw.emitted[OF _ assms(1)] assms(2) by (cases x) auto

text \<open>
  The password page leads on exactly for a password of at least twelve UTF-16 units that was typed
  twice: whatever the user does, a navigation goes to the page of the flow (sign-in after a
  reset, onboarding after a sign-up) and was preceded by a submission in a state where both rules
  held; a submission in a state that breaks a rule changes nothing but the flag that shows the rules
  as failed; and one that keeps both navigates when its timer fires.
\<close>

theorem set_password_accepts:
  defines "target r \<equiv> RouterPush (if r then ''/sign-in'' else ''/onboarding/organization'')"
  shows
    "(steps (set_password_step r) es set_password_init = (s, x) \<longrightarrow> x \<noteq> [] \<longrightarrow>
        set x = {target r} \<and>
        (\<exists>pre post u. es = pre @ SPSubmit # post \<and> u = fst (steps (set_password_step r) pre set_password_init) \<and>
           12 \<le> js_length (sp_pw u) \<and> sp_pw2 u = sp_pw u)) \<and>
     (js_length (sp_pw v) < 12 \<or> sp_pw2 v \<noteq> sp_pw v \<longrightarrow>
        set_password_step r SPSubmit v = (v\<lparr>sp_tried := True\<rparr>, [])) \<and>
     (12 \<le> js_length (sp_pw v) \<longrightarrow> sp_pw2 v = sp_pw v \<longrightarrow>
        snd (steps (set_password_step r) [SPSubmit, SPTimer] v) = [target r])"
proof (intro conjI impI)
  assume run: "steps (set_password_step r) es set_password_init = (s, x)" and x: "x \<noteq> []"
  have "sp_timers set_password_init = 0" by (simp add: set_password_init_def)
  note em = set_pw.emitted[OF this run, THEN conjunct2]
  show "set x = {target r}" using em x unfolding target_def by (cases x) auto
  show "\<exists>pre post u. es = pre @ SPSubmit # post \<and> u = fst (steps (set_password_step r) pre set_password_init) \<and>
           12 \<le> js_length (sp_pw u) \<and> sp_pw2 u = sp_pw u"
    using em x by (cases x) (auto simp: lengthOk_def pw_match_def MIN_LENGTH_def)
qed (auto simp: lengthOk_def pw_match_def MIN_LENGTH_def target_def split: prod.splits)

theorem set_password_accepts_witness:
  "snd (steps (set_password_step False) [SPPw ''correct horse battery'', SPSubmit, SPPw2 ''correct horse battery'', SPSubmit, SPTimer]
      set_password_init) = [RouterPush ''/onboarding/organization''] \<and>
   (\<exists>pre post u. [SPPw ''correct horse battery'', SPSubmit, SPPw2 ''correct horse battery'', SPSubmit, SPTimer] =
        pre @ SPSubmit # post \<and> u = fst (steps (set_password_step False) pre set_password_init) \<and>
        12 \<le> js_length (sp_pw u) \<and> sp_pw2 u = sp_pw u)"
proof -
  let ?es = "[SPPw ''correct horse battery'', SPSubmit, SPPw2 ''correct horse battery'', SPSubmit, SPTimer]"
  obtain s x where run: "steps (set_password_step False) ?es set_password_init = (s, x)"
    by (cases "steps (set_password_step False) ?es set_password_init")
  have "snd (steps (set_password_step False) ?es set_password_init) = [RouterPush ''/onboarding/organization'']" by code_simp
  moreover from this run have "x \<noteq> []" by simp
  ultimately show ?thesis using set_password_accepts[of False ?es s x] run by blast
qed

lemma strength_score_bound: "strength_score pw \<le> 4"
  by (simp add: strength_score_def)

text \<open>Typing on never lowers the score.\<close>

lemma js_length_append: "js_length (a @ b) = js_length a + js_length b"
  by (simp add: js_length_def)

lemma variety_append: "variety a \<le> variety (a @ b)"
  unfolding variety_def by (auto simp: list_ex_append)

lemma strength_score_append: "strength_score a \<le> strength_score (a @ b)"
  using variety_append[of a b] unfolding strength_score_def by (auto simp: js_length_append)

section \<open>The code page\<close>

inductive verify_reach :: "auth_flow \<Rightarrow> string option \<Rightarrow> verify_event list \<Rightarrow> verify \<Rightarrow> string option list \<Rightarrow> bool"
  for f nxt where
  vr_init: "verify_reach f nxt [] verify_init []"
| vr_step: "verify_reach f nxt es s ps \<Longrightarrow> verify_offered s e \<Longrightarrow> verify_step f nxt e s = (s', x, p) \<Longrightarrow>
            verify_reach f nxt (es @ [e]) s' (ps @ (case p of None \<Rightarrow> [] | Some t \<Rightarrow> [t]))"

definition verify_inv :: "string option \<Rightarrow> verify_event list \<Rightarrow> verify \<Rightarrow> string option list \<Rightarrow> bool" where
  "verify_inv nxt es s ps \<longleftrightarrow>
     ve_resendIn s \<le> RESEND_SECONDS \<and> length (ve_timers s) \<le> 1 \<and>
     (\<forall>v \<in> set (ve_timers s). VComplete v \<in> set es \<and> ve_verifying s) \<and>
     (ve_error s \<noteq> None \<longrightarrow> \<not> ve_verifying s) \<and>
     (ps = [] \<or> ps = [nxt] \<and> ve_verifying s \<and> ve_timers s = [] \<and> (\<exists>v. v \<noteq> ''000000'' \<and> VComplete v \<in> set es))"

lemma verify_inv_step:
  assumes "verify_inv nxt es s ps" "verify_offered s e" "verify_step f nxt e s = (s', x, p)"
  shows "verify_inv nxt (es @ [e]) s' (ps @ (case p of None \<Rightarrow> [] | Some t \<Rightarrow> [t]))"
proof (cases e)
  case VTimer
  with assms(2) obtain v vs where v: "ve_timers s = v # vs" by (cases "ve_timers s") auto
  with assms(1) have "vs = []" "ve_verifying s" "VComplete v \<in> set es" "ps = []" by (auto simp: verify_inv_def)
  then show ?thesis using assms VTimer v by (auto simp: verify_inv_def split: if_splits)
next
  case (VComplete c)
  with assms(1,2) have "ve_timers s = []" "ps = []" by (cases "ve_timers s"; auto simp: verify_inv_def)+
  then show ?thesis using assms VComplete by (auto simp: verify_inv_def)
qed (use assms in \<open>auto simp: verify_inv_def\<close>)

text \<open>
  C22. Whatever sequence of events the page offers: the resend countdown stays within its thirty
  seconds, at most one check is under way and the page shows no error during it, the page
  navigates at most once and then accepts no further code, and it navigates only after a code other
  than 000000 has been entered.
\<close>

theorem verify_email_safe:
  assumes "verify_reach f nxt es s ps"
  shows "ve_resendIn s \<le> 30 \<and> length (ve_timers s) \<le> 1 \<and>
         (ve_error s \<noteq> None \<longrightarrow> \<not> ve_verifying s) \<and>
         (ps = [] \<or> ps = [nxt] \<and> \<not> verify_offered s (VComplete c) \<and> \<not> verify_offered s VTimer \<and>
            (\<exists>v. v \<noteq> ''000000'' \<and> VComplete v \<in> set es))"
proof -
  from assms have "verify_inv nxt es s ps"
  proof induction
    case vr_init
    show ?case by (simp add: verify_inv_def verify_init_def)
  next
    case (vr_step es s ps e s' x p)
    from verify_inv_step[OF vr_step(4,2,3)] show ?case .
  qed
  then show ?thesis by (auto simp: verify_inv_def RESEND_SECONDS_def)
qed

theorem verify_email_safe_witness:
  "\<exists>s. verify_reach auth_flow_init (verify_next (Some ''login''))
         [VComplete ''000000'', VTimer, VComplete ''123456'', VTimer] s [Some ''/book''] \<and>
       \<not> verify_offered s (VComplete ''123456'')"
proof -
  let ?n = "verify_next (Some ''login'')"
  have n: "?n = Some ''/book''" by code_simp
  let ?s1 = "verify_init\<lparr>ve_verifying := True, ve_error := None, ve_timers := [''000000'']\<rparr>"
  let ?s2 = "?s1\<lparr>ve_error := Some ''That code is incorrect. Try again or request a new one.'',
                  ve_verifying := False, ve_code := [], ve_timers := []\<rparr>"
  let ?s3 = "?s2\<lparr>ve_verifying := True, ve_error := None, ve_timers := [''123456'']\<rparr>"
  let ?s4 = "?s3\<lparr>ve_timers := []\<rparr>"
  have 1: "verify_reach auth_flow_init ?n ([] @ [VComplete ''000000'']) ?s1 ([] @ (case None of None \<Rightarrow> [] | Some t \<Rightarrow> [t]))"
    by (rule vr_step[OF vr_init]) (simp_all add: verify_init_def)
  have 2: "verify_reach auth_flow_init ?n ([VComplete ''000000''] @ [VTimer]) ?s2 ([] @ (case None of None \<Rightarrow> [] | Some t \<Rightarrow> [t]))"
    by (rule vr_step[OF 1[simplified]]) simp_all
  have 3: "verify_reach auth_flow_init ?n ([VComplete ''000000'', VTimer] @ [VComplete ''123456'']) ?s3
             ([] @ (case None of None \<Rightarrow> [] | Some t \<Rightarrow> [t]))"
    by (rule vr_step[OF 2[simplified]]) simp_all
  have 4: "verify_reach auth_flow_init ?n ([VComplete ''000000'', VTimer, VComplete ''123456''] @ [VTimer]) ?s4
             ([] @ (case Some ?n of None \<Rightarrow> [] | Some t \<Rightarrow> [t]))"
    by (rule vr_step[OF 3[simplified]]) simp_all
  then have "verify_reach auth_flow_init ?n [VComplete ''000000'', VTimer, VComplete ''123456'', VTimer] ?s4 [Some ''/book'']"
    by (simp add: n)
  with verify_email_safe[OF this] show ?thesis by blast
qed

text \<open>A flow named like a property of every object leads nowhere: what is pushed is not a string.\<close>

lemma verify_next_inherited: "verify_next (Some ''constructor'') = None"
  by code_simp

section \<open>The loader of single sign-on\<close>

lemma sso_run_closed:
  "sso_run n =
     (if n \<le> 2 then (\<lparr>ss_stage = n, ss_interval = True, ss_push = False\<rparr>, [])
      else if n = 3 then (\<lparr>ss_stage = 2, ss_interval = False, ss_push = True\<rparr>, [])
      else (\<lparr>ss_stage = 2, ss_interval = False, ss_push = False\<rparr>, [RouterPush ''/book'']))"
  by (induction n) (auto simp: sso_init_def sso_step_def STAGE_COUNT_def)


text \<open>Cancelling in the last second does not stop the navigation: its timer is never cleared.\<close>

lemma sso_cancel_too_late:
  "snd (sso_step (sso_unmount (fst (sso_run n)))) = (if n = 3 then [RouterPush ''/book''] else [])"
  by (auto simp: sso_run_closed sso_step_def sso_unmount_def)

end
