(* ===== verification/Book_Nav.thy ===== *)
theory Book_Nav
  imports Book_Pages Nav Auth_Funnel
begin

text \<open>
  Getting around the prototype (\<open>prototype/components/app\<close>): the tree of the book with its filter
  (\<open>app-context-panel.tsx\<close>), the breadcrumb (\<open>app-context-bar.tsx\<close>), the corpus search
  (\<open>app-search.tsx\<close>), the command menu (\<open>command-menu.tsx\<close>), the slot for page actions
  (\<open>chrome.tsx\<close>) and the spine (\<open>spine.tsx\<close>).

  The tree recurses over the children of an entry, so on a cyclic book it does not return: it is a
  partial function, as the walks of the theory \<open>Book\<close>. A node of the tree keeps its own open flag
  while it is mounted; \<open>pa_open\<close> holds the flags that were changed, and a flag is dropped when the
  node leaves the tree. Fuzzy matching in the search and in the command menu is the \<open>cmdk\<close>
  library's and left out; \<open>loc\<close> is \<open>toLocaleString\<close>.

  The theorems: the filtered tree shows exactly the entries on the way to a title match, each once;
  every crumb but the last leads to the page whose own trail ends there; a question typed into
  the command menu arrives in the address of the ask page; at most one link of the spine is current.
\<close>

section \<open>The tree of the book\<close>

text \<open>\<open>childrenOf(id).some(c => matches(c, query))\<close>, with the list still to be tried.\<close>

definition title_hit :: "string \<Rightarrow> BookEntry \<Rightarrow> bool" where
  "title_hit query e \<longleftrightarrow> str_includes (toLowerCase (be_title e)) query"

partial_function (option) matches_some :: "corpus \<Rightarrow> string \<Rightarrow> BookEntry list \<Rightarrow> bool option" where
  "matches_some c query es =
     (case es of
        [] \<Rightarrow> Some False
      | e # rest \<Rightarrow>
          if query = [] then Some True
          else if title_hit query e then Some True
          else Option.bind (matches_some c query (childrenOf c (Some (be_id e))))
                 (\<lambda>b. if b then Some True else matches_some c query rest))"

definition matches :: "corpus \<Rightarrow> BookEntry \<Rightarrow> string \<Rightarrow> bool option" where
  "matches c e query = matches_some c query [e]"

definition StatusDot_p :: "EntryStatus \<Rightarrow> 'a node list" where
  "StatusDot_p status =
     (if status = Current then []
      else [El ''span'' [AStr ''class'' (if status = Stale then ''bg-warning'' else ''animate-pulse''),
                         AStr ''title'' (if status = Stale then ''Refreshing'' else ''Building'')] []])"

record book_panel =
  pa_q :: string
  pa_open :: "string \<rightharpoonup> bool"

datatype panel_event = PQuery string | PToggle string nat   \<comment> \<open>a node and its depth\<close>

definition panel_init :: book_panel where
  "panel_init = \<lparr>pa_q = [], pa_open = Map.empty\<rparr>"

definition node_open :: "(string \<rightharpoonup> bool) \<Rightarrow> nat \<Rightarrow> string \<Rightarrow> bool" where
  "node_open opn depth i = nullish (opn i) (depth < 1)"

definition node_expanded :: "string \<Rightarrow> (string \<rightharpoonup> bool) \<Rightarrow> nat \<Rightarrow> BookEntry \<Rightarrow> BookEntry list \<Rightarrow> bool" where
  "node_expanded query opn depth e kids \<longleftrightarrow> node_open opn depth (be_id e) \<or> (query \<noteq> [] \<and> kids \<noteq> [])"

definition node_count :: "corpus \<Rightarrow> BookEntry \<Rightarrow> nat option" where
  "node_count c e =
     (case be_level e of
        Chapter \<Rightarrow> map_option st_topics (entryStats c (be_id e))
      | Topic \<Rightarrow> map_option st_subtopics (entryStats c (be_id e))
      | Subtopic \<Rightarrow> Some 0)"

definition node_row :: "string \<Rightarrow> nat \<Rightarrow> bool \<Rightarrow> bool \<Rightarrow> BookEntry \<Rightarrow> nat \<Rightarrow> panel_event node" where
  "node_row pathname depth hasKids expanded e n =
     El ''div'' [ABool ''active'' (pathname = ''/book/'' @ be_id e), ANum ''paddingLeft'' (int depth * 12 + 2)]
       [El ''button'' [On ''click'' (PToggle (be_id e) depth), ABool ''invisible'' (\<not> hasKids),
                       AStr ''aria-label'' (if expanded then ''Collapse'' else ''Expand'')] [],
        El ''Link'' [AStr ''href'' (''/book/'' @ be_id e)]
          ([El ''span'' [] [Txt (be_title e)]] @ StatusDot_p (be_status e) @
           shown_if (0 < n) [El ''span'' [] [Txt (show_nat n)]])]"

text \<open>The nodes of a list of siblings; a node that does not match renders nothing.\<close>

partial_function (option) TreeNodes ::
  "corpus \<Rightarrow> string \<Rightarrow> string \<Rightarrow> (string \<rightharpoonup> bool) \<Rightarrow> nat \<Rightarrow> BookEntry list \<Rightarrow> panel_event node list option" where
  "TreeNodes c pathname query opn depth es =
     (case es of
        [] \<Rightarrow> Some []
      | e # rest \<Rightarrow>
          Option.bind (matches c e query) (\<lambda>shown.
          Option.bind (if shown then node_count c e else Some 0) (\<lambda>n.
          Option.bind (if shown \<and> node_expanded query opn depth e (childrenOf c (Some (be_id e)))
                       then TreeNodes c pathname query opn (depth + 1) (childrenOf c (Some (be_id e)))
                       else Some []) (\<lambda>below.
          Option.bind (TreeNodes c pathname query opn depth rest) (\<lambda>more.
          let kids = childrenOf c (Some (be_id e))
          in Some (shown_if shown
                     [El ''div'' []
                        (node_row pathname depth (kids \<noteq> []) (node_expanded query opn depth e kids) e n #
                         shown_if (kids \<noteq> [] \<and> node_expanded query opn depth e kids) [El ''div'' [] below])] @ more))))))"

text \<open>The ids of the mounted nodes: a node that renders nothing is mounted, what is below it is not.\<close>

partial_function (option) mounted_ids ::
  "corpus \<Rightarrow> string \<Rightarrow> (string \<rightharpoonup> bool) \<Rightarrow> nat \<Rightarrow> BookEntry list \<Rightarrow> string list option" where
  "mounted_ids c query opn depth es =
     (case es of
        [] \<Rightarrow> Some []
      | e # rest \<Rightarrow>
          Option.bind (matches c e query) (\<lambda>shown.
          Option.bind (if shown \<and> node_expanded query opn depth e (childrenOf c (Some (be_id e)))
                       then mounted_ids c query opn (depth + 1) (childrenOf c (Some (be_id e)))
                       else Some []) (\<lambda>below.
          Option.bind (mounted_ids c query opn depth rest) (\<lambda>more. Some (be_id e # below @ more)))))"

definition panel_query :: "book_panel \<Rightarrow> string" where
  "panel_query s = toLowerCase (trim (pa_q s))"

fun panel_change :: "panel_event \<Rightarrow> book_panel \<Rightarrow> book_panel" where
  "panel_change (PQuery t) s = s\<lparr>pa_q := t\<rparr>"
| "panel_change (PToggle i depth) s = s\<lparr>pa_open := (pa_open s)(i \<mapsto> \<not> node_open (pa_open s) depth i)\<rparr>"

definition panel_step :: "corpus \<Rightarrow> panel_event \<Rightarrow> book_panel \<Rightarrow> book_panel option" where
  "panel_step c ev s =
     (let t = panel_change ev s
      in map_option (\<lambda>ids. t\<lparr>pa_open := (pa_open t) |` set ids\<rparr>)
           (mounted_ids c (panel_query t) (pa_open t) 0 (childrenOf c None)))"

definition BookPanel :: "corpus \<Rightarrow> string \<Rightarrow> book_panel \<Rightarrow> panel_event node option" where
  "BookPanel c pathname s =
     map_option (\<lambda>nodes.
       El ''aside'' []
         [El ''div'' [] [El ''span'' [] [Txt ''Book''],
                         El ''span'' [] [Txt (show_nat (length (childrenOf c None)) @ '' ch'')]],
          El ''input'' [AStr ''value'' (pa_q s), OnValue ''change'' PQuery, AStr ''placeholder'' ''Filter''] [],
          El ''div'' [] nodes])
       (TreeNodes c pathname (panel_query s) (pa_open s) 0 (childrenOf c None))"

definition AppContextPanel :: "corpus \<Rightarrow> string \<Rightarrow> book_panel \<Rightarrow> panel_event node list option" where
  "AppContextPanel c pathname s =
     (if starts_with pathname ''/book'' then map_option (\<lambda>n. [n]) (BookPanel c pathname s) else Some [])"

section \<open>The breadcrumb\<close>

text \<open>A label or an icon that is \<open>undefined\<close> is \<open>None\<close>.\<close>

record crumb_p =
  cp_label :: "string option"
  cp_href :: "string option"

definition SECTION :: "(string \<times> string \<times> string) list" where
  "SECTION =
     [(''ask'', ''Ask'', ''RiSparkling2Line''), (''book'', ''Book'', ''RiBook2Line''),
      (''sources'', ''Sources'', ''RiLayoutGrid2Line''), (''entities'', ''Entities'', ''RiNodeTree''),
      (''review'', ''Review'', ''RiFileSearchLine''), (''members'', ''Members'', ''RiTeamLine''),
      (''access'', ''Access'', ''RiShieldKeyholeLine''), (''audit'', ''Audit log'', ''RiFileList3Line''),
      (''usage'', ''Usage'', ''RiBarChartLine''), (''settings'', ''Settings'', ''RiSettings3Line''),
      (''account'', ''Account'', ''RiSettings3Line'')]"

definition LEVEL_ICON :: "EntryLevel \<Rightarrow> string" where
  "LEVEL_ICON l = (case l of Chapter \<Rightarrow> ''RiBook2Line'' | Topic \<Rightarrow> ''RiFolder3Line'' | Subtopic \<Rightarrow> ''RiFileTextLine'')"

definition trail_crumbs :: "BookEntry list \<Rightarrow> crumb_p list" where
  "trail_crumbs tr =
     map (\<lambda>(i, e). \<lparr>cp_label = Some (be_title e),
                    cp_href = (if i < length tr - 1 then Some (''/book/'' @ be_id e) else None)\<rparr>) (enumerate 0 tr)"

definition resolve :: "corpus \<Rightarrow> string \<Rightarrow> (string option \<times> crumb_p list) option" where
  "resolve c pathname =
     (let segs = path_segs pathname
      in if segs = [] then Some (Some ''RiBook2Line'', [])
         else if segs ! 0 = ''book''
         then (if length segs = 1 then Some (Some ''RiBook2Line'', [\<lparr>cp_label = Some ''Book'', cp_href = None\<rparr>])
               else map_option (\<lambda>tr.
                      (Some (LEVEL_ICON (if tr = [] then Subtopic else be_level (last tr))),
                       \<lparr>cp_label = Some ''Book'', cp_href = Some ''/book''\<rparr> # trail_crumbs tr))
                    (pathOf c (segs ! 1)))
         else if segs ! 0 = ''entities'' \<and> seg_is segs 1 ''ambiguity''
         then Some (Some ''RiNodeTree'',
                    [\<lparr>cp_label = Some ''Entities'', cp_href = Some ''/entities''\<rparr>,
                     \<lparr>cp_label = Some ''Ambiguity queue'', cp_href = None\<rparr>])
         else (case prop_get SECTION (segs ! 0) of
                 Own (label, icon) \<Rightarrow> Some (Some icon, [\<lparr>cp_label = Some label, cp_href = None\<rparr>])
               | Inherited \<Rightarrow> Some (None, [\<lparr>cp_label = None, cp_href = None\<rparr>])
               | Undefined \<Rightarrow> Some (Some ''RiBook2Line'', [])))"

definition crumb_node_p :: "nat \<Rightarrow> crumb_p \<Rightarrow> 'a node list" where
  "crumb_node_p i cr =
     shown_if (0 < i) [El ''span'' [ABool ''aria-hidden'' True] [Txt ''/'']] @
     [if truthy_str (cp_href cr)
      then El ''Link'' [AStr ''href'' (nullish (cp_href cr) [])] [Txt (nullish (cp_label cr) [])]
      else El ''span'' [] [Txt (nullish (cp_label cr) [])]]"

text \<open>An element type that is \<open>undefined\<close> makes React throw.\<close>

definition AppContextBar_p :: "corpus \<Rightarrow> string \<Rightarrow> 'a node list \<Rightarrow> (thrown + 'a node) option" where
  "AppContextBar_p c pathname rest =
     map_option (\<lambda>(icon, crumbs).
       case icon of
         None \<Rightarrow> Inl (OtherError ''Element type is invalid'')
       | Some ic \<Rightarrow>
           Inr (El ''header'' []
             ([El ic [] [], El ''nav'' [] (concat (map (\<lambda>(i, cr). crumb_node_p i cr) (enumerate 0 crumbs)))] @ rest)))
       (resolve c pathname)"

section \<open>The slot for page actions\<close>

definition ChromeActionHost :: "'a node" where
  "ChromeActionHost = El ''div'' [AStr ''ref'' ''setHost''] []"

text \<open>The host element, once mounted, and what the page renders into it.\<close>

definition ChromeActions :: "'h option \<Rightarrow> 'a node list \<Rightarrow> ('h \<times> 'a node list) option" where
  "ChromeActions host children = map_option (\<lambda>h. (h, children)) host"


section \<open>The corpus search\<close>

text \<open>Its state and handlers are those of the product's section jumper.\<close>

definition search_step_p :: "search_event \<Rightarrow> app_search \<Rightarrow> app_search \<times> effect list" where
  "search_step_p ev s = search_step ev s"

definition ENTRY_DOT :: "EntryStatus \<Rightarrow> string" where
  "ENTRY_DOT s = (case s of Current \<Rightarrow> ''bg-success'' | Stale \<Rightarrow> ''bg-warning'' | Building \<Rightarrow> ''bg-muted-foreground/40'')"

definition SOURCE_DOT :: "SourceHealth \<Rightarrow> string" where
  "SOURCE_DOT h =
     (case h of Synced \<Rightarrow> ''bg-success'' | Syncing \<Rightarrow> ''bg-warning''
      | SyncFailed \<Rightarrow> ''bg-destructive'' | AuthLapse \<Rightarrow> ''bg-destructive'')"

definition search_dot :: "string \<Rightarrow> 'a node" where
  "search_dot cls = El ''span'' [AStr ''class'' cls, ABool ''aria-hidden'' True] []"

definition search_trail :: "corpus \<Rightarrow> BookEntry \<Rightarrow> string option" where
  "search_trail c e = map_option (\<lambda>p. join_with '' / '' (map be_title (butlast p))) (pathOf c (be_id e))"

definition search_group :: "string \<Rightarrow> 'a node list \<Rightarrow> 'a node" where
  "search_group heading children = El ''Cmdk.Group'' [AStr ''heading'' heading] children"

definition BookRow :: "corpus \<Rightarrow> BookEntry \<Rightarrow> search_event node option" where
  "BookRow c e =
     map_option (\<lambda>path.
       El ''Cmdk.Item''
         ([AStr ''value'' (be_id e), On ''click'' (SearchSelect (''/book/'' @ be_id e))] @
          map (AStr ''keyword'') [be_title e, level_name (be_level e), path, nullish (be_summary e) []])
         ([search_dot (ENTRY_DOT (be_status e)), El (LEVEL_ICON (be_level e)) [] [],
           El ''span'' [] [Txt (be_title e)], El ''span'' [] [Txt (level_name (be_level e))]] @
          shown_if (path \<noteq> [] \<or> truthy_str (be_lastRebuilt e))
            [El ''div'' [] [Txt (join_with ('' '' @ middot @ '' '')
               (filter (\<lambda>w. w \<noteq> [])
                  [path, if truthy_str (be_lastRebuilt e) then ''rebuilt '' @ nullish (be_lastRebuilt e) [] else []]))]]))
       (search_trail c e)"

definition SourceRow :: "(nat \<Rightarrow> string) \<Rightarrow> Source \<Rightarrow> search_event node" where
  "SourceRow loc s =
     El ''Cmdk.Item'' [AStr ''value'' (so_id s), On ''click'' (SearchSelect ''/sources''),
                       AStr ''keyword'' (so_name s), AStr ''keyword'' (so_kind s)]
       [El ''span'' [AStr ''backgroundColor'' (so_color s)] [Txt (so_letter s)], El ''span'' [] [Txt (so_name s)],
        search_dot (SOURCE_DOT (so_health s)), El ''span'' [] [Txt (loc (so_artifacts s) @ '' artifacts'')]]"

definition EntityRow :: "Entity \<Rightarrow> search_event node" where
  "EntityRow e =
     El ''Cmdk.Item'' [AStr ''value'' (en_id e), On ''click'' (SearchSelect ''/entities''),
                       AStr ''keyword'' (en_name e), AStr ''keyword'' (entity_type_name (en_type e))]
       [El ''RiNodeTree'' [] [], El ''span'' [] [Txt (en_name e)], El ''span'' [] [Txt (entity_type_name (en_type e))],
        El ''span'' [] [Txt (show_nat (en_mentions e) @ [CHR 0xC3, CHR 0x97])]]"

definition AppSearch_p :: "corpus \<Rightarrow> (nat \<Rightarrow> string) \<Rightarrow> app_search \<Rightarrow> search_event node option" where
  "AppSearch_p c loc s =
     map_option (\<lambda>panel.
       El ''Cmdk'' [OnValue ''keydown'' SearchKey, AStr ''label'' ''Search the corpus'']
         (El ''div'' []
            (El ''Cmdk.Input'' [AStr ''value'' (as_q s), OnValue ''change'' SearchChange, On ''focus'' SearchFocus,
                                AStr ''placeholder'' (''Search the book'' @ ellipsis)] [] #
             shown_if (as_q s = []) [El ''Kbd'' [] [Txt ''/'']]) # panel))
       (if \<not> showPanel s then Some []
        else map_option (\<lambda>rows.
          [El ''div'' []
             [El ''Cmdk.List'' []
                [El ''Cmdk.Empty'' [] [Txt (''No matches for '' @ ldquo @ trim (as_q s) @ rdquo @ ''.'')],
                 search_group ''Book'' rows,
                 search_group ''Sources'' (map (SourceRow loc) (SOURCES c)),
                 search_group ''Entities'' (map EntityRow (ENTITIES c))],
              El ''div'' [] [El ''span'' [] [Txt ''open''], El ''span'' [] [Txt ''dismiss'']]]])
          (those (map (BookRow c) (BOOK c))))"

section \<open>The command menu\<close>

definition NAV_p :: "(string \<times> string) list" where
  "NAV_p =
     [(''Ask'', ''/ask''), (''Book'', ''/book''), (''Sources'', ''/sources''), (''Members'', ''/members''),
      (''Access'', ''/access''), (''Entities'', ''/entities''), (''Audit log'', ''/audit''), (''Usage'', ''/usage''),
      (''Settings'', ''/settings'')]"

definition useCommandMenu :: "'c option \<Rightarrow> thrown + 'c" where
  "useCommandMenu ctx =
     (case ctx of None \<Rightarrow> Inl (OtherError ''useCommandMenu must be used within CommandMenuProvider'') | Some x \<Rightarrow> Inr x)"

record command_menu =
  cm_open :: bool
  cm_q :: string

datatype menu_event =
    MKey string bool bool          \<comment> \<open>key, meta, ctrl\<close>
  | MOpen
  | MOpenChange bool
  | MQuery string
  | MGo string

fun menu_step :: "menu_event \<Rightarrow> command_menu \<Rightarrow> command_menu \<times> effect list" where
  "menu_step (MKey k meta ctrl) s =
     (if (meta \<or> ctrl) \<and> toLowerCase k = ''k'' then s\<lparr>cm_open := \<not> cm_open s\<rparr> else s, [])"
| "menu_step MOpen s = (s\<lparr>cm_open := True\<rparr>, [])"
| "menu_step (MOpenChange v) s = (s\<lparr>cm_open := v\<rparr>, [])"
| "menu_step (MQuery v) s = (s\<lparr>cm_q := v\<rparr>, [])"
| "menu_step (MGo href) s = (s\<lparr>cm_open := False, cm_q := []\<rparr>, [RouterPush href])"

definition ask_item :: "string \<Rightarrow> menu_event node" where
  "ask_item query =
     El ''CommandItem'' [ABool ''forceMount'' True, AStr ''value'' (''ask '' @ query),
                         On ''click'' (MGo (''/ask?q='' @ encodeURIComponent query))]
       [El ''span'' [] [Txt (''Ask '' @ ldquo @ query @ rdquo)]]"

definition CommandMenu :: "corpus \<Rightarrow> command_menu \<Rightarrow> menu_event node" where
  "CommandMenu c s =
     (let query = trim (cm_q s)
      in El ''CommandDialog'' [ABool ''open'' (cm_open s), OnFlag ''openChange'' MOpenChange]
        [El ''CommandInput'' [AStr ''value'' (cm_q s), OnValue ''change'' MQuery] [],
         El ''CommandList'' []
           ([El ''CommandEmpty'' [] [Txt ''No matches.'']] @
            shown_if (query \<noteq> []) [El ''CommandGroup'' [AStr ''heading'' ''Ask''] [ask_item query]] @
            [El ''CommandGroup'' [AStr ''heading'' ''Jump to'']
               (map (\<lambda>e. El ''CommandItem'' [AStr ''key'' (be_id e), AStr ''value'' (''entry '' @ be_title e),
                                            On ''click'' (MGo (''/book/'' @ be_id e))]
                        [El ''span'' [] [Txt (be_title e)], El ''span'' [] [Txt (level_name (be_level e))]]) (BOOK c)),
             El ''CommandSeparator'' [] [],
             El ''CommandGroup'' [AStr ''heading'' ''Go to'']
               (map (\<lambda>(label, href). El ''CommandItem'' [AStr ''key'' href, AStr ''value'' (''go '' @ label),
                                                        On ''click'' (MGo href)] [El ''span'' [] [Txt label]]) NAV_p)])])"

section \<open>The spine\<close>

text \<open>
  The provider (cookie, shortcut, toggle) is the product's, line for line: \<open>spine_restore\<close>,
  \<open>setExpanded\<close>, \<open>spine_toggle\<close> and \<open>spine_key\<close> of the theory \<open>Nav\<close>.
\<close>

definition SpineProvider_p :: "string \<Rightarrow> bool \<Rightarrow> bool \<Rightarrow> bool \<times> jar \<Rightarrow> bool \<times> jar" where
  "SpineProvider_p key meta ctrl st = spine_key key meta ctrl (fst st) (snd st)"

definition KNOWLEDGE :: "(string \<times> string) list" where
  "KNOWLEDGE = [(''Ask'', ''/ask''), (''Book'', ''/book'')]"

definition MANAGE :: "(string \<times> string) list" where
  "MANAGE =
     [(''Sources'', ''/sources''), (''Entities'', ''/entities''), (''Review'', ''/review''), (''Members'', ''/members''),
      (''Access'', ''/access''), (''Audit'', ''/audit''), (''Usage'', ''/usage'')]"

definition isActive_p :: "string \<Rightarrow> string \<Rightarrow> bool" where
  "isActive_p pathname href =
     (if href = ''/book'' then starts_with pathname ''/book'' else starts_with pathname href)"

datatype spine_event_p = SToggle | SOrg string

definition SpineLink_p :: "bool \<Rightarrow> string \<times> string \<Rightarrow> bool \<Rightarrow> 'a node" where
  "SpineLink_p expanded item active =
     El ''Tooltip'' []
       [El ''Link'' (AStr ''href'' (snd item) # (if active then [AStr ''aria-current'' ''page''] else [])) [Txt (fst item)],
        El ''TooltipContent'' [ABool ''hidden'' expanded] [Txt (fst item)]]"

definition SectionBreak :: "string \<Rightarrow> 'a node" where
  "SectionBreak label = El ''div'' [] [El ''span'' [] [Txt label], El ''span'' [] []]"

definition SpineHeader_p :: "bool \<Rightarrow> spine_event_p node" where
  "SpineHeader_p expanded =
     (if \<not> expanded then El ''button'' [On ''click'' SToggle, AStr ''aria-label'' ''Expand sidebar''] []
      else El ''div'' [] [El ''Logo'' [] [], El ''button'' [On ''click'' SToggle, AStr ''aria-label'' ''Collapse sidebar''] []])"

definition Notifications_p :: "bool \<Rightarrow> 'a node" where
  "Notifications_p expanded =
     El ''Tooltip'' []
       [El ''DropdownMenu'' []
          [El ''DropdownMenuTrigger'' [] [Txt ''Notifications''],
           El ''DropdownMenuContent'' []
             [El ''DropdownMenuLabel'' [] [Txt ''Notifications''], El ''p'' [] [Txt ''You're all caught up.'']]],
        El ''TooltipContent'' [ABool ''hidden'' expanded] [Txt ''Notifications'']]"

record mock_tenant =
  mt_slug :: string
  mt_name :: string
  mt_role :: string
  mt_members :: nat

definition mockTenants :: "mock_tenant list" where
  "mockTenants =
     [\<lparr>mt_slug = ''hivebook-test'', mt_name = ''Hivebook Test Co'', mt_role = ''Owner'', mt_members = 47\<rparr>,
      \<lparr>mt_slug = ''acme'', mt_name = ''Acme Corp'', mt_role = ''Member'', mt_members = 312\<rparr>,
      \<lparr>mt_slug = ''globex'', mt_name = ''Globex Industries'', mt_role = ''Admin'', mt_members = 1840\<rparr>]"

text \<open>Interacting with the nested select does not close the menu.\<close>

definition profile_outside :: "bool \<Rightarrow> bool \<Rightarrow> bool" where
  "profile_outside inSelect isOpen = (if inSelect then isOpen else False)"

definition ProfileMenu_p :: "string \<Rightarrow> spine_event_p node" where
  "ProfileMenu_p org =
     El ''DropdownMenu'' []
       [El ''DropdownMenuTrigger'' [] [El ''span'' [] [Txt (mu_initial mockUser)], El ''span'' [] [Txt (mu_name mockUser)]],
        El ''DropdownMenuContent'' []
          [El ''div'' [] [El ''p'' [] [Txt (mu_name mockUser)], El ''p'' [] [Txt (mu_email mockUser)]],
           El ''DropdownMenuSeparator'' [] [],
           El ''div'' [] [El ''p'' [] [Txt ''Organization''],
             El ''Select'' [AStr ''value'' org, OnValue ''change'' SOrg]
               (map (\<lambda>t. El ''SelectItem'' [AStr ''key'' (mt_slug t), AStr ''value'' (mt_slug t)] [Txt (mt_name t)]) mockTenants)],
           El ''DropdownMenuSeparator'' [] [],
           El ''Link'' [AStr ''href'' ''/account''] [Txt ''Account settings''],
           El ''DropdownMenuSeparator'' [] [],
           El ''Link'' [AStr ''href'' ''/signed-out''] [Txt ''Sign out'']]]"

definition AppSpine_p :: "string \<Rightarrow> bool \<Rightarrow> string \<Rightarrow> spine_event_p node" where
  "AppSpine_p pathname expanded org =
     (let link = (\<lambda>item. SpineLink_p expanded item (isActive_p pathname (snd item)))
      in El ''nav'' [AStr ''data-state'' (if expanded then ''expanded'' else ''collapsed'')]
        ([SpineHeader_p expanded, El ''div'' [] []] @ map link KNOWLEDGE @ [SectionBreak ''Manage''] @ map link MANAGE @
         [El ''div'' [] [], Notifications_p expanded, link (''Settings'', ''/settings''), ProfileMenu_p org]))"

section \<open>Forests of a book\<close>

text \<open>Induction over a list of siblings and, under each, its children: the branches get smaller.\<close>

lemma forest_induct [consumes 2, case_names Nil Cons]:
  assumes tree: "tree_book c" and es: "set es \<subseteq> set (BOOK c)"
    and Nil: "P []"
    and Cons: "\<And>e es. e \<in> set (BOOK c) \<Longrightarrow> set es \<subseteq> set (BOOK c) \<Longrightarrow>
                 P (childrenOf c (Some (be_id e))) \<Longrightarrow> P es \<Longrightarrow> P (e # es)"
  shows "P es"
  using es
proof (induction "size (\<Sum>x\<in>#mset es. branch c x)" arbitrary: es rule: less_induct)
  case less
  show ?case
  proof (cases es)
    case Nil
    with assms(3) show ?thesis by simp
  next
    case (Cons e rest)
    let ?kids = "childrenOf c (Some (be_id e))"
    have e: "e \<in> set (BOOK c)" and rest: "set rest \<subseteq> set (BOOK c)" using less.prems Cons by auto
    have kids: "set ?kids \<subseteq> set (BOOK c)" by (auto simp: childrenOf_def)
    have sum: "(\<Sum>x\<in>#mset es. branch c x) =
        add_mset e ((\<Sum>x\<in>#mset ?kids. branch c x) + (\<Sum>x\<in>#mset rest. branch c x))"
      using Cons by (simp add: branch_children[OF tree e])
    have "P ?kids" using less.hyps[OF _ kids] by (simp add: sum)
    moreover have "P rest" using less.hyps[OF _ rest] by (simp add: sum)
    ultimately show ?thesis using assms(4)[OF e rest] Cons by simp
  qed
qed

definition has_hit :: "corpus \<Rightarrow> string \<Rightarrow> BookEntry \<Rightarrow> bool" where
  "has_hit c query e \<longleftrightarrow> (\<exists>x. (x, e) \<in> (up c)\<^sup>* \<and> title_hit query x)"

lemma title_hit_Nil: "title_hit [] e"
  by (simp add: title_hit_def)

lemma has_hit_children:
  assumes "tree_book c" "e \<in> set (BOOK c)"
  shows "has_hit c query e \<longleftrightarrow>
           title_hit query e \<or> (\<exists>k \<in> set (childrenOf c (Some (be_id e))). has_hit c query k)"
proof -
  have "(x, e) \<in> (up c)\<^sup>* \<longleftrightarrow> x = e \<or> (\<exists>k. (k, e) \<in> up c \<and> (x, k) \<in> (up c)\<^sup>*)" for x
    by (auto elim: rtranclE intro: rtrancl_into_rtrancl)
  then show ?thesis by (auto simp: has_hit_def set_childrenOf[OF assms])
qed

lemma has_hit_up: "has_hit c query x \<Longrightarrow> (x, e) \<in> (up c)\<^sup>* \<Longrightarrow> has_hit c query e"
  unfolding has_hit_def by (meson rtrancl_trans)

lemma matches_some_hit:
  assumes "tree_book c" "set es \<subseteq> set (BOOK c)"
  shows "matches_some c query es = Some (\<exists>e \<in> set es. has_hit c query e)"
  using assms
proof (induction rule: forest_induct)
  case Nil
  show ?case by (simp add: matches_some.simps)
next
  case (Cons e es)
  have "query = [] \<Longrightarrow> has_hit c query e" using title_hit_Nil by (auto simp: has_hit_def)
  with Cons show ?case
    by (auto simp: matches_some.simps[of c query "e # es"] has_hit_children[OF assms(1) Cons.hyps(1)])
qed

lemma matches_hit: "tree_book c \<Longrightarrow> e \<in> set (BOOK c) \<Longrightarrow> matches c e query = Some (has_hit c query e)"
  by (simp add: matches_def matches_some_hit)

lemma node_count_returns:
  assumes "tree_book c" "e \<in> set (BOOK c)"
  shows "\<exists>n. node_count c e = Some n"
proof -
  have "getEntry c (be_id e) = Some e" using assms getEntry_self by (auto simp: tree_book_def)
  with scopeOf_returns[OF assms(1)] have "\<exists>s. entryStats c (be_id e) = Some s"
    by (fastforce simp: entryStats_def)
  then show ?thesis by (auto simp: node_count_def split: EntryLevel.splits)
qed

section \<open>What the tree shows\<close>

text \<open>The addresses a rendered tree links to, from top to bottom.\<close>

fun link_hrefs :: "'a node \<Rightarrow> string list" where
  "link_hrefs (Txt s) = []"
| "link_hrefs (El t as cs) = (if t = ''Link'' then attr_strs ''href'' as else []) @ concat (map link_hrefs cs)"

lemma link_hrefs_row: "link_hrefs (node_row pathname depth hk ex e n) = [''/book/'' @ be_id e]"
  by (simp add: node_row_def StatusDot_p_def shown_if_def)

lemma filter_branch_none:
  assumes "\<not> has_hit c query e"
  shows "filter_mset (has_hit c query) (branch c e) = {#}"
proof -
  have "x \<notin># branch c e" if "has_hit c query x" for x
    using that assms has_hit_up by (cases "finite {x. (x, e) \<in> (up c)\<^sup>*}") (auto simp: branch_def)
  then have "filter_mset (has_hit c query) (branch c e) = filter_mset (\<lambda>x. False) (branch c e)"
    by (intro filter_mset_cong) auto
  then show ?thesis by simp
qed

lemma TreeNodes_filtered:
  assumes "tree_book c" "set es \<subseteq> set (BOOK c)" "query \<noteq> []"
  shows "\<exists>ns shown. TreeNodes c pathname query opn depth es = Some ns \<and>
           concat (map link_hrefs ns) = map (\<lambda>e. ''/book/'' @ be_id e) shown \<and>
           mset shown = filter_mset (has_hit c query) (\<Sum>x\<in>#mset es. branch c x)"
  using assms(1,2)
proof (induction arbitrary: depth rule: forest_induct)
  case Nil
  show ?case by (simp add: TreeNodes.simps)
next
  case (Cons e es)
  let ?kids = "childrenOf c (Some (be_id e))"
  obtain n where n: "node_count c e = Some n" using node_count_returns[OF assms(1) Cons.hyps(1)] by blast
  obtain ns shown where rest: "TreeNodes c pathname query opn depth es = Some ns"
      "concat (map link_hrefs ns) = map (\<lambda>e. ''/book/'' @ be_id e) shown"
      "mset shown = filter_mset (has_hit c query) (\<Sum>x\<in>#mset es. branch c x)"
    using Cons.IH(2) by blast
  show ?case
  proof (cases "has_hit c query e")
    case False
    then have "TreeNodes c pathname query opn depth (e # es) = Some ns"
      by (simp add: TreeNodes.simps[of c pathname query opn depth "e # es"] matches_hit[OF assms(1) Cons.hyps(1)] rest(1))
    with rest False show ?thesis by (auto simp: filter_branch_none)
  next
    case True
    obtain ms below where kids: "TreeNodes c pathname query opn (depth + 1) ?kids = Some ms"
        "concat (map link_hrefs ms) = map (\<lambda>e. ''/book/'' @ be_id e) below"
        "mset below = filter_mset (has_hit c query) (\<Sum>x\<in>#mset ?kids. branch c x)"
      using Cons.IH(1) by blast
    have empty: "ms = [] \<and> below = []" if "?kids = []"
      using kids unfolding that by (simp add: TreeNodes.simps[of c pathname query opn "Suc depth" "[]"])
    have "\<exists>nd. TreeNodes c pathname query opn depth (e # es) = Some (nd # ns) \<and>
            link_hrefs nd = map (\<lambda>e. ''/book/'' @ be_id e) (e # below)"
    proof (cases "node_expanded query opn depth e ?kids")
      case False
      then have "?kids = []" using assms(3) by (simp add: node_expanded_def)
      then show ?thesis using False True empty
        by (simp add: TreeNodes.simps[of c pathname query opn depth "e # es"] matches_hit[OF assms(1) Cons.hyps(1)]
            n rest(1) link_hrefs_row)
    next
      case exp: True
      then show ?thesis using True empty kids(2)
        by (auto simp: TreeNodes.simps[of c pathname query opn depth "e # es"] matches_hit[OF assms(1) Cons.hyps(1)]
            n rest(1) kids(1)[simplified] link_hrefs_row shown_if_def Let_def)
    qed
    then obtain nd where nd: "TreeNodes c pathname query opn depth (e # es) = Some (nd # ns)"
      "link_hrefs nd = map (\<lambda>e. ''/book/'' @ be_id e) (e # below)" by blast
    have "mset ((e # below) @ shown) = filter_mset (has_hit c query) (\<Sum>x\<in>#mset (e # es). branch c x)"
      using True kids(3) rest(3) by (simp add: branch_children[OF assms(1) Cons.hyps(1)])
    with nd rest(2) show ?thesis
      by (intro exI[of _ "nd # ns"] exI[of _ "(e # below) @ shown"]) simp
  qed
qed

text \<open>The chapters at the top and what is below them are the whole book.\<close>

lemma roots_cover:
  assumes "three_levels c"
  shows "(\<Sum>x\<in>#mset (childrenOf c None). branch c x) = mset_set (set (BOOK c))"
proof -
  have tree: "tree_book c" by (rule three_levels_tree[OF assms])
  let ?K = "set (childrenOf c None)" and ?D = "\<lambda>x. {y. (y, x) \<in> (up c)\<^sup>*}"
  have K: "x \<in> ?K \<longleftrightarrow> x \<in> set (BOOK c) \<and> be_parentId x = None" for x by (auto simp: childrenOf_def)
  have top: "(x, e) \<notin> up c" if "x \<in> ?K" for x e using that by (auto simp: K up_def parent_of_def)
  have parent: "\<exists>e. (x, e) \<in> up c" if x: "x \<in> set (BOOK c)" "x \<notin> ?K" for x
  proof -
    have "\<exists>p \<in> set (BOOK c). be_parentId x = Some (be_id p)"
      using assms x unfolding three_levels_def list_all_iff list_ex_iff K by (cases "be_level x") fastforce+
    then obtain p where "p \<in> set (BOOK c)" "x \<in> set (childrenOf c (Some (be_id p)))"
      using x by (auto simp: childrenOf_def)
    then show ?thesis using set_childrenOf[OF tree] by blast
  qed
  have wf: "wf ((up c)\<inverse>)"
    using tree by (intro finite_acyclic_wf_converse[OF finite_up]) (simp add: tree_book_def)
  have "x \<in> set (BOOK c) \<Longrightarrow> \<exists>k \<in> ?K. (x, k) \<in> (up c)\<^sup>*" for x
    using wf
  proof (induction x rule: wf_induct_rule)
    case (less x)
    show ?case
    proof (cases "x \<in> ?K")
      case False
      then obtain e where e: "(x, e) \<in> up c" using parent less.prems by blast
      with less.IH[of e] up_mem[OF e] obtain k where "k \<in> ?K" "(e, k) \<in> (up c)\<^sup>*" by auto
      with e show ?thesis by (meson converse_rtrancl_into_rtrancl)
    qed auto
  qed
  moreover have "y \<in> set (BOOK c)" if "(y, k) \<in> (up c)\<^sup>*" "k \<in> ?K" for y k
    using that up_trancl_mem by (auto simp: K rtrancl_eq_or_trancl)
  ultimately have cover: "(\<Union>x\<in>?K. ?D x) = set (BOOK c)" by auto
  have disj: "?D a \<inter> ?D b = {}" if "a \<in> ?K" "b \<in> ?K" "a \<noteq> b" for a b
  proof -
    have "(a, b) \<notin> (up c)\<^sup>*" "(b, a) \<notin> (up c)\<^sup>*" using that top by (metis converse_rtranclE)+
    then show ?thesis using ancestors_comparable[of _ a c b] by blast
  qed
  have fin: "finite (?D x)" if "x \<in> ?K" for x using that rtrancl_up_finite by (simp add: K)
  have "mset (childrenOf c None) = mset_set ?K"
    using distinct_childrenOf[OF tree] by (metis mset_set_set)
  then have "(\<Sum>x\<in>#mset (childrenOf c None). branch c x) = (\<Sum>x\<in>?K. mset_set (?D x))"
    by (simp add: branch_def sum_unfold_sum_mset)
  also have "\<dots> = mset_set (set (BOOK c))"
    using mset_set_disjoint_UN[of ?K ?D] fin disj cover by simp
  finally show ?thesis .
qed

text \<open>
  C20. Filtering the tree of a three-level book: whatever is expanded, the panel is drawn and links,
  each once, exactly to the entries that lie on the path of an entry whose title contains the
  query; an entry whose title matches is always reachable by visible parents.
\<close>

theorem filtered_tree_shows_paths:
  assumes "three_levels c" and "panel_query s \<noteq> []"
  shows "\<exists>aside shown. AppContextPanel c (''/book'' @ rest) s = Some [aside] \<and>
           link_hrefs aside = map (\<lambda>e. ''/book/'' @ be_id e) shown \<and> distinct shown \<and>
           set shown = {x \<in> set (BOOK c). \<exists>m \<in> set (BOOK c).
             str_includes (toLowerCase (be_title m)) (panel_query s) \<and> x \<in> set (the (pathOf c (be_id m)))}"
proof -
  let ?q = "panel_query s"
  have tree: "tree_book c" by (rule three_levels_tree[OF assms(1)])
  have roots: "set (childrenOf c None) \<subseteq> set (BOOK c)" by (auto simp: childrenOf_def)
  from TreeNodes_filtered[OF tree roots assms(2)] obtain ns shown where
    ns: "TreeNodes c (''/book'' @ rest) ?q (pa_open s) 0 (childrenOf c None) = Some ns"
      "concat (map link_hrefs ns) = map (\<lambda>e. ''/book/'' @ be_id e) shown"
      "mset shown = filter_mset (has_hit c ?q) (mset_set (set (BOOK c)))"
    unfolding roots_cover[OF assms(1)] by blast
  have shown: "mset shown = mset_set {x \<in> set (BOOK c). has_hit c ?q x}" using ns(3) by simp
  have "set_mset (mset shown) = {x \<in> set (BOOK c). has_hit c ?q x}" unfolding shown by simp
  then have set: "set shown = {x \<in> set (BOOK c). has_hit c ?q x}" by (simp only: set_mset_mset)
  have dist: "distinct shown"
    unfolding distinct_count_atmost_1 using shown set by (simp add: count_mset_set')
  have "has_hit c ?q x \<longleftrightarrow> (\<exists>m \<in> set (BOOK c). title_hit ?q m \<and> x \<in> set (the (pathOf c (be_id m))))"
    if "x \<in> set (BOOK c)" for x
  proof -
    have "x \<in> set (the (pathOf c (be_id m))) \<longleftrightarrow> (m, x) \<in> (up c)\<^sup>*" if "m \<in> set (BOOK c)" for m
      unfolding in_pathOf[OF tree that] rtrancl_eq_or_trancl by blast
    moreover have "(m, x) \<in> (up c)\<^sup>* \<Longrightarrow> m \<in> set (BOOK c)" for m
      using that up_trancl_mem unfolding rtrancl_eq_or_trancl by blast
    ultimately show ?thesis unfolding has_hit_def by blast
  qed
  with set have onpath: "set shown = {x \<in> set (BOOK c). \<exists>m \<in> set (BOOK c).
      str_includes (toLowerCase (be_title m)) ?q \<and> x \<in> set (the (pathOf c (be_id m)))}"
    by (auto simp: title_hit_def)
  obtain aside where "AppContextPanel c (''/book'' @ rest) s = Some [aside]"
      "link_hrefs aside = concat (map link_hrefs ns)"
    using ns(1) by (simp add: AppContextPanel_def BookPanel_def starts_with_iff_prefix)
  with ns(2) dist onpath show ?thesis by metis
qed

theorem filtered_tree_shows_paths_witness:
  "\<exists>aside (shown :: BookEntry list). AppContextPanel mock (''/book'' @ ''/s-eu-vat'') \<lparr>pa_q = ''  VAT'', pa_open = Map.empty\<rparr> = Some [aside] \<and>
     link_hrefs aside = map (\<lambda>e. ''/book/'' @ be_id e) shown \<and> distinct shown"
proof -
  have "panel_query \<lparr>pa_q = ''  VAT'', pa_open = Map.empty\<rparr> \<noteq> []" by code_simp
  from filtered_tree_shows_paths[OF mock_three_levels this, of "''/s-eu-vat''"]
  show ?thesis by blast
qed

section \<open>Crumbs\<close>

lemma linked_unique:
  assumes "linked c xs" "linked c ys" "last xs = last ys"
  shows "xs = ys"
  using assms
proof (induction xs arbitrary: ys rule: rev_induct)
  case (snoc e xs)
  then obtain zs where ys: "ys = zs @ [e]" by (metis append_butlast_last_id last_snoc linked_def)
  show ?case
  proof (cases "xs = [] \<or> zs = []")
    case True
    with snoc.prems ys show ?thesis
      by (auto simp: linked_def successively_append_iff hd_append)
  next
    case False
    then have "linked c xs" "linked c zs" "parent_of c e = Some (last xs)" "parent_of c e = Some (last zs)"
      using snoc.prems ys by (auto simp: linked_def successively_append_iff)
    then have "xs = zs" using snoc.IH[of zs] by simp
    then show ?thesis using ys by simp
  qed
qed (simp add: linked_def)

text \<open>The path of an entry on a path is the part of the path that ends there.\<close>

lemma pathOf_prefix:
  assumes "tree_book c" "pathOf c i = Some (xs @ a # ys)"
  shows "pathOf c (be_id a) = Some (xs @ [a])"
proof -
  have acyc: "acyclic (up c)" and dist: "distinct (map be_id (BOOK c))" using assms(1) by (auto simp: tree_book_def)
  obtain e where e: "getEntry c i = Some e" using assms(2) pathOf_unknown[of c i] by (cases "getEntry c i") auto
  from pathOf_entry[OF acyc e] obtain ch where
    ch: "xs @ a # ys = ch @ [e]" "linked c (ch @ [e])" "set ch = {b. (e, b) \<in> (up c)\<^sup>+}" using assms(2) by auto
  then have "linked c ((xs @ [a]) @ ys)" by simp
  moreover have "successively P (zs @ ys) \<Longrightarrow> successively P zs" for P and zs :: "BookEntry list"
    by (simp only: successively_append_iff)
  moreover have "hd ((xs @ [a]) @ ys) = hd (xs @ [a])" by (rule hd_append2) simp
  ultimately have link: "linked c (xs @ [a])" unfolding linked_def by (metis snoc_eq_iff_butlast)
  have "a \<in> set (ch @ [e])" using ch(1) by (metis in_set_conv_decomp)
  then have a: "a \<in> set (BOOK c)" using ch(3) getEntry_mem[OF e] up_trancl_mem by fastforce
  from pathOf_entry[OF acyc getEntry_self[OF dist a]] obtain ch' where
    "pathOf c (be_id a) = Some (ch' @ [a])" "linked c (ch' @ [a])" by blast
  then show ?thesis using linked_unique[OF link, of "ch' @ [a]"] by simp
qed


lemma path_segs_book:
  assumes "i \<noteq> []" "CHR ''/'' \<notin> set i"
  shows "path_segs (''/book/'' @ i) = [''book'', i]"
proof -
  have "split_char (CHR ''/'') ([] @ CHR ''/'' # ''book'' @ CHR ''/'' # i) = [[], ''book'', i]"
    using assms(2) by (subst split_char_append; simp)+ (simp add: split_char_no_sep)
  then show ?thesis using assms(1) by (simp add: path_segs_def)
qed

lemma resolve_entry:
  assumes "i \<noteq> []" "CHR ''/'' \<notin> set i" "pathOf c i = Some (xs @ [e])"
  shows "resolve c (''/book/'' @ i) =
    Some (Some (LEVEL_ICON (be_level e)),
          \<lparr>cp_label = Some ''Book'', cp_href = Some ''/book''\<rparr> #
          map (\<lambda>a. \<lparr>cp_label = Some (be_title a), cp_href = Some (''/book/'' @ be_id a)\<rparr>) xs @
          [\<lparr>cp_label = Some (be_title e), cp_href = None\<rparr>])"
proof -
  have "map (\<lambda>(i, a). \<lparr>cp_label = Some (be_title a), cp_href = (if i < length xs then Some (''/book/'' @ be_id a) else None)\<rparr>)
          (enumerate 0 xs) =
        map (\<lambda>a. \<lparr>cp_label = Some (be_title a), cp_href = Some (''/book/'' @ be_id a)\<rparr>) xs"
    by (rule nth_equalityI) (auto simp: nth_enumerate_eq)
  then have "trail_crumbs (xs @ [e]) =
      map (\<lambda>a. \<lparr>cp_label = Some (be_title a), cp_href = Some (''/book/'' @ be_id a)\<rparr>) xs @
      [\<lparr>cp_label = Some (be_title e), cp_href = None\<rparr>]"
    by (simp add: trail_crumbs_def enumerate_append_eq)
  then show ?thesis
    using assms(3) by (simp add: resolve_def path_segs_book[OF assms(1,2), simplified] Let_def)
qed

text \<open>
  C27. The breadcrumb of an entry of a tree (whose ids contain no slash): it ends with the entry,
  without a link, and every crumb before it links to a page whose own breadcrumb is the part of
  this one up to that crumb.
\<close>

theorem crumbs_lead_to_prefixes:
  assumes "tree_book c" and "list_all (\<lambda>e. CHR ''/'' \<notin> set (be_id e)) (BOOK c)"
    and "getEntry c i = Some e"
  shows "\<exists>icon crumbs. resolve c (''/book/'' @ i) = Some (Some icon, crumbs) \<and>
           cp_label (last crumbs) = Some (be_title e) \<and> cp_href (last crumbs) = None \<and>
           (\<forall>k < length crumbs - 1. \<exists>href icon' crumbs'.
              cp_href (crumbs ! k) = Some href \<and> resolve c href = Some (Some icon', crumbs') \<and>
              map cp_label crumbs' = map cp_label (take (k + 1) crumbs))"
proof -
  have e: "e \<in> set (BOOK c)" "be_id e = i" using getEntry_mem[OF assms(3)] by auto
  have ids: "be_id a \<noteq> [] \<and> CHR ''/'' \<notin> set (be_id a)" if "a \<in> set (BOOK c)" for a
    using that assms(1,2) unfolding tree_book_def list_all_iff by (metis image_eqI)
  have acyc: "acyclic (up c)" using assms(1) by (simp add: tree_book_def)
  from pathOf_entry[OF acyc assms(3)] obtain ch where
    ch: "pathOf c i = Some (ch @ [e])" "set ch = {a. (e, a) \<in> (up c)\<^sup>+}" by blast
  let ?link = "\<lambda>a. \<lparr>cp_label = Some (be_title a), cp_href = Some (''/book/'' @ be_id a)\<rparr>"
  let ?crumbs = "\<lparr>cp_label = Some ''Book'', cp_href = Some ''/book''\<rparr> # map ?link ch @
    [\<lparr>cp_label = Some (be_title e), cp_href = None\<rparr>]"
  have res: "resolve c (''/book/'' @ i) = Some (Some (LEVEL_ICON (be_level e)), ?crumbs)"
    using resolve_entry[OF _ _ ch(1)] ids[OF e(1)] e(2) by simp
  have "\<exists>href icon' crumbs'. cp_href (?crumbs ! k) = Some href \<and> resolve c href = Some (Some icon', crumbs') \<and>
          map cp_label crumbs' = map cp_label (take (k + 1) ?crumbs)" if k: "k < length ?crumbs - 1" for k
  proof (cases k)
    case 0
    have "path_segs ''/book'' = [''book'']" by code_simp
    then have "resolve c ''/book'' = Some (Some ''RiBook2Line'', [\<lparr>cp_label = Some ''Book'', cp_href = None\<rparr>])"
      by (simp add: resolve_def Let_def)
    with 0 show ?thesis by simp
  next
    case (Suc j)
    with k have j: "j < length ch" by simp
    then have split: "ch @ [e] = take j ch @ ch ! j # drop (Suc j) ch @ [e]" by (simp add: id_take_nth_drop)
    have path: "pathOf c (be_id (ch ! j)) = Some (take j ch @ [ch ! j])"
      by (rule pathOf_prefix[OF assms(1)]) (use ch(1) split in simp)
    have "ch ! j \<in> set (BOOK c)" using ch(2) j up_trancl_mem by (metis mem_Collect_eq nth_mem)
    from resolve_entry[OF _ _ path] ids[OF this] j Suc show ?thesis
      by (simp add: nth_append take_Suc_conv_app_nth take_map)
  qed
  with res show ?thesis by (intro exI[of _ "LEVEL_ICON (be_level e)"] exI[of _ ?crumbs]) simp
qed

theorem crumbs_lead_to_prefixes_witness:
  "\<exists>icon crumbs. resolve mock (''/book/'' @ ''s-eu-vat'') = Some (Some icon, crumbs) \<and> cp_href (last crumbs) = None"
proof -
  have ids: "list_all (\<lambda>e. CHR ''/'' \<notin> set (be_id e)) (BOOK mock)" by code_simp
  obtain e where "getEntry mock ''s-eu-vat'' = Some e" using mock_entry(2) by blast
  from crumbs_lead_to_prefixes[OF mock_tree ids this] show ?thesis by blast
qed

section \<open>The command menu and the ask page\<close>

text \<open>
  Asking from the command menu: as soon as something other than blanks is typed, the menu offers
  the question whatever the filter hides, choosing it closes and empties the menu and pushes an
  address from which the query parser reads back the trimmed question.
\<close>

theorem menu_question_roundtrip:
  "trim (cm_q s) = [] \<or>
   (\<exists>href. MGo href \<in> set (clicks (CommandMenu c s)) \<and>
      menu_step (MGo href) s = (s\<lparr>cm_open := False, cm_q := []\<rparr>, [RouterPush href]) \<and>
      params_get (query_of href) ''q'' = Some (trim (cm_q s)))"
proof (cases "trim (cm_q s) = []")
  case False
  let ?href = "''/ask?q='' @ encodeURIComponent (trim (cm_q s))"
  have "MGo ?href \<in> set (clicks (CommandMenu c s))"
    using False by (simp add: CommandMenu_def ask_item_def Let_def)
  moreover have "query_of ?href = ''q'' @ ''='' @ encodeURIComponent (trim (cm_q s))"
    by (simp add: query_of_def)
  moreover have "list_all uri_unreserved ''q''" by code_simp
  ultimately show ?thesis
    using params_get_encoded[of "''q''" "trim (cm_q s)"] by (intro disjI2 exI[of _ ?href]) simp
qed simp

section \<open>The current link of the spine\<close>

fun current_links :: "'a node \<Rightarrow> string list" where
  "current_links (Txt s) = []"
| "current_links (El t as cs) =
     (if t = ''Link'' \<and> attr_strs ''aria-current'' as \<noteq> [] then attr_strs ''href'' as else []) @ concat (map current_links cs)"

definition spine_hrefs :: "string list" where
  "spine_hrefs = map snd (KNOWLEDGE @ MANAGE @ [(''Settings'', ''/settings'')])"

lemma current_links_SpineLink: "current_links (SpineLink_p expanded item active) = (if active then [snd item] else [])"
  by (simp add: SpineLink_p_def)

lemma concat_if_filter: "concat (map (\<lambda>x. if P x then [f x] else []) xs) = map f (filter P xs)"
  by (induction xs) auto

lemma current_links_AppSpine:
  "current_links (AppSpine_p pathname expanded org) = filter (isActive_p pathname) spine_hrefs"
proof -
  have links: "concat (map (\<lambda>x. if isActive_p pathname (snd x) then [snd x] else []) items) =
      filter (isActive_p pathname) (map snd items)" for items :: "(string \<times> string) list"
    by (simp add: concat_if_filter filter_map o_def)
  have none: "current_links (SpineHeader_p expanded) = []" "current_links (Notifications_p expanded :: spine_event_p node) = []"
    "current_links (SectionBreak l :: spine_event_p node) = []" "current_links (ProfileMenu_p org) = []" for l
    by (simp_all add: SpineHeader_p_def Notifications_p_def SectionBreak_def ProfileMenu_p_def o_def)
  show ?thesis
    by (simp add: AppSpine_p_def Let_def none links spine_hrefs_def current_links_SpineLink o_def)
qed

lemma spine_hrefs_prefix_free:
  "sorted_wrt (\<lambda>a b. \<not> starts_with a b \<and> \<not> starts_with b a) spine_hrefs"
  by (simp add: spine_hrefs_def KNOWLEDGE_def MANAGE_def)

text \<open>
  At most one link of the spine is marked as the current page, whatever the address, and it is the
  one whose address starts the current address.
\<close>

theorem one_current_link:
  "length (current_links (AppSpine_p pathname expanded org)) \<le> 1 \<and>
   set (current_links (AppSpine_p pathname expanded org)) = {h \<in> set spine_hrefs. starts_with pathname h}"
proof -
  have act: "isActive_p pathname = starts_with pathname" by (simp add: isActive_p_def fun_eq_iff)
  have both: "starts_with a b \<or> starts_with b a" if "starts_with pathname a" "starts_with pathname b" for a b
    using that by (auto simp: starts_with_iff_prefix append_eq_append_conv2)
  have "length (filter (starts_with pathname) hs) \<le> 1"
    if "sorted_wrt (\<lambda>a b. \<not> starts_with a b \<and> \<not> starts_with b a) hs" for hs
    using that
  proof (induction hs)
    case (Cons h hs)
    have "filter (starts_with pathname) hs = []" if "starts_with pathname h"
      using that Cons.prems both by (auto simp: filter_empty_conv)
    with Cons show ?case by auto
  qed simp
  from this[OF spine_hrefs_prefix_free] show ?thesis by (auto simp: current_links_AppSpine act)
qed

end
