(* ===== verification/Accent.thy ===== *)
theory Accent
  imports Urls Doubles
begin

text \<open>
  Theming: the accent palettes of the prototype (\<open>prototype/lib/accent-palettes.ts\<close>), its typefaces
  (\<open>prototype/lib/fonts.ts\<close>), the provider that keeps the choice and writes the style sheet
  (\<open>prototype/components/brand/accent-provider.tsx\<close>), the picker (\<open>style-picker.tsx\<close>) and the hotkey
  that switches between light and dark (\<open>web/components/theme-provider.tsx\<close>).

  A scale is the association list of an object keyed by shade; a missing key is \<open>undefined\<close>. The
  colour arithmetic is in doubles; \<open>Math.pow\<close> is left to the implementation by the language, so
  it is the parameter \<open>pow\<close>, and no theorem here assumes anything about it.

  The theorems: when the style sheet can be written, and that the hover shade of a shade is its
  neighbour in the palette.
\<close>

section \<open>Palettes\<close>

definition SHADES :: "nat list" where
  "SHADES = [100, 200, 300, 400, 500, 600, 700, 800, 900, 1000, 1100, 1200, 1300]"

type_synonym scale = "(nat \<times> string) list"

record accent_palette =
  ap_id :: string
  ap_name :: string
  ap_light :: scale
  ap_dark :: scale

definition scale :: "string list \<Rightarrow> scale" where
  "scale vs = zip SHADES vs"

definition ACCENTS :: "accent_palette list" where
  "ACCENTS =
     [\<lparr>ap_id = ''orange'', ap_name = ''Orange'',
        ap_light = scale [''#ffeccc'', ''#ffdfad'', ''#fdd291'', ''#ffbb63'', ''#ffa037'', ''#f68511'', ''#e46f00'',
          ''#cb5d00'', ''#b14c00'', ''#953d00'', ''#7a2f00'', ''#612300'', ''#491901''],
        ap_dark = scale [''#662500'', ''#752d00'', ''#893700'', ''#9e4200'', ''#b44e00'', ''#ca5d00'', ''#e16d00'',
          ''#f4810c'', ''#fe9a2e'', ''#ffb558'', ''#fdce88'', ''#ffe1b3'', ''#fff2dd'']\<rparr>,
      \<lparr>ap_id = ''red'', ap_name = ''Red'',
        ap_light = scale [''#ffebe7'', ''#ffddd6'', ''#ffcdc3'', ''#ffb7a9'', ''#ff9b88'', ''#ff7c65'', ''#f75c46'',
          ''#ea3829'', ''#d31510'', ''#b40000'', ''#930000'', ''#740000'', ''#590000''],
        ap_dark = scale [''#7b0000'', ''#8d0000'', ''#a50000'', ''#be0403'', ''#d71913'', ''#ea3829'', ''#f65843'',
          ''#ff755e'', ''#ff9581'', ''#ffb0a1'', ''#ffc9bd'', ''#ffded8'', ''#fff1ee'']\<rparr>,
      \<lparr>ap_id = ''orange-yellow'', ap_name = ''Yellow'',
        ap_light = scale [''#fbf198'', ''#f8e750'', ''#f8d904'', ''#e8c600'', ''#d7b300'', ''#c49f00'', ''#b08c00'',
          ''#9b7800'', ''#856600'', ''#705300'', ''#5b4300'', ''#483300'', ''#362500''],
        ap_dark = scale [''#4c3600'', ''#584000'', ''#674c00'', ''#775900'', ''#886800'', ''#9b7800'', ''#ae8900'',
          ''#c09c00'', ''#d3ae00'', ''#e4c200'', ''#f4d500'', ''#f9e85c'', ''#fcf6bb'']\<rparr>,
      \<lparr>ap_id = ''green'', ap_name = ''Green'',
        ap_light = scale [''#cef8e0'', ''#adf4ce'', ''#89ecbc'', ''#67dea8'', ''#49cc93'', ''#2fb880'', ''#15a46e'',
          ''#008f5d'', ''#007a4d'', ''#00653e'', ''#005132'', ''#053f27'', ''#0a2e1d''],
        ap_dark = scale [''#044329'', ''#004e2f'', ''#005c38'', ''#006c43'', ''#007d4e'', ''#008f5d'', ''#12a26c'',
          ''#2bb47d'', ''#43c78f'', ''#5ed9a2'', ''#81e9b8'', ''#b1f4d1'', ''#dffaea'']\<rparr>,
      \<lparr>ap_id = ''seafoam'', ap_name = ''Seafoam'',
        ap_light = scale [''#cef7f3'', ''#aaf1ea'', ''#8ce9e2'', ''#65dad2'', ''#3fc9c1'', ''#0fb5ae'', ''#00a19a'',
          ''#008c87'', ''#007772'', ''#00635f'', ''#0c4f4c'', ''#123c3a'', ''#122c2b''],
        ap_dark = scale [''#12413f'', ''#0e4c49'', ''#045a57'', ''#006965'', ''#007a75'', ''#008c87'', ''#009e98'',
          ''#03b2ab'', ''#36c5bd'', ''#5dd6cf'', ''#84e6df'', ''#b0f2ec'', ''#dff9f6'']\<rparr>,
      \<lparr>ap_id = ''cyan'', ap_name = ''Cyan'',
        ap_light = scale [''#c5f8ff'', ''#a4f0ff'', ''#88e7fa'', ''#60d8f3'', ''#33c5e8'', ''#12b0da'', ''#019cc8'',
          ''#0086b4'', ''#00719f'', ''#005d89'', ''#004a73'', ''#00395d'', ''#002a46''],
        ap_dark = scale [''#003d62'', ''#00476f'', ''#00557f'', ''#006491'', ''#0074a2'', ''#0086b4'', ''#0099c6'',
          ''#0eadd7'', ''#2cc1e6'', ''#54d3f1'', ''#7fe4f9'', ''#a7f1ff'', ''#d7faff'']\<rparr>,
      \<lparr>ap_id = ''blue'', ap_name = ''Blue'',
        ap_light = scale [''#e0f2ff'', ''#cae8ff'', ''#b5deff'', ''#96cefd'', ''#78bbfa'', ''#59a7f6'', ''#3892f3'',
          ''#147af3'', ''#0265dc'', ''#0054b6'', ''#004491'', ''#003571'', ''#002754''],
        ap_dark = scale [''#003877'', ''#00418a'', ''#004da3'', ''#0059c2'', ''#0367e0'', ''#1379f3'', ''#348ff4'',
          ''#54a3f6'', ''#72b7f9'', ''#8fcafc'', ''#aedbfe'', ''#cce9ff'', ''#e8f6ff'']\<rparr>,
      \<lparr>ap_id = ''indigo'', ap_name = ''Indigo'',
        ap_light = scale [''#edeeff'', ''#e0e2ff'', ''#d3d5ff'', ''#c1c4ff'', ''#acafff'', ''#9599ff'', ''#7e84fc'',
          ''#686df4'', ''#5258e4'', ''#4046ca'', ''#3236a8'', ''#262986'', ''#1b1e64''],
        ap_dark = scale [''#282c8c'', ''#2f34a3'', ''#393fbb'', ''#464bd3'', ''#555be7'', ''#686df4'', ''#7c81fb'',
          ''#9195ff'', ''#a7aaff'', ''#bcbeff'', ''#d0d2ff'', ''#e2e4ff'', ''#f3f3fe'']\<rparr>,
      \<lparr>ap_id = ''purple'', ap_name = ''Purple'',
        ap_light = scale [''#f6ebff'', ''#eeddff'', ''#e6d0ff'', ''#dbbbfe'', ''#cca4fd'', ''#bd8bfc'', ''#ae72f9'',
          ''#9d57f4'', ''#893de7'', ''#7326d3'', ''#5d13b7'', ''#470c94'', ''#33106a''],
        ap_dark = scale [''#4c0d9d'', ''#5911b1'', ''#691cc8'', ''#7a2dda'', ''#8c41e9'', ''#9d57f3'', ''#ac6ff9'',
          ''#bb87fb'', ''#ca9ffc'', ''#d7b6fe'', ''#e4ccfe'', ''#efdfff'', ''#f9f0ff'']\<rparr>,
      \<lparr>ap_id = ''fuchsia'', ap_name = ''Fuchsia'',
        ap_light = scale [''#ffe9fc'', ''#ffdafa'', ''#fec7f8'', ''#fbaef6'', ''#f592f3'', ''#ed74ed'', ''#e055e2'',
          ''#cd3ace'', ''#b622b7'', ''#9d039e'', ''#800081'', ''#640664'', ''#470e46''],
        ap_dark = scale [''#6b036a'', ''#7b007b'', ''#900091'', ''#a50da6'', ''#b925b9'', ''#cd39ce'', ''#df51e0'',
          ''#eb6eec'', ''#f48cf2'', ''#faa8f5'', ''#fec2f8'', ''#ffdbfa'', ''#ffeffc'']\<rparr>,
      \<lparr>ap_id = ''magenta'', ap_name = ''Magenta'',
        ap_light = scale [''#ffeaf1'', ''#ffdce8'', ''#ffcadd'', ''#ffb2ce'', ''#ff95bd'', ''#fa77aa'', ''#ef5a98'',
          ''#de3d82'', ''#c82269'', ''#ad0955'', ''#8e0045'', ''#700037'', ''#54032a''],
        ap_dark = scale [''#76003a'', ''#890042'', ''#a0004d'', ''#b6125a'', ''#cb266d'', ''#de3d82'', ''#ed5795'',
          ''#f972a7'', ''#ff8fb9'', ''#ffacca'', ''#ffc6da'', ''#ffdde9'', ''#fff0f5'']\<rparr>]"

definition DEFAULT_ACCENT_ID :: string where "DEFAULT_ACCENT_ID = ''orange''"
definition DEFAULT_LIGHT_SHADE :: nat where "DEFAULT_LIGHT_SHADE = 900"
definition DEFAULT_DARK_SHADE :: nat where "DEFAULT_DARK_SHADE = 900"

definition getAccent :: "string \<Rightarrow> accent_palette" where
  "getAccent i = nullish (find (\<lambda>a. ap_id a = i) ACCENTS) (hd ACCENTS)"

text \<open>
  \<open>parseInt(s, 16)\<close> on two hexadecimal digits; anything else (which no palette holds) is taken as
  \<open>NaN\<close>.
\<close>

definition hex_byte :: "string \<Rightarrow> nat option" where
  "hex_byte s =
     (case s of [a, b] \<Rightarrow> (case (hex_val a, hex_val b) of (Some x, Some y) \<Rightarrow> Some (16 * x + y) | _ \<Rightarrow> None) | _ \<Rightarrow> None)"

definition linear :: "(rat \<Rightarrow> rat \<Rightarrow> rat) \<Rightarrow> rat \<Rightarrow> rat" where
  "linear pow v =
     (if v \<le> dbl (3928 / 100000) then js_div v (dbl (1292 / 100))
      else pow (js_div (js_add v (dbl (55 / 1000))) (dbl (1055 / 1000))) (dbl (24 / 10)))"

text \<open>A channel that is \<open>NaN\<close> makes the luminance \<open>NaN\<close>, and the comparison false.\<close>

definition readableForeground :: "(rat \<Rightarrow> rat \<Rightarrow> rat) \<Rightarrow> string \<Rightarrow> string" where
  "readableForeground pow hex =
     (let c = (if starts_with hex ''#'' then drop 1 hex else hex);
          lin = (\<lambda>i. map_option (\<lambda>n. linear pow (js_div (of_nat n) 255)) (hex_byte (take 2 (drop i c))))
      in case (lin 0, lin 2, lin 4) of
           (Some r, Some g, Some b) \<Rightarrow>
             (let l = js_add (js_add (js_mul (dbl (2126 / 10000)) r) (js_mul (dbl (7152 / 10000)) g)) (js_mul (dbl (722 / 10000)) b)
              in if dbl (45 / 100) < l then ''#1d1d1d'' else ''#ffffff'')
         | _ \<Rightarrow> ''#ffffff'')"

text \<open>\<open>SHADES.indexOf(shade)\<close> is \<open>-1\<close> for an unknown shade.\<close>

definition hover_index :: "nat \<Rightarrow> int" where
  "hover_index shade =
     (let idx = find_index (\<lambda>s. s = shade) SHADES
      in if int (length SHADES) - 1 \<le> idx then idx - 1 else idx + 1)"

definition hoverShade :: "scale \<Rightarrow> nat \<Rightarrow> string option" where
  "hoverShade sc shade = Option.bind (js_nth SHADES (hover_index shade)) (map_of sc)"

section \<open>Typefaces\<close>

record font_option =
  fo_id :: string
  fo_label :: string
  fo_cssVar :: string
  fo_note :: string

definition FONTS :: "font_option list" where
  "FONTS =
     [\<lparr>fo_id = ''source-sans'', fo_label = ''Source Sans 3'', fo_cssVar = ''--font-source-sans'',
        fo_note = ''Adobe '' @ middot @ '' humanist''\<rparr>,
      \<lparr>fo_id = ''inter'', fo_label = ''Inter'', fo_cssVar = ''--font-inter'', fo_note = ''neutral workhorse''\<rparr>,
      \<lparr>fo_id = ''geist'', fo_label = ''Geist'', fo_cssVar = ''--font-geist'', fo_note = ''Vercel '' @ middot @ '' geometric''\<rparr>,
      \<lparr>fo_id = ''ibm-plex'', fo_label = ''IBM Plex Sans'', fo_cssVar = ''--font-ibm-plex'',
        fo_note = ''IBM '' @ middot @ '' engineered''\<rparr>,
      \<lparr>fo_id = ''public-sans'', fo_label = ''Public Sans'', fo_cssVar = ''--font-public-sans'',
        fo_note = ''USWDS '' @ middot @ '' plain''\<rparr>]"

definition DEFAULT_FONT_ID :: string where "DEFAULT_FONT_ID = ''source-sans''"

definition getFont :: "string \<Rightarrow> font_option" where
  "getFont i = nullish (find (\<lambda>f. fo_id f = i) FONTS) (hd FONTS)"

section \<open>The provider\<close>

record accent_config =
  ac_accentId :: string
  ac_lightShade :: nat
  ac_darkShade :: nat
  ac_fontId :: string

definition accent_config_init :: accent_config where
  "accent_config_init =
     \<lparr>ac_accentId = DEFAULT_ACCENT_ID, ac_lightShade = DEFAULT_LIGHT_SHADE, ac_darkShade = DEFAULT_DARK_SHADE,
      ac_fontId = DEFAULT_FONT_ID\<rparr>"

definition theme_block :: "string \<Rightarrow> string \<Rightarrow> string \<Rightarrow> string \<Rightarrow> string \<Rightarrow> string \<Rightarrow> string" where
  "theme_block selector primary foreground hover subtle subtleForeground =
     selector @ ''{--primary:'' @ primary @ '';--primary-foreground:'' @ foreground @ '';--primary-hover:'' @ hover @
     '';--ring:'' @ primary @ '';--brand:'' @ primary @ '';--brand-foreground:'' @ foreground @ '';--brand-subtle:'' @ subtle @
     '';--brand-subtle-foreground:'' @ subtleForeground @ '';--sidebar-primary:'' @ primary @
     '';--sidebar-primary-foreground:'' @ foreground @ '';--sidebar-ring:'' @ primary @ '';}''"

text \<open>A template literal prints a missing value as \<open>undefined\<close>; calling a method of it throws.\<close>

definition shown :: "string option \<Rightarrow> string" where
  "shown v = nullish v ''undefined''"

definition buildCss :: "(rat \<Rightarrow> rat \<Rightarrow> rat) \<Rightarrow> accent_config \<Rightarrow> thrown + string" where
  "buildCss pow cfg =
     (let palette = getAccent (ac_accentId cfg);
          l = map_of (ap_light palette) (ac_lightShade cfg); d = map_of (ap_dark palette) (ac_darkShade cfg)
      in case (l, d) of
           (Some lc, Some dc) \<Rightarrow>
             Inr (theme_block '':root'' lc (readableForeground pow lc) (shown (hoverShade (ap_light palette) (ac_lightShade cfg)))
                    (shown (map_of (ap_light palette) 100)) (shown (map_of (ap_light palette) 1000)) @ [CHR 0x0A] @
                  theme_block ''.dark'' dc (readableForeground pow dc) (shown (hoverShade (ap_dark palette) (ac_darkShade cfg)))
                    (shown (map_of (ap_dark palette) 100)) (shown (map_of (ap_dark palette) 1100)))
         | _ \<Rightarrow> Inl (OtherError ''Cannot read properties of undefined''))"

text \<open>
  What a saved record may hold: each field or nothing. \<open>None\<close> is a storage that throws, that is
  empty or that holds no JSON text: it is ignored.
\<close>

record saved_config =
  sv_accentId :: "string option"
  sv_lightShade :: "nat option"
  sv_darkShade :: "nat option"
  sv_fontId :: "string option"

definition accent_load :: "saved_config option \<Rightarrow> accent_config \<Rightarrow> accent_config" where
  "accent_load saved cfg =
     (case saved of None \<Rightarrow> cfg
      | Some sv \<Rightarrow>
          \<lparr>ac_accentId = nullish (sv_accentId sv) (ac_accentId cfg), ac_lightShade = nullish (sv_lightShade sv) (ac_lightShade cfg),
           ac_darkShade = nullish (sv_darkShade sv) (ac_darkShade cfg), ac_fontId = nullish (sv_fontId sv) (ac_fontId cfg)\<rparr>)"

record key_event =
  ke_key :: string
  ke_modifier :: bool           \<comment> \<open>meta, control or alt\<close>
  ke_typing :: bool             \<comment> \<open>the target is editable, an input, a text area or a select\<close>
  ke_skip :: bool               \<comment> \<open>\<open>defaultPrevented\<close> or \<open>repeat\<close>\<close>

definition accent_key :: "key_event \<Rightarrow> bool \<Rightarrow> bool" where
  "accent_key e visible =
     (if ke_key e \<noteq> ''a'' \<and> ke_key e \<noteq> ''A'' then visible
      else if ke_modifier e then visible else if ke_typing e then visible else \<not> visible)"

datatype accent_event = SetAccentId string | SetLightShade nat | SetDarkShade nat | SetFontId string

fun accent_step :: "accent_event \<Rightarrow> accent_config \<Rightarrow> accent_config" where
  "accent_step (SetAccentId i) c = c\<lparr>ac_accentId := i\<rparr>"
| "accent_step (SetLightShade s) c = c\<lparr>ac_lightShade := s\<rparr>"
| "accent_step (SetDarkShade s) c = c\<lparr>ac_darkShade := s\<rparr>"
| "accent_step (SetFontId i) c = c\<lparr>ac_fontId := i\<rparr>"

text \<open>
  The effect of a new configuration: the style sheet, the value of \<open>--font-sans\<close> and what is
  stored; an exception while the style sheet is built leaves the effect.
\<close>

definition accent_apply :: "(rat \<Rightarrow> rat \<Rightarrow> rat) \<Rightarrow> accent_config \<Rightarrow> thrown + string \<times> string \<times> accent_config" where
  "accent_apply pow cfg =
     (case buildCss pow cfg of
        Inl e \<Rightarrow> Inl e
      | Inr css \<Rightarrow> Inr (css, ''var('' @ fo_cssVar (getFont (ac_fontId cfg)) @ '')'', cfg))"

definition useAccent :: "'c option \<Rightarrow> thrown + 'c" where
  "useAccent ctx =
     (case ctx of None \<Rightarrow> Inl (OtherError ''useAccent must be used within AccentProvider'') | Some x \<Rightarrow> Inr x)"

section \<open>The picker\<close>

definition Swatch :: "string option \<Rightarrow> 'a node" where
  "Swatch color = El ''span'' (case color of None \<Rightarrow> [] | Some c \<Rightarrow> [AStr ''backgroundColor'' c]) []"

definition ShadeRow :: "string \<Rightarrow> scale \<Rightarrow> nat \<Rightarrow> (nat \<Rightarrow> 'a) \<Rightarrow> 'a node" where
  "ShadeRow label sc value change =
     El ''div'' []
       [El ''span'' [] [Txt label], El ''span'' [] [Txt (show_nat value)],
        El ''div'' [] (map (\<lambda>s. El ''button'' [AStr ''aria-label'' (label @ '' '' @ show_nat s), On ''click'' (change s),
                                              ABool ''selected'' (value = s), AStr ''backgroundColor'' (shown (map_of sc s))] []) SHADES)]"

definition hoverLabel :: "accent_palette \<Rightarrow> nat \<Rightarrow> nat \<Rightarrow> string" where
  "hoverLabel active lightShade darkShade =
     (let l = hoverShade (ap_light active) lightShade; d = hoverShade (ap_dark active) darkShade
      in if l = d then shown l else shown l @ '' / '' @ shown d)"

definition StylePicker :: "bool \<Rightarrow> accent_config \<Rightarrow> accent_event node list" where
  "StylePicker visible cfg =
     (let active = getAccent (ac_accentId cfg)
      in shown_if visible
        [El ''Popover'' []
           [El ''PopoverTrigger'' [] [Swatch (map_of (ap_light active) (ac_lightShade cfg)), El ''span'' [] [Txt ''Style'']],
            El ''PopoverContent'' []
              [El ''p'' [] [Txt ''Typeface''],
               El ''div'' [] (map (\<lambda>f. El ''button'' [On ''click'' (SetFontId (fo_id f)), ABool ''selected'' (fo_id f = ac_fontId cfg)]
                 [El ''span'' [AStr ''fontFamily'' (''var('' @ fo_cssVar f @ '')'')] [Txt (fo_label f)],
                  El ''span'' [] [Txt (fo_note f)]]) FONTS),
               El ''p'' [] [Txt ''Accent color''],
               El ''div'' [] (map (\<lambda>a. El ''button'' [On ''click'' (SetAccentId (ap_id a)), ABool ''selected'' (ap_id a = ac_accentId cfg)]
                 [Swatch (map_of (ap_light a) 900), El ''span'' [] [Txt (ap_name a)]]) ACCENTS),
               ShadeRow ''Light shade'' (ap_light active) (ac_lightShade cfg) SetLightShade,
               ShadeRow ''Dark shade'' (ap_dark active) (ac_darkShade cfg) SetDarkShade,
               El ''p'' [] [Txt (''Hover ('' @ hoverLabel active (ac_lightShade cfg) (ac_darkShade cfg) @
                                '') and the text color on the accent are derived automatically.'')]]]])"

section \<open>Light and dark\<close>

definition ThemeHotkey :: "key_event \<Rightarrow> string \<Rightarrow> string option" where
  "ThemeHotkey e resolvedTheme =
     (if ke_skip e then None else if ke_modifier e then None
      else if toLowerCase (ke_key e) \<noteq> ''d'' then None
      else if ke_typing e then None
      else Some (if resolvedTheme = ''dark'' then ''light'' else ''dark''))"

section \<open>Properties\<close>

lemma palettes_complete:
  "list_all (\<lambda>a. map fst (ap_light a) = SHADES \<and> map fst (ap_dark a) = SHADES) ACCENTS"
  by code_simp

lemma palettes_distinct:
  "list_all (\<lambda>a. distinct (map snd (ap_light a)) \<and> distinct (map snd (ap_dark a))) ACCENTS"
  by code_simp

lemma getAccent_mem: "getAccent i \<in> set ACCENTS"
proof (cases "find (\<lambda>a. ap_id a = i) ACCENTS")
  case None
  have "hd ACCENTS \<in> set ACCENTS" by (simp add: ACCENTS_def)
  with None show ?thesis by (simp add: getAccent_def)
next
  case (Some a)
  with find_Some_mem[OF Some] show ?thesis by (simp add: getAccent_def)
qed

lemma getAccent_keys:
  "map fst (ap_light (getAccent i)) = SHADES" "map fst (ap_dark (getAccent i)) = SHADES"
  "distinct (map snd (ap_light (getAccent i)))" "distinct (map snd (ap_dark (getAccent i)))"
  using palettes_complete palettes_distinct getAccent_mem[of i] by (auto simp: list_all_iff)

lemma map_of_defined: "map fst sc = SHADES \<Longrightarrow> map_of sc s \<noteq> None \<longleftrightarrow> s \<in> set SHADES"
  by (metis image_set map_of_eq_None_iff)

text \<open>
  C37. The style sheet can be written exactly when both shades are shades of the scale, whatever the
  accent (an unknown one falls back to the first palette) and the typeface; otherwise building it
  throws, outside the block that ignores malformed storage. The choices of the picker keep the
  configuration in that range.
\<close>

theorem buildCss_returns_iff:
  "((\<exists>css. accent_apply pow cfg = Inr css) \<longleftrightarrow> ac_lightShade cfg \<in> set SHADES \<and> ac_darkShade cfg \<in> set SHADES) \<and>
   ac_lightShade accent_config_init \<in> set SHADES \<and> ac_darkShade accent_config_init \<in> set SHADES \<and>
   list_all (\<lambda>ev. case ev of SetLightShade s \<Rightarrow> s \<in> set SHADES | SetDarkShade s \<Rightarrow> s \<in> set SHADES | _ \<Rightarrow> True)
     (concat (map clicks (StylePicker visible cfg)))"
proof -
  let ?p = "getAccent (ac_accentId cfg)"
  have "(\<exists>css. accent_apply pow cfg = Inr css) \<longleftrightarrow>
      map_of (ap_light ?p) (ac_lightShade cfg) \<noteq> None \<and> map_of (ap_dark ?p) (ac_darkShade cfg) \<noteq> None"
    by (auto simp: accent_apply_def buildCss_def Let_def split: option.splits)
  moreover have "ac_lightShade accent_config_init \<in> set SHADES \<and> ac_darkShade accent_config_init \<in> set SHADES"
    by code_simp
  moreover have "list_all (\<lambda>ev. case ev of SetLightShade s \<Rightarrow> s \<in> set SHADES | SetDarkShade s \<Rightarrow> s \<in> set SHADES | _ \<Rightarrow> True)
     (concat (map clicks (StylePicker visible cfg)))"
    by (auto simp: StylePicker_def ShadeRow_def Swatch_def Let_def shown_if_def list_all_iff split: option.splits)
  ultimately show ?thesis by (simp only: map_of_defined[OF getAccent_keys(1)] map_of_defined[OF getAccent_keys(2)])
qed

text \<open>
  The hover colour of every shade of every palette is defined, is another colour than the shade's
  own, and belongs to a neighbour in the scale: the next step, or the one before for the last.
\<close>

theorem hoverShade_neighbour:
  assumes "i < length SHADES" and "sc = ap_light (getAccent a) \<or> sc = ap_dark (getAccent a)"
  shows "\<exists>j c. \<bar>int j - int i\<bar> = 1 \<and> j < length SHADES \<and> (i < 12 \<longrightarrow> j = i + 1) \<and>
           hoverShade sc (SHADES ! i) = Some c \<and>
           map_of sc (SHADES ! j) = Some c \<and>
           map_of sc (SHADES ! i) \<noteq> Some c"
proof -
  have keys: "map fst sc = SHADES" "distinct (map snd sc)" using assms(2) getAccent_keys[of a] by auto
  have n: "length SHADES = 13" and dS: "distinct SHADES" by (simp_all add: SHADES_def)
  have "find_index (\<lambda>s. s = SHADES ! i) SHADES = int i"
    using find_index_key[of "\<lambda>s. s" SHADES i] assms(1) dS by simp
  then have hov: "hover_index (SHADES ! i) = (if i < 12 then int i + 1 else int i - 1)"
    using assms(1) n by (auto simp: hover_index_def Let_def)
  define j where "j = (if i < 12 then i + 1 else i - 1)"
  have j: "j < 13" "hover_index (SHADES ! i) = int j" "\<bar>int j - int i\<bar> = 1"
    using assms(1) hov n by (auto simp: j_def)
  then have js: "js_nth SHADES (hover_index (SHADES ! i)) = Some (SHADES ! j)" by (simp add: js_nth_def n)
  have mem: "SHADES ! j \<in> set SHADES" using j(1) n by simp
  with map_of_defined[OF keys(1)] obtain c where c: "map_of sc (SHADES ! j) = Some c" by fastforce
  have "SHADES ! j \<noteq> SHADES ! i" using j assms(1) n dS by (auto simp: nth_eq_iff_index_eq)
  moreover have "k = l" if "map_of sc k = Some c" "map_of sc l = Some c" for k l
  proof -
    have "(k, c) \<in> set sc" "(l, c) \<in> set sc" using that by (auto dest: map_of_SomeD)
    then have "(k, c) = (l, c)"
      using keys(2) unfolding distinct_map by (metis inj_onD snd_conv)
    then show ?thesis by simp
  qed
  ultimately have "map_of sc (SHADES ! i) \<noteq> Some c" using c by blast
  with js c j n show ?thesis by (intro exI[of _ j] exI[of _ c]) (auto simp: hoverShade_def j_def)
qed

theorem hoverShade_neighbour_witness:
  "\<exists>c. hoverShade (ap_dark (getAccent ''orange'')) (SHADES ! 8) = Some c \<and>
     map_of (ap_dark (getAccent ''orange'')) (SHADES ! 9) = Some c"
proof -
  have "(8 :: nat) < length SHADES" by (simp add: SHADES_def)
  from hoverShade_neighbour[OF this, of "ap_dark (getAccent ''orange'')" "''orange''"] show ?thesis by auto
qed

text \<open>For the default shade the neighbour is the one farther from the middle of the scale.\<close>

lemma hover_away_from_middle:
  "hoverShade (ap_light (getAccent ''orange'')) 900 = map_of (ap_light (getAccent ''orange'')) 1000"
  by code_simp

text \<open>The hotkeys leave the state alone while the user types or holds a modifier.\<close>

lemma hotkeys_silent:
  assumes "ke_typing e \<or> ke_modifier e"
  shows "accent_key e v = v" "ThemeHotkey e t = None"
  using assms by (auto simp: accent_key_def ThemeHotkey_def)

end
