(* ===== verification/Proto_Frame.thy ===== *)
theory Proto_Frame
  imports Kit_Proto Book_Nav Accent
begin

text \<open>
  The static side of the prototype: the building blocks of the sign-in pages
  (\<open>prototype/components/auth/auth-shell.tsx\<close>), the dead-end pages of the funnel
  (\<open>prototype/app/(auth)/error\<close>, \<open>session-expired\<close>, \<open>signed-out\<close>), its layout, footer and background
  (\<open>prototype/app/(auth)/layout.tsx\<close>, \<open>prototype/components/brand\<close>) and the index of all pages
  (\<open>prototype/app/page.tsx\<close>), with the routes of the prototype.
\<close>

section \<open>Building blocks of the sign-in pages\<close>

definition AuthShell :: "bool \<Rightarrow> 'a node list \<Rightarrow> 'a node" where
  "AuthShell wide children =
     El ''div'' [AStr ''class'' (if \<not> wide then ''max-w-[420px]'' else ''max-w-[520px]'')] children"

definition AuthCard :: "'a node list \<Rightarrow> 'a node" where
  "AuthCard children = El ''div'' [] children"

definition AuthCardHeader :: "'a node list \<Rightarrow> 'a node list \<Rightarrow> bool \<Rightarrow> 'a node" where
  "AuthCardHeader ttl subtitle centered =
     El ''div'' [ABool ''text-center'' centered]
       (El ''h1'' [] ttl # shown_if (subtitle \<noteq> []) [El ''p'' [] subtitle])"

definition ButtonSpinner :: "string \<Rightarrow> 'a node" where
  "ButtonSpinner label = El ''span'' [] [El ''span'' [] [], Txt label]"

definition AuthSubmitButton :: "'a attr list \<Rightarrow> 'a node list \<Rightarrow> 'a node" where
  "AuthSubmitButton props children = Button_pui (spread [AStr ''type'' ''submit'', AStr ''size'' ''xl''] props) children"

definition AuthSecondaryButton :: "'a attr list \<Rightarrow> 'a node list \<Rightarrow> 'a node" where
  "AuthSecondaryButton props children =
     Button_pui (spread [AStr ''type'' ''button'', AStr ''variant'' ''outline'', AStr ''size'' ''xl''] props) children"

definition AuthMethodButton :: "'a node \<Rightarrow> string \<Rightarrow> string option \<Rightarrow> 'a option \<Rightarrow> 'a node" where
  "AuthMethodButton icon label detail onClick =
     Button_pui
       ([AStr ''type'' ''button'', AStr ''variant'' ''secondary'', AStr ''size'' ''xl''] @
        (case onClick of None \<Rightarrow> [] | Some a \<Rightarrow> [On ''click'' a]))
       ([El ''span'' [] [icon], El ''span'' [] [Txt label]] @
        shown_if (truthy_str detail) [El ''span'' [] [Txt (the detail)]])"

definition AuthDivider :: "'a node list \<Rightarrow> 'a node" where
  "AuthDivider children = El ''div'' [] [El ''div'' [] [], El ''span'' [] children, El ''div'' [] []]"

definition AuthField ::
  "'a node list \<Rightarrow> string option \<Rightarrow> 'a node list \<Rightarrow> 'a node list \<Rightarrow> 'a node list \<Rightarrow> 'a node" where
  "AuthField label htmlFor hint trailing children =
     El ''div'' []
       (shown_if (label \<noteq> [] \<or> trailing \<noteq> [])
          [El ''div'' []
            (shown_if (label \<noteq> [])
               [El ''label'' (case htmlFor of None \<Rightarrow> [] | Some i \<Rightarrow> [AStr ''htmlFor'' i]) label] @ trailing)] @
        children @ shown_if (hint \<noteq> []) [El ''p'' [] hint])"

section \<open>Dead ends of the funnel\<close>

definition AuthErrorPage :: "'a node" where
  "AuthErrorPage =
     AuthShell False
       [AuthCard
          [AuthCardHeader [Txt (''We couldn'' @ squote @ ''t sign you in'')]
             [Txt ''Something went wrong on our end. Try again, or use another method.''] False,
           El ''div'' []
             [El ''Link'' [AStr ''href'' ''/sign-in'']
                [AuthMethodButton (El ''RiArrowLeftLine'' [] []) ''Back to sign-in'' None None],
              El ''Link'' [AStr ''href'' ''/forgot-password'']
                [AuthMethodButton (El ''RiArrowLeftLine'' [] []) ''Reset your password'' None None]],
           El ''div'' []
             [El ''p'' [] [Txt ''Reference ID''], El ''p'' [] [Txt ''err_4f8a92e1c0d4b6e8''],
              El ''p'' [] [Txt ''If you contact support, including this ID will help us find the problem quickly.'']]],
        El ''div'' [] [Txt ''Need help? '', El ''Link'' [AStr ''href'' ''#''] [Txt ''Contact support'']]]"

definition SessionExpiredPage :: "'a node" where
  "SessionExpiredPage =
     AuthShell False
       [AuthCard
          [AuthCardHeader [Txt ''Your session expired'']
             [Txt ''We sign you out after a period of inactivity. Sign in to continue where you left off.''] True,
           El ''Link'' [AStr ''href'' ''/sign-in''] [AuthSubmitButton [] [Txt ''Sign in again'']],
           El ''p'' [] [Txt ''Your draft work has been saved.'']]]"

definition SignedOutPage :: "'a node" where
  "SignedOutPage =
     AuthShell False
       [AuthCard
          [AuthCardHeader [Txt (''You'' @ squote @ ''re signed out'')]
             [Txt (''We'' @ squote @ ''ve ended your session on this device.'')] True,
           El ''Link'' [AStr ''href'' ''/sign-in''] [AuthSubmitButton [] [Txt ''Sign back in'']],
           El ''p'' [] [Txt ''On a shared computer? Close the browser too.'']]]"

section \<open>Layout\<close>

text \<open>The router context of a page that leaves stays the one it was mounted with.\<close>

fun FrozenRouter :: "'c option \<Rightarrow> 'c \<Rightarrow> 'c option \<times> 'c" where
  "FrozenRouter None context = (Some context, context)"
| "FrozenRouter (Some frozen) context = (Some frozen, frozen)"

text \<open>The primary field is focused when an animation to full opacity has ended, never by an exit.\<close>

definition auth_focus :: "int option \<Rightarrow> bool" where
  "auth_focus opacity \<longleftrightarrow> opacity = Some 1"

definition SiteFooter :: "'a node" where
  "SiteFooter =
     El ''footer'' []
       [El ''div'' [] [El ''span'' [] [Txt (''Hivebook '' @ [CHR 0xC2, CHR 0xA9] @ '' 2026'')]],
        El ''nav'' []
          (map (\<lambda>l. El ''Link'' [AStr ''key'' l, AStr ''href'' ''#''] [Txt l])
            [''Status'', ''Docs'', ''Help'', ''Legal''])]"

definition AuthLayout :: "string \<Rightarrow> accent_event node list \<Rightarrow> accent_event node list \<Rightarrow> accent_event node" where
  "AuthLayout pathname picker children =
     El ''div'' []
       [El ''AuthBgPattern'' [] [],
        El ''header'' []
          [El ''Logo'' [] [],
           El ''div'' []
             (El ''a'' [AStr ''href'' ''#''] [Txt ''Enterprise or on-prem? '', El ''span'' [] [Txt ''Talk to us'']] # picker)],
        El ''main'' [] [El ''motion.div'' [AStr ''key'' pathname] children],
        SiteFooter]"

definition RootLayout_p :: "string option \<Rightarrow> 'a node list \<Rightarrow> 'a node" where
  "RootLayout_p theme children =
     El ''html'' [AStr ''lang'' ''en'']
       [El ''body'' []
         [El ''ThemeProvider'' []
           [El ''AccentProvider'' []
             [TooltipProvider_pui [ANum ''delayDuration'' 150] children,
              Toaster_pui theme [AStr ''position'' ''bottom-center''] []]]]]"

text \<open>
  The spotlight of the background follows the pointer, once per frame: \<open>bg_frame\<close> is the position a
  requested frame will draw, \<open>bg_spot\<close> the position drawn last. With reduced motion no listener is
  installed; after unmounting there is none.
\<close>

record bg_pattern =
  bg_listening :: bool
  bg_frame :: "(int \<times> int) option"
  bg_spot :: "(int \<times> int) option"

datatype bg_event = BgMount bool | BgMove int int | BgFrame int int | BgUnmount  \<comment> \<open>reduced motion; pointer; corner of the element\<close>

fun bg_step :: "bg_event \<Rightarrow> bg_pattern \<Rightarrow> bg_pattern" where
  "bg_step (BgMount reduced) s = (if reduced then s else s\<lparr>bg_listening := True\<rparr>)"
| "bg_step (BgMove x y) s = (if bg_listening s then s\<lparr>bg_frame := Some (x, y)\<rparr> else s)"
| "bg_step (BgFrame lx ty) s =
     (case bg_frame s of None \<Rightarrow> s
      | Some (x, y) \<Rightarrow> s\<lparr>bg_frame := None, bg_spot := Some (x - lx, y - ty)\<rparr>)"
| "bg_step BgUnmount s = s\<lparr>bg_listening := False, bg_frame := None\<rparr>"

section \<open>The index\<close>

record index_entry =
  ix_href :: string
  ix_label :: string
  ix_detail :: string

record index_group =
  grp_title :: string
  grp_description :: string
  grp_pages :: "index_entry list"

definition index_page :: "string \<Rightarrow> string \<Rightarrow> string \<Rightarrow> index_entry" where
  "index_page h l d = \<lparr>ix_href = h, ix_label = l, ix_detail = d\<rparr>"

definition proto_groups :: "index_group list" where
  "proto_groups =
    [\<lparr>grp_title = ''Application'',
      grp_description = (''The signed-in app '' @ emdash @ '' dense, engineered chrome. Book reading is real; admin surfaces are navigable stubs for now.''),
      grp_pages =
       [index_page ''/book'' ''Book home''
          ''Chapters + recently updated, with the cold-start state.'',
        index_page ''/book/s-eu-vat'' (''Entry '' @ emdash @ '' sub-topic'')
          (''Summary with inline citations '' @ rarrow @ '' source-span drawer.''),
        index_page ''/book/t-refunds'' (''Entry '' @ emdash @ '' topic'')
          ''Summary + child sub-topics.'',
        index_page ''/book/ch-cust'' (''Entry '' @ emdash @ '' building'')
          ''Cold-start empty chapter.'',
        index_page ''/ask'' ''Ask''
          (''Cited answers (stub). '' @ [CHR 0xE2, CHR 0x8C, CHR 0x98] @ ''K also asks.''),
        index_page ''/sources'' ''Sources''
          ''Connector health (stub).'',
        index_page ''/members'' ''Members''
          ''Roles + invites (stub).'',
        index_page ''/access'' ''Access''
          ''Chapter ACL + templates (stub).'',
        index_page ''/entities'' ''Entities''
          ''Entity store (stub).'',
        index_page ''/entities/ambiguity'' ''Ambiguity queue''
          ''Resolve ambiguous entities (stub).'',
        index_page ''/review'' ''Review''
          ''Structural proposals + unfiled (stub).'',
        index_page ''/audit'' ''Audit log''
          ''Read/write events (stub).'',
        index_page ''/usage'' ''Usage''
          ''Metering (stub).'',
        index_page ''/settings'' ''Settings''
          ''Workspace, security, data (stub).'',
        index_page ''/account'' ''Account''
          ''Personal settings (stub).'']\<rparr>,
     \<lparr>grp_title = ''Authentication'',
      grp_description = ''One email-first door: SSO or work email, then verify or password, and the dead-end states.'',
      grp_pages =
       [index_page ''/sign-in'' ''Sign in''
          (''Front door '' @ emdash @ '' SSO providers, or work email. Known email '' @ rarrow @ '' password, new '' @ rarrow @ '' verify.''),
        index_page ''/enter-password'' ''Enter password''
          (''Returning user '' @ emdash @ '' password, with an email-me-a-code escape hatch.''),
        index_page ''/verify-email'' ''Verify email (OTP)''
          (''6-digit code; routes by ?flow (signup '' @ middot @ '' login '' @ middot @ '' reset).''),
        index_page ''/set-password'' ''Set password''
          (''Create (default) or reset (?mode=reset) '' @ emdash @ '' strength rules + confirm.''),
        index_page ''/forgot-password'' ''Forgot password''
          ''Request a code by email, then set a new password.'',
        index_page ''/sso/callback'' ''SSO callback''
          ''Animated multi-step loading state.'',
        index_page ''/signed-out'' ''Signed out''
          ''Post sign-out confirmation.'',
        index_page ''/session-expired'' ''Session expired''
          ''Timed-out session message.'',
        index_page ''/error'' ''Auth error''
          ''Generic failure with reference ID.'']\<rparr>,
     \<lparr>grp_title = ''Onboarding'',
      grp_description = (''Short, focused walkthrough '' @ emdash @ '' one question per screen, no skips.''),
      grp_pages =
       [index_page ''/onboarding/organization'' (''Step 1 '' @ emdash @ '' Organization'')
          ''Name (pre-filled) + company size.'',
        index_page ''/onboarding/use-case'' (''Step 2 '' @ emdash @ '' What it'' @ squote @ ''s for'')
          (''Operational areas '' @ rarrow @ '' starting chapters.''),
        index_page ''/onboarding/region'' (''Step 3 '' @ emdash @ '' Region'')
          ''Storage cluster, recommended pre-selected.'',
        index_page ''/onboarding/complete'' ''Complete''
          ''Ready + next steps (connect a source in the app).'']\<rparr>]"

definition PrototypeIndex :: "accent_event node list \<Rightarrow> accent_event node" where
  "PrototypeIndex picker =
     El ''div'' []
       [El ''header'' [] [El ''Logo'' [] [], El ''div'' [] (El ''span'' [] [Txt ''PROTOTYPE INDEX''] # picker)],
        El ''main'' []
          [El ''div'' []
            (El ''div'' []
               [El ''h1'' [] [Txt ''Hivebook frontend prototype''],
                El ''p'' [] [Txt (''A click-through of every page we'' @ squote @ ''ve built so far. We'' @ squote @
                  ''re building the surface before the backend to discover, by usage, what the system needs to do. '' @
                  ''This index is a dev convenience and won'' @ squote @ ''t exist in production.'')]] #
             map (\<lambda>g. El ''section'' [AStr ''key'' (grp_title g)]
                 [El ''header'' [] [El ''h2'' [] [Txt (grp_title g)], El ''p'' [] [Txt (grp_description g)]],
                  El ''ul'' []
                    (map (\<lambda>p. El ''li'' [AStr ''key'' (ix_href p)]
                        [El ''Link'' [AStr ''href'' (ix_href p)]
                          [El ''code'' [] [Txt (ix_href p)],
                           El ''span'' [] [El ''span'' [] [Txt (ix_label p)], El ''span'' [] [Txt (ix_detail p)]],
                           El ''RiArrowRightSLine'' [] []]])
                      (grp_pages g))])
               proto_groups)],
        SiteFooter]"

section \<open>Routes of the prototype\<close>

definition proto_routes :: "string list list" where
  "proto_routes =
    [[], [''access''], [''account''], [''ask''], [''audit''], [''book''], [''book'', ''[id]''],
     [''entities''], [''entities'', ''ambiguity''], [''members''], [''review''], [''settings''], [''sources''], [''usage''],
     [''enter-password''], [''error''], [''forgot-password''], [''session-expired''], [''set-password''], [''sign-in''],
     [''sign-up''], [''signed-out''], [''sso'', ''callback''], [''verify-email''],
     [''onboarding'', ''organization''], [''onboarding'', ''use-case''], [''onboarding'', ''region''],
     [''onboarding'', ''complete'']]"

definition proto_route :: "string \<Rightarrow> string list option" where
  "proto_route href = find (\<lambda>r. route_params r (path_segs (href_path href)) \<noteq> None) proto_routes"

lemma index_links: "page_links (PrototypeIndex []) = concat (map (\<lambda>g. map ix_href (grp_pages g)) proto_groups) @ replicate 4 ''#''"
  by (simp add: PrototypeIndex_def SiteFooter_def comp_def map_concat numeral_eq_Suc)

definition index_hrefs :: "string list" where
  "index_hrefs = concat (map (\<lambda>g. map ix_href (grp_pages g)) proto_groups)"

lemma index_hrefs_eval:
  "distinct index_hrefs"
  "list_all (\<lambda>h. case proto_route h of None \<Rightarrow> False | Some r \<Rightarrow> r \<noteq> [] \<and> r \<noteq> [''sign-up'']) index_hrefs"
  "list_all (\<lambda>r. r = [] \<or> r = [''sign-up''] \<or> list_ex (\<lambda>h. proto_route h = Some r) index_hrefs) proto_routes"
  by code_simp+

lemma index_entries_eval:
  "map_option be_level (getEntry mock ''s-eu-vat'') = Some Subtopic"
  "map_option be_level (getEntry mock ''t-refunds'') = Some Topic"
  "map_option be_status (getEntry mock ''ch-cust'') = Some Building"
  by code_simp+

text \<open>The spotlight: whatever happens, nothing is drawn after unmounting, and one frame at most is waiting.\<close>

lemma bg_quiet:
  "\<not> bg_listening s \<Longrightarrow> bg_frame s = None \<Longrightarrow> list_all (\<lambda>e. case e of BgMount _ \<Rightarrow> False | _ \<Rightarrow> True) es \<Longrightarrow>
     bg_spot (fold bg_step es s) = bg_spot s"
proof (induction es arbitrary: s)
  case (Cons e es)
  then show ?case by (cases e) auto
qed simp

section \<open>Properties\<close>

text \<open>
  The index of the prototype shows every page and no dead link: each of its links, all of them
  different, leads to a page, every page is linked but the index itself and the redirect of sign-up, and
  the entries of the book it names are a sub-topic, a topic and a chapter that is still being built.
\<close>

theorem index_is_complete:
  "page_links (PrototypeIndex []) = index_hrefs @ replicate 4 ''#'' \<and> distinct index_hrefs \<and>
   list_all (\<lambda>h. proto_route h \<noteq> None) index_hrefs \<and>
   set proto_routes - {[], [''sign-up'']} = (\<lambda>h. the (proto_route h)) ` set index_hrefs \<and>
   map_option be_level (getEntry mock ''s-eu-vat'') = Some Subtopic \<and>
   map_option be_level (getEntry mock ''t-refunds'') = Some Topic \<and>
   map_option be_status (getEntry mock ''ch-cust'') = Some Building"
proof -
  have listed: "r \<in> set proto_routes" if "proto_route h = Some r" for h r
    using that unfolding proto_route_def by (auto simp: find_Some_iff)
  have pages: "proto_route h \<noteq> None \<and> the (proto_route h) \<in> set proto_routes - {[], [''sign-up'']}"
    if "h \<in> set index_hrefs" for h
    using bspec[OF index_hrefs_eval(2)[unfolded list_all_iff] that] listed by (cases "proto_route h") auto
  have "r \<in> (\<lambda>h. the (proto_route h)) ` set index_hrefs" if "r \<in> set proto_routes - {[], [''sign-up'']}" for r
  proof -
    have "list_ex (\<lambda>h. proto_route h = Some r) index_hrefs"
      using bspec[OF index_hrefs_eval(3)[unfolded list_all_iff]] that by blast
    then obtain h where "h \<in> set index_hrefs" "proto_route h = Some r" unfolding list_ex_iff by blast
    then show ?thesis by (intro image_eqI[of _ _ h]) simp_all
  qed
  then have "set proto_routes - {[], [''sign-up'']} = (\<lambda>h. the (proto_route h)) ` set index_hrefs"
    using pages by (intro equalityI subsetI) (blast, elim imageE, hypsubst, blast)
  moreover have "page_links (PrototypeIndex []) = index_hrefs @ replicate 4 ''#''"
    unfolding index_links index_hrefs_def ..
  moreover have "list_all (\<lambda>h. proto_route h \<noteq> None) index_hrefs" using pages by (auto simp: list_all_iff)
  ultimately show ?thesis using index_hrefs_eval(1) index_entries_eval by blast
qed

end
