(* ===== verification/Filters_Core.thy ===== *)
theory Filters_Core
  imports Prelude
begin

text \<open>
  The data model of the filter bar (\<open>web/components/filters.tsx\<close>, lines 39 to 396 and 1371 to
  1418, 1762 to 1787): texts, field configurations, operators, and the operations on the list
  of filters.

  The component is generic in the type of filter values; the model takes strings. A JavaScript
  object used as a dictionary is an association list in which the first binding of a key
  counts (a spread \<open>{...a, ...b}\<close> is \<open>b @ a\<close>) or a map; the keys are own properties, names
  inherited from \<open>Object.prototype\<close> are not considered. Icons and class names are left out.
\<close>

section \<open>Texts\<close>

type_synonym dict = "(string \<times> string) list"

definition dict_get :: "dict \<Rightarrow> string \<Rightarrow> string" where
  "dict_get d k = nullish (map_of d k) []"

record FilterI18nConfig =
  i18n_texts :: dict
  i18n_operators :: dict
  i18n_placeholders :: dict
  i18n_enterField :: "string \<Rightarrow> string"
  i18n_searchField :: "string \<Rightarrow> string"
  i18n_formatOperator :: "string \<Rightarrow> string"
  i18n_validation :: dict

definition DEFAULT_I18N :: FilterI18nConfig where
  "DEFAULT_I18N =
    \<lparr>i18n_texts =
       [(''addFilter'', ''Filter''), (''searchFields'', ''Filter...''),
        (''noFieldsFound'', ''No filters found.''), (''noResultsFound'', ''No results found.''),
        (''select'', ''Select...''), (''true'', ''True''), (''false'', ''False''),
        (''min'', ''Min''), (''max'', ''Max''), (''to'', ''to''),
        (''typeAndPressEnter'', ''Type and press Enter to add tag''),
        (''selected'', ''selected''), (''selectedCount'', ''selected''), (''percent'', ''%''),
        (''defaultCurrency'', ''$''), (''defaultColor'', ''#000000''),
        (''addFilterTitle'', ''Add filter'')],
     i18n_operators =
       [(''is'', ''is''), (''isNot'', ''is not''), (''isAnyOf'', ''is any of''),
        (''isNotAnyOf'', ''is not any of''), (''includesAll'', ''includes all''),
        (''excludesAll'', ''excludes all''), (''before'', ''before''), (''after'', ''after''),
        (''between'', ''between''), (''notBetween'', ''not between''),
        (''contains'', ''contains''), (''notContains'', ''does not contain''),
        (''startsWith'', ''starts with''), (''endsWith'', ''ends with''),
        (''isExactly'', ''is exactly''), (''equals'', ''equals''), (''notEquals'', ''not equals''),
        (''greaterThan'', ''greater than''), (''lessThan'', ''less than''),
        (''overlaps'', ''overlaps''), (''includes'', ''includes''), (''excludes'', ''excludes''),
        (''includesAllOf'', ''includes all of''), (''includesAnyOf'', ''includes any of''),
        (''empty'', ''is empty''), (''notEmpty'', ''is not empty'')],
     i18n_placeholders =
       [(''selectField'', ''Select...''), (''enterKey'', ''Enter key...''),
        (''enterValue'', ''Enter value...'')],
     i18n_enterField = (\<lambda>fieldType. ''Enter '' @ fieldType @ ''...''),
     i18n_searchField = (\<lambda>fieldName. ''Search '' @ toLowerCase fieldName @ ''...''),
     i18n_formatOperator = replace_char (CHR ''_'') (CHR '' ''),
     i18n_validation =
       [(''invalidEmail'', ''Invalid email format''), (''invalidUrl'', ''Invalid URL format''),
        (''invalidTel'', ''Invalid phone format''), (''invalid'', ''Invalid input format'')]\<rparr>"

text \<open>The \<open>i18n\<close> prop: every key optional; an absent prop overrides nothing.\<close>

record i18n_override =
  ov_texts :: dict
  ov_operators :: dict
  ov_placeholders :: dict
  ov_enterField :: "(string \<Rightarrow> string) option"
  ov_searchField :: "(string \<Rightarrow> string) option"
  ov_formatOperator :: "(string \<Rightarrow> string) option"
  ov_validation :: dict

definition mergedI18n :: "i18n_override option \<Rightarrow> FilterI18nConfig" where
  "mergedI18n i18n =
     (case i18n of
        None \<Rightarrow> DEFAULT_I18N
      | Some o' \<Rightarrow>
          \<lparr>i18n_texts = ov_texts o' @ i18n_texts DEFAULT_I18N,
           i18n_operators = ov_operators o' @ i18n_operators DEFAULT_I18N,
           i18n_placeholders = ov_placeholders o' @ i18n_placeholders DEFAULT_I18N,
           i18n_enterField = nullish (ov_enterField o') (i18n_enterField DEFAULT_I18N),
           i18n_searchField = nullish (ov_searchField o') (i18n_searchField DEFAULT_I18N),
           i18n_formatOperator = nullish (ov_formatOperator o') (i18n_formatOperator DEFAULT_I18N),
           i18n_validation = ov_validation o' @ i18n_validation DEFAULT_I18N\<rparr>)"

section \<open>Context\<close>

datatype size = SizeSm | SizeDefault | SizeLg
datatype variant = Solid | VariantDefault
datatype radius = RadiusDefault | RadiusFull

record FilterContextValue =
  ctx_variant :: variant
  ctx_size :: size
  ctx_radius :: radius
  ctx_i18n :: FilterI18nConfig
  ctx_showSearchInput :: bool
  ctx_allowMultiple :: bool

definition FilterContext_default :: FilterContextValue where
  "FilterContext_default =
     \<lparr>ctx_variant = VariantDefault, ctx_size = SizeDefault, ctx_radius = RadiusDefault,
      ctx_i18n = DEFAULT_I18N, ctx_showSearchInput = True, ctx_allowMultiple = True\<rparr>"

section \<open>Fields\<close>

datatype field_type = TSelect | TMultiselect | TText | TCustom | TSeparator

record FilterOption =
  option_value :: string
  option_label :: string

record FilterOperator =
  oper_value :: string
  oper_label :: string

text \<open>What a custom validation may return: a boolean, or an object with an optional message.\<close>

datatype validation_result = VBool bool | VObject bool "string option"

text \<open>
  A field configuration, a group of fields included: a group is an object with a \<open>fields\<close>
  array. The renderers are opaque; \<open>fc_customRenderer\<close> and \<open>fc_customValueRenderer\<close> say
  whether they are given, \<open>fc_onValueChange\<close> whether the field is controlled.
\<close>

datatype FilterFieldConfig =
  FieldConfig
    (fc_key: "string option")
    (fc_label: "string option")
    (fc_type: "field_type option")
    (fc_group: "string option")
    (fc_fields: "FilterFieldConfig list option")
    (fc_options: "FilterOption list option")
    (fc_operators: "FilterOperator list option")
    (fc_customRenderer: bool)
    (fc_customValueRenderer: bool)
    (fc_placeholder: "string option")
    (fc_searchable: "bool option")
    (fc_maxSelections: "nat option")
    (fc_prefix: "string option")
    (fc_suffix: "string option")
    (fc_pattern: "string option")
    (fc_validation: "(string \<Rightarrow> validation_result) option")
    (fc_defaultOperator: "string option")
    (fc_value: "string list option")
    (fc_onValueChange: bool)

text \<open>\<open>"fields" in item && Array.isArray(item.fields)\<close>\<close>

definition isFieldGroup :: "FilterFieldConfig \<Rightarrow> bool" where
  "isFieldGroup item \<longleftrightarrow> fc_fields item \<noteq> None"

definition isGroupLevelField :: "FilterFieldConfig \<Rightarrow> bool" where
  "isGroupLevelField field \<longleftrightarrow> truthy_str (fc_group field) \<and> fc_fields field \<noteq> None"

definition flattenFields :: "FilterFieldConfig list \<Rightarrow> FilterFieldConfig list" where
  "flattenFields flds =
     foldl (\<lambda>acc item.
        if isFieldGroup item then acc @ the (fc_fields item)
        else if isGroupLevelField item then acc @ nullish (fc_fields item) []
        else acc @ [item]) [] flds"

definition getFieldsMap :: "FilterFieldConfig list \<Rightarrow> (string \<rightharpoonup> FilterFieldConfig)" where
  "getFieldsMap flds =
     foldl (\<lambda>acc field. if truthy_str (fc_key field) then acc(the (fc_key field) \<mapsto> field) else acc)
       Map.empty (flattenFields flds)"

section \<open>Operators\<close>

definition mk_op :: "FilterI18nConfig \<Rightarrow> string \<Rightarrow> string \<Rightarrow> FilterOperator" where
  "mk_op i18n v k = \<lparr>oper_value = v, oper_label = dict_get (i18n_operators i18n) k\<rparr>"

fun createOperatorsFromI18n :: "FilterI18nConfig \<Rightarrow> field_type \<Rightarrow> FilterOperator list option" where
  "createOperatorsFromI18n i18n TSelect = Some
     [mk_op i18n ''is'' ''is'', mk_op i18n ''is_not'' ''isNot'',
      mk_op i18n ''empty'' ''empty'', mk_op i18n ''not_empty'' ''notEmpty'']"
| "createOperatorsFromI18n i18n TMultiselect = Some
     [mk_op i18n ''is_any_of'' ''isAnyOf'', mk_op i18n ''is_not_any_of'' ''isNotAnyOf'',
      mk_op i18n ''includes_all'' ''includesAll'', mk_op i18n ''excludes_all'' ''excludesAll'',
      mk_op i18n ''empty'' ''empty'', mk_op i18n ''not_empty'' ''notEmpty'']"
| "createOperatorsFromI18n i18n TText = Some
     [mk_op i18n ''contains'' ''contains'', mk_op i18n ''not_contains'' ''notContains'',
      mk_op i18n ''starts_with'' ''startsWith'', mk_op i18n ''ends_with'' ''endsWith'',
      mk_op i18n ''is'' ''isExactly'',
      mk_op i18n ''empty'' ''empty'', mk_op i18n ''not_empty'' ''notEmpty'']"
| "createOperatorsFromI18n i18n TCustom = Some
     [mk_op i18n ''is'' ''is'', mk_op i18n ''after'' ''after'', mk_op i18n ''between'' ''between'',
      mk_op i18n ''empty'' ''empty'', mk_op i18n ''not_empty'' ''notEmpty'']"
| "createOperatorsFromI18n i18n TSeparator = None"

definition DEFAULT_OPERATORS :: "field_type \<Rightarrow> FilterOperator list option" where
  "DEFAULT_OPERATORS = createOperatorsFromI18n DEFAULT_I18N"

definition getOperatorsForField ::
  "FilterFieldConfig \<Rightarrow> string list \<Rightarrow> FilterI18nConfig \<Rightarrow> FilterOperator list" where
  "getOperatorsForField field values i18n =
     (case fc_operators field of
        Some ops \<Rightarrow> ops
      | None \<Rightarrow>
          let t0 = nullish (fc_type field) TSelect;
              t = (if t0 = TSelect \<and> length values > 1 then TMultiselect else t0)
          in if t = TMultiselect then the (createOperatorsFromI18n i18n TMultiselect)
             else nullish (createOperatorsFromI18n i18n t) (the (createOperatorsFromI18n i18n TSelect)))"

section \<open>Filters\<close>

record Filter =
  filter_id :: string
  filter_field :: string
  filter_operator :: string
  filter_values :: "string list"

record FilterGroup =
  group_id :: string
  group_label :: string
  group_filters :: "Filter list"
  group_fields :: "FilterFieldConfig list"

text \<open>\<open>Partial<Filter>\<close> as the callers build it: an operator, or values.\<close>

datatype filter_update = UpdateOperator string | UpdateValues "string list"

definition clears_values :: "string \<Rightarrow> bool" where
  "clears_values op \<longleftrightarrow> op = ''empty'' \<or> op = ''not_empty''"

fun apply_update :: "filter_update \<Rightarrow> Filter \<Rightarrow> Filter" where
  "apply_update (UpdateOperator op) f =
     (if clears_values op then f\<lparr>filter_operator := op, filter_values := []\<rparr>
      else f\<lparr>filter_operator := op\<rparr>)"
| "apply_update (UpdateValues vs) f = f\<lparr>filter_values := vs\<rparr>"

definition updateFilter :: "Filter list \<Rightarrow> string \<Rightarrow> filter_update \<Rightarrow> Filter list" where
  "updateFilter filters fid u =
     map (\<lambda>f. if filter_id f \<noteq> fid then f else apply_update u f) filters"

definition removeFilter :: "Filter list \<Rightarrow> string \<Rightarrow> Filter list" where
  "removeFilter filters fid = filter (\<lambda>f. filter_id f \<noteq> fid) filters"

text \<open>
  A filter's id: the clock and nine characters of \<open>Math.random().toString(36)\<close> after its
  leading \<open>0.\<close>. Both are inputs of the model.
\<close>

definition fresh_id :: "int \<Rightarrow> string \<Rightarrow> string" where
  "fresh_id now rnd = show_int now @ ''-'' @ take 9 (drop 2 rnd)"

definition createFilter :: "string \<Rightarrow> string \<Rightarrow> string option \<Rightarrow> string list \<Rightarrow> Filter" where
  "createFilter fid field operator values =
     \<lparr>filter_id = fid, filter_field = field, filter_operator = nullish operator ''is'',
      filter_values = values\<rparr>"

definition createFilterGroup ::
  "string \<Rightarrow> string \<Rightarrow> FilterFieldConfig list \<Rightarrow> Filter list \<Rightarrow> FilterGroup" where
  "createFilterGroup gid label flds initialFilters =
     \<lparr>group_id = gid, group_label = label, group_filters = initialFilters, group_fields = flds\<rparr>"

text \<open>The filter \<open>addFilter\<close> appends, when the key names a field.\<close>

definition newFilterFor :: "FilterFieldConfig list \<Rightarrow> string \<Rightarrow> string \<Rightarrow> Filter option" where
  "newFilterFor flds fid fieldKey =
     (case getFieldsMap flds fieldKey of
        None \<Rightarrow> None
      | Some field \<Rightarrow>
          if truthy_str (fc_key field)
          then Some (createFilter fid fieldKey
                 (Some (nullish (fc_defaultOperator field)
                    (if fc_type field = Some TMultiselect then ''is_any_of'' else ''is'')))
                 (if fc_type field = Some TText then [[]] else []))
          else None)"

section \<open>Field lemmas\<close>

lemma group_level_dead: "isGroupLevelField item \<Longrightarrow> isFieldGroup item"
  by (simp add: isGroupLevelField_def isFieldGroup_def)

definition field_items :: "FilterFieldConfig \<Rightarrow> FilterFieldConfig list" where
  "field_items item = (case fc_fields item of None \<Rightarrow> [item] | Some fs \<Rightarrow> fs)"

lemma foldl_append_concat: "foldl (\<lambda>acc x. acc @ g x) acc xs = acc @ concat (map g xs)"
  by (induction xs arbitrary: acc) auto

lemma flattenFields_concat: "flattenFields flds = concat (map field_items flds)"
proof -
  have "(\<lambda>acc item. if isFieldGroup item then acc @ the (fc_fields item)
           else if isGroupLevelField item then acc @ nullish (fc_fields item) []
           else acc @ [item]) = (\<lambda>acc item. acc @ field_items item)"
    by (auto simp: fun_eq_iff isFieldGroup_def isGroupLevelField_def field_items_def)
  then show ?thesis by (simp add: flattenFields_def foldl_append_concat)
qed

lemma foldl_fieldsMap:
  "foldl (\<lambda>acc field. if truthy_str (fc_key field) then acc(the (fc_key field) \<mapsto> field) else acc) m fs k
     = (case find (\<lambda>f. fc_key f = Some k \<and> k \<noteq> []) (rev fs) of None \<Rightarrow> m k | Some f \<Rightarrow> Some f)"
  by (induction fs arbitrary: m rule: rev_induct)
     (auto simp: truthy_str_def split: option.splits)

lemma getFieldsMap_find:
  "getFieldsMap flds k = find (\<lambda>f. fc_key f = Some k \<and> k \<noteq> []) (rev (flattenFields flds))"
  by (simp add: getFieldsMap_def foldl_fieldsMap split: option.splits)

lemma getFieldsMap_Some:
  "getFieldsMap flds k = Some f \<Longrightarrow> f \<in> set (flattenFields flds) \<and> fc_key f = Some k \<and> k \<noteq> []"
  by (auto simp: getFieldsMap_find dest: find_Some_mem)

lemma getFieldsMap_None:
  "getFieldsMap flds k = None \<longleftrightarrow> k = [] \<or> (\<forall>f \<in> set (flattenFields flds). fc_key f \<noteq> Some k)"
  by (auto simp: getFieldsMap_find find_None_iff)

lemma newFilterFor_Some:
  "newFilterFor flds fid k = Some f \<Longrightarrow> filter_id f = fid \<and> filter_field f = k"
  by (auto simp: newFilterFor_def createFilter_def split: option.splits if_splits)

lemma getOperatorsForField_nonempty:
  "fc_operators field \<noteq> Some [] \<Longrightarrow> getOperatorsForField field vs i18n \<noteq> []"
  by (cases "nullish (fc_type field) TSelect")
     (auto simp: getOperatorsForField_def Let_def split: option.splits)

section \<open>Interface: a list of filters addressed by id\<close>

text \<open>
  What the filter bar relies on when it edits the caller's list: an edit or a removal touches
  the addressed filter only, an edit keeps ids, fields and order, and distinct ids stay so.
\<close>

locale filter_store =
  fixes update :: "Filter list \<Rightarrow> string \<Rightarrow> filter_update \<Rightarrow> Filter list"
    and remove :: "Filter list \<Rightarrow> string \<Rightarrow> Filter list"
  assumes update_map: "update fs i u = map (\<lambda>f. if filter_id f = i then apply_update u f else f) fs"
    and remove_filter: "remove fs i = filter (\<lambda>f. filter_id f \<noteq> i) fs"
begin

lemma apply_update_ids: "filter_id (apply_update u f) = filter_id f \<and> filter_field (apply_update u f) = filter_field f"
  by (cases u) auto

lemma update_ids: "map filter_id (update fs i u) = map filter_id fs"
  by (auto simp: update_map apply_update_ids)

lemma update_fields: "map filter_field (update fs i u) = map filter_field fs"
  by (auto simp: update_map apply_update_ids)

lemma update_other: "f \<in> set fs \<Longrightarrow> filter_id f \<noteq> i \<Longrightarrow> f \<in> set (update fs i u)"
  by (auto simp: update_map)

lemma update_filter_other: "filter (\<lambda>f. filter_id f \<noteq> i) (update fs i u) = filter (\<lambda>f. filter_id f \<noteq> i) fs"
  by (induction fs) (auto simp: update_map apply_update_ids)

lemma remove_ids: "distinct (map filter_id fs) \<Longrightarrow> distinct (map filter_id (remove fs i))"
  by (simp add: remove_filter distinct_map_filter)

lemma remove_after_append:
  "i \<notin> set (map filter_id fs) \<Longrightarrow> filter_id f = i \<Longrightarrow> remove (fs @ [f]) i = fs"
  by (simp add: remove_filter filter_id_conv) (metis image_eqI)

lemma update_absent: "i \<notin> set (map filter_id fs) \<Longrightarrow> update fs i u = fs"
  unfolding update_map by (rule map_idI) auto

end

interpretation bar: filter_store updateFilter removeFilter
  by unfold_locales (auto simp: updateFilter_def removeFilter_def)

section \<open>Properties\<close>

text \<open>
  Editing a filter is local: it keeps the list's length, order, ids and fields, changes no
  filter with another id, and choosing "is empty" or "is not empty" always clears the values
  of the edited one.
\<close>

theorem updateFilter_local:
  "map filter_id (updateFilter fs i u) = map filter_id fs \<and>
   map filter_field (updateFilter fs i u) = map filter_field fs \<and>
   filter (\<lambda>f. filter_id f \<noteq> i) (updateFilter fs i u) = filter (\<lambda>f. filter_id f \<noteq> i) fs \<and>
   list_all (\<lambda>f. filter_id f = i \<longrightarrow> filter_operator f = op \<and> (clears_values op \<longrightarrow> filter_values f = []))
     (updateFilter fs i (UpdateOperator op))"
proof -
  have "filter (\<lambda>f. filter_id f \<noteq> i) (updateFilter fs i u) = filter (\<lambda>f. filter_id f \<noteq> i) fs"
    by (rule bar.update_filter_other)
  moreover have "list_all (\<lambda>f. filter_id f = i \<longrightarrow> filter_operator f = op \<and>
      (clears_values op \<longrightarrow> filter_values f = [])) (updateFilter fs i (UpdateOperator op))"
    by (induction fs) (simp_all add: updateFilter_def)
  ultimately show ?thesis by (simp only: bar.update_ids bar.update_fields simp_thms)
qed

theorem updateFilter_local_witness:
  "updateFilter [createFilter ''1'' ''name'' None [''x''], createFilter ''2'' ''tag'' None [''y'']]
     ''1'' (UpdateOperator ''empty'')
   = [\<lparr>filter_id = ''1'', filter_field = ''name'', filter_operator = ''empty'', filter_values = []\<rparr>,
      createFilter ''2'' ''tag'' None [''y'']] \<and>
   map filter_id (updateFilter [createFilter ''1'' ''name'' None [''x'']] ''1'' (UpdateOperator ''empty''))
     = [''1'']"
  using updateFilter_local[of "[createFilter ''1'' ''name'' None [''x'']]" "''1''" "UpdateOperator ''empty''"]
  by (simp add: updateFilter_def createFilter_def clears_values_def)

text \<open>
  Ids stay unique: from a list of filters with distinct ids, editing and removing keep them
  distinct, and so does adding a filter under a fresh id; removing what was just added gives
  the old list back.
\<close>

theorem filter_ids_stay_distinct:
  assumes "distinct (map filter_id fs)"
  shows "distinct (map filter_id (updateFilter fs i u)) \<and>
         distinct (map filter_id (removeFilter fs i)) \<and>
         (newFilterFor flds fid k = Some f \<and> fid \<notin> set (map filter_id fs) \<longrightarrow>
            distinct (map filter_id (fs @ [f])) \<and> removeFilter (fs @ [f]) fid = fs)"
proof -
  have "newFilterFor flds fid k = Some f \<Longrightarrow> fid \<notin> set (map filter_id fs) \<Longrightarrow>
        distinct (map filter_id (fs @ [f])) \<and> removeFilter (fs @ [f]) fid = fs"
    using assms newFilterFor_Some[of flds fid k f] bar.remove_after_append[of fid fs f]
    by auto
  with assms show ?thesis by (auto simp: bar.update_ids bar.remove_ids)
qed

theorem filter_ids_stay_distinct_witness:
  "distinct (map filter_id (removeFilter [createFilter ''1'' ''a'' None [], createFilter ''2'' ''b'' None []] ''1''))"
proof -
  have "distinct (map filter_id [createFilter ''1'' ''a'' None [], createFilter ''2'' ''b'' None []])"
    by (simp add: createFilter_def)
  from filter_ids_stay_distinct[OF this, of "''1''"] show ?thesis by blast
qed

text \<open>
  The fields dictionary: flattening a configuration lists the fields of every group in
  place (the branch for group-level fields is never reached), and looking a key up finds the
  last listed field with that key; fields without a key cannot be found.
\<close>

lemma getFieldsMap_last_field:
  "flattenFields flds = concat (map (\<lambda>item. case fc_fields item of None \<Rightarrow> [item] | Some fs \<Rightarrow> fs) flds) \<and>
   getFieldsMap flds k =
     find (\<lambda>f. fc_key f = Some k \<and> k \<noteq> []) (rev (flattenFields flds))"
  using flattenFields_concat[of flds, unfolded field_items_def[abs_def]] getFieldsMap_find[of flds k]
  by blast

end
