(* ===== verification/Filters_Popover.thy ===== *)
theory Filters_Popover
  imports Filters_Core
begin

text \<open>
  The controls of one active filter (\<open>web/components/filters.tsx\<close>, lines 398 to 964): the text
  input with its validation, the operator menu, the options popover with its keyboard
  navigation, and the choice among them. \<open>listbox\<close> is the contract of arrow-key navigation
  that the popover, the submenu and the field menu share.

  \<open>RegExp\<close> is a parameter: \<open>re_test pattern value\<close> is \<open>new RegExp(pattern).test(value)\<close>, and
  \<open>None\<close> when the pattern is not a regular expression (the constructor throws).
\<close>

section \<open>Arrow keys over a list\<close>

definition hl_down :: "nat \<Rightarrow> int \<Rightarrow> int" where
  "hl_down n h = (if 0 < n then (if h < int n - 1 then h + 1 else 0) else h)"

definition hl_up :: "nat \<Rightarrow> int \<Rightarrow> int" where
  "hl_up n h = (if 0 < n then (if 0 < h then h - 1 else int n - 1) else h)"

text \<open>Reading \<open>options[highlightedIndex]\<close>: \<open>undefined\<close> outside the array.\<close>

definition at_index :: "'a list \<Rightarrow> int \<Rightarrow> 'a option" where
  "at_index xs i = (if 0 \<le> i \<and> nat i < length xs then Some (xs ! nat i) else None)"

section \<open>FilterInput\<close>

record input_state =
  in_isValid :: bool
  in_validationMessage :: string

definition input_init :: input_state where
  "input_init = \<lparr>in_isValid = True, in_validationMessage = []\<rparr>"

definition validateInput :: "(string \<Rightarrow> string \<Rightarrow> bool option) \<Rightarrow> string \<Rightarrow> string option \<Rightarrow> bool option" where
  "validateInput re_test value pattern =
     (if \<not> truthy_str pattern \<or> value = [] then Some True else re_test (the pattern) value)"

text \<open>The two \<open>setState\<close> calls of every branch of \<open>handleBlur\<close>.\<close>

definition input_settle :: "FilterI18nConfig \<Rightarrow> bool \<Rightarrow> string \<Rightarrow> input_state \<Rightarrow> input_state" where
  "input_settle i18n valid custom s =
     s\<lparr>in_isValid := valid,
       in_validationMessage := (if valid then []
         else str_or custom (dict_get (i18n_validation i18n) ''invalid''))\<rparr>"

text \<open>
  \<open>handleBlur\<close>; \<open>field\<close> is optional, \<open>props_pattern\<close> the input's own pattern attribute.
  \<open>None\<close> is an exception out of the handler.
\<close>

definition handleBlur ::
  "(string \<Rightarrow> string \<Rightarrow> bool option) \<Rightarrow> FilterI18nConfig \<Rightarrow> FilterFieldConfig option \<Rightarrow>
   string option \<Rightarrow> string \<Rightarrow> input_state \<Rightarrow> input_state option" where
  "handleBlur re_test i18n field props_pattern value s =
     (let pattern = (case field of None \<Rightarrow> props_pattern
                     | Some f \<Rightarrow> (case fc_pattern f of Some p \<Rightarrow> Some p | None \<Rightarrow> props_pattern));
          validation = (case field of None \<Rightarrow> None | Some f \<Rightarrow> fc_validation f)
      in if value \<noteq> [] \<and> (truthy_str pattern \<or> validation \<noteq> None)
         then (case validation of
                 Some v \<Rightarrow> (case v value of
                    VBool b \<Rightarrow> Some (input_settle i18n b [] s)
                  | VObject b m \<Rightarrow> Some (input_settle i18n b (nullish m []) s))
               | None \<Rightarrow> if truthy_str pattern
                         then map_option (\<lambda>b. input_settle i18n b [] s) (validateInput re_test value pattern)
                         else Some (input_settle i18n True [] s))
         else Some (input_settle i18n True [] s))"

definition neutral_keys :: "string list" where
  "neutral_keys = [''Tab'', ''Escape'', ''Enter'', ''ArrowUp'', ''ArrowDown'', ''ArrowLeft'', ''ArrowRight'']"

definition handleKeyDown_input :: "string \<Rightarrow> input_state \<Rightarrow> input_state" where
  "handleKeyDown_input key s =
     (if \<not> in_isValid s \<and> key \<notin> set neutral_keys
      then s\<lparr>in_isValid := True, in_validationMessage := []\<rparr> else s)"

datatype input_action = Blur string | KeyDown string | Change string

text \<open>Actions of the whole row are wrapped by \<open>wrap\<close>; \<open>change\<close> is the caller's \<open>onChange\<close>.\<close>

definition FilterInput ::
  "(input_action \<Rightarrow> 'a) \<Rightarrow> FilterFieldConfig option \<Rightarrow> string \<Rightarrow> string option \<Rightarrow> string option \<Rightarrow> bool \<Rightarrow>
   input_state \<Rightarrow> 'a node" where
  "FilterInput wrap field value placeholder pattern autoFocus s =
     (let prefix = (case field of None \<Rightarrow> None | Some f \<Rightarrow> fc_prefix f);
          suffix = (case field of None \<Rightarrow> None | Some f \<Rightarrow> fc_suffix f);
          key = nullish (case field of None \<Rightarrow> None | Some f \<Rightarrow> fc_key f) ''input'';
          err = (\<not> in_isValid s \<and> in_validationMessage s \<noteq> [])
      in El ''InputGroup'' []
        (shown_if (truthy_str prefix)
           [El ''InputGroupAddon'' [] [El ''InputGroupText'' [] [Txt (the prefix)]]] @
         [El ''InputGroupInput''
            ([ABool ''aria-invalid'' (\<not> in_isValid s)] @
             (if err then [AStr ''aria-describedby'' (key @ ''-error'')] else []) @
             [OnValue ''blur'' (\<lambda>v. wrap (Blur v)), OnValue ''keydown'' (\<lambda>k. wrap (KeyDown k)),
              AStr ''type'' ''text'', AStr ''value'' value,
              OnValue ''change'' (\<lambda>v. wrap (Change v)), ABool ''autofocus'' autoFocus] @
             (case placeholder of None \<Rightarrow> [] | Some p \<Rightarrow> [AStr ''placeholder'' p]) @
             (case pattern of None \<Rightarrow> [] | Some p \<Rightarrow> [AStr ''pattern'' p])) []] @
         shown_if err
           [El ''InputGroupAddon'' [AStr ''align'' ''inline-end'']
             [El ''TooltipProvider'' [] [El ''Tooltip'' []
               [El ''TooltipTrigger'' [] [El ''InputGroupButton'' [] [El ''AlertCircleIcon'' [] []]],
                El ''TooltipContent'' [] [El ''p'' [] [Txt (in_validationMessage s)]]]]]] @
         shown_if (truthy_str suffix)
           [El ''InputGroupAddon'' [AStr ''align'' ''inline-end'']
             [El ''InputGroupText'' [] [Txt (the suffix)]]]))"

section \<open>Remove button and operator menu\<close>

fun icon_size :: "size \<Rightarrow> string" where
  "icon_size SizeSm = ''icon-sm''"
| "icon_size SizeLg = ''icon-lg''"
| "icon_size SizeDefault = ''icon''"

definition FilterRemoveButton :: "FilterContextValue \<Rightarrow> 'a \<Rightarrow> 'a node" where
  "FilterRemoveButton ctx onClick =
     El ''Button'' [AStr ''variant'' ''outline'', AStr ''size'' (icon_size (ctx_size ctx)),
                    On ''click'' onClick] [El ''XIcon'' [] []]"

definition operatorLabel :: "FilterI18nConfig \<Rightarrow> FilterOperator list \<Rightarrow> string \<Rightarrow> string" where
  "operatorLabel i18n operators op =
     (case find (\<lambda>item. oper_value item = op) operators of
        Some item \<Rightarrow> oper_label item
      | None \<Rightarrow> i18n_formatOperator i18n op)"

definition FilterOperatorDropdown ::
  "FilterContextValue \<Rightarrow> FilterFieldConfig \<Rightarrow> string \<Rightarrow> string list \<Rightarrow> (string \<Rightarrow> 'a) \<Rightarrow> 'a node" where
  "FilterOperatorDropdown ctx field op vals onChange =
     (let operators = getOperatorsForField field vals (ctx_i18n ctx)
      in El ''DropdownMenu'' []
        [El ''DropdownMenuTrigger'' [] [El ''Button'' [] [Txt (operatorLabel (ctx_i18n ctx) operators op)]],
         El ''DropdownMenuContent'' []
           (map (\<lambda>item. El ''DropdownMenuItem'' [On ''click'' (onChange (oper_value item))]
                  [El ''span'' [] [Txt (oper_label item)],
                   El ''CheckIcon'' [ABool ''visible'' (oper_value item = op)] []]) operators)])"

section \<open>SelectOptionsPopover\<close>

record popover =
  pop_open :: bool
  pop_search :: string
  pop_highlighted :: int
  pop_kbNav :: bool
  pop_prevResetKey :: "string \<times> bool"  \<comment> \<open>the key \<open>`${searchInput}:${open}`\<close>, an injective rendering\<close>

definition popover_init :: popover where
  "popover_init = \<lparr>pop_open = False, pop_search = [], pop_highlighted = -1, pop_kbNav = False,
                   pop_prevResetKey = ([], False)\<rparr>"

definition isMultiSelect :: "FilterFieldConfig \<Rightarrow> string list \<Rightarrow> bool" where
  "isMultiSelect field vals \<longleftrightarrow> fc_type field = Some TMultiselect \<or> length vals > 1"

definition effectiveValues :: "FilterFieldConfig \<Rightarrow> string list \<Rightarrow> string list" where
  "effectiveValues field vals = nullish (fc_value field) vals"

definition selectedOptions :: "FilterFieldConfig \<Rightarrow> string list \<Rightarrow> FilterOption list" where
  "selectedOptions field vals =
     filter (\<lambda>o'. option_value o' \<in> set (effectiveValues field vals)) (nullish (fc_options field) [])"

definition filteredUnselectedOptions :: "FilterFieldConfig \<Rightarrow> string list \<Rightarrow> string \<Rightarrow> FilterOption list" where
  "filteredUnselectedOptions field vals search =
     filter (\<lambda>o'. option_value o' \<notin> set (effectiveValues field vals) \<and>
                  str_includes (toLowerCase (option_label o')) (toLowerCase search))
       (nullish (fc_options field) [])"

definition allFilteredOptions :: "FilterFieldConfig \<Rightarrow> string list \<Rightarrow> string \<Rightarrow> FilterOption list" where
  "allFilteredOptions field vals search =
     selectedOptions field vals @ filteredUnselectedOptions field vals search"

text \<open>The state adjustment at the top of the render function.\<close>

definition popover_render :: "popover \<Rightarrow> popover" where
  "popover_render s =
     (let key = (pop_search s, pop_open s)
      in if pop_prevResetKey s \<noteq> key then s\<lparr>pop_prevResetKey := key, pop_highlighted := -1\<rparr> else s)"

datatype popover_out =
    OnChange "string list"       \<comment> \<open>the \<open>onChange\<close> prop\<close>
  | OnValueChange "string list"  \<comment> \<open>the field's own \<open>onValueChange\<close>\<close>
  | OnClose

definition updateValues :: "FilterFieldConfig \<Rightarrow> string list \<Rightarrow> popover_out" where
  "updateValues field next = (if fc_onValueChange field then OnValueChange next else OnChange next)"

definition over_limit :: "FilterFieldConfig \<Rightarrow> string list \<Rightarrow> bool" where
  "over_limit field next \<longleftrightarrow>
     (case fc_maxSelections field of None \<Rightarrow> False | Some m \<Rightarrow> m \<noteq> 0 \<and> length next > m)"

text \<open>Closing after a choice in single-select mode: \<open>handleClose\<close>.\<close>

definition popover_emit ::
  "FilterFieldConfig \<Rightarrow> bool \<Rightarrow> string list \<Rightarrow> popover \<Rightarrow> popover \<times> popover_out list" where
  "popover_emit field multi next s =
     (if multi then (s, [updateValues field next])
      else (s\<lparr>pop_open := False\<rparr>, [updateValues field next, OnClose]))"

definition choose_option ::
  "FilterFieldConfig \<Rightarrow> string list \<Rightarrow> FilterOption \<Rightarrow> popover \<Rightarrow> popover \<times> popover_out list" where
  "choose_option field vals o' s =
     (let ev = effectiveValues field vals; multi = isMultiSelect field vals;
          sel = option_value o' \<in> set ev;
          next = (if sel then filter (\<lambda>v. v \<noteq> option_value o') ev
                  else if multi then ev @ [option_value o'] else [option_value o'])
      in if \<not> sel \<and> multi \<and> over_limit field next then (s, [])
         else popover_emit field multi next s)"

datatype popover_event =
    PType string        \<comment> \<open>typing in the search box\<close>
  | PArrowDown
  | PArrowUp
  | PArrowLeft
  | PEnter
  | PCheck FilterOption \<comment> \<open>clicking one of the listed options\<close>
  | POpenChange bool
  | PTimer              \<comment> \<open>the 200 ms timer that clears the search after closing\<close>

fun popover_step ::
  "FilterFieldConfig \<Rightarrow> string list \<Rightarrow> popover_event \<Rightarrow> popover \<Rightarrow> popover \<times> popover_out list" where
  "popover_step field vals (PType t) s = (s\<lparr>pop_search := t\<rparr>, [])"
| "popover_step field vals PArrowDown s =
     (s\<lparr>pop_kbNav := True,
        pop_highlighted := hl_down (length (allFilteredOptions field vals (pop_search s))) (pop_highlighted s)\<rparr>, [])"
| "popover_step field vals PArrowUp s =
     (s\<lparr>pop_kbNav := True,
        pop_highlighted := hl_up (length (allFilteredOptions field vals (pop_search s))) (pop_highlighted s)\<rparr>, [])"
| "popover_step field vals PArrowLeft s = (s\<lparr>pop_open := False\<rparr>, [])"
| "popover_step field vals PEnter s =
     (if 0 \<le> pop_highlighted s then
        (case at_index (allFilteredOptions field vals (pop_search s)) (pop_highlighted s) of
           None \<Rightarrow> (s, [])
         | Some o' \<Rightarrow> choose_option field vals o' s)
      else (s, []))"
| "popover_step field vals (PCheck o') s = choose_option field vals o' s"
| "popover_step field vals (POpenChange b) s = (s\<lparr>pop_open := b\<rparr>, [])"
| "popover_step field vals PTimer s = (s\<lparr>pop_search := []\<rparr>, [])"

text \<open>The key handler of the search box; other keys do nothing.\<close>

definition popover_key :: "string \<Rightarrow> popover_event option" where
  "popover_key key =
     (if key = ''ArrowDown'' then Some PArrowDown
      else if key = ''ArrowUp'' then Some PArrowUp
      else if key = ''ArrowLeft'' then Some PArrowLeft
      else if key = ''Enter'' then Some PEnter
      else None)"

text \<open>The menu: search box, then the selected options, a separator, the unselected matches.\<close>

definition option_item ::
  "(popover_event \<Rightarrow> 'a) \<Rightarrow> string \<Rightarrow> popover \<Rightarrow> bool \<Rightarrow> nat \<Rightarrow> FilterOption \<Rightarrow> 'a node" where
  "option_item wrap baseId s checked i o' =
     El ''DropdownMenuCheckboxItem''
       [AStr ''id'' (baseId @ ''-item-'' @ show_nat i), AStr ''role'' ''option'',
        ABool ''aria-selected'' (pop_highlighted s = int i),
        ABool ''data-highlighted'' (pop_kbNav s \<and> pop_highlighted s = int i),
        ABool ''checked'' checked, On ''checkedchange'' (wrap (PCheck o'))]
       [El ''span'' [] [Txt (option_label o')]]"

definition renderMenuContent ::
  "FilterContextValue \<Rightarrow> (popover_event \<Rightarrow> 'a) \<Rightarrow> (string \<Rightarrow> 'a) \<Rightarrow> string \<Rightarrow> FilterFieldConfig \<Rightarrow> string list \<Rightarrow>
   popover \<Rightarrow> 'a node list" where
  "renderMenuContent ctx wrap onKey baseId field vals s =
     (let sel = selectedOptions field vals;
          uns = filteredUnselectedOptions field vals (pop_search s)
      in shown_if (fc_searchable field \<noteq> Some False)
           [El ''Input''
              ([AStr ''role'' ''combobox'', AStr ''aria-controls'' (baseId @ ''-listbox'')] @
               (if 0 \<le> pop_highlighted s
                then [AStr ''aria-activedescendant'' (baseId @ ''-item-'' @ show_int (pop_highlighted s))]
                else []) @
               [AStr ''placeholder'' (i18n_searchField (ctx_i18n ctx) (nullish (fc_label field) [])),
                AStr ''value'' (pop_search s), OnValue ''change'' (\<lambda>t. wrap (PType t)),
                OnValue ''keydown'' onKey]) [],
            El ''DropdownMenuSeparator'' [] []] @
         [El ''div'' [] [El ''div'' [AStr ''role'' ''listbox'', AStr ''id'' (baseId @ ''-listbox'')]
           [El ''ScrollArea'' []
             (shown_if (sel @ uns = [])
                [El ''div'' [] [Txt (dict_get (i18n_texts (ctx_i18n ctx)) ''noResultsFound'')]] @
              shown_if (sel \<noteq> [])
                [El ''DropdownMenuGroup'' []
                  (map (\<lambda>(i, o'). option_item wrap baseId s True i o') (enumerate 0 sel))] @
              shown_if (sel \<noteq> [] \<and> uns \<noteq> []) [El ''DropdownMenuSeparator'' [] []] @
              shown_if (uns \<noteq> [])
                [El ''DropdownMenuGroup'' []
                  (map (\<lambda>(i, o'). option_item wrap baseId s False i o') (enumerate (length sel) uns))])]]])"

text \<open>The trigger's text: one label, a count, or the prompt.\<close>

definition trigger_text :: "FilterI18nConfig \<Rightarrow> FilterOption list \<Rightarrow> string" where
  "trigger_text i18n sel =
     (case sel of
        [] \<Rightarrow> dict_get (i18n_texts i18n) ''select''
      | [o'] \<Rightarrow> option_label o'
      | _ \<Rightarrow> show_nat (length sel) @ '' '' @ dict_get (i18n_texts i18n) ''selectedCount'')"

definition SelectOptionsPopover ::
  "FilterContextValue \<Rightarrow> (popover_event \<Rightarrow> 'a) \<Rightarrow> (string \<Rightarrow> 'a) \<Rightarrow> string \<Rightarrow> FilterFieldConfig \<Rightarrow> string list \<Rightarrow>
   bool \<Rightarrow> popover \<Rightarrow> 'a node" where
  "SelectOptionsPopover ctx wrap onKey baseId field vals inline s =
     (if inline then El ''div'' [] (renderMenuContent ctx wrap onKey baseId field vals s)
      else El ''DropdownMenu'' [ABool ''open'' (pop_open s), OnFlag ''openchange'' (\<lambda>b. wrap (POpenChange b))]
        [El ''DropdownMenuTrigger'' []
          [El ''Button'' [] [El ''div'' []
            (if fc_customValueRenderer field then [El ''customValueRenderer'' [] []]
             else shown_if (selectedOptions field vals \<noteq> [])
                    [El ''div'' [] (map (\<lambda>o'. El ''div'' [] []) (take 3 (selectedOptions field vals)))] @
                  [Txt (trigger_text (ctx_i18n ctx) (selectedOptions field vals))])]],
         El ''DropdownMenuContent'' [] (renderMenuContent ctx wrap onKey baseId field vals s)])"

section \<open>FilterValueSelector\<close>

datatype row_action =
    RowInput input_action
  | RowPopover popover_event
  | RowPopoverKey string
  | RowOperator string
  | RowRemove

definition FilterValueSelector ::
  "FilterContextValue \<Rightarrow> string \<Rightarrow> FilterFieldConfig \<Rightarrow> string list \<Rightarrow> string \<Rightarrow> bool \<Rightarrow>
   input_state \<Rightarrow> popover \<Rightarrow> row_action node list" where
  "FilterValueSelector ctx baseId field vals op autoFocus ins pops =
     (if op = ''empty'' \<or> op = ''not_empty'' then []
      else if fc_customRenderer field then [El ''ButtonGroupText'' [] [El ''customRenderer'' [] []]]
      else if fc_type field = Some TText
      then [FilterInput RowInput (Some field) (case vals of [] \<Rightarrow> [] | v # _ \<Rightarrow> v)
              (fc_placeholder field) (fc_pattern field) autoFocus ins]
      else [SelectOptionsPopover ctx RowPopover RowPopoverKey baseId field vals False pops])"

section \<open>Interface: arrow-key navigation\<close>

lemma hl_down_range: "0 < n \<Longrightarrow> -1 \<le> h \<Longrightarrow> 0 \<le> hl_down n h \<and> hl_down n h < int n"
  by (auto simp: hl_down_def)

lemma hl_up_range: "0 < n \<Longrightarrow> h < int n \<Longrightarrow> 0 \<le> hl_up n h \<and> hl_up n h < int n"
  by (auto simp: hl_up_def)

lemma hl_up_down: "0 \<le> h \<Longrightarrow> h < int n \<Longrightarrow> hl_up n (hl_down n h) = h"
  by (auto simp: hl_up_def hl_down_def)

lemma hl_down_up: "0 \<le> h \<Longrightarrow> h < int n \<Longrightarrow> hl_down n (hl_up n h) = h"
  by (auto simp: hl_up_def hl_down_def)

lemma hl_down_mod:
  assumes "0 \<le> h" "h < int n"
  shows "hl_down n h = (h + 1) mod int n"
proof (cases "h + 1 = int n")
  case True
  with assms show ?thesis by (simp add: hl_down_def)
next
  case False
  with assms show ?thesis by (simp add: hl_down_def)
qed

text \<open>
  A list navigated with the arrow keys: \<open>count\<close> entries, a highlighted index, the two keys.
\<close>

locale listbox =
  fixes count :: "'s \<Rightarrow> nat"
    and hl :: "'s \<Rightarrow> int"
    and down :: "'s \<Rightarrow> 's"
    and up :: "'s \<Rightarrow> 's"
  assumes down_hl: "hl (down s) = hl_down (count s) (hl s)"
    and up_hl: "hl (up s) = hl_up (count s) (hl s)"
    and down_count: "count (down s) = count s"
    and up_count: "count (up s) = count s"
begin

lemma count_funpow: "count ((down ^^ k) s) = count s"
  by (induction k) (simp_all add: down_count)

lemma cycle:
  assumes "0 \<le> hl s" "hl s < int (count s)"
  shows "hl ((down ^^ k) s) = (hl s + int k) mod int (count s)"
proof (induction k)
  case 0
  with assms show ?case by simp
next
  case (Suc k)
  have pos: "0 < int (count s)" using assms by linarith
  have "hl ((down ^^ Suc k) s) = hl_down (count s) ((hl s + int k) mod int (count s))"
    by (simp add: down_hl count_funpow Suc)
  also have "\<dots> = ((hl s + int k) mod int (count s) + 1) mod int (count s)"
    using pos by (intro hl_down_mod) auto
  also have "\<dots> = (hl s + int (Suc k)) mod int (count s)"
    by (simp add: mod_add_left_eq add.assoc add.commute[of 1])
  finally show ?case .
qed

lemma round_trip:
  assumes "0 \<le> hl s" "hl s < int (count s)"
  shows "hl (up (down s)) = hl s \<and> hl (down (up s)) = hl s"
  using assms by (simp add: up_hl down_hl up_count down_count hl_up_down hl_down_up)

end

definition popover_down :: "FilterFieldConfig \<Rightarrow> string list \<Rightarrow> popover \<Rightarrow> popover" where
  "popover_down field vals s = fst (popover_step field vals PArrowDown s)"

definition popover_up :: "FilterFieldConfig \<Rightarrow> string list \<Rightarrow> popover \<Rightarrow> popover" where
  "popover_up field vals s = fst (popover_step field vals PArrowUp s)"

definition popover_count :: "FilterFieldConfig \<Rightarrow> string list \<Rightarrow> popover \<Rightarrow> nat" where
  "popover_count field vals s = length (allFilteredOptions field vals (pop_search s))"

interpretation popover_nav: listbox "popover_count field vals" pop_highlighted
  "popover_down field vals" "popover_up field vals" for field vals
  by unfold_locales (simp_all add: popover_count_def popover_down_def popover_up_def)

section \<open>Choosing options\<close>

text \<open>The values an output carries to the caller.\<close>

fun out_values :: "popover_out \<Rightarrow> string list option" where
  "out_values (OnChange vs) = Some vs"
| "out_values (OnValueChange vs) = Some vs"
| "out_values OnClose = None"

lemma out_updateValues [simp]: "out_values (updateValues field vs) = Some vs"
  by (simp add: updateValues_def)

lemma choose_option_outs:
  assumes "choose_option field vals o' s = (s', outs)" "out \<in> set outs" "out_values out = Some vs"
  shows "vs = (if option_value o' \<in> set (effectiveValues field vals)
               then filter (\<lambda>v. v \<noteq> option_value o') (effectiveValues field vals)
               else if isMultiSelect field vals then effectiveValues field vals @ [option_value o']
               else [option_value o']) \<and>
         (option_value o' \<notin> set (effectiveValues field vals) \<longrightarrow> isMultiSelect field vals \<longrightarrow>
            \<not> over_limit field vs)"
  using assms by (auto simp: choose_option_def popover_emit_def Let_def split: if_splits)

lemma popover_step_outs:
  assumes "popover_step field vals e s = (s', outs)" "out \<in> set outs"
  shows "\<exists>o'. choose_option field vals o' s = (s', outs) \<and>
              (e = PCheck o' \<or> o' \<in> set (allFilteredOptions field vals (pop_search s)))"
  using assms by (cases e) (auto simp: at_index_def split: if_splits option.splits)

lemma length_filter_lt: "x \<in> set xs \<Longrightarrow> length (filter (\<lambda>v. v \<noteq> x) xs) < length xs"
  using length_filter_less by fastforce

section \<open>Properties\<close>


definition tag_field :: FilterFieldConfig where
  "tag_field = FieldConfig (Some ''tag'') (Some ''Tag'') (Some TMultiselect) None None
     (Some [\<lparr>option_value = ''a'', option_label = ''Alpha''\<rparr>, \<lparr>option_value = ''b'', option_label = ''Beta''\<rparr>])
     None False False None None (Some 1) None None None None None None False"


text \<open>
  Choosing an option changes membership of that option's value alone: a value selected
  before is removed, one not selected is added (or, in single-select mode, replaces all), and
  every other value keeps its place in multi-select mode.
\<close>

theorem popover_choice_toggles:
  assumes "popover_step field vals (PCheck o') s = (s', outs)"
    and "out \<in> set outs" and "out_values out = Some vs"
  shows "(option_value o' \<in> set vs \<longleftrightarrow> option_value o' \<notin> set (effectiveValues field vals)) \<and>
         (isMultiSelect field vals \<longrightarrow>
            filter (\<lambda>v. v \<noteq> option_value o') vs
              = filter (\<lambda>v. v \<noteq> option_value o') (effectiveValues field vals)) \<and>
         (\<not> isMultiSelect field vals \<longrightarrow> \<not> pop_open s' \<and> OnClose \<in> set outs)"
proof -
  from assms(1) have c: "choose_option field vals o' s = (s', outs)" by simp
  from choose_option_outs[OF c assms(2,3)]
  have "(option_value o' \<in> set vs \<longleftrightarrow> option_value o' \<notin> set (effectiveValues field vals)) \<and>
        (isMultiSelect field vals \<longrightarrow>
            filter (\<lambda>v. v \<noteq> option_value o') vs
              = filter (\<lambda>v. v \<noteq> option_value o') (effectiveValues field vals))"
    by (auto split: if_splits)
  with c assms(2) show ?thesis
    by (auto simp: choose_option_def popover_emit_def Let_def split: if_splits)
qed

theorem popover_choice_toggles_witness:
  "\<exists>s' outs. popover_step tag_field [] (PCheck \<lparr>option_value = ''a'', option_label = ''Alpha''\<rparr>)
               popover_init = (s', outs) \<and> OnChange [''a''] \<in> set outs \<and>
     filter (\<lambda>v. v \<noteq> ''a'') [''a''] = []"
proof -
  let ?o = "\<lparr>option_value = ''a'', option_label = ''Alpha''\<rparr>"
  have e: "popover_step tag_field [] (PCheck ?o) popover_init = (popover_init, [OnChange [''a'']])"
    by (simp add: tag_field_def choose_option_def popover_emit_def effectiveValues_def isMultiSelect_def
        updateValues_def over_limit_def)
  from popover_choice_toggles[OF e, of "OnChange [''a'']" "[''a'']"] e show ?thesis
    by (auto simp: tag_field_def)
qed

text \<open>
  Arrow keys walk the listed options in a circle: from a highlighted option, \<open>k\<close> presses of
  arrow-down reach the option \<open>k\<close> places further, modulo the number of listed options; arrow-up
  undoes arrow-down.
\<close>

lemma popover_arrow_keys_cycle:
  assumes "0 \<le> pop_highlighted s"
    and "pop_highlighted s < int (length (allFilteredOptions field vals (pop_search s)))"
  shows "pop_highlighted ((popover_down field vals ^^ k) s)
           = (pop_highlighted s + int k) mod int (length (allFilteredOptions field vals (pop_search s))) \<and>
         pop_highlighted (popover_up field vals (popover_down field vals s)) = pop_highlighted s"
  using popover_nav.cycle[of s field vals k] popover_nav.round_trip[of s field vals] assms
  by (simp add: popover_count_def)

lemma handleBlur_settles:
  "handleBlur re_test i18n field pat v s = Some s' \<Longrightarrow>
     \<exists>valid custom. s' = input_settle i18n valid custom s \<and> (v = [] \<longrightarrow> valid)"
  by (auto simp: handleBlur_def Let_def split: if_splits option.splits validation_result.splits)

text \<open>
  Validation of the text input: leaving the field never throws unless a pattern is not a
  regular expression; the input is flagged invalid exactly with a non-empty message from the
  custom validator or the default text, and typing an ordinary key clears the flag.
\<close>

lemma handleBlur_flag_has_message:
  assumes "handleBlur re_test i18n field pat v s = Some s'"
    and "dict_get (i18n_validation i18n) ''invalid'' \<noteq> []"
  shows "(in_isValid s' \<longleftrightarrow> in_validationMessage s' = []) \<and>
         (v = [] \<longrightarrow> in_isValid s') \<and>
         (k \<notin> set neutral_keys \<longrightarrow> handleKeyDown_input k s' = s'\<lparr>in_isValid := True, in_validationMessage := []\<rparr>)"
proof -
  obtain valid custom where "s' = input_settle i18n valid custom s" "v = [] \<longrightarrow> valid"
    using handleBlur_settles[OF assms(1)] by blast
  with assms(2) show ?thesis
    by (cases s) (auto simp: input_settle_def handleKeyDown_input_def)
qed

end
