(* ===== verification/Filters_Menu.thy ===== *)
theory Filters_Menu
  imports Filters_Popover
begin

text \<open>
  The filter bar as a whole (\<open>web/components/filters.tsx\<close>, lines 966 to 1760): the submenu of
  a field with options, the field menu with its search, keyboard navigation and shortcut, the
  session bookkeeping of multi-select submenus, and the row of active filters.

  The list of filters belongs to the caller: a step returns the argument of \<open>onChange\<close> when it
  calls it, and an exception out of a handler is \<open>Inl\<close>. \<open>fid\<close> is the id \<open>createFilter\<close> draws.
  Every event is followed by a render, which adjusts the state before it shows it. The ids
  \<open>React.useId\<close> draws are inputs (\<open>rootId\<close>); a submenu and a row take the key React knows them
  by. A custom \<open>trigger\<close> and class names are left out.
\<close>

section \<open>FilterSubmenuContent\<close>

record submenu =
  sub_search :: string
  sub_highlighted :: int
  sub_kbNav :: bool
  sub_prevSearch :: string
  sub_prevActiveKey :: "bool \<times> nat"  \<comment> \<open>the key \<open>`${isActive}:${length}`\<close>\<close>

definition filteredOptions :: "FilterFieldConfig \<Rightarrow> string list \<Rightarrow> string \<Rightarrow> FilterOption list" where
  "filteredOptions field currentValues search =
     filter (\<lambda>o'. option_value o' \<in> set currentValues \<or> search = [] \<or>
                  str_includes (toLowerCase (option_label o')) (toLowerCase search))
       (nullish (fc_options field) [])"

definition submenu_init :: "FilterFieldConfig \<Rightarrow> string list \<Rightarrow> bool \<Rightarrow> submenu" where
  "submenu_init field currentValues isActive =
     \<lparr>sub_search = [], sub_highlighted = -1, sub_kbNav = False, sub_prevSearch = [],
      sub_prevActiveKey = (isActive, length (filteredOptions field currentValues []))\<rparr>"

definition submenu_render :: "FilterFieldConfig \<Rightarrow> string list \<Rightarrow> bool \<Rightarrow> submenu \<Rightarrow> submenu" where
  "submenu_render field currentValues isActive s =
     (let n = length (filteredOptions field currentValues (sub_search s));
          key = (isActive, n);
          s1 = (if sub_prevSearch s \<noteq> sub_search s
                then s\<lparr>sub_prevSearch := sub_search s, sub_highlighted := -1\<rparr> else s)
      in if sub_prevActiveKey s1 \<noteq> key
         then (if isActive \<and> 0 < n then s1\<lparr>sub_prevActiveKey := key, sub_highlighted := 0\<rparr>
               else s1\<lparr>sub_prevActiveKey := key\<rparr>)
         else s1)"

datatype submenu_out = Toggle string bool | Back | Close | Active

definition handleOptionToggle :: "string list \<Rightarrow> bool \<Rightarrow> FilterOption \<Rightarrow> submenu_out list" where
  "handleOptionToggle currentValues multi o' =
     Toggle (option_value o') (option_value o' \<in> set currentValues) # (if multi then [] else [Back])"

definition submenu_handleKeyDown ::
  "FilterFieldConfig \<Rightarrow> string list \<Rightarrow> bool \<Rightarrow> string \<Rightarrow> submenu \<Rightarrow> submenu \<times> submenu_out list" where
  "submenu_handleKeyDown field currentValues multi key s =
     (let opts = filteredOptions field currentValues (sub_search s)
      in if key = ''ArrowDown''
         then (s\<lparr>sub_kbNav := True, sub_highlighted := hl_down (length opts) (sub_highlighted s)\<rparr>, [])
         else if key = ''ArrowUp''
         then (s\<lparr>sub_kbNav := True, sub_highlighted := hl_up (length opts) (sub_highlighted s)\<rparr>, [])
         else if key = ''ArrowLeft'' then (s, [Back])
         else if key = ''Enter'' \<and> 0 \<le> sub_highlighted s
         then (case at_index opts (sub_highlighted s) of
                 None \<Rightarrow> (s, [])
               | Some o' \<Rightarrow> (s, handleOptionToggle currentValues multi o'))
         else if key = ''Escape'' then (s, [Close])
         else (s, []))"

datatype submenu_event = SType string | SKey string | SCheck FilterOption | SFocus

fun submenu_step ::
  "FilterFieldConfig \<Rightarrow> string list \<Rightarrow> bool \<Rightarrow> submenu_event \<Rightarrow> submenu \<Rightarrow> submenu \<times> submenu_out list" where
  "submenu_step field currentValues multi (SType t) s = (s\<lparr>sub_search := t\<rparr>, [])"
| "submenu_step field currentValues multi (SKey k) s = submenu_handleKeyDown field currentValues multi k s"
| "submenu_step field currentValues multi (SCheck o') s = (s, handleOptionToggle currentValues multi o')"
| "submenu_step field currentValues multi SFocus s = (s, [Active])"

definition FilterSubmenuContent ::
  "(submenu_event \<Rightarrow> 'a) \<Rightarrow> string \<Rightarrow> FilterFieldConfig \<Rightarrow> string list \<Rightarrow> FilterI18nConfig \<Rightarrow> submenu \<Rightarrow> 'a node" where
  "FilterSubmenuContent wrap baseId field currentValues i18n s =
     (let opts = filteredOptions field currentValues (sub_search s);
          searchable = (fc_searchable field \<noteq> Some False)
      in El ''div'' [On ''focus'' (wrap SFocus)]
        (shown_if searchable
           [El ''Input''
              ([AStr ''role'' ''combobox'', AStr ''aria-autocomplete'' ''list'', ABool ''aria-expanded'' True,
                AStr ''aria-haspopup'' ''listbox'', AStr ''aria-controls'' (baseId @ ''-listbox'')] @
               (if 0 \<le> sub_highlighted s
                then [AStr ''aria-activedescendant'' (baseId @ ''-item-'' @ show_int (sub_highlighted s))] else []) @
               [AStr ''placeholder'' (i18n_searchField i18n (nullish (fc_label field) [])),
                AStr ''value'' (sub_search s), OnValue ''change'' (\<lambda>v. wrap (SType v)),
                OnValue ''keydown'' (\<lambda>k. wrap (SKey k))]) [],
            El ''DropdownMenuSeparator'' [] []] @
         [El ''div'' [] [El ''div''
            ([AStr ''role'' ''listbox'', AStr ''id'' (baseId @ ''-listbox''),
              ANum ''tabIndex'' (if searchable then -1 else 0)] @
             (if searchable then [] else [OnValue ''keydown'' (\<lambda>k. wrap (SKey k))]))
            [El ''ScrollArea'' []
              [if opts = [] then El ''div'' [] [Txt (dict_get (i18n_texts i18n) ''noResultsFound'')]
               else El ''DropdownMenuGroup'' []
                 (map (\<lambda>(i, o').
                    El ''DropdownMenuCheckboxItem''
                      [AStr ''id'' (baseId @ ''-item-'' @ show_nat i), AStr ''role'' ''option'',
                       ABool ''aria-selected'' (sub_highlighted s = int i),
                       ABool ''data-highlighted'' (sub_kbNav s \<and> sub_highlighted s = int i),
                       ABool ''checked'' (option_value o' \<in> set currentValues),
                       On ''checkedchange'' (wrap (SCheck o'))]
                      [El ''span'' [] [Txt (option_label o')]]) (enumerate 0 opts))]]]]))"

section \<open>Filters: props and state\<close>

record bar_props =
  bp_fields :: "FilterFieldConfig list"
  bp_allowMultiple :: bool
  bp_showSearchInput :: bool
  bp_enableShortcut :: bool
  bp_shortcutKey :: string
  bp_shortcutLabel :: string
  bp_i18n :: "i18n_override option"
  bp_variant :: variant
  bp_size :: size
  bp_radius :: radius

definition bar_props_default :: "FilterFieldConfig list \<Rightarrow> bar_props" where
  "bar_props_default flds =
     \<lparr>bp_fields = flds, bp_allowMultiple = True, bp_showSearchInput = True, bp_enableShortcut = False,
      bp_shortcutKey = ''f'', bp_shortcutLabel = ''F'', bp_i18n = None, bp_variant = VariantDefault,
      bp_size = SizeDefault, bp_radius = RadiusDefault\<rparr>"

record bar =
  addFilterOpen :: bool
  menuSearchInput :: string
  activeMenu :: string
  openSubMenu :: "string option"
  bar_highlighted :: int
  bar_kbNav :: bool
  lastAddedFilterId :: "string option"
  sessionFilterIds :: "string \<rightharpoonup> string"
  prevMenuSearchInput :: string
  prevAddFilterOpen :: bool
  prevFieldsActiveKey :: "bool \<times> nat"  \<comment> \<open>the key \<open>`${addFilterOpen}:${length}`\<close>\<close>

definition selectableFields :: "bar_props \<Rightarrow> Filter list \<Rightarrow> FilterFieldConfig list" where
  "selectableFields p filters =
     filter (\<lambda>field.
        if \<not> truthy_str (fc_key field) \<or> fc_type field = Some TSeparator then False
        else if bp_allowMultiple p then True
        else \<not> list_ex (\<lambda>f. Some (filter_field f) = fc_key field) filters)
       (flattenFields (bp_fields p))"

text \<open>A field without a label matches only the empty search.\<close>

definition filteredFields :: "bar_props \<Rightarrow> Filter list \<Rightarrow> string \<Rightarrow> FilterFieldConfig list" where
  "filteredFields p filters search =
     filter (\<lambda>field. search = [] \<or>
        (case fc_label field of None \<Rightarrow> False
         | Some l \<Rightarrow> str_includes (toLowerCase l) (toLowerCase search)))
       (selectableFields p filters)"

definition bar_init :: "bar_props \<Rightarrow> Filter list \<Rightarrow> bar" where
  "bar_init p filters =
     \<lparr>addFilterOpen = False, menuSearchInput = [], activeMenu = ''root'', openSubMenu = None,
      bar_highlighted = -1, bar_kbNav = False, lastAddedFilterId = None, sessionFilterIds = Map.empty,
      prevMenuSearchInput = [], prevAddFilterOpen = False,
      prevFieldsActiveKey = (False, length (filteredFields p filters []))\<rparr>"

text \<open>The three adjustments of the render function, in its order.\<close>

definition bar_render :: "bar_props \<Rightarrow> Filter list \<Rightarrow> bar \<Rightarrow> bar" where
  "bar_render p filters b0 =
     (let n = length (filteredFields p filters (menuSearchInput b0));
          key = (addFilterOpen b0, n);
          b1 = (if prevMenuSearchInput b0 \<noteq> menuSearchInput b0
                then b0\<lparr>prevMenuSearchInput := menuSearchInput b0, bar_highlighted := -1\<rparr> else b0);
          b2 = (if prevAddFilterOpen b1 \<noteq> addFilterOpen b1
                then (if addFilterOpen b1 then b1\<lparr>prevAddFilterOpen := True\<rparr>
                      else b1\<lparr>prevAddFilterOpen := False, openSubMenu := None\<rparr>)
                else b1)
      in if prevFieldsActiveKey b2 \<noteq> key
         then (if addFilterOpen b2 \<and> 0 < n then b2\<lparr>prevFieldsActiveKey := key, bar_highlighted := 0\<rparr>
               else b2\<lparr>prevFieldsActiveKey := key\<rparr>)
         else b2)"

section \<open>Filters: handlers\<close>

text \<open>The window's shortcut handler; \<open>typing\<close>: an input or a text area has the focus.\<close>

definition handleShortcut :: "bar_props \<Rightarrow> bool \<Rightarrow> string \<Rightarrow> bar \<Rightarrow> bar" where
  "handleShortcut p typing key b =
     (if bp_enableShortcut p \<and> toLowerCase key = toLowerCase (bp_shortcutKey p) \<and>
         \<not> addFilterOpen b \<and> \<not> typing
      then b\<lparr>addFilterOpen := True\<rparr> else b)"

definition addFilter ::
  "bar_props \<Rightarrow> Filter list \<Rightarrow> string \<Rightarrow> string \<Rightarrow> bar \<Rightarrow> bar \<times> Filter list option" where
  "addFilter p filters fid fieldKey b =
     (case newFilterFor (bp_fields p) fid fieldKey of
        None \<Rightarrow> (b, None)
      | Some f \<Rightarrow> (b\<lparr>lastAddedFilterId := Some (filter_id f), addFilterOpen := False, menuSearchInput := []\<rparr>,
                  Some (filters @ [f])))"

definition hasSubMenu :: "FilterFieldConfig \<Rightarrow> bool" where
  "hasSubMenu field \<longleftrightarrow>
     (fc_type field = Some TSelect \<or> fc_type field = Some TMultiselect) \<and> nullish (fc_options field) [] \<noteq> []"

definition handleRootKeyDown ::
  "bar_props \<Rightarrow> Filter list \<Rightarrow> string \<Rightarrow> string \<Rightarrow> bar \<Rightarrow> thrown + (bar \<times> Filter list option)" where
  "handleRootKeyDown p filters fid key b =
     (let flds = filteredFields p filters (menuSearchInput b); h = bar_highlighted b
      in if key = ''ArrowDown''
         then Inr (b\<lparr>bar_kbNav := True, bar_highlighted := hl_down (length flds) h\<rparr>, None)
         else if key = ''ArrowUp''
         then Inr (b\<lparr>bar_kbNav := True, bar_highlighted := hl_up (length flds) h\<rparr>, None)
         else if (key = ''ArrowRight'' \<or> key = ''ArrowLeft'') \<and> 0 \<le> h
         then (let field = at_index flds h
               in if key = ''ArrowRight'' \<and> (case field of None \<Rightarrow> False | Some f \<Rightarrow> hasSubMenu f)
                  then Inr (b\<lparr>openSubMenu := fc_key (the field),
                              activeMenu := nullish (fc_key (the field)) ''root''\<rparr>, None)
                  else if key = ''ArrowLeft'' \<and> truthy_str (openSubMenu b)
                  then Inr (b\<lparr>openSubMenu := None, activeMenu := ''root''\<rparr>, None)
                  else Inr (b, None))
         else if key = ''Enter'' \<and> 0 \<le> h
         then (case at_index flds h of
                 None \<Rightarrow> Inl (OtherError ''TypeError: field is undefined'')
               | Some field \<Rightarrow>
                   if truthy_str (fc_key field)
                   then (if \<not> hasSubMenu field then Inr (addFilter p filters fid (the (fc_key field)) b)
                         else Inr (b\<lparr>openSubMenu := (if openSubMenu b = fc_key field then None else fc_key field),
                                     activeMenu := (if Some (activeMenu b) = fc_key field then ''root''
                                                    else nullish (fc_key field) ''root'')\<rparr>, None))
                   else Inr (b, None))
         else if key = ''Escape'' then Inr (b\<lparr>addFilterOpen := False\<rparr>, None)
         else Inr (b, None))"

definition bar_onOpenChange :: "bool \<Rightarrow> bar \<Rightarrow> bar" where
  "bar_onOpenChange open b =
     (if open then b\<lparr>addFilterOpen := True, activeMenu := ''root''\<rparr>
      else b\<lparr>addFilterOpen := False, menuSearchInput := [], sessionFilterIds := Map.empty\<rparr>)"

definition submenu_onOpenChange :: "string \<Rightarrow> bool \<Rightarrow> bar \<Rightarrow> bar" where
  "submenu_onOpenChange fieldKey open b =
     (if open then b\<lparr>openSubMenu := Some fieldKey\<rparr>
      else if openSubMenu b = Some fieldKey then b\<lparr>openSubMenu := None, activeMenu := ''root''\<rparr>
      else b)"

text \<open>The filter a multi-select submenu edits in this session of the menu; an empty id is none.\<close>

definition sessionFilter :: "Filter list \<Rightarrow> string \<Rightarrow> bar \<Rightarrow> Filter option" where
  "sessionFilter filters fieldKey b =
     (if truthy_str (sessionFilterIds b fieldKey)
      then find (\<lambda>f. Some (filter_id f) = sessionFilterIds b fieldKey) filters else None)"

definition sessionValues :: "Filter list \<Rightarrow> string \<Rightarrow> bar \<Rightarrow> string list" where
  "sessionValues filters fieldKey b =
     (case sessionFilter filters fieldKey b of None \<Rightarrow> [] | Some f \<Rightarrow> filter_values f)"

definition nextValues :: "string list \<Rightarrow> string \<Rightarrow> bool \<Rightarrow> string list" where
  "nextValues currentValues v isSelected =
     (if isSelected then filter (\<lambda>item. item \<noteq> v) currentValues else currentValues @ [v])"

definition onToggle ::
  "Filter list \<Rightarrow> string \<Rightarrow> FilterFieldConfig \<Rightarrow> string \<Rightarrow> bool \<Rightarrow> bar \<Rightarrow> bar \<times> Filter list option" where
  "onToggle filters fid field v isSelected b =
     (let fieldKey = the (fc_key field)
      in if fc_type field = Some TMultiselect
         then (let nxt = nextValues (sessionValues filters fieldKey b) v isSelected
               in case sessionFilter filters fieldKey b of
                    Some sf \<Rightarrow>
                      if nxt = []
                      then (b\<lparr>sessionFilterIds := (sessionFilterIds b)(fieldKey \<mapsto> [])\<rparr>,
                            Some (filter (\<lambda>f. filter_id f \<noteq> filter_id sf) filters))
                      else (b, Some (map (\<lambda>f. if filter_id f = filter_id sf then f\<lparr>filter_values := nxt\<rparr> else f)
                                         filters))
                  | None \<Rightarrow>
                      (b\<lparr>sessionFilterIds := (sessionFilterIds b)(fieldKey \<mapsto> fid)\<rparr>,
                       Some (filters @ [createFilter fid fieldKey
                               (Some (nullish (fc_defaultOperator field) ''is_any_of'')) nxt])))
         else (b\<lparr>lastAddedFilterId := Some fid, addFilterOpen := False\<rparr>,
               Some (filters @ [createFilter fid fieldKey
                       (Some (nullish (fc_defaultOperator field) ''is'')) [v]])))"

fun submenu_handle ::
  "Filter list \<Rightarrow> string \<Rightarrow> FilterFieldConfig \<Rightarrow> submenu_out \<Rightarrow> bar \<Rightarrow> bar \<times> Filter list option" where
  "submenu_handle filters fid field (Toggle v sel) b = onToggle filters fid field v sel b"
| "submenu_handle filters fid field Back b = (b\<lparr>openSubMenu := None, activeMenu := ''root''\<rparr>, None)"
| "submenu_handle filters fid field Close b = (b\<lparr>addFilterOpen := False\<rparr>, None)"
| "submenu_handle filters fid field Active b =
     (if fc_searchable field \<noteq> Some False then b\<lparr>activeMenu := the (fc_key field)\<rparr> else b, None)"

section \<open>Filters: the rows\<close>

datatype row_change = RowUpdate filter_update | RowDelete

fun popover_changes :: "popover_out list \<Rightarrow> row_change list" where
  "popover_changes [] = []"
| "popover_changes (OnChange vs # os) = RowUpdate (UpdateValues vs) # popover_changes os"
| "popover_changes (_ # os) = popover_changes os"

text \<open>What the controls of a row ask of the list of filters.\<close>

fun row_outs :: "FilterFieldConfig \<Rightarrow> string list \<Rightarrow> popover \<Rightarrow> row_action \<Rightarrow> row_change list" where
  "row_outs field vals pops (RowOperator op) = [RowUpdate (UpdateOperator op)]"
| "row_outs field vals pops RowRemove = [RowDelete]"
| "row_outs field vals pops (RowInput (Change v)) = [RowUpdate (UpdateValues [v])]"
| "row_outs field vals pops (RowInput _) = []"
| "row_outs field vals pops (RowPopover e) = popover_changes (snd (popover_step field vals e pops))"
| "row_outs field vals pops (RowPopoverKey k) =
     (case popover_key k of None \<Rightarrow> []
      | Some e \<Rightarrow> popover_changes (snd (popover_step field vals e pops)))"

fun row_apply :: "Filter list \<Rightarrow> string \<Rightarrow> row_change \<Rightarrow> Filter list" where
  "row_apply filters fid (RowUpdate u) = updateFilter filters fid u"
| "row_apply filters fid RowDelete = removeFilter filters fid"

text \<open>\<open>rows\<close> gives each row its local state, as React does by the key \<open>filter.id\<close>.\<close>

definition filter_row ::
  "FilterContextValue \<Rightarrow> (string \<Rightarrow> input_state \<times> popover) \<Rightarrow>
   FilterFieldConfig list \<Rightarrow> string option \<Rightarrow> Filter \<Rightarrow> row_action node list" where
  "filter_row ctx rows flds lastAdded f =
     (case getFieldsMap flds (filter_field f) of
        None \<Rightarrow> []
      | Some field \<Rightarrow>
          [El ''ButtonGroup'' [AStr ''key'' (filter_id f)]
            ([El ''ButtonGroupText'' [] [Txt (nullish (fc_label field) [])],
              FilterOperatorDropdown ctx field (filter_operator f) (filter_values f) RowOperator] @
             FilterValueSelector ctx (filter_id f) field (filter_values f) (filter_operator f)
               (Some (filter_id f) = lastAdded) (fst (rows (filter_id f))) (snd (rows (filter_id f))) @
             [FilterRemoveButton ctx RowRemove])])"

text \<open>\<open>FiltersContent\<close>: the rows alone, in the context a surrounding bar provides.\<close>

definition FiltersContent ::
  "FilterContextValue \<Rightarrow> (string \<Rightarrow> input_state \<times> popover) \<Rightarrow> FilterFieldConfig list \<Rightarrow> Filter list \<Rightarrow>
   (string \<times> row_action node) list" where
  "FiltersContent ctx rows flds filters =
     concat (map (\<lambda>f. map (Pair (filter_id f)) (filter_row ctx rows flds None f)) filters)"

section \<open>Filters: the menu\<close>

datatype bar_action =
    AOpenChange bool
  | AType string
  | AKey string
  | AItem string
  | ASubOpen string bool
  | ASub FilterFieldConfig submenu_event

definition menu_item ::
  "bar_props \<Rightarrow> Filter list \<Rightarrow> string \<Rightarrow> (string \<Rightarrow> submenu) \<Rightarrow> bar \<Rightarrow> nat \<Rightarrow> FilterFieldConfig \<Rightarrow> bar_action node" where
  "menu_item p filters rootId subs b i field =
     (let attrs = [AStr ''id'' (rootId @ ''-item-'' @ show_nat i), AStr ''role'' ''option'',
                   ABool ''aria-selected'' (bar_highlighted b = int i),
                   ABool ''data-highlighted'' (bar_kbNav b \<and> bar_highlighted b = int i)];
          label = El ''span'' [] [Txt (nullish (fc_label field) [])];
          fieldKey = the (fc_key field)
      in if hasSubMenu field
         then El ''DropdownMenuSub''
                [ABool ''open'' (openSubMenu b = Some fieldKey), OnFlag ''openchange'' (ASubOpen fieldKey)]
                [El ''DropdownMenuSubTrigger'' attrs [label],
                 El ''DropdownMenuSubContent'' []
                   [FilterSubmenuContent (ASub field) fieldKey field (sessionValues filters fieldKey b)
                      (mergedI18n (bp_i18n p)) (subs fieldKey)]]
         else El ''DropdownMenuItem'' (attrs @ (if truthy_str (fc_key field) then [On ''click'' (AItem fieldKey)] else []))
                [label])"

definition Filters_menu ::
  "bar_props \<Rightarrow> Filter list \<Rightarrow> string \<Rightarrow> (string \<Rightarrow> submenu) \<Rightarrow> bar \<Rightarrow> bar_action node list" where
  "Filters_menu p filters rootId subs b =
     (let texts = i18n_texts (mergedI18n (bp_i18n p)); flds = filteredFields p filters (menuSearchInput b)
      in shown_if (selectableFields p filters \<noteq> [])
        [El ''DropdownMenu'' [ABool ''open'' (addFilterOpen b), OnFlag ''openchange'' AOpenChange]
          [El ''DropdownMenuTrigger'' []
             [El ''Button'' [AStr ''variant'' ''outline''] [El ''PlusIcon'' [] [], Txt (dict_get texts ''addFilter'')]],
           El ''DropdownMenuContent'' []
             (shown_if (bp_showSearchInput p)
                [El ''div'' []
                   (El ''Input''
                      ([AStr ''role'' ''combobox'', AStr ''aria-controls'' (rootId @ ''-listbox'')] @
                       (if 0 \<le> bar_highlighted b
                        then [AStr ''aria-activedescendant'' (rootId @ ''-item-'' @ show_int (bar_highlighted b))] else []) @
                       [AStr ''placeholder'' (dict_get texts ''searchFields''), AStr ''value'' (menuSearchInput b),
                        OnValue ''change'' AType, OnValue ''keydown'' AKey]) [] #
                    shown_if (bp_enableShortcut p \<and> bp_shortcutLabel p \<noteq> [])
                      [El ''Kbd'' [] [Txt (bp_shortcutLabel p)]]),
                 El ''DropdownMenuSeparator'' [] []] @
              [El ''div'' [] [El ''div'' [AStr ''role'' ''listbox'', AStr ''id'' (rootId @ ''-listbox'')]
                [El ''ScrollArea'' []
                  (if flds = [] then [El ''div'' [] [Txt (dict_get texts ''noFieldsFound'')]]
                   else map (\<lambda>(i, field). menu_item p filters rootId subs b i field) (enumerate 0 flds))]]])]])"

text \<open>\<open>Filters\<close>: the context it provides, the menu, and the rows.\<close>

definition bar_context :: "bar_props \<Rightarrow> FilterContextValue" where
  "bar_context p =
     \<lparr>ctx_variant = bp_variant p, ctx_size = bp_size p, ctx_radius = bp_radius p,
      ctx_i18n = mergedI18n (bp_i18n p), ctx_showSearchInput = bp_showSearchInput p,
      ctx_allowMultiple = bp_allowMultiple p\<rparr>"

definition Filters ::
  "bar_props \<Rightarrow> Filter list \<Rightarrow> string \<Rightarrow> (string \<Rightarrow> submenu) \<Rightarrow> (string \<Rightarrow> input_state \<times> popover) \<Rightarrow> bar \<Rightarrow>
   bar_action node list \<times> (string \<times> row_action node) list" where
  "Filters p filters rootId subs rows b =
     (Filters_menu p filters rootId subs b,
      concat (map (\<lambda>f. map (Pair (filter_id f))
        (filter_row (bar_context p) rows (bp_fields p) (lastAddedFilterId b) f)) filters))"

section \<open>Filters: events\<close>

datatype bar_event =
    BShortcut bool string              \<comment> \<open>a key press on the window\<close>
  | BKey string string                 \<comment> \<open>a key press in the search box, with the next filter id\<close>
  | BType string
  | BOpenChange bool
  | BItem string string                \<comment> \<open>a click on a field without options\<close>
  | BSubOpen string bool
  | BSub string FilterFieldConfig submenu_out
  | BRow string row_change
  | BTimer                             \<comment> \<open>the timer that ends the autofocus of a new filter\<close>
  | BCaller "Filter list"              \<comment> \<open>the caller passes another list\<close>

fun bar_handle ::
  "bar_props \<Rightarrow> Filter list \<Rightarrow> bar_event \<Rightarrow> bar \<Rightarrow> thrown + (bar \<times> Filter list option)" where
  "bar_handle p filters (BShortcut typing key) b = Inr (handleShortcut p typing key b, None)"
| "bar_handle p filters (BKey fid key) b = handleRootKeyDown p filters fid key b"
| "bar_handle p filters (BType t) b = Inr (b\<lparr>menuSearchInput := t\<rparr>, None)"
| "bar_handle p filters (BOpenChange open) b = Inr (bar_onOpenChange open b, None)"
| "bar_handle p filters (BItem fid fieldKey) b = Inr (addFilter p filters fid fieldKey b)"
| "bar_handle p filters (BSubOpen fieldKey open) b = Inr (submenu_onOpenChange fieldKey open b, None)"
| "bar_handle p filters (BSub fid field out) b = Inr (submenu_handle filters fid field out b)"
| "bar_handle p filters (BRow fid c) b = Inr (b, Some (row_apply filters fid c))"
| "bar_handle p filters BTimer b = Inr (b\<lparr>lastAddedFilterId := None\<rparr>, None)"
| "bar_handle p filters (BCaller fs) b = Inr (b, Some fs)"

text \<open>A handled event, then the render with the caller's new list.\<close>

definition bar_step ::
  "bar_props \<Rightarrow> bar_event \<Rightarrow> bar \<times> Filter list \<Rightarrow> thrown + (bar \<times> Filter list)" where
  "bar_step p e st =
     (case bar_handle p (snd st) e (fst st) of
        Inl err \<Rightarrow> Inl err
      | Inr (b, oc) \<Rightarrow> (let fs = nullish oc (snd st) in Inr (bar_render p fs b, fs)))"

inductive bar_reach :: "bar_props \<Rightarrow> bar \<times> Filter list \<Rightarrow> bool" for p where
  init: "bar_reach p (bar_init p fs, fs)"
| step: "bar_reach p st \<Longrightarrow> bar_step p e st = Inr st' \<Longrightarrow> bar_reach p st'"

fun bar_run :: "bar_props \<Rightarrow> bar_event list \<Rightarrow> bar \<times> Filter list \<Rightarrow> thrown + (bar \<times> Filter list)" where
  "bar_run p [] st = Inr st"
| "bar_run p (e # es) st = (case bar_step p e st of Inl err \<Rightarrow> Inl err | Inr st' \<Rightarrow> bar_run p es st')"

section \<open>Navigation\<close>

definition submenu_press :: "string \<Rightarrow> FilterFieldConfig \<Rightarrow> string list \<Rightarrow> bool \<Rightarrow> submenu \<Rightarrow> submenu" where
  "submenu_press k field cur multi s = fst (submenu_step field cur multi (SKey k) s)"

interpretation submenu_nav: listbox "\<lambda>s. length (filteredOptions field cur (sub_search s))" sub_highlighted
  "submenu_press ''ArrowDown'' field cur multi" "submenu_press ''ArrowUp'' field cur multi" for field cur multi
  by unfold_locales (simp_all add: submenu_press_def submenu_handleKeyDown_def)

definition root_press :: "string \<Rightarrow> bar_props \<Rightarrow> Filter list \<Rightarrow> bar \<Rightarrow> bar" where
  "root_press k p fs b = (case handleRootKeyDown p fs [] k b of Inl _ \<Rightarrow> b | Inr (b', _) \<Rightarrow> b')"

interpretation root_nav: listbox "\<lambda>b. length (filteredFields p fs (menuSearchInput b))" bar_highlighted
  "root_press ''ArrowDown'' p fs" "root_press ''ArrowUp'' p fs" for p fs
  by unfold_locales (simp_all add: root_press_def handleRootKeyDown_def Let_def)

section \<open>The field menu's highlight\<close>

lemma filteredFields_allowMultiple:
  "bp_allowMultiple p \<Longrightarrow> filteredFields p fs q = filteredFields p fs' q"
  by (simp add: filteredFields_def selectableFields_def)

text \<open>The highlight points into the list shown for the search, or nowhere.\<close>

definition bar_ok :: "bar_props \<Rightarrow> Filter list \<Rightarrow> bar \<Rightarrow> bool" where
  "bar_ok p fs b \<longleftrightarrow>
     prevMenuSearchInput b = menuSearchInput b \<and> prevAddFilterOpen b = addFilterOpen b \<and>
     prevFieldsActiveKey b = (addFilterOpen b, length (filteredFields p fs (menuSearchInput b))) \<and>
     -1 \<le> bar_highlighted b \<and> bar_highlighted b < int (length (filteredFields p fs (menuSearchInput b)))"

text \<open>What a handler may leave behind: a good highlight unless the search has changed.\<close>

definition bar_pre :: "bar_props \<Rightarrow> Filter list \<Rightarrow> bar \<Rightarrow> bool" where
  "bar_pre p fs b \<longleftrightarrow>
     (prevMenuSearchInput b = menuSearchInput b \<longrightarrow>
       -1 \<le> bar_highlighted b \<and> bar_highlighted b < int (length (filteredFields p fs (menuSearchInput b))))"

lemma bar_render_ok: "bar_pre p fs b \<Longrightarrow> bar_ok p fs (bar_render p fs b)"
  by (auto simp: bar_pre_def bar_ok_def bar_render_def Let_def)

lemma bar_render_fixed: "bar_ok p fs b \<Longrightarrow> bar_render p fs b = b"
  by (simp add: bar_ok_def bar_render_def Let_def)

lemma bar_ok_pre: "bar_ok p fs b \<Longrightarrow> bar_pre p fs b"
  by (simp add: bar_ok_def bar_pre_def)

lemma bar_pre_other:
  "bar_pre p fs b \<Longrightarrow> bp_allowMultiple p \<Longrightarrow> bar_pre p fs' b"
  using filteredFields_allowMultiple[of p fs "menuSearchInput b" fs'] by (simp add: bar_pre_def)

lemma bar_pre_cong:
  "bar_pre p fs b \<Longrightarrow> menuSearchInput b' = menuSearchInput b \<Longrightarrow>
   prevMenuSearchInput b' = prevMenuSearchInput b \<Longrightarrow> bar_highlighted b' = bar_highlighted b \<Longrightarrow>
   bar_pre p fs b'"
  by (simp add: bar_pre_def)

lemma bar_pre_search:
  "bar_ok p fs b \<Longrightarrow> prevMenuSearchInput b' = prevMenuSearchInput b \<Longrightarrow> bar_highlighted b' = bar_highlighted b \<Longrightarrow>
   bar_pre p fs b'"
  by (auto simp: bar_pre_def bar_ok_def)

lemma handleRootKeyDown_pre:
  assumes "bar_ok p fs b"
  shows "\<exists>b' oc. handleRootKeyDown p fs fid k b = Inr (b', oc) \<and> bar_pre p fs b'"
proof -
  let ?n = "length (filteredFields p fs (menuSearchInput b))"
  have r: "-1 \<le> bar_highlighted b" "bar_highlighted b < int ?n" using assms by (simp_all add: bar_ok_def)
  have rng: "-1 \<le> hl_down ?n (bar_highlighted b) \<and> hl_down ?n (bar_highlighted b) < int ?n"
    "-1 \<le> hl_up ?n (bar_highlighted b) \<and> hl_up ?n (bar_highlighted b) < int ?n"
    using r by (auto simp: hl_down_def hl_up_def)
  have at: "0 \<le> bar_highlighted b \<Longrightarrow> \<exists>f. at_index (filteredFields p fs (menuSearchInput b)) (bar_highlighted b) = Some f"
    using r by (auto simp: at_index_def)
  have keep: "\<And>b'. prevMenuSearchInput b' = prevMenuSearchInput b \<Longrightarrow> bar_highlighted b' = bar_highlighted b \<Longrightarrow>
      bar_pre p fs b'"
    using bar_pre_search[OF assms] by blast
  consider "k = ''ArrowDown''" | "k = ''ArrowUp''" | "k = ''Enter''" "0 \<le> bar_highlighted b"
    | "k \<noteq> ''ArrowDown''" "k \<noteq> ''ArrowUp''" "\<not> (k = ''Enter'' \<and> 0 \<le> bar_highlighted b)"
    by blast
  then show ?thesis
  proof cases
    case 1
    then show ?thesis using rng by (simp add: handleRootKeyDown_def bar_pre_def Let_def)
  next
    case 2
    then show ?thesis using rng by (simp add: handleRootKeyDown_def bar_pre_def Let_def)
  next
    case 3
    with at obtain f where "at_index (filteredFields p fs (menuSearchInput b)) (bar_highlighted b) = Some f"
      by blast
    with 3 show ?thesis
      by (auto simp: handleRootKeyDown_def Let_def addFilter_def intro!: keep split: option.splits)
  next
    case 4
    then show ?thesis
      by (simp add: handleRootKeyDown_def Let_def keep del: char.inject) blast
  qed
qed

lemma onToggle_frame:
  "onToggle fs fid field v sel b = (b', oc) \<Longrightarrow>
     menuSearchInput b' = menuSearchInput b \<and> prevMenuSearchInput b' = prevMenuSearchInput b \<and>
     bar_highlighted b' = bar_highlighted b"
  by (auto simp: onToggle_def Let_def split: if_splits option.splits)

lemma bar_handle_pre:
  assumes "bar_ok p fs b"
  shows "\<exists>b' oc. bar_handle p fs e b = Inr (b', oc) \<and> bar_pre p fs b'"
proof (cases e)
  case (BKey fid k)
  then show ?thesis using handleRootKeyDown_pre[OF assms] by simp
next
  case (BSub fid field out)
  then show ?thesis
    using onToggle_frame[of fs fid field]
    by (cases out) (auto intro!: bar_pre_search[OF assms] simp: prod_eq_iff)
qed (auto simp: handleShortcut_def bar_onOpenChange_def submenu_onOpenChange_def addFilter_def
       intro!: bar_pre_search[OF assms] split: option.splits)

lemma bar_step_ok:
  assumes "bar_ok p (snd st) (fst st)" "bp_allowMultiple p"
  shows "\<exists>st'. bar_step p e st = Inr st' \<and> bar_ok p (snd st') (fst st')"
proof -
  obtain b' oc where h: "bar_handle p (snd st) e (fst st) = Inr (b', oc)" "bar_pre p (snd st) b'"
    using bar_handle_pre[OF assms(1)] by blast
  have "bar_pre p (nullish oc (snd st)) b'" using bar_pre_other[OF h(2) assms(2)] .
  then show ?thesis using h(1) by (auto simp: bar_step_def Let_def bar_render_ok)
qed

lemma bar_reach_ok:
  assumes "bar_reach p st" "bp_allowMultiple p"
  shows "bar_ok p (snd st) (fst st)"
  using assms
proof (induction rule: bar_reach.induct)
  case (init fs)
  show ?case by (simp add: bar_ok_def bar_init_def)
next
  case (step st e st')
  then show ?case using bar_step_ok[of p st e] by auto
qed

section \<open>Session toggles\<close>

lemma find_map_values:
  "find (\<lambda>f. filter_id f = i) (map (\<lambda>f. if filter_id f = i then f\<lparr>filter_values := vs\<rparr> else f) fs)
     = map_option (\<lambda>f. f\<lparr>filter_values := vs\<rparr>) (find (\<lambda>f. filter_id f = i) fs)"
  by (induction fs) auto

lemma find_append_fresh:
  "i \<notin> set (map filter_id fs) \<Longrightarrow> filter_id f = i \<Longrightarrow> find (\<lambda>f. filter_id f = i) (fs @ [f]) = Some f"
  by (induction fs) auto

lemma sessionFilter_Some:
  "sessionFilter fs k b = Some f \<Longrightarrow>
     sessionFilterIds b k = Some (filter_id f) \<and> filter_id f \<noteq> [] \<and> f \<in> set fs"
  by (auto simp: sessionFilter_def truthy_str_def split: if_splits option.splits dest: find_Some_mem)

lemma onToggle_session:
  assumes "fc_type field = Some TMultiselect" "fc_key field = Some k" "sessionFilter fs k b = Some sf"
    and "onToggle fs fid field v sel b = (b', Some fs')"
  shows "let nxt = nextValues (filter_values sf) v sel; sid = filter_id sf in
         if nxt = [] then fs' = removeFilter fs sid \<and> sessionFilterIds b' k = Some []
         else fs' = updateFilter fs sid (UpdateValues nxt) \<and> b' = b"
proof -
  have "updateFilter fs (filter_id sf) (UpdateValues nxt)
      = map (\<lambda>f. if filter_id f = filter_id sf then f\<lparr>filter_values := nxt\<rparr> else f) fs" for nxt
    by (simp add: updateFilter_def)
  with assms show ?thesis
    by (auto simp: onToggle_def sessionValues_def removeFilter_def Let_def split: if_splits)
qed

lemma onToggle_new:
  assumes "fc_type field = Some TMultiselect" "fc_key field = Some k" "sessionFilter fs k b = None"
    and "onToggle fs fid field v sel b = (b', Some fs')"
  shows "sessionFilterIds b' k = Some fid \<and>
         (\<exists>f. fs' = fs @ [f] \<and> filter_id f = fid \<and> filter_field f = k \<and> filter_values f = nextValues [] v sel)"
  using assms by (auto simp: onToggle_def sessionValues_def createFilter_def Let_def)

lemma sessionValues_updated:
  assumes "sessionFilter fs k b = Some sf"
  shows "sessionValues (updateFilter fs (filter_id sf) (UpdateValues vs)) k b = vs"
proof -
  have i: "sessionFilterIds b k = Some (filter_id sf)" "filter_id sf \<noteq> []" "sf \<in> set fs"
    using sessionFilter_Some[OF assms] by auto
  then have "find (\<lambda>f. filter_id f = filter_id sf) fs \<noteq> None" by (auto simp: find_None_iff)
  moreover have "updateFilter fs (filter_id sf) (UpdateValues vs)
      = map (\<lambda>f. if filter_id f = filter_id sf then f\<lparr>filter_values := vs\<rparr> else f) fs"
    by (simp add: updateFilter_def)
  ultimately show ?thesis using i
    by (auto simp: sessionValues_def sessionFilter_def truthy_str_def find_map_values)
qed

section \<open>Properties\<close>


definition name_field :: FilterFieldConfig where
  "name_field = FieldConfig (Some ''name'') (Some ''Name'') (Some TText) None None
     None None False False None None None None None None None None None False"



text \<open>
  C31. Multi-select submenus edit one filter per session of the menu: ticking or clearing an
  option makes the session's values exactly the old ones without or with that value, filters
  other than the session's are left alone, and ticking a first option and clearing it again
  restores the caller's list.
\<close>

theorem session_toggle_edits_one_filter:
  assumes "fc_type field = Some TMultiselect" and "fc_key field = Some k"
    and "fid \<noteq> []" and "fid \<notin> set (map filter_id fs)"
    and "onToggle fs fid field v (v \<in> set (sessionValues fs k b)) b = (b', Some fs')"
  shows "sessionValues fs' k b' = (if v \<in> set (sessionValues fs k b)
           then filter (\<lambda>x. x \<noteq> v) (sessionValues fs k b) else sessionValues fs k b @ [v]) \<and>
         filter (\<lambda>f. Some (filter_id f) \<noteq> sessionFilterIds b k \<and> filter_id f \<noteq> fid) fs'
           = filter (\<lambda>f. Some (filter_id f) \<noteq> sessionFilterIds b k \<and> filter_id f \<noteq> fid) fs \<and>
         (sessionFilter fs k b = None \<longrightarrow>
            snd (onToggle fs' fid2 field v True b') = Some fs)"
proof (cases "sessionFilter fs k b")
  case (Some sf)
  let ?cur = "filter_values sf" and ?sid = "filter_id sf"
  let ?nxt = "nextValues ?cur v (v \<in> set ?cur)"
  have cur: "sessionValues fs k b = ?cur" by (simp add: sessionValues_def Some)
  have i: "sessionFilterIds b k = Some ?sid" using sessionFilter_Some[OF Some] by blast
  from onToggle_session[OF assms(1,2) Some assms(5)] cur
  have t: "if ?nxt = [] then fs' = removeFilter fs ?sid \<and> sessionFilterIds b' k = Some []
           else fs' = updateFilter fs ?sid (UpdateValues ?nxt) \<and> b' = b"
    by (simp add: Let_def)
  have v: "sessionValues fs' k b' = ?nxt"
    using t sessionValues_updated[OF Some, of ?nxt]
    by (auto simp: sessionValues_def sessionFilter_def truthy_str_def split: if_splits)
  have f: "filter (\<lambda>f. filter_id f \<noteq> ?sid) fs' = filter (\<lambda>f. filter_id f \<noteq> ?sid) fs"
    using t bar.update_filter_other by (auto simp: removeFilter_def split: if_splits)
  then have "filter (\<lambda>f. filter_id f \<noteq> fid) (filter (\<lambda>f. filter_id f \<noteq> ?sid) fs')
           = filter (\<lambda>f. filter_id f \<noteq> fid) (filter (\<lambda>f. filter_id f \<noteq> ?sid) fs)" by simp
  with v i cur Some show ?thesis by (simp add: nextValues_def conj_commute)
next
  case None
  have cur: "sessionValues fs k b = []" by (simp add: sessionValues_def None)
  from onToggle_new[OF assms(1,2) None assms(5)] cur obtain f where
    f: "sessionFilterIds b' k = Some fid" "fs' = fs @ [f]" "filter_id f = fid" "filter_values f = [v]"
    by (auto simp: nextValues_def)
  have s: "sessionFilter fs' k b' = Some f"
    using f assms(3,4) find_append_fresh[of fid fs f] by (simp add: sessionFilter_def truthy_str_def)
  have "snd (onToggle fs' fid2 field v True b') = Some (removeFilter fs' fid)"
    using s f assms(1,2) by (simp add: onToggle_def sessionValues_def nextValues_def removeFilter_def)
  also have "removeFilter fs' fid = fs" using bar.remove_after_append[OF assms(4) f(3)] f(2) by simp
  finally show ?thesis using s f cur None by (simp add: sessionValues_def)
qed

theorem session_toggle_edits_one_filter_witness:
  "\<exists>b' fs'. onToggle [] ''7'' tag_field ''a'' False (bar_init (bar_props_default [tag_field]) []) = (b', Some fs') \<and>
     sessionValues fs' ''tag'' b' = [''a''] \<and> snd (onToggle fs' ''8'' tag_field ''a'' True b') = Some []"
proof -
  let ?b = "bar_init (bar_props_default [tag_field]) []"
  have n: "sessionFilter [] ''tag'' ?b = None" "sessionValues [] ''tag'' ?b = []"
    by (simp_all add: sessionFilter_def sessionValues_def bar_init_def truthy_str_def)
  have m: "fc_type tag_field = Some TMultiselect" "fc_key tag_field = Some ''tag''"
    by (simp_all add: tag_field_def)
  obtain b' fs' where e: "onToggle [] ''7'' tag_field ''a'' False ?b = (b', Some fs')"
    using n m by (simp add: onToggle_def Let_def)
  have "onToggle [] ''7'' tag_field ''a'' (''a'' \<in> set (sessionValues [] ''tag'' ?b)) ?b = (b', Some fs')"
    using e n by simp
  from session_toggle_edits_one_filter[OF m _ _ this, of "''8''"] n e show ?thesis by auto
qed

end
