(* ===== verification/Mock_Admin.thy ===== *)
theory Mock_Admin
  imports Prelude Doubles
begin

text \<open>
  The data of the prototype's admin pages (\<open>prototype/lib/mock-admin.ts\<close>, and the connectors, the
  regions and the organization of \<open>prototype/lib/mock-data.ts\<close>), transcribed as it stands. A decimal
  literal is the double nearest to it.
\<close>

section \<open>Types\<close>

datatype role_p = Owner | Admin | MemberRole | Viewer
datatype member_status = Active | Invited | Suspended

record member_p =
  mp_id :: string
  mp_name :: string
  mp_email :: string
  mp_initial :: string
  mp_role :: role_p
  mp_status :: member_status
  mp_sso :: bool
  mp_lastActive :: string

definition ROLE_LABEL :: "role_p \<Rightarrow> string" where
  "ROLE_LABEL r = (case r of Owner \<Rightarrow> ''Owner'' | Admin \<Rightarrow> ''Admin'' | MemberRole \<Rightarrow> ''Member'' | Viewer \<Rightarrow> ''Viewer'')"

datatype granted = AllChapters | Chapters "string list"

record access_template =
  at_id :: string
  at_name :: string
  at_description :: string
  at_chapters :: granted
  at_members :: nat

record chapter_access =
  ca_chapterId :: string
  ca_restricted :: bool
  ca_templates :: "string list"

datatype audit_kind = KRead | KWrite | KAdmin | KAuth

record audit_event_p =
  ae_id :: string
  ae_time :: string
  ae_actor :: string
  ae_action :: string
  ae_target :: string
  ae_kind :: audit_kind
  ae_correlationId :: string

datatype proposal_kind = PSplit | PMerge | PReclassify | PNewTopic | PUnfiled

record proposal =
  pr_id :: string
  pr_kind :: proposal_kind
  pr_title :: string
  pr_detail :: string
  pr_target :: string
  pr_confidence :: rat
  pr_raisedAt :: string

record ambiguity =
  am_id :: string
  am_surface :: string
  am_container :: string
  am_mentions :: nat
  am_raisedAt :: string
  am_candidates :: "(string \<times> rat) list"

record connector_p =
  cn_id :: string
  cn_name :: string
  cn_category :: string
  cn_color :: string
  cn_letter :: string
  cn_popular :: bool

record region_p =
  rg_id :: string
  rg_country :: string
  rg_city :: string
  rg_label :: string
  rg_flag :: string
  rg_recommended :: bool

record mock_org =
  mo_name :: string
  mo_slug :: string
  mo_domain :: string
  mo_region :: string

record usage =
  us_plan :: string
  us_period :: string
  us_seats :: "nat \<times> nat"        \<comment> \<open>used and limit\<close>
  us_tokens :: "nat \<times> nat"
  us_query :: nat
  us_build :: nat
  us_storage :: "rat \<times> rat"
  us_syncs :: "nat \<times> nat"

section \<open>Values\<close>

definition mockOrg :: mock_org where
  "mockOrg = \<lparr>mo_name = ''Hivebook Test Co'', mo_slug = ''hivebook-test'', mo_domain = ''hivebook-test.com'',
              mo_region = ''us-east''\<rparr>"

definition USAGE :: usage where
  "USAGE = \<lparr>us_plan = ''Scale'', us_period = ''May 2026'', us_seats = (8, 25), us_tokens = (4240000, 10000000),
            us_query = 1360000, us_build = 2880000, us_storage = (dbl (384 / 10), dbl 100), us_syncs = (14820, 50000)\<rparr>"

definition MEMBERS :: "member_p list" where
  "MEMBERS =
     [\<lparr>mp_id = ''m-brijesh'', mp_name = ''Brijesh Wawdhane'', mp_email = ''google@brijesh.dev'', mp_initial = ''B'', 
        mp_role = Owner, mp_status = Active, mp_sso = False, mp_lastActive = ''now''\<rparr>,
      \<lparr>mp_id = ''m-dana'', mp_name = ''Dana Olsen'', mp_email = ''dana@hivebook-test.com'', mp_initial = ''D'', 
        mp_role = Admin, mp_status = Active, mp_sso = True, mp_lastActive = ''12 min ago''\<rparr>,
      \<lparr>mp_id = ''m-priya'', mp_name = ''Priya Raman'', mp_email = ''priya@hivebook-test.com'', mp_initial = ''P'', 
        mp_role = Admin, mp_status = Active, mp_sso = True, mp_lastActive = ''1 h ago''\<rparr>,
      \<lparr>mp_id = ''m-sam'', mp_name = ''Sam Okafor'', mp_email = ''sam@hivebook-test.com'', mp_initial = ''S'', 
        mp_role = MemberRole, mp_status = Active, mp_sso = True, mp_lastActive = ''3 h ago''\<rparr>,
      \<lparr>mp_id = ''m-lee'', mp_name = ''Lee Carter'', mp_email = ''lee@hivebook-test.com'', mp_initial = ''L'', 
        mp_role = MemberRole, mp_status = Active, mp_sso = True, mp_lastActive = ''yesterday''\<rparr>,
      \<lparr>mp_id = ''m-maya'', mp_name = ''Maya Lin'', mp_email = ''maya@hivebook-test.com'', mp_initial = ''M'', 
        mp_role = MemberRole, mp_status = Active, mp_sso = True, mp_lastActive = ''2 days ago''\<rparr>,
      \<lparr>mp_id = ''m-tomas'', mp_name = (''Tom'' @ [CHR 0xC3, CHR 0xA1] @ ''s Vidal''), 
        mp_email = ''tomas@hivebook-test.com'', mp_initial = ''T'', mp_role = Viewer, mp_status = Active, mp_sso = True, 
        mp_lastActive = ''5 days ago''\<rparr>,
      \<lparr>mp_id = ''m-aisha'', mp_name = ''Aisha Khan'', mp_email = ''aisha@hivebook-test.com'', mp_initial = ''A'', 
        mp_role = MemberRole, mp_status = Invited, mp_sso = False, mp_lastActive = emdash\<rparr>,
      \<lparr>mp_id = ''m-rob'', mp_name = ''Rob Feeney'', mp_email = ''rob@hivebook-test.com'', mp_initial = ''R'', 
        mp_role = MemberRole, mp_status = Suspended, mp_sso = True, mp_lastActive = ''3 weeks ago''\<rparr>]"

definition ACCESS_TEMPLATES :: "access_template list" where
  "ACCESS_TEMPLATES =
     [\<lparr>at_id = ''at-everyone'', at_name = ''Everyone'', 
        at_description = ''Default access for all members of the workspace.'', at_chapters = Chapters [''ch-ops'', ''ch-eng'', 
        ''ch-product''], at_members = 47\<rparr>,
      \<lparr>at_id = ''at-leadership'', at_name = ''Leadership'', at_description = ''Full read across every chapter.'', 
        at_chapters = AllChapters, at_members = 5\<rparr>,
      \<lparr>at_id = ''at-engineering'', at_name = ''Engineering'', at_description = ''Engineering and Product knowledge.'', 
        at_chapters = Chapters [''ch-eng'', ''ch-product''], at_members = 18\<rparr>,
      \<lparr>at_id = ''at-finance'', at_name = ''Finance'', at_description = ''Finance and operational policy, 
        including restricted chapters.'', at_chapters = Chapters [''ch-fin'', ''ch-ops''], at_members = 6\<rparr>,
      \<lparr>at_id = ''at-support'', at_name = ''Support'', at_description = ''Customer-facing knowledge and operations.'', 
        at_chapters = Chapters [''ch-cust'', ''ch-ops''], at_members = 12\<rparr>]"

definition CHAPTER_ACCESS :: "chapter_access list" where
  "CHAPTER_ACCESS =
     [\<lparr>ca_chapterId = ''ch-ops'', ca_restricted = False, ca_templates = [''at-everyone'', ''at-finance'', 
        ''at-support'']\<rparr>,
      \<lparr>ca_chapterId = ''ch-eng'', ca_restricted = False, ca_templates = [''at-everyone'', ''at-engineering'']\<rparr>,
      \<lparr>ca_chapterId = ''ch-cust'', ca_restricted = False, ca_templates = [''at-everyone'', ''at-support'']\<rparr>,
      \<lparr>ca_chapterId = ''ch-fin'', ca_restricted = True, ca_templates = [''at-leadership'', ''at-finance'']\<rparr>,
      \<lparr>ca_chapterId = ''ch-people'', ca_restricted = True, ca_templates = [''at-leadership'']\<rparr>,
      \<lparr>ca_chapterId = ''ch-product'', ca_restricted = False, ca_templates = [''at-everyone'', ''at-engineering'']\<rparr>]"

definition AUDIT_EVENTS :: "audit_event_p list" where
  "AUDIT_EVENTS =
     [\<lparr>ae_id = ''e1'', ae_time = ''14:38:02'', ae_actor = ''Brijesh Wawdhane'', ae_action = ''Signed in'', 
        ae_target = (''SSO '' @ middot @ '' Okta''), ae_kind = KAuth, ae_correlationId = ''req_8f2a41''\<rparr>,
      \<lparr>ae_id = ''e2'', ae_time = ''14:31:55'', ae_actor = ''System'', ae_action = ''Rebuilt summary'', 
        ae_target = (''EU VAT refunds over '' @ euro @ ''500''), ae_kind = KWrite, ae_correlationId = ''job_b71c09''\<rparr>,
      \<lparr>ae_id = ''e3'', ae_time = ''14:22:10'', ae_actor = ''Dana Olsen'', ae_action = ''Viewed entry'', 
        ae_target = ''Sev-1 escalation path'', ae_kind = KRead, ae_correlationId = ''req_4c9d22''\<rparr>,
      \<lparr>ae_id = ''e4'', ae_time = ''13:57:41'', ae_actor = ''Priya Raman'', ae_action = ''Updated access template'', 
        ae_target = ''Finance'', ae_kind = KAdmin, ae_correlationId = ''req_1a7e6b''\<rparr>,
      \<lparr>ae_id = ''e5'', ae_time = ''13:40:18'', ae_actor = ''Sam Okafor'', ae_action = ''Triggered sync'', 
        ae_target = ''Jira'', ae_kind = KAdmin, ae_correlationId = ''req_55f0aa''\<rparr>,
      \<lparr>ae_id = ''e6'', ae_time = ''12:18:03'', ae_actor = ''System'', ae_action = ''Resolved entity'', 
        ae_target = (''Finance '' @ rarrow @ '' canonical''), ae_kind = KWrite, ae_correlationId = ''job_9d2244''\<rparr>,
      \<lparr>ae_id = ''e7'', ae_time = ''11:52:37'', ae_actor = (''Tom'' @ [CHR 0xC3, CHR 0xA1] @ ''s Vidal''), 
        ae_action = ''Ran ask'', ae_target = ''\"refund threshold EU\"'', ae_kind = KRead, 
        ae_correlationId = ''req_77b310''\<rparr>,
      \<lparr>ae_id = ''e8'', ae_time = ''11:09:44'', ae_actor = ''Brijesh Wawdhane'', ae_action = ''Invited member'', 
        ae_target = ''aisha@hivebook-test.com'', ae_kind = KAdmin, ae_correlationId = ''req_2e88c1''\<rparr>,
      \<lparr>ae_id = ''e9'', ae_time = ''10:47:21'', ae_actor = ''Lee Carter'', ae_action = ''Requested rebuild'', 
        ae_target = ''US refunds over $600'', ae_kind = KWrite, ae_correlationId = ''req_0bb934''\<rparr>,
      \<lparr>ae_id = ''e10'', ae_time = ''09:31:09'', ae_actor = ''System'', ae_action = ''Flagged ambiguity'', 
        ae_target = (''\"EM\" '' @ emdash @ '' 3 candidates''), ae_kind = KWrite, ae_correlationId = ''job_aa1f70''\<rparr>,
      \<lparr>ae_id = ''e11'', ae_time = ''09:02:55'', ae_actor = ''Rob Feeney'', ae_action = ''Sign-in blocked'', 
        ae_target = ''Account suspended'', ae_kind = KAuth, ae_correlationId = ''req_6c4d80''\<rparr>,
      \<lparr>ae_id = ''e12'', ae_time = ''08:44:12'', ae_actor = ''Maya Lin'', ae_action = ''Viewed entry'', 
        ae_target = ''Refunds & adjustments'', ae_kind = KRead, ae_correlationId = ''req_d109f3''\<rparr>]"

definition USAGE_TREND :: "(string \<times> rat) list" where
  "USAGE_TREND =
     [(''Dec'', dbl (21 / 10)),
      (''Jan'', dbl (13 / 5)),
      (''Feb'', dbl 3),
      (''Mar'', dbl (39 / 10)),
      (''Apr'', dbl (37 / 10)),
      (''May'', dbl (106 / 25))]"

definition REVIEW_PROPOSALS :: "proposal list" where
  "REVIEW_PROPOSALS =
     [\<lparr>pr_id = ''rp1'', pr_kind = PMerge, 
        pr_title = (ldquo @ ''Engineering Manager'' @ rdquo @ '' and '' @ ldquo @ ''EM'' @ rdquo), 
        pr_detail = ''Two entities resolve to the same role across 9 mentions.'', pr_target = ''Entities'', 
        pr_confidence = dbl (91 / 100), pr_raisedAt = ''2 h ago''\<rparr>,
      \<lparr>pr_id = ''rp2'', pr_kind = PSplit, pr_title = (ldquo @ ''Refunds & adjustments'' @ rdquo @ '' by region''), 
        pr_detail = ''EU and US refund rules have diverged enough to warrant separate sub-topics.'', 
        pr_target = ''Operations / Refunds & adjustments'', pr_confidence = dbl (41 / 50), pr_raisedAt = ''1 day ago''\<rparr>,
      \<lparr>pr_id = ''rp3'', pr_kind = PNewTopic, pr_title = ''Chargebacks'', 
        pr_detail = ''14 artifacts in #cs-refunds describe chargebacks with no home in the book.'', pr_target = ''Operations'', 
        pr_confidence = dbl (37 / 50), pr_raisedAt = ''1 day ago''\<rparr>,
      \<lparr>pr_id = ''rp4'', pr_kind = PReclassify, pr_title = (ldquo @ ''Sev-1 escalation path'' @ rdquo), 
        pr_detail = ''Increasingly referenced from Customer; consider cross-filing.'', 
        pr_target = ''Engineering / Incident response'', pr_confidence = dbl (63 / 100), pr_raisedAt = ''3 days ago''\<rparr>,
      \<lparr>pr_id = ''rp5'', pr_kind = PUnfiled, pr_title = ''12 artifacts in #random'', 
        pr_detail = ''Low-signal channel; confirm whether to ingest or exclude.'', 
        pr_target = (''Slack '' @ middot @ '' #random''), pr_confidence = dbl (41 / 100), pr_raisedAt = ''4 days ago''\<rparr>]"

definition AMBIGUITY_ITEMS :: "ambiguity list" where
  "AMBIGUITY_ITEMS =
     [\<lparr>am_id = ''am1'', am_surface = ''EM'', am_container = (''Slack '' @ middot @ '' #incidents''), am_mentions = 9, 
        am_raisedAt = ''9 h ago'', am_candidates = [(''Engineering Manager'', dbl (31 / 50)), (''Engagement Manager'', 
        dbl (3 / 10)), (''Email'', dbl (2 / 25))]\<rparr>,
      \<lparr>am_id = ''am2'', am_surface = ''the console'', am_container = (''Notion '' @ middot @ '' Finance''), 
        am_mentions = 7, am_raisedAt = ''1 day ago'', am_candidates = [(''Billing console'', dbl (11 / 20)), (''Admin console'', 
        dbl (9 / 20))]\<rparr>,
      \<lparr>am_id = ''am3'', am_surface = ''Falcon'', am_container = (''Jira '' @ middot @ '' OPS''), am_mentions = 5, 
        am_raisedAt = ''2 days ago'', am_candidates = [(''Project Falcon'', dbl (71 / 100)), (''Falcon (vendor)'', 
        dbl (29 / 100))]\<rparr>,
      \<lparr>am_id = ''am4'', am_surface = ''Q4'', am_container = (''Notion '' @ middot @ '' Policies''), am_mentions = 4, 
        am_raisedAt = ''2 days ago'', am_candidates = [(''Q4 2025 audit'', dbl (33 / 50)), (''Q4 OKRs'', dbl (17 / 50))]\<rparr>]"

definition connectors_p :: "connector_p list" where
  "connectors_p =
     [\<lparr>cn_id = ''slack'', cn_name = ''Slack'', cn_category = ''Chat'', cn_color = ''#4A154B'', cn_letter = ''S'', 
        cn_popular = True\<rparr>,
      \<lparr>cn_id = ''google-workspace'', cn_name = ''Google Workspace'', cn_category = ''Docs & email'', 
        cn_color = ''#4285F4'', cn_letter = ''G'', cn_popular = True\<rparr>,
      \<lparr>cn_id = ''github'', cn_name = ''GitHub'', cn_category = ''Code'', cn_color = ''#181717'', cn_letter = ''GH'', 
        cn_popular = True\<rparr>,
      \<lparr>cn_id = ''notion'', cn_name = ''Notion'', cn_category = ''Wiki'', cn_color = ''#000000'', cn_letter = ''N'', 
        cn_popular = True\<rparr>,
      \<lparr>cn_id = ''linear'', cn_name = ''Linear'', cn_category = ''Work tracking'', cn_color = ''#5E6AD2'', 
        cn_letter = ''L'', cn_popular = True\<rparr>,
      \<lparr>cn_id = ''jira'', cn_name = ''Jira'', cn_category = ''Work tracking'', cn_color = ''#0052CC'', cn_letter = ''J'', 
        cn_popular = False\<rparr>,
      \<lparr>cn_id = ''confluence'', cn_name = ''Confluence'', cn_category = ''Wiki'', cn_color = ''#172B4D'', 
        cn_letter = ''C'', cn_popular = False\<rparr>,
      \<lparr>cn_id = ''zendesk'', cn_name = ''Zendesk'', cn_category = ''Support'', cn_color = ''#03363D'', cn_letter = ''Z'', 
        cn_popular = False\<rparr>,
      \<lparr>cn_id = ''intercom'', cn_name = ''Intercom'', cn_category = ''Support'', cn_color = ''#1F8DED'', cn_letter = ''I'', 
        cn_popular = False\<rparr>,
      \<lparr>cn_id = ''salesforce'', cn_name = ''Salesforce'', cn_category = ''CRM'', cn_color = ''#00A1E0'', 
        cn_letter = ''SF'', cn_popular = False\<rparr>,
      \<lparr>cn_id = ''hubspot'', cn_name = ''HubSpot'', cn_category = ''CRM'', cn_color = ''#FF7A59'', cn_letter = ''H'', 
        cn_popular = False\<rparr>,
      \<lparr>cn_id = ''gong'', cn_name = ''Gong'', cn_category = ''Meetings'', cn_color = ''#8039DF'', cn_letter = ''GO'', 
        cn_popular = False\<rparr>,
      \<lparr>cn_id = ''granola'', cn_name = ''Granola'', cn_category = ''Meetings'', cn_color = ''#FFB800'', cn_letter = ''GR'', 
        cn_popular = False\<rparr>,
      \<lparr>cn_id = ''pagerduty'', cn_name = ''PagerDuty'', cn_category = ''Observability'', cn_color = ''#06AC38'', 
        cn_letter = ''P'', cn_popular = False\<rparr>,
      \<lparr>cn_id = ''sentry'', cn_name = ''Sentry'', cn_category = ''Observability'', cn_color = ''#362D59'', 
        cn_letter = ''SE'', cn_popular = False\<rparr>,
      \<lparr>cn_id = ''datadog'', cn_name = ''Datadog'', cn_category = ''Observability'', cn_color = ''#632CA6'', 
        cn_letter = ''D'', cn_popular = False\<rparr>,
      \<lparr>cn_id = ''snowflake'', cn_name = ''Snowflake'', cn_category = ''Data warehouse'', cn_color = ''#29B5E8'', 
        cn_letter = ''SN'', cn_popular = False\<rparr>,
      \<lparr>cn_id = ''drive'', cn_name = ''Google Drive'', cn_category = ''Files'', cn_color = ''#0F9D58'', cn_letter = ''D'', 
        cn_popular = False\<rparr>,
      \<lparr>cn_id = ''dropbox'', cn_name = ''Dropbox'', cn_category = ''Files'', cn_color = ''#0061FF'', cn_letter = ''DB'', 
        cn_popular = False\<rparr>,
      \<lparr>cn_id = ''workday'', cn_name = ''Workday'', cn_category = ''HR'', cn_color = ''#F38B00'', cn_letter = ''W'', 
        cn_popular = False\<rparr>]"

definition regions_p :: "region_p list" where
  "regions_p =
     [\<lparr>rg_id = ''us-east'', rg_country = ''United States'', rg_city = ''Washington DC'', rg_label = ''us-east'', 
        rg_flag = ([CHR 0xF0, CHR 0x9F, CHR 0x87, CHR 0xBA] @ [CHR 0xF0, CHR 0x9F, CHR 0x87, CHR 0xB8]), 
        rg_recommended = True\<rparr>,
      \<lparr>rg_id = ''us-west'', rg_country = ''United States'', rg_city = ''San Francisco'', rg_label = ''us-west'', 
        rg_flag = ([CHR 0xF0, CHR 0x9F, CHR 0x87, CHR 0xBA] @ [CHR 0xF0, CHR 0x9F, CHR 0x87, CHR 0xB8]), 
        rg_recommended = False\<rparr>,
      \<lparr>rg_id = ''eu-central'', rg_country = ''European Union'', rg_city = ''Frankfurt'', rg_label = ''eu-central'', 
        rg_flag = ([CHR 0xF0, CHR 0x9F, CHR 0x87, CHR 0xAA] @ [CHR 0xF0, CHR 0x9F, CHR 0x87, CHR 0xBA]), 
        rg_recommended = False\<rparr>,
      \<lparr>rg_id = ''eu-west'', rg_country = ''United Kingdom'', rg_city = ''London'', rg_label = ''eu-west'', 
        rg_flag = ([CHR 0xF0, CHR 0x9F, CHR 0x87, CHR 0xAC] @ [CHR 0xF0, CHR 0x9F, CHR 0x87, CHR 0xA7]), 
        rg_recommended = False\<rparr>,
      \<lparr>rg_id = ''asia-south'', rg_country = ''India'', rg_city = ''Mumbai'', rg_label = ''asia-south'', 
        rg_flag = ([CHR 0xF0, CHR 0x9F, CHR 0x87, CHR 0xAE] @ [CHR 0xF0, CHR 0x9F, CHR 0x87, CHR 0xB3]), 
        rg_recommended = False\<rparr>,
      \<lparr>rg_id = ''asia-east'', rg_country = ''Japan'', rg_city = ''Tokyo'', rg_label = ''asia-east'', rg_flag = ([CHR 0xF0, 
        CHR 0x9F, CHR 0x87, CHR 0xAF] @ [CHR 0xF0, CHR 0x9F, CHR 0x87, CHR 0xB5]), rg_recommended = False\<rparr>,
      \<lparr>rg_id = ''asia-southeast'', rg_country = ''Singapore'', rg_city = ''Singapore'', rg_label = ''asia-southeast'', 
        rg_flag = ([CHR 0xF0, CHR 0x9F, CHR 0x87, CHR 0xB8] @ [CHR 0xF0, CHR 0x9F, CHR 0x87, CHR 0xAC]), 
        rg_recommended = False\<rparr>,
      \<lparr>rg_id = ''oceania'', rg_country = ''Australia'', rg_city = ''Sydney'', rg_label = ''oceania'', 
        rg_flag = ([CHR 0xF0, CHR 0x9F, CHR 0x87, CHR 0xA6] @ [CHR 0xF0, CHR 0x9F, CHR 0x87, CHR 0xBA]), 
        rg_recommended = False\<rparr>]"

end
