(* ===== verification/Onboarding_Proto.thy ===== *)
theory Onboarding_Proto
  imports Onboarding Mock_Admin Book_Nav
begin

text \<open>
  The prototype's onboarding (\<open>prototype/app/onboarding\<close>, \<open>prototype/components/onboarding\<close>). Its
  step registry, shell and form are those of the product (theory \<open>Onboarding\<close>); here are its own
  state, its pages with the workspace address made from the organization's name, and its top bar.

  The theorem: the address made from any name is a slug, and making it again changes nothing.
\<close>

section \<open>The flow\<close>

record flow_p =
  fl_orgName :: string
  fl_orgSize :: "string option"
  fl_useCases :: "string list"
  fl_region :: string

text \<open>The provider's default with the layout's \<open>initial\<close>.\<close>

definition flow_p_init :: flow_p where
  "flow_p_init =
     \<lparr>fl_orgName = orgNameFromEmail (mu_email mockUser), fl_orgSize = None, fl_useCases = [], fl_region = ''us-east''\<rparr>"

datatype flow_event =
    FOrgName string
  | FOrgSize string
  | FUseCase string
  | FRegion string
  | FNext
  | FBack

definition toggleUseCase_p :: "string \<Rightarrow> flow_p \<Rightarrow> flow_p" where
  "toggleUseCase_p i s =
     s\<lparr>fl_useCases :=
         (if i \<in> set (fl_useCases s) then filter (\<lambda>x. x \<noteq> i) (fl_useCases s) else fl_useCases s @ [i])\<rparr>"

fun flow_step :: "string \<Rightarrow> flow_event \<Rightarrow> flow_p \<Rightarrow> thrown + (flow_p \<times> effect list)" where
  "flow_step pathname (FOrgName v) s = Inr (s\<lparr>fl_orgName := v\<rparr>, [])"
| "flow_step pathname (FOrgSize i) s =
     Inr (s\<lparr>fl_orgSize := (if fl_orgSize s = Some i then None else Some i)\<rparr>, [])"
| "flow_step pathname (FUseCase i) s = Inr (toggleUseCase_p i s, [])"
| "flow_step pathname (FRegion i) s = Inr (s\<lparr>fl_region := i\<rparr>, [])"
| "flow_step pathname FNext s =
     (case push_path (nextPath pathname) of Inl e \<Rightarrow> Inl e | Inr es \<Rightarrow> Inr (s, es))"
| "flow_step pathname FBack s =
     (case push_path (prevPath pathname) of Inl e \<Rightarrow> Inl e | Inr es \<Rightarrow> Inr (s, es))"

section \<open>The workspace address\<close>

definition slug_char :: "char \<Rightarrow> bool" where
  "slug_char c \<longleftrightarrow> is_lower c \<or> is_digit c"

text \<open>\<open>s.replace(/[^a-z0-9]+/g, "-")\<close>.\<close>

function dashes :: "string \<Rightarrow> string" where
  "dashes [] = []"
| "dashes (c # s) =
     (if slug_char c then c # dashes s else CHR ''-'' # dashes (dropWhile (\<lambda>d. \<not> slug_char d) s))"
  by pat_completeness auto
termination
  by (relation "measure length") (auto simp: le_imp_less_Suc length_dropWhile_le)

text \<open>\<open>s.replace(/^-+|-+$/g, "")\<close>.\<close>

definition strip_dashes :: "string \<Rightarrow> string" where
  "strip_dashes s = rev (dropWhile (\<lambda>c. c = CHR ''-'') (rev (dropWhile (\<lambda>c. c = CHR ''-'') s)))"

definition slugify :: "string \<Rightarrow> string" where
  "slugify s = strip_dashes (dashes (trim (toLowerCase s)))"

section \<open>Pages\<close>

definition canContinue_p :: "flow_p \<Rightarrow> bool" where
  "canContinue_p s \<longleftrightarrow> 0 < js_length (trim (fl_orgName s))"

definition OrganizationPage_p :: "string \<Rightarrow> flow_p \<Rightarrow> flow_event node" where
  "OrganizationPage_p pathname s =
     OnboardingShell pathname [] [OnboardingContinue FNext (\<not> canContinue_p s)]
       [El ''div'' []
         [Field ''Organization name'' (Some ''org'')
            [Txt (''Your workspace will live at hivebook.co/'' @ str_or (slugify (fl_orgName s)) ''your-workspace'')] []
            [El ''Input'' [AStr ''id'' ''org'', AStr ''value'' (fl_orgName s), OnValue ''change'' FOrgName] []],
          Field ''Company size'' None [] [] [OptionGrid companySizes (\<lambda>i. fl_orgSize s = Some i) FOrgSize]]]"

definition UseCasePage_p :: "string \<Rightarrow> flow_p \<Rightarrow> flow_event node" where
  "UseCasePage_p pathname s =
     OnboardingShell pathname [OnboardingBack FBack] [OnboardingContinue FNext False]
       [OptionGrid useCases (\<lambda>i. i \<in> set (fl_useCases s)) FUseCase]"

definition REGION_OPTIONS_p :: "Option_item list" where
  "REGION_OPTIONS_p =
     map (\<lambda>r. \<lparr>opt_id = rg_id r, opt_label = rg_country r,
               opt_detail = Some (rg_city r @ '' '' @ middot @ '' '' @ rg_label r @
                 (if rg_recommended r then '' '' @ middot @ '' Recommended'' else [])), opt_leading = None\<rparr>)
       (sort_key (\<lambda>r. if rg_recommended r then 0 else (1::nat)) regions_p)"

definition RegionPage_p :: "string \<Rightarrow> flow_p \<Rightarrow> flow_event node" where
  "RegionPage_p pathname s =
     OnboardingShell pathname [OnboardingBack FBack] [OnboardingContinue FNext False]
       [OptionGrid REGION_OPTIONS_p (\<lambda>i. fl_region s = i) FRegion]"

definition NEXT_p :: "(string \<times> string \<times> string) list" where
  "NEXT_p =
     [(''Connect your first source'', ''Slack, Notion, GitHub'' @ ellipsis @ '' ingestion starts the moment you do.'', ''/sources''),
      (''Set chapter access'', ''Decide who can read what.'', ''#''),
      (''Invite your team'', ''Bring the people who'' @ squote @ ''ll use it.'', ''#'')]"

definition CompletePage_p :: "string \<Rightarrow> flow_p \<Rightarrow> flow_event node" where
  "CompletePage_p pathname s =
     (let n = length (fl_useCases s)
      in OnboardingShell pathname []
           [El ''Button'' [] [El ''Link'' [AStr ''href'' ''/book''] [Txt ''Open your workspace'']]]
           [El ''p'' []
              [Txt (str_or (fl_orgName s) ''Your workspace'' @ '' is ready'' @
                    (if n > 0 then '', with '' @ show_nat n @ '' area'' @ (if n > 1 then ''s'' else []) @ '' to organize'' else []) @
                    ''. Connect a source to start filling it in.'')],
            El ''div'' [] (map (\<lambda>(t, d, h). El ''Link'' [AStr ''key'' t, AStr ''href'' h]
              [El ''p'' [] [Txt t], El ''p'' [] [Txt d]]) NEXT_p)])"

text \<open>The layout: the seeded flow, the top bar and the width of the progress line in per cent.\<close>

definition OnboardingLayout_p :: "string \<Rightarrow> flow_p \<times> rat" where
  "OnboardingLayout_p pathname = (flow_p_init, js_mul (progress pathname) 100)"

section \<open>Top bar\<close>

definition badge :: "string \<Rightarrow> 'a node" where
  "badge text = El ''span'' [] [Txt text]"

definition WorkspaceSwitcher :: "'a node" where
  "WorkspaceSwitcher =
     El ''DropdownMenu'' []
       [El ''DropdownMenuTrigger'' [] [badge (take 1 (mo_name mockOrg)), El ''span'' [] [Txt (mo_name mockOrg)]],
        El ''DropdownMenuContent'' []
          (El ''DropdownMenuLabel'' [] [Txt ''Workspaces''] #
           map (\<lambda>t. El ''DropdownMenuItem'' [AStr ''key'' (mt_slug t)]
                     ([badge (take 1 (mt_name t)), El ''span'' [] [Txt (mt_name t)], El ''span'' [] [Txt (mt_role t)]] @
                      shown_if (mt_slug t = mo_slug mockOrg) [El ''RiCheckLine'' [] []])) mockTenants @
           [El ''DropdownMenuSeparator'' [] [], El ''DropdownMenuItem'' [] [Txt ''Create workspace''],
            El ''DropdownMenuItem'' [] [Txt ''Join workspace'']])]"

definition topbar_profile :: "'a node" where
  "topbar_profile =
     El ''DropdownMenu'' []
       [El ''DropdownMenuTrigger'' [] [Txt (mu_initial mockUser)],
        El ''DropdownMenuContent'' []
          [El ''div'' [] [El ''p'' [] [Txt (mu_name mockUser)], El ''p'' [] [Txt (mu_email mockUser)]],
           El ''DropdownMenuSeparator'' [] [], El ''DropdownMenuItem'' [] [Txt ''Settings''],
           El ''DropdownMenuSeparator'' [] [],
           El ''DropdownMenuItem'' [] [El ''Link'' [AStr ''href'' ''/signed-out''] [Txt ''Sign out'']]]]"

definition OnboardingTopBar_p :: "'a node list \<Rightarrow> 'a node" where
  "OnboardingTopBar_p stylePicker =
     El ''header'' []
       [El ''div'' [] [El ''Logo'' [AStr ''variant'' ''mark''] [], El ''span'' [] [Txt ''/''], WorkspaceSwitcher],
        El ''div'' [] (stylePicker @ [topbar_profile])]"

section \<open>Slugs\<close>

text \<open>Lower-case letters and digits, with single dashes between them.\<close>

definition is_slug :: "string \<Rightarrow> bool" where
  "is_slug s \<longleftrightarrow>
     list_all (\<lambda>c. slug_char c \<or> c = CHR ''-'') s \<and>
     successively (\<lambda>a b. slug_char a \<or> slug_char b) s \<and>
     (s \<noteq> [] \<longrightarrow> slug_char (hd s) \<and> slug_char (last s))"

lemma dash_not_slug [simp]: "\<not> slug_char (CHR ''-'')"
  by code_simp

lemma slug_char_plain:
  assumes "slug_char c \<or> c = CHR ''-''"
  shows "ascii_lower_char c = c" "\<not> is_space c"
proof -
  have "48 \<le> (of_char c :: nat) \<and> of_char c \<le> (57 :: nat) \<or> 97 \<le> (of_char c :: nat) \<or> of_char c = (45 :: nat)"
    using assms by (auto simp: slug_char_def is_lower_def is_digit_def)
  then show "ascii_lower_char c = c" "\<not> is_space c"
    by (auto simp: ascii_lower_char_def is_space_def Let_def)
qed

lemma dropWhile_slug_hd:
  "dropWhile (\<lambda>d. \<not> slug_char d) s \<noteq> [] \<Longrightarrow> slug_char (hd (dropWhile (\<lambda>d. \<not> slug_char d) s))"
  using hd_dropWhile by metis

lemma hd_dashes: "s \<noteq> [] \<Longrightarrow> dashes s \<noteq> [] \<and> hd (dashes s) = (if slug_char (hd s) then hd s else CHR ''-'')"
  by (cases s) auto

lemma dashes_Nil_iff: "dashes s = [] \<longleftrightarrow> s = []"
  by (cases s) auto

lemma dashes_shape:
  "list_all (\<lambda>c. slug_char c \<or> c = CHR ''-'') (dashes s) \<and> successively (\<lambda>a b. slug_char a \<or> slug_char b) (dashes s)"
proof (induction s rule: dashes.induct)
  case (2 c s)
  show ?case
  proof (cases "slug_char c")
    case True
    with 2(1) show ?thesis by (auto simp: successively_Cons)
  next
    case False
    let ?r = "dropWhile (\<lambda>d. \<not> slug_char d) s"
    have "dashes ?r \<noteq> [] \<longrightarrow> slug_char (hd (dashes ?r))"
      using hd_dashes[of ?r] dropWhile_slug_hd[of s] by (auto simp: dashes_Nil_iff)
    with False 2(2) show ?thesis by (auto simp: successively_Cons)
  qed
qed simp

lemma strip_dashes_front: "\<exists>v. dropWhile (\<lambda>c. c = CHR ''-'') s = strip_dashes s @ v"
proof -
  let ?d = "dropWhile (\<lambda>c. c = CHR ''-'') s"
  have "rev ?d = takeWhile (\<lambda>c. c = CHR ''-'') (rev ?d) @ dropWhile (\<lambda>c. c = CHR ''-'') (rev ?d)" by simp
  then have "?d = strip_dashes s @ rev (takeWhile (\<lambda>c. c = CHR ''-'') (rev ?d))"
    unfolding strip_dashes_def by (metis rev_append rev_rev_ident)
  then show ?thesis by blast
qed

lemma strip_dashes_sub: "\<exists>u v. s = u @ strip_dashes s @ v"
  using strip_dashes_front[of s] by (metis takeWhile_dropWhile_id)

lemma strip_dashes_ends:
  assumes "strip_dashes s \<noteq> []"
  shows "hd (strip_dashes s) \<noteq> CHR ''-''" "last (strip_dashes s) \<noteq> CHR ''-''"
proof -
  let ?d = "dropWhile (\<lambda>c. c = CHR ''-'') s"
  have r: "strip_dashes s = rev (dropWhile (\<lambda>c. c = CHR ''-'') (rev ?d))" by (simp add: strip_dashes_def)
  show "last (strip_dashes s) \<noteq> CHR ''-''"
    using assms hd_dropWhile[of "\<lambda>c. c = CHR ''-''" "rev ?d"] unfolding r last_rev by (metis rev_is_Nil_conv)
  have "?d \<noteq> []" using assms strip_dashes_front[of s] by (metis append_is_Nil_conv)
  then have d: "hd ?d \<noteq> CHR ''-''" by (rule hd_dropWhile)
  obtain v where "?d = strip_dashes s @ v" using strip_dashes_front by blast
  with assms have "hd (strip_dashes s) = hd ?d" by (metis hd_append2)
  with d show "hd (strip_dashes s) \<noteq> CHR ''-''" by simp
qed

lemma slugify_is_slug: "is_slug (slugify s)"
proof -
  let ?d = "dashes (trim (toLowerCase s))" and ?t = "slugify s"
  obtain u v where uv: "?d = u @ ?t @ v" using strip_dashes_sub[of ?d] by (auto simp: slugify_def)
  from dashes_shape[of "trim (toLowerCase s)"] have "list_all (\<lambda>c. slug_char c \<or> c = CHR ''-'') (u @ ?t @ v)"
    "successively (\<lambda>a b. slug_char a \<or> slug_char b) (u @ ?t @ v)" unfolding uv by auto
  then have all: "list_all (\<lambda>c. slug_char c \<or> c = CHR ''-'') ?t"
    and succ: "successively (\<lambda>a b. slug_char a \<or> slug_char b) ?t"
    by (auto simp: successively_append_iff)
  have "slug_char (hd ?t) \<and> slug_char (last ?t)" if "?t \<noteq> []"
    using that all strip_dashes_ends[of ?d] by (auto simp: slugify_def list_all_iff)
  with all succ show ?thesis by (simp add: is_slug_def)
qed

lemma dropWhile_hd: "(s \<noteq> [] \<longrightarrow> \<not> P (hd s)) \<Longrightarrow> dropWhile P s = s"
  by (cases s) auto

lemma strip_ends:
  assumes "s \<noteq> [] \<longrightarrow> \<not> P (hd s) \<and> \<not> P (last s)"
  shows "rev (dropWhile P (rev (dropWhile P s))) = s"
proof -
  have "dropWhile P s = s" "dropWhile P (rev s) = rev s"
    using assms by (auto intro: dropWhile_hd simp: hd_rev)
  then show ?thesis by simp
qed

lemma dashes_id:
  "list_all (\<lambda>c. slug_char c \<or> c = CHR ''-'') s \<Longrightarrow> successively (\<lambda>a b. slug_char a \<or> slug_char b) s \<Longrightarrow> dashes s = s"
proof (induction s)
  case (Cons c s)
  show ?case
  proof (cases "slug_char c")
    case True
    with Cons show ?thesis by (auto simp: successively_Cons)
  next
    case False
    then have "dropWhile (\<lambda>d. \<not> slug_char d) s = s"
      using Cons.prems(2) by (intro dropWhile_hd) (auto simp: successively_Cons)
    with False Cons show ?thesis by (auto simp: successively_Cons)
  qed
qed simp

text \<open>
  C36. The workspace address made from any organization name is empty or a slug: lower-case letters and
  digits, single dashes between them, none at the ends. A slug is kept as it is, so making the
  address of an address changes nothing, and the page never shows an empty address.
\<close>

theorem slugify_canonical:
  "is_slug (slugify s) \<and> (is_slug t \<longleftrightarrow> slugify t = t) \<and> slugify (slugify s) = slugify s \<and>
   str_or (slugify s) ''your-workspace'' \<noteq> []"
proof -
  have id: "slugify t = t" if t: "is_slug t" for t
  proof -
    have all: "\<forall>c \<in> set t. slug_char c \<or> c = CHR ''-''" using t by (simp add: is_slug_def list_all_iff)
    have low: "toLowerCase t = t"
      unfolding toLowerCase_def using all slug_char_plain(1) by (intro map_idI) auto
    have "trim t = t"
      unfolding trim_def using all slug_char_plain(2) by (intro strip_ends) (auto simp: is_slug_def)
    moreover have "dashes t = t" using t by (intro dashes_id) (auto simp: is_slug_def)
    moreover have "strip_dashes t = t"
      unfolding strip_dashes_def by (rule strip_ends) (use t in \<open>auto simp: is_slug_def\<close>)
    ultimately show ?thesis by (simp add: slugify_def low)
  qed
  have "is_slug t" if "slugify t = t" using slugify_is_slug[of t] that by simp
  with id slugify_is_slug[of s] show ?thesis by auto
qed

end
