(* ===== verification/Admin_Pages.thy ===== *)
theory Admin_Pages
  imports Mock_Admin Book_Pages Auth_Funnel "HOL-Library.Sublist"
begin

text \<open>
  The prototype's admin pages (\<open>prototype/app/(app)\<close>: \<open>members\<close>, \<open>access\<close>, \<open>audit\<close>, \<open>usage\<close>,
  \<open>review\<close>, \<open>entities\<close>, \<open>entities/ambiguity\<close>, \<open>sources\<close>, \<open>settings\<close> and \<open>account\<close>) over the data
  of \<open>Mock_Admin\<close>. A page takes the arrays it reads as arguments, so that the theorems hold for all
  of them; the source reads the constants of \<open>Mock_Admin\<close> and \<open>Mock_Book\<close>.

  The theorems: percentages stay between 0 and 100 although they are computed in doubles, and the
  month with the largest spend fills its bar; the audit filters partition the events; a candidate
  is marked as likely exactly when no other scores higher; invitations and templates are only
  created with a name; and where the two tables of access rights disagree.
\<close>

definition plain_toast :: "string \<Rightarrow> string \<Rightarrow> effect" where
  "plain_toast title description = Toast ''message'' title description"

definition ConnectorIcon :: "string \<Rightarrow> string \<Rightarrow> 'a node" where
  "ConnectorIcon color letter = El ''span'' [AStr ''backgroundColor'' color, ABool ''aria-hidden'' True] [Txt letter]"

section \<open>Members\<close>

definition ROLE_TONE :: "role_p \<Rightarrow> Tone" where
  "ROLE_TONE r = (case r of Owner \<Rightarrow> ToneInfo | Admin \<Rightarrow> ToneInfo | MemberRole \<Rightarrow> ToneMuted | Viewer \<Rightarrow> ToneMuted)"

definition STATUS_p :: "member_status \<Rightarrow> Tone \<times> string" where
  "STATUS_p s =
     (case s of Active \<Rightarrow> (ToneSuccess, ''Active'') | Invited \<Rightarrow> (ToneWarning, ''Invited'')
      | Suspended \<Rightarrow> (ToneDestructive, ''Suspended''))"

record invite =
  iv_open :: bool
  iv_email :: string
  iv_role :: role_p

definition invite_init :: invite where
  "invite_init = \<lparr>iv_open = False, iv_email = [], iv_role = MemberRole\<rparr>"

datatype invite_event = IVOpen bool | IVEmail string | IVKey string | IVRole role_p | IVSend | IVExport

definition sendInvite :: "invite \<Rightarrow> invite \<times> effect list" where
  "sendInvite s =
     (if trim (iv_email s) = [] then (s, [])
      else (invite_init,
            [Toast ''success'' ''Invitation sent'' (iv_email s @ '' '' @ middot @ '' '' @ ROLE_LABEL (iv_role s))]))"

fun members_step :: "invite_event \<Rightarrow> invite \<Rightarrow> invite \<times> effect list" where
  "members_step (IVOpen b) s = (s\<lparr>iv_open := b\<rparr>, [])"
| "members_step (IVEmail t) s = (s\<lparr>iv_email := t\<rparr>, [])"
| "members_step (IVKey k) s = (if k = ''Enter'' then sendInvite s else (s, []))"
| "members_step (IVRole r) s = (s\<lparr>iv_role := r\<rparr>, [])"
| "members_step IVSend s = sendInvite s"
| "members_step IVExport s = (s, [plain_toast ''Preparing export'' ''We'll email a link when it's ready.''])"

definition invite_dialog :: "invite \<Rightarrow> invite_event node" where
  "invite_dialog s =
     El ''Dialog'' [ABool ''open'' (iv_open s), OnFlag ''openChange'' IVOpen]
       [El ''DialogDescription'' [] [Txt (''They'll get an email to join '' @ mo_name mockOrg @ ''. Role can be changed later.'')],
        El ''Input'' [AStr ''id'' ''invite-email'', AStr ''value'' (iv_email s), OnValue ''change'' IVEmail,
                      OnValue ''keydown'' IVKey] [],
        El ''Select'' [AStr ''value'' (ROLE_LABEL (iv_role s))]
          (map (\<lambda>r. El ''SelectItem'' [On ''click'' (IVRole r)] [Txt (ROLE_LABEL r)]) [Admin, MemberRole, Viewer]),
        El ''Button'' [On ''click'' (IVOpen False)] [Txt ''Cancel''],
        El ''Button'' [On ''click'' IVSend, ABool ''disabled'' (trim (iv_email s) = [])] [Txt ''Send invite'']]"

definition member_row :: "member_p \<Rightarrow> 'a node" where
  "member_row m =
     Row_p (Some ''#'')
       [Td [Avatar (mp_initial m), El ''span'' [] [Txt (mp_name m)], El ''span'' [] [Txt (mp_email m)]],
        Td [Tag (ROLE_TONE (mp_role m)) [Txt (ROLE_LABEL (mp_role m))]],
        Td [Txt (if mp_sso m then ''SSO'' else ''Manual'')],
        Td [Tag (fst (STATUS_p (mp_status m))) [Txt (snd (STATUS_p (mp_status m)))]],
        Td [Txt (mp_lastActive m)]]"

definition member_stats :: "member_p list \<Rightarrow> (string \<times> string \<times> string option) list" where
  "member_stats ms =
     [(''Members'', show_nat (length ms), Some (show_nat (count_if (\<lambda>m. mp_status m = Active) ms) @ '' active'')),
      (''Admins'', show_nat (count_if (\<lambda>m. mp_role m = Owner \<or> mp_role m = Admin) ms), Some ''owner + admin''),
      (''Via SSO'', show_nat (count_if mp_sso ms), Some ''Okta SCIM''),
      (''Pending'', show_nat (count_if (\<lambda>m. mp_status m = Invited) ms), Some ''invitations'')]"

definition MembersPage_p :: "member_p list \<Rightarrow> invite \<Rightarrow> invite_event node" where
  "MembersPage_p ms s =
     El ''div'' []
       [El ''ChromeActions'' []
          [El ''Button'' [On ''click'' IVExport] [Txt ''Export''],
           El ''Button'' [On ''click'' (IVOpen True)] [Txt ''Invite member'']],
        invite_dialog s,
        PageShell
          [PageHeading ''Members'' (Some ''Who can reach the workspace, the role they hold, and how they're provisioned.''),
           StatBar (member_stats ms),
           Section_p ''People'' (Some (length ms))
             [TableCard (HeadRow (map Th [''Member'', ''Role'', ''Provisioning'', ''Status'', ''Last active'']) # map member_row ms)]]]"

section \<open>Access\<close>

definition templateName :: "access_template list \<Rightarrow> string \<Rightarrow> string" where
  "templateName ts i = nullish (map_option at_name (find (\<lambda>t. at_id t = i) ts)) i"

record template_form =
  tf_open :: bool
  tf_name :: string
  tf_description :: string

definition template_init :: template_form where
  "template_init = \<lparr>tf_open = False, tf_name = [], tf_description = []\<rparr>"

datatype template_event = TFOpen bool | TFName string | TFDescription string | TFCreate

fun access_step :: "template_event \<Rightarrow> template_form \<Rightarrow> template_form \<times> effect list" where
  "access_step (TFOpen b) s = (s\<lparr>tf_open := b\<rparr>, [])"
| "access_step (TFName t) s = (s\<lparr>tf_name := t\<rparr>, [])"
| "access_step (TFDescription t) s = (s\<lparr>tf_description := t\<rparr>, [])"
| "access_step TFCreate s =
     (if trim (tf_name s) = [] then (s, [])
      else (template_init,
            [Toast ''success'' ''Template created'' (tf_name s @ '' '' @ emdash @ '' grant chapters next.'')]))"

definition template_dialog :: "template_form \<Rightarrow> template_event node" where
  "template_dialog s =
     El ''Dialog'' [ABool ''open'' (tf_open s), OnFlag ''openChange'' TFOpen]
       [El ''Input'' [AStr ''id'' ''tpl-name'', AStr ''value'' (tf_name s), OnValue ''change'' TFName] [],
        El ''Textarea'' [AStr ''id'' ''tpl-desc'', AStr ''value'' (tf_description s), OnValue ''change'' TFDescription] [],
        El ''Button'' [On ''click'' (TFOpen False)] [Txt ''Cancel''],
        El ''Button'' [On ''click'' TFCreate, ABool ''disabled'' (trim (tf_name s) = [])] [Txt ''Create template'']]"

definition chapter_access_row :: "corpus \<Rightarrow> access_template list \<Rightarrow> chapter_access \<Rightarrow> 'a node" where
  "chapter_access_row c ts ca =
     Row_p (Some ''#'')
       [Td (shown_if (ca_restricted ca) [El ''RiLock2Line'' [] []] @
            [El ''span'' [] [Txt (nullish (map_option be_title (getEntry c (ca_chapterId ca))) (ca_chapterId ca))]]),
        Td [Tag (if ca_restricted ca then ToneWarning else ToneMuted)
              [Txt (if ca_restricted ca then ''Restricted'' else ''All members'')]],
        Td (map (\<lambda>t. Tag ToneMuted [Txt (templateName ts t)]) (ca_templates ca))]"

definition template_row :: "access_template \<Rightarrow> 'a node" where
  "template_row t =
     Row_p (Some ''#'')
       [Td [Txt (at_name t)], Td [Txt (at_description t)],
        Num (case at_chapters t of AllChapters \<Rightarrow> ''All'' | Chapters cs \<Rightarrow> show_nat (length cs)),
        Num (show_nat (at_members t))]"

definition AccessPage :: "corpus \<Rightarrow> access_template list \<Rightarrow> chapter_access list \<Rightarrow> template_form \<Rightarrow> template_event node" where
  "AccessPage c ts cas s =
     El ''div'' []
       [El ''ChromeActions'' [] [El ''Button'' [On ''click'' (TFOpen True)] [Txt ''New template'']],
        template_dialog s,
        PageShell
          [PageHeading ''Access'' (Some ''The book is shared by default. Chapters are the only ACL boundary; templates grant them to groups.''),
           StatBar
             [(''Chapters'', show_nat (length cas), Some ''access-controlled''),
              (''Restricted'', show_nat (count_if ca_restricted cas), Some ''not all-members''),
              (''Templates'', show_nat (length ts), Some ''personas''), (''Default'', ''All'', Some ''members can read'')],
           Section_p ''Chapters'' (Some (length cas))
             [TableCard (HeadRow (map Th [''Chapter'', ''Scope'', ''Granted via'']) # map (chapter_access_row c ts) cas)],
           Section_p ''Access templates'' (Some (length ts))
             [TableCard (HeadRow (map Th [''Template'', ''Description'', ''Chapters'', ''Members'']) # map template_row ts)]]]"

section \<open>Audit log\<close>

definition KIND :: "audit_kind \<Rightarrow> Tone \<times> string" where
  "KIND k =
     (case k of KRead \<Rightarrow> (ToneMuted, ''Read'') | KWrite \<Rightarrow> (ToneInfo, ''Write'') | KAdmin \<Rightarrow> (ToneWarning, ''Admin'')
      | KAuth \<Rightarrow> (ToneSuccess, ''Auth''))"

text \<open>\<open>None\<close> is the filter "all".\<close>

definition AUDIT_FILTERS :: "audit_kind option list" where
  "AUDIT_FILTERS = [None, Some KRead, Some KWrite, Some KAdmin, Some KAuth]"

datatype audit_event_ui = AFilter "audit_kind option" | AExport

fun audit_step_p :: "audit_event_ui \<Rightarrow> audit_kind option \<Rightarrow> audit_kind option \<times> effect list" where
  "audit_step_p (AFilter f) s = (f, [])"
| "audit_step_p AExport s =
     (s, [plain_toast ''Preparing export'' (''Filtered audit events '' @ middot @ '' CSV. We'll email a link.'')])"

definition audit_shown :: "audit_kind option \<Rightarrow> audit_event_p list \<Rightarrow> audit_event_p list" where
  "audit_shown f es = (case f of None \<Rightarrow> es | Some k \<Rightarrow> filter (\<lambda>e. ae_kind e = k) es)"

definition audit_count :: "audit_kind \<Rightarrow> audit_event_p list \<Rightarrow> nat" where
  "audit_count k es = length (filter (\<lambda>e. ae_kind e = k) es)"

definition audit_row_p :: "audit_event_p \<Rightarrow> 'a node" where
  "audit_row_p e =
     Row_p None
       [Td [Txt (ae_time e)], Td [Txt (ae_actor e)],
        Td [El ''span'' [] [Txt (ae_action e)], El ''span'' [] [Txt (ae_target e)]],
        Td [Tag (fst (KIND (ae_kind e))) [Txt (snd (KIND (ae_kind e)))]], Td [Txt (ae_correlationId e)]]"

definition AuditPage_p :: "audit_event_p list \<Rightarrow> audit_kind option \<Rightarrow> audit_event_ui node" where
  "AuditPage_p es f =
     El ''div'' []
       [El ''ChromeActions'' [] [El ''Button'' [On ''click'' AExport] [Txt ''Export'']],
        PageShell
          [PageHeading ''Audit log'' (Some ''Every read and privileged write in this workspace, traceable to the change that caused it.''),
           StatBar
             [(''Events today'', show_nat (length es), Some ''all actors''),
              (''Reads'', show_nat (audit_count KRead es), Some ''entry + ask''),
              (''Writes'', show_nat (audit_count KWrite es), Some ''rebuilds + resolves''),
              (''Admin'', show_nat (audit_count KAdmin es), Some ''config changes'')],
           El ''div'' [] (map (\<lambda>g. El ''button'' [On ''click'' (AFilter g), ABool ''selected'' (f = g)]
                                    [Txt (case g of None \<Rightarrow> ''All'' | Some k \<Rightarrow> snd (KIND k))]) AUDIT_FILTERS),
           TableCard (HeadRow (map Th [''Time'', ''Actor'', ''Action'', ''Kind'', ''Correlation'']) #
                      map audit_row_p (audit_shown f es))]]"


section \<open>Usage\<close>

text \<open>
  A number as a template literal prints it, from \<open>10^-6\<close> to \<open>2^53\<close>: the fewest decimals that are
  read back as the same double.
\<close>

definition reads_back :: "rat \<Rightarrow> nat \<Rightarrow> bool" where
  "reads_back x k \<longleftrightarrow> dbl (of_int (Math_round (x * 10 ^ k)) / 10 ^ k) = x"

definition num_decimals :: "rat \<Rightarrow> nat" where
  "num_decimals x = nullish (find (reads_back x) [0..<25]) 25"

definition num_to_string :: "rat \<Rightarrow> string" where
  "num_to_string x =
     (let k = num_decimals x; m = nat (Math_round (x * 10 ^ k))
      in show_nat (m div 10 ^ k) @ (if k = 0 then [] else ''.'' @ pad_zeros k (show_nat (m mod 10 ^ k))))"

definition share :: "nat \<times> nat \<Rightarrow> rat" where
  "share ul = js_div (of_nat (fst ul)) (of_nat (snd ul))"

text \<open>Label, text and share of each limit.\<close>

definition usage_limits :: "usage \<Rightarrow> (string \<times> string \<times> rat) list" where
  "usage_limits u =
     [(''LLM tokens'', fmtCount (fst (us_tokens u)) @ '' / '' @ fmtCount (snd (us_tokens u)), share (us_tokens u)),
      (''Storage'', num_to_string (fst (us_storage u)) @ '' / '' @ num_to_string (snd (us_storage u)) @ '' GB'',
       js_div (fst (us_storage u)) (snd (us_storage u))),
      (''Seats'', show_nat (fst (us_seats u)) @ '' / '' @ show_nat (snd (us_seats u)), share (us_seats u)),
      (''Connector syncs'', fmtCount (fst (us_syncs u)) @ '' / '' @ fmtCount (snd (us_syncs u)), share (us_syncs u))]"

definition limit_row :: "string \<times> string \<times> rat \<Rightarrow> 'a node" where
  "limit_row l =
     (case l of (label, used, s) \<Rightarrow>
        let pct = percent s
        in Row_p None
             [Td [Txt label],
              Td [El ''span'' [] [El ''span'' [AStr ''class'' (if 80 \<le> pct then ''bg-warning'' else ''bg-success''),
                                               AStr ''width'' (show_int pct @ ''%'')] []],
                  El ''span'' [] [Txt (show_int pct @ ''%'')]],
              Td [Txt used]])"

text \<open>\<open>Math.max(...xs)\<close>; of no arguments it is minus infinity, which no page here reaches.\<close>

definition peak :: "(string \<times> rat) list \<Rightarrow> rat" where
  "peak trend = Max (set (map snd trend))"

definition bar_height :: "rat \<Rightarrow> rat \<Rightarrow> int" where
  "bar_height pk tokens = Math_round (js_mul (js_div tokens pk) 100)"

definition trend_bar :: "(string \<times> rat) list \<Rightarrow> nat \<Rightarrow> string \<times> rat \<Rightarrow> 'a node" where
  "trend_bar trend i m =
     El ''div'' [AStr ''key'' (fst m)]
       [El ''span'' [] [Txt (num_to_string (snd m) @ ''M'')],
        El ''span'' [] [El ''span'' [AStr ''class'' (if i = length trend - 1 then ''bg-primary'' else ''bg-muted-foreground/25''),
                                     AStr ''height'' (show_int (bar_height (peak trend) (snd m)) @ ''%'')] []],
        El ''span'' [] [Txt (fst m)]]"

definition UsagePage :: "usage \<Rightarrow> (string \<times> rat) list \<Rightarrow> effect node" where
  "UsagePage u trend =
     El ''div'' []
       [El ''ChromeActions'' []
          [El ''Button'' [On ''click'' (plain_toast ''Preparing export'' (''Usage report '' @ middot @ '' CSV. We'll email a link.''))] [Txt ''Export''],
           El ''Button'' [On ''click'' (plain_toast ''Plans'' ''Compare Scale and Enterprise tiers.'')] [Txt ''Manage plan'']],
        PageShell
          [PageHeading ''Usage'' (Some (''What this workspace is consuming against its contract '' @ emdash @ '' '' @
                                        us_plan u @ '' plan, '' @ us_period u @ ''.'')),
           StatBar
             [(''Plan'', us_plan u, Some (us_period u)),
              (''Tokens'', fmtCount (fst (us_tokens u)), Some (''of '' @ fmtCount (snd (us_tokens u)))),
              (''Storage'', num_to_string (fst (us_storage u)) @ ''GB'', Some (''of '' @ num_to_string (snd (us_storage u)) @ ''GB'')),
              (''Seats'', show_nat (fst (us_seats u)), Some (''of '' @ show_nat (snd (us_seats u))))],
           Section_p ''Token spend'' None
             [El ''div'' [] (map (\<lambda>(i, m). trend_bar trend i m) (enumerate 0 trend)),
              El ''div'' [] [El ''span'' [] [Txt ''Query '', El ''span'' [] [Txt (fmtCount (us_query u))]],
                             El ''span'' [] [Txt ''Build '', El ''span'' [] [Txt (fmtCount (us_build u))]]]],
           Section_p ''Limits'' (Some (length (usage_limits u)))
             [TableCard (HeadRow (map Th [''Resource'', ''Utilization'', ''Used'']) # map limit_row (usage_limits u))]]]"

section \<open>Review\<close>

definition PROPOSAL_KIND :: "proposal_kind \<Rightarrow> Tone \<times> string" where
  "PROPOSAL_KIND k =
     (case k of PMerge \<Rightarrow> (ToneInfo, ''Merge'') | PSplit \<Rightarrow> (ToneInfo, ''Split'')
      | PReclassify \<Rightarrow> (ToneWarning, ''Reclassify'') | PNewTopic \<Rightarrow> (ToneSuccess, ''New topic'')
      | PUnfiled \<Rightarrow> (ToneMuted, ''Unfiled''))"

definition avg_confidence :: "proposal list \<Rightarrow> int" where
  "avg_confidence ps =
     Math_round (js_mul (js_div (foldl (\<lambda>n p. js_add n (pr_confidence p)) 0 ps) (of_nat (length ps))) 100)"

definition proposal_card :: "proposal \<Rightarrow> effect node" where
  "proposal_card p =
     (let k = PROPOSAL_KIND (pr_kind p); pct = percent (pr_confidence p)
      in El ''div'' [AStr ''key'' (pr_id p)]
           [El ''div'' []
              [Tag (fst k) [Txt (snd k)], El ''span'' [] [Txt (pr_title p)],
               El ''span'' [AStr ''class'' (if 75 \<le> pct then ''bg-success'' else ''bg-warning''), AStr ''width'' (show_int pct @ ''%'')] [],
               El ''span'' [] [Txt (show_int pct @ ''%'')], El ''span'' [] [Txt (pr_raisedAt p)]],
            El ''p'' [] [Txt (pr_detail p)],
            El ''div'' []
              [El ''Button'' [On ''click'' (Toast ''success'' ''Approved'' (pr_title p))] [Txt ''Approve''],
               El ''Button'' [On ''click'' (plain_toast ''Dismissed'' (pr_title p))] [Txt ''Dismiss''],
               El ''span'' [] [Txt (pr_target p)]]])"

definition ReviewPage :: "proposal list \<Rightarrow> effect node" where
  "ReviewPage ps =
     El ''div'' []
       [El ''ChromeActions'' []
          [El ''Button'' [On ''click'' (plain_toast ''Approve all'' (show_nat (length ps) @ '' proposals applied to the book.''))]
             [Txt ''Approve all'']],
        PageShell
          [PageHeading ''Review'' (Some (''Lower-confidence decisions the system parked for a human '' @ emdash @
                                         '' structural changes and unfiled artifacts.'')),
           StatBar
             [(''Open'', show_nat (length ps), Some ''proposals''),
              (''Structural'', show_nat (count_if (\<lambda>p. pr_kind p \<noteq> PUnfiled) ps), Some ''splits, merges, topics''),
              (''Unfiled'', show_nat (count_if (\<lambda>p. pr_kind p = PUnfiled) ps), Some ''buckets''),
              (''Avg confidence'', show_int (avg_confidence ps) @ ''%'', Some ''of the queue'')],
           El ''div'' [] (map proposal_card ps)]]"

section \<open>Entities and ambiguity\<close>

definition EntitiesPage :: "corpus \<Rightarrow> ambiguity list \<Rightarrow> effect node" where
  "EntitiesPage c items =
     El ''div'' []
       [El ''ChromeActions'' []
          [El ''Link'' [AStr ''href'' ''/entities/ambiguity''] [Txt ''Ambiguity queue'', Tag ToneWarning [Txt (show_nat (length items))]],
           El ''Button'' [On ''click'' (plain_toast ''Add entity'' ''Define a canonical name, type, and aliases.'')] [Txt ''Add entity'']],
        PageShell
          [PageHeading ''Entities'' (Some (''The things the company cares about '' @ emdash @
                                           '' resolved from the corpus and kept canonical across sources.'')),
           StatBar
             [(''Entities'', show_nat (length (ENTITIES c)), Some ''canonical store''),
              (''Resolved'', show_nat (count_if (\<lambda>e. en_status e = Canonical) (ENTITIES c)), Some ''confident''),
              (''Ambiguous'', show_nat (count_if (\<lambda>e. en_status e = Ambiguous) (ENTITIES c)), Some ''need review''),
              (''Types'', show_nat (length (js_set [] (map en_type (ENTITIES c)))), Some ''distinct'')],
           Section_p ''Entity store'' (Some (length (ENTITIES c)))
             [TableCard (HeadRow (map Th [''Entity'', ''Type'', ''Mentions'', ''Sources'', ''Aliases'', ''Status'']) #
                map (\<lambda>e. Row_p (Some ''#'')
                  [Td [Txt (en_name e)], Td [Tag ToneMuted [Txt (entity_type_name (en_type e))]],
                   Num (show_nat (en_mentions e)), Num (show_nat (en_sources e)), Num (show_nat (en_aliases e)),
                   Td [Tag (if en_status e = Ambiguous then ToneWarning else ToneSuccess)
                         [Txt (if en_status e = Ambiguous then ''Ambiguous'' else ''Canonical'')]]]) (ENTITIES c))]]]"

definition isTop :: "ambiguity \<Rightarrow> string \<times> rat \<Rightarrow> bool" where
  "isTop item c \<longleftrightarrow> snd c = peak (am_candidates item)"

definition candidate_row :: "ambiguity \<Rightarrow> string \<times> rat \<Rightarrow> effect node" where
  "candidate_row item c =
     El ''div'' [AStr ''key'' (fst c)]
       [El ''span'' [] (Txt (fst c) # shown_if (isTop item c) [Tag ToneInfo [Txt ''likely'']]),
        El ''span'' [AStr ''class'' (if isTop item c then ''bg-primary'' else ''bg-muted-foreground/40''),
                     AStr ''width'' (show_int (percent (snd c)) @ ''%'')] [],
        El ''span'' [] [Txt (show_int (percent (snd c)) @ ''%'')],
        El ''Button'' [AStr ''variant'' (if isTop item c then ''default'' else ''outline''),
                       On ''click'' (Toast ''success'' ''Resolved''
                         (ldquo @ am_surface item @ rdquo @ '' '' @ rarrow @ '' '' @ fst c @ ''. Learned a prior for '' @
                          am_container item @ ''.''))] [Txt ''Assign'']]"

definition ambiguity_card :: "ambiguity \<Rightarrow> effect node" where
  "ambiguity_card item =
     El ''div'' [AStr ''key'' (am_id item)]
       [El ''div'' []
          [El ''span'' [] [Txt (ldquo @ am_surface item @ rdquo)], El ''span'' [] [Txt (am_container item)],
           El ''span'' [] [Txt (show_nat (am_mentions item) @ '' mentions'')], El ''span'' [] [Txt (am_raisedAt item)]],
        El ''div'' [] (map (candidate_row item) (am_candidates item)),
        El ''div'' []
          [El ''span'' [] [Txt (''Resolving sets a prior for '' @ am_container item @ ''.'')],
           El ''button'' [On ''click'' (plain_toast ''New entity''
                            (''Create a canonical entity for '' @ ldquo @ am_surface item @ rdquo @ ''.''))]
             [Txt (''None of these '' @ emdash @ '' create entity'')]]]"

definition AmbiguityQueuePage :: "ambiguity list \<Rightarrow> effect node" where
  "AmbiguityQueuePage items =
     PageShell
       [PageHeading ''Ambiguity queue''
          (Some ''Where the system couldn't confidently resolve a reference. Resolving here teaches a prior for that source.''),
        StatBar
          [(''Open'', show_nat (length items), Some ''awaiting a human''),
           (''Affected'', show_nat (foldl (\<lambda>n i. n + am_mentions i) 0 items), Some ''mentions''),
           (''Oldest'', ''2 days'', Some ''in queue'')],
        El ''div'' [] (map ambiguity_card items)]"

section \<open>Sources\<close>

definition HEALTH :: "SourceHealth \<Rightarrow> Tone \<times> string \<times> bool" where
  "HEALTH h =
     (case h of Synced \<Rightarrow> (ToneSuccess, ''Synced'', False) | Syncing \<Rightarrow> (ToneInfo, ''Syncing'' @ ellipsis, True)
      | AuthLapse \<Rightarrow> (ToneWarning, ''Auth expired'', False) | SyncFailed \<Rightarrow> (ToneDestructive, ''Failed'', False))"

definition MODE :: "(string \<times> string) list" where
  "MODE = [(''slack'', ''Stream''), (''github'', ''Stream''), (''notion'', ''Poll '' @ middot @ '' 15m''),
           (''jira'', ''Poll '' @ middot @ '' 15m''), (''gdrive'', ''Poll '' @ middot @ '' 1h'')]"

definition CONNECTED :: "string list" where
  "CONNECTED = [''slack'', ''notion'', ''jira'', ''github'', ''drive'']"

definition offered_connectors :: "connector_p list \<Rightarrow> connector_p list" where
  "offered_connectors cs = filter (\<lambda>c. cn_id c \<notin> set CONNECTED) cs"

definition source_row_p :: "Source \<Rightarrow> effect node" where
  "source_row_p s =
     (case HEALTH (so_health s) of (tone, label, pulse) \<Rightarrow>
        Row_p (Some ''#'')
          [Td [ConnectorIcon (so_color s) (so_letter s), El ''span'' [] [Txt (so_name s)]],
           Td [Txt (nullish (map_of MODE (so_kind s)) ''Poll'')],
           Num (if so_artifacts s = 0 then emdash else fmtCount (so_artifacts s)),
           Num (if so_containers s = 0 then emdash else show_nat (so_containers s)),
           Td [Dot tone pulse, El ''span'' [] [Txt label]], Td [Txt (so_lastSync s)]])"

definition needs_attention :: "Source list \<Rightarrow> nat" where
  "needs_attention ss = count_if (\<lambda>s. so_health s = SyncFailed \<or> so_health s = AuthLapse) ss"

definition SourcesPage_p :: "corpus \<Rightarrow> connector_p list \<Rightarrow> effect node" where
  "SourcesPage_p c cs =
     El ''div'' []
       [El ''ChromeActions'' []
          [El ''Button'' [On ''click'' (plain_toast ''Sync started'' ''Re-pulling from all connected sources.'')] [Txt ''Sync all''],
           El ''Button'' [On ''click'' (plain_toast ''Choose a connector below to get started.'' [])] [Txt ''Connect source'']],
        PageShell
          [PageHeading ''Sources'' (Some ''The systems your knowledge already lives in, and the health of their ingestion.''),
           StatBar
             [(''Connected'', show_nat (length (SOURCES c)), Some (show_nat (count_if healthy (SOURCES c)) @ '' healthy'')),
              (''Artifacts'', fmtCount (foldl (\<lambda>n s. n + so_artifacts s) 0 (SOURCES c)), Some ''ingested''),
              (''Needs attention'', show_nat (needs_attention (SOURCES c)),
               Some (if 0 < needs_attention (SOURCES c) then ''review below'' else ''all clear'')),
              (''Last sync'', ''2 min'', Some ''ago'')],
           Section_p ''Connected'' (Some (length (SOURCES c)))
             [TableCard (HeadRow (map Th [''Source'', ''Mode'', ''Artifacts'', ''Channels'', ''Health'', ''Last sync'']) #
                map source_row_p (SOURCES c))],
           Section_p ''Available connectors'' (Some (length cs))
             [El ''div'' [] (map (\<lambda>k. El ''button'' [AStr ''key'' (cn_id k),
                  On ''click'' (plain_toast (''Connecting '' @ cn_name k @ ellipsis) ''You'll be sent to authorize access.'')]
                [ConnectorIcon (cn_color k) (cn_letter k), El ''span'' [] [Txt (cn_name k)], El ''span'' [] [Txt (cn_category k)]])
                (offered_connectors cs))]]]"


section \<open>Settings and account\<close>

definition SettingRow :: "string \<Rightarrow> string \<Rightarrow> 'a node list \<Rightarrow> 'a node" where
  "SettingRow label description children =
     El ''div'' [] [El ''div'' [] [Txt label, Txt description], El ''div'' [] children]"

definition settings_region :: "region_p list \<Rightarrow> string" where
  "settings_region rs =
     (case find (\<lambda>r. rg_id r = mo_region mockOrg) rs of
        None \<Rightarrow> ''  '' @ middot @ '' ''
      | Some r \<Rightarrow> rg_flag r @ '' '' @ rg_city r @ '' '' @ middot @ '' '' @ rg_label r)"

definition danger_row :: "string \<Rightarrow> string \<Rightarrow> string \<Rightarrow> effect \<Rightarrow> effect node" where
  "danger_row label description button eff =
     SettingRow label description [El ''Button'' [On ''click'' eff] [Txt button]]"

definition SettingsPage_p :: "region_p list \<Rightarrow> effect node" where
  "SettingsPage_p rs =
     PageShell
       [PageHeading ''Settings'' (Some ''Workspace configuration, security, and data lifecycle.''),
        El ''Tabs'' [AStr ''defaultValue'' ''workspace'']
          [El ''TabsContent'' [AStr ''value'' ''workspace'']
             [SettingRow ''Workspace name'' ''Shown across the app and in invitations.''
                [El ''Input'' [AStr ''defaultValue'' (mo_name mockOrg)] []],
              SettingRow ''Workspace URL'' ''The slug in your workspace address.'' [Txt (''hivebook.app/'' @ mo_slug mockOrg)],
              SettingRow ''Primary domain'' ''Verified email domain for SSO and invites.'' [Txt (mo_domain mockOrg)],
              SettingRow ''Default access'' ''Chapters new members can read.'' [Tag ToneMuted [Txt ''All chapters'']]],
           El ''TabsContent'' [AStr ''value'' ''residency'']
             [SettingRow ''Region'' ''Where this workspace's data is processed and stored.'' [Txt (settings_region rs)],
              SettingRow ''Data residency'' ''Region is fixed after setup; changing it requires migration.''
                [Tag ToneMuted [El ''RiLock2Line'' [] [], Txt ''Locked'']],
              SettingRow ''Encryption at rest'' ''AES-256 on all stored artifacts and summaries.'' [Tag ToneSuccess [Txt ''Enabled'']]],
           El ''TabsContent'' [AStr ''value'' ''security'']
             [SettingRow ''Single sign-on'' ''SAML / OIDC via your identity provider.''
                [Tag ToneSuccess [Txt (''Okta '' @ middot @ '' SAML'')],
                 El ''Button'' [On ''click'' (plain_toast ''SSO configuration'' ''SAML metadata, attribute mapping, and enforcement.'')]
                   [Txt ''Configure'']],
              SettingRow ''Enforce SSO'' ''Require all members to sign in through SSO.'' [Tag ToneSuccess [Txt ''On'']],
              SettingRow ''SCIM provisioning'' ''Sync members and deprovisioning from your IdP.'' [Tag ToneSuccess [Txt ''Connected'']],
              SettingRow ''Customer-managed keys'' ''Bring your own KMS key (Enterprise).''
                [Tag ToneMuted [El ''RiLock2Line'' [] [], Txt ''Enterprise'']]],
           El ''TabsContent'' [AStr ''value'' ''data'']
             [danger_row ''Export workspace'' ''A full archive of the book and raw corpus.'' ''Request export''
                (plain_toast ''Preparing export'' ''A full archive. We'll email a link.''),
              danger_row ''Suspend ingestion'' ''Pause all source syncing without losing data.'' ''Suspend''
                (plain_toast ''Ingestion suspended'' ''Syncing is paused. Resume any time.''),
              El ''div'' [] [Txt ''Danger zone''],
              danger_row ''Archive workspace'' ''Make it read-only and stop all processing.'' ''Archive''
                (Toast ''warning'' ''Archive workspace?'' ''This makes everything read-only.''),
              danger_row ''Delete workspace'' ''Permanently remove the book, corpus, and history.'' ''Delete''
                (Toast ''error'' ''Delete workspace?'' ''This is permanent and cannot be undone.'')]]]"

definition NOTIFICATIONS :: "(string \<times> string \<times> string \<times> bool) list" where
  "NOTIFICATIONS =
     [(''digest'', ''Weekly digest'', ''A summary of what changed in your chapters.'', True),
      (''mentions'', ''Mentions'', ''When you're named in a review or comment.'', True),
      (''rebuilds'', ''Rebuild completed'', ''When a summary you requested finishes rebuilding.'', False),
      (''proposals'', ''Review proposals'', ''When the system parks a structural decision.'', False)]"

definition SESSIONS :: "(string \<times> string \<times> string \<times> string \<times> bool) list" where
  "SESSIONS =
     [(''s1'', ''Safari '' @ middot @ '' macOS'', ''Washington DC '' @ middot @ '' this device'', ''now'', True),
      (''s2'', ''Safari '' @ middot @ '' iOS'', ''Washington DC'', ''2 days ago'', False),
      (''s3'', ''Chrome '' @ middot @ '' Windows'', ''New York'', ''1 week ago'', False)]"

definition session_row :: "string \<times> string \<times> string \<times> string \<times> bool \<Rightarrow> 'a node" where
  "session_row s =
     (case s of (i, device, meta, time, current) \<Rightarrow>
        El ''div'' [AStr ''key'' i]
          [El ''span'' [] (Txt device # shown_if current [Tag ToneSuccess [Txt ''This device'']]),
           El ''span'' [] [Txt meta], El ''span'' [] [Txt time]])"

definition AccountPage :: "effect node" where
  "AccountPage =
     PageShell
       [PageHeading ''Account'' (Some (''Your personal settings '' @ emdash @ '' separate from the workspace.'')),
        El ''Tabs'' [AStr ''defaultValue'' ''profile'']
          [El ''TabsContent'' [AStr ''value'' ''profile'']
             [SettingRow ''Avatar'' ''Shown next to your activity.'' [Txt (mu_initial mockUser)],
              SettingRow ''Name'' ''Your display name across the workspace.''
                [El ''Input'' [AStr ''defaultValue'' (mu_name mockUser)] []],
              SettingRow ''Email'' ''Managed by your identity provider.'' [Txt (mu_email mockUser)],
              SettingRow ''Role'' ''Your permission level in this workspace.'' [Tag ToneInfo [Txt (mu_role mockUser)]]],
           El ''TabsContent'' [AStr ''value'' ''notifications'']
             (map (\<lambda>(i, label, description, on).
                SettingRow label description [El ''Switch'' [AStr ''key'' i, ABool ''defaultChecked'' on] []]) NOTIFICATIONS),
           El ''TabsContent'' [AStr ''value'' ''security'']
             [SettingRow ''Two-factor authentication'' ''Enforced through your identity provider.'' [Tag ToneSuccess [Txt ''Via Okta'']],
              SettingRow ''Password'' ''Sign-in is handled by SSO; no password to manage.'' [Tag ToneMuted [Txt ''SSO only'']],
              El ''Button'' [On ''click'' (Toast ''success'' ''Signed out other sessions'' ''Only this device stays signed in.'')]
                [Txt ''Sign out all others''],
              El ''div'' [] (map session_row SESSIONS)]]]"

section \<open>Percentages\<close>

lemma percent_bounds:
  assumes "0 \<le> v" "v \<le> 1"
  shows "0 \<le> percent v \<and> percent v \<le> 100"
proof -
  have e: "\<bar>dbl (v * 100) - v * 100\<bar> \<le> v * 100 / 2 ^ 53" using dbl_error[of "v * 100"] assms(1) by simp
  have "v * 100 / 2 ^ 53 \<le> 1 / 4" using assms(2) by simp
  with e assms have lo: "-1 / 4 \<le> dbl (v * 100)" and hi: "dbl (v * 100) \<le> 100 + 1 / 4" by linarith+
  have "\<lfloor>dbl (v * 100) + 1 / 2\<rfloor> \<le> 100" using hi by linarith
  moreover have "0 \<le> \<lfloor>dbl (v * 100) + 1 / 2\<rfloor>" using lo by linarith
  ultimately show ?thesis by (simp add: percent_def js_mul_def Math_round_def)
qed

lemma dbl_1: "dbl 1 = 1"
  by code_simp

lemma js_div_bounds: "0 \<le> a \<Longrightarrow> a \<le> b \<Longrightarrow> 0 < b \<Longrightarrow> 0 \<le> js_div a b \<and> js_div a b \<le> 1"
  by (auto simp: js_div_def intro: dbl_nonneg dbl_le_1)

text \<open>
  The bars of the token trend: for any months with spends that are not negative and not all zero,
  every bar has a height between 0 and 100 per cent, although the quotients are rounded to doubles,
  and the months with the largest spend have a full bar.
\<close>

theorem trend_bars_bounded:
  assumes "list_all (\<lambda>m. 0 \<le> snd m) trend" and "m \<in> set trend" and "0 < peak trend"
  shows "0 \<le> bar_height (peak trend) (snd m) \<and> bar_height (peak trend) (snd m) \<le> 100 \<and>
         (snd m = peak trend \<longrightarrow> bar_height (peak trend) (snd m) = 100)"
proof -
  have le: "snd m \<le> peak trend" unfolding peak_def using assms(2) by (intro Max_ge) auto
  have pos: "0 \<le> snd m" using assms(1,2) by (auto simp: list_all_iff)
  have eq: "bar_height (peak trend) (snd m) = percent (js_div (snd m) (peak trend))"
    by (simp add: bar_height_def percent_def)
  have "bar_height (peak trend) (snd m) = 100" if "snd m = peak trend"
  proof -
    have "js_div (snd m) (peak trend) = 1" using that assms(3) by (simp add: js_div_def dbl_1)
    moreover have "percent 1 = 100" by code_simp
    ultimately show ?thesis by (simp add: eq)
  qed
  moreover have "0 \<le> percent (js_div (snd m) (peak trend)) \<and> percent (js_div (snd m) (peak trend)) \<le> 100"
    using js_div_bounds[OF pos le assms(3)] by (intro percent_bounds) auto
  ultimately show ?thesis by (auto simp: eq)
qed

theorem trend_bars_bounded_witness:
  "0 \<le> bar_height (peak USAGE_TREND) (dbl (21 / 10)) \<and> bar_height (peak USAGE_TREND) (dbl (21 / 10)) \<le> 100"
proof -
  have 1: "list_all (\<lambda>m. 0 \<le> snd m) USAGE_TREND" by code_simp
  have 2: "(''Dec'', dbl (21 / 10)) \<in> set USAGE_TREND" by (simp add: USAGE_TREND_def)
  have 3: "0 < peak USAGE_TREND" by code_simp
  from trend_bars_bounded[OF 1 2 3] show ?thesis by simp
qed

section \<open>Filters, candidates and forms\<close>

text \<open>
  The filters of the audit log partition it: the events of a kind are shown under that filter only,
  in their order, and the numbers of events of the four kinds add up to the number of all.
\<close>

theorem audit_filters_partition:
  "(e \<in> set (audit_shown f es) \<longleftrightarrow> e \<in> set es \<and> (f = None \<or> f = Some (ae_kind e))) \<and>
   subseq (audit_shown f es) es \<and>
   (\<Sum>k\<leftarrow>[KRead, KWrite, KAdmin, KAuth]. length (audit_shown (Some k) es)) = length (audit_shown None es) \<and>
   audit_count k es = length (audit_shown (Some k) es)"
proof -
  have "(\<Sum>k\<leftarrow>[KRead, KWrite, KAdmin, KAuth]. length (audit_shown (Some k) es)) = length es"
  proof (induction es)
    case (Cons x xs)
    then show ?case by (cases "ae_kind x") (simp_all add: audit_shown_def)
  qed (simp add: audit_shown_def)
  then show ?thesis
    by (auto simp: audit_shown_def audit_count_def subseq_filter_left split: option.splits)
qed

text \<open>
  In the ambiguity queue a candidate is marked as likely exactly when no candidate of its item scores
  higher; every item with candidates has a marked one, and only one if the scores differ.
\<close>

theorem likely_is_best:
  assumes "c \<in> set (am_candidates item)"
  shows "(isTop item c \<longleftrightarrow> (\<forall>d \<in> set (am_candidates item). snd d \<le> snd c)) \<and>
         (\<exists>d \<in> set (am_candidates item). isTop item d) \<and>
         (distinct (map snd (am_candidates item)) \<longrightarrow> length (filter (isTop item) (am_candidates item)) = 1)"
proof -
  let ?S = "snd ` set (am_candidates item)"
  have fin: "finite ?S" "?S \<noteq> {}" using assms by auto
  have top: "isTop item = (\<lambda>d. snd d = Max ?S)" by (simp add: fun_eq_iff isTop_def peak_def)
  have iff: "snd c = Max ?S \<longleftrightarrow> (\<forall>d \<in> set (am_candidates item). snd d \<le> snd c)"
    using fin assms by (subst eq_commute, subst Max_eq_iff) auto
  obtain d where d: "d \<in> set (am_candidates item)" "snd d = Max ?S" using Max_in[OF fin] by auto
  have "length (filter (isTop item) xs) = 1" if "d \<in> set xs" "distinct (map snd xs)" for xs
    using that
  proof (induction xs)
    case (Cons x xs)
    show ?case
    proof (cases "snd x = snd d")
      case True
      have "snd x \<notin> snd ` set xs" using Cons.prems(2) by simp
      with True have "\<forall>y \<in> set xs. snd y \<noteq> snd d" by (metis imageI)
      then have "filter (isTop item) xs = []" by (simp add: filter_empty_conv top d(2))
      with True show ?thesis by (simp add: top d(2))
    next
      case False
      then have "d \<in> set xs" using Cons.prems(1) by auto
      with False Cons show ?thesis by (simp add: top d(2))
    qed
  qed simp
  with d iff show ?thesis by (auto simp: top)
qed

theorem likely_is_best_witness:
  "isTop (hd AMBIGUITY_ITEMS) (''Engineering Manager'', dbl (31 / 50)) \<and>
   length (filter (isTop (hd AMBIGUITY_ITEMS)) (am_candidates (hd AMBIGUITY_ITEMS))) = 1"
proof -
  have 1: "(''Engineering Manager'', dbl (31 / 50)) \<in> set (am_candidates (hd AMBIGUITY_ITEMS))"
    by (simp add: AMBIGUITY_ITEMS_def)
  have 2: "\<forall>d \<in> set (am_candidates (hd AMBIGUITY_ITEMS)). snd d \<le> snd (''Engineering Manager'', dbl (31 / 50))"
    by code_simp
  have 3: "distinct (map snd (am_candidates (hd AMBIGUITY_ITEMS)))" by code_simp
  from likely_is_best[OF 1] 2 3 show ?thesis by blast
qed

text \<open>
  The two tables of access rights: the pairs of chapter and template the chapter's row lists although
  the template does not grant the chapter.
\<close>

definition grants :: "access_template \<Rightarrow> string \<Rightarrow> bool" where
  "grants t ch = (case at_chapters t of AllChapters \<Rightarrow> True | Chapters cs \<Rightarrow> ch \<in> set cs)"

definition listed_not_granted :: "access_template list \<Rightarrow> chapter_access list \<Rightarrow> (string \<times> string) list" where
  "listed_not_granted ts cas =
     concat (map (\<lambda>ca. map (\<lambda>t. (ca_chapterId ca, at_id t))
       (filter (\<lambda>t. at_id t \<in> set (ca_templates ca) \<and> \<not> grants t (ca_chapterId ca)) ts)) cas)"

lemma access_tables_disagree:
  "listed_not_granted ACCESS_TEMPLATES CHAPTER_ACCESS = [(''ch-cust'', ''at-everyone'')]"
  by code_simp

lemma connector_count_overstated:
  "length (offered_connectors connectors_p) = 15 \<and> length connectors_p = 20"
proof -
  have "offered_connectors connectors_p =
      [connectors_p ! 1, connectors_p ! 4] @ drop 6 (take 17 connectors_p) @ drop 18 connectors_p" by code_simp
  then show ?thesis by (simp add: connectors_p_def)
qed

end
