(* ===== verification/Spec2Isabelle.thy ===== *)
theory Spec2Isabelle
  imports Validation Journeys Kit Proto_Frame Filters_Menu Onboarding_Proto Admin_Pages Accent
begin

text \<open>
  A model of the Hivebook web client (\<open>src/web\<close>, TypeScript and React on Connect RPC) and of the
  product prototype beside it (\<open>src/prototype\<close>), with the theorems that make them correct.

  \<^bold>\<open>The program.\<close> Hivebook connects to the systems a company's knowledge lives in and keeps
  copies of it. The web client signs a user in with OIDC, gates the application on the session
  and on onboarding, shows the connected sources live, lets the user choose what each source
  synchronises and how often, and lists the synchronised files. It talks to one API through one
  transport (\<open>lib/api/client.ts\<close>), reads cached queries and two server streams, and writes by
  mutations. The prototype shows where the product is going, on data of its own and without a
  server: a book of chapters, topics and sub-topics whose prose cites quotes of the raw
  documents, the pages that read and administer it, a sign-in funnel and a theme editor. It
  shares the shape of the client (spine, breadcrumb, wizard) but no code. The Go API, the workers and
  the infrastructure are the client's environment and are not modelled, except for the contract between
  client and server that the generated code carries.

  \<^bold>\<open>How code becomes definitions.\<close> A component's state hooks are a record, its handlers are
  functions from state to new state and outputs (requests to the server as \<open>rpc\<close> values, router,
  toast and telemetry calls as \<open>effect\<close> values, an exception as \<open>Inl\<close>), its render function is a
  tree of elements (\<open>node\<close>) whose attributes are the handlers and the flags that carry behaviour;
  \<open>clicks\<close> lists what a click in such a tree can cause, disabled elements causing nothing. State
  adjusted during rendering is a function applied after every event. Loops with timers and
  asynchronous continuations are step relations or step functions over explicit events, so
  interleavings are sequences of events. Query results, browser formatting (\<open>toLocaleString\<close>,
  \<open>localeCompare\<close>, \<open>Intl\<close>), regular expressions given by the caller, \<open>signinSilent\<close> and the clock
  are parameters; the service-independent data of the prototype (its corpus, its tables) are
  parameters too, and the arrays of the source are one instance. Fuel is used once: \<open>journey\<close> follows
  at most as many redirects as it is given, and four are shown to be enough; \<open>run_query\<close> terminates because
  the policy stops retrying. Every function is total except the walks over the prototype's book, whose loops run forever on a cyclic book:
  \<open>path_loop\<close>, \<open>desc_loop\<close>, \<open>matches_some\<close>, \<open>TreeNodes\<close> and \<open>mounted_ids\<close> are partial functions in
  the option monad, \<open>None\<close> is not returning, and the theorems state that they return on trees.
  Numbers are exact integers where the code keeps to safe integers; where it divides or scales,
  the theory \<open>Doubles\<close> rounds to 53 bits, ties to even.

  \<^bold>\<open>The theories.\<close>
  \<^item> \<open>Prelude\<close>: strings, truthiness, rounding, rendered trees, errors, effects, query results.
  \<^item> \<open>Proto\<close>: the service messages the client reads and sends (\<open>lib/gen\<close>).
  \<^item> \<open>Api_Client\<close> (\<open>lib/auth.ts\<close>, \<open>lib/api/client.ts\<close>): configuration, the interceptors for one
    request, and the machine of interleaved requests sharing one renewal: single flight, spacing,
    at most two sends, no stranded waiter, errors only from the server.
  \<^item> \<open>Session\<close> (\<open>lib/session.ts\<close>, \<open>lib/telemetry.ts\<close>, \<open>components/app/app-gate.tsx\<close>, the entry,
    callback, sign-out, silent-renew and error pages): who sees the application, what ends a
    session, the single exchange of the authorization code. The locale \<open>credential_failure\<close> is the
    contract of the three classifiers.
  \<^item> \<open>Streams\<close> (\<open>lib/api/use-connections-stream.ts\<close>, \<open>use-projects-stream.ts\<close>): both reconnection
    loops, through the locale \<open>reconnecting\<close>: backoff schedule, final stops, kept snapshots.
  \<^item> \<open>Onboarding\<close> (\<open>lib/onboarding-*.ts\<close>, \<open>components/onboarding\<close>, \<open>app/onboarding\<close>): the wizard,
    through the locale \<open>wizard\<close>: paths invert, clicks never crash, guards.
  \<^item> \<open>Filters_Core\<close>, \<open>Filters_Popover\<close>, \<open>Filters_Menu\<close> (\<open>components/filters.tsx\<close>): the data model
    (locale \<open>filter_store\<close>), the controls of a row and the bar with its menus (locale \<open>listbox\<close>
    for arrow keys, interpreted three times): local edits, unique ids, selection limits, sessions
    of a multi-select submenu, and that no event throws when fields may repeat.
  \<^item> \<open>Schedule\<close> (\<open>components/app/sync-schedule.tsx\<close>, \<open>humanizeInterval\<close>): the interval editor, with
    decimal notation read and printed.
  \<^item> \<open>Confirm\<close> (\<open>components/app/confirm-dialog.tsx\<close>): arming and confirming.
  \<^item> \<open>Selection\<close> (\<open>components/app/connector-projects.tsx\<close>, the status cells, the manage page):
    unsaved toggles over the saved selection, through the locale \<open>select_all\<close>; what a save writes;
    the order of the list.
  \<^item> \<open>Nav\<close> (\<open>lib/nav.ts\<close>, \<open>lib/breadcrumb-leaf.ts\<close>, the context bar, the jumper, the spine):
    trails for every path, the expanded state's cookie round trip.
  \<^item> \<open>Sources\<close> (\<open>app/(app)/sources\<close>, \<open>components/app/relative-time.tsx\<close>): the one-shot redirect,
    gallery, token form, details, relative times.
  \<^item> \<open>Workspace\<close> (\<open>app/(app)/files\<close>, \<open>audit\<close>, \<open>members\<close>, \<open>settings\<close>, \<open>components/app/json-viewer.tsx\<close>):
    the remaining pages; paging tiles the audit trail.
  \<^item> \<open>Wire\<close>, \<open>Service\<close> (\<open>lib/gen/hivebook\<close>): the messages and services as descriptions, the protobuf
    encoding of such descriptions and base64; the descriptors embedded in the generated files are the
    encodings of the declarations beside them.
  \<^item> \<open>Rules\<close>, \<open>Contract\<close> (\<open>lib/gen/buf/validate\<close>, the requests of the pages): every rule type with the
    meaning it documents, which requests the server accepts, and what the wizard can send.
  \<^item> \<open>Cel\<close>, \<open>Schema_Rules\<close>, \<open>Schema_Texts\<close>, \<open>Validation\<close> (\<open>lib/gen/buf/validate\<close>): the expression language of
    the validation schema, the expressions its descriptor carries for each rule, rules of fields, lists, maps
    and messages. The locale \<open>ordered_values\<close> is the contract of the kinds that have ranges, interpreted
    five times; the expressions decide what the types document, and the verdict of \<open>Contract\<close> is theirs.
  \<^item> \<open>Frame\<close> (\<open>components/providers.tsx\<close>, \<open>components/app\<close>, \<open>components/brand\<close>, the layouts and
    placeholder pages): the retry policy of queries and the frame around the pages; the session query
    settles and decides what the frame does.
  \<^item> \<open>Routes\<close> (the directories of \<open>app\<close>): the route table and every way to a page; no link is dead, and
    connecting a source ends at its page.
  \<^item> \<open>Journeys\<close> (the entry page, the gate, the wizard's layout and index, callback and sign-out): the
    redirects together refine the access policy, and every visit comes to rest.
  \<^item> \<open>Kit\<close>, \<open>Kit_Proto\<close> (\<open>components/ui\<close> of both programs): the component kits. The other theories write
    kit components by name; the locale \<open>component_kit\<close>, interpreted for both kits, shows that replacing
    them by what they render changes no handler, text or link.
  \<^item> \<open>Doubles\<close>: rounding to doubles, with bounds on the error of each operation.
  \<^item> \<open>Book\<close> and \<open>Mock_Book\<close> (\<open>prototype/lib/mock-book.ts\<close>): the corpus, its queries and its arrays.
    The walk to the root returns exactly on acyclic books; the walk down returns on trees and is
    the inverse of the walk up; the rolled-up counts agree; the mock data is well formed.
  \<^item> \<open>Markers\<close>, \<open>Page_Kit\<close>, \<open>Book_Pages\<close> (\<open>prototype/app/(app)/book\<close>, \<open>ask\<close>,
    \<open>prototype/components/app/page-kit.tsx\<close>): citation markers split without loss, shortened counts
    read back, a marker opens its quote, the pages render on every tree.
  \<^item> \<open>Book_Nav\<close> (\<open>prototype/components/app\<close>): the tree with its filter, breadcrumb, corpus search,
    command menu, spine: the filter shows the paths to the matches, crumbs lead to prefixes.
  \<^item> \<open>Urls\<close>, \<open>Auth_Funnel\<close> (\<open>prototype/app/(auth)\<close>, \<open>prototype/components/auth/auth-flow.tsx\<close>): query
    strings, and one machine per page of the sign-in funnel; the locale \<open>delayed_form\<close> is the
    contract of a form whose submission is answered by a timer, interpreted three times.
  \<^item> \<open>Mock_Admin\<close>, \<open>Admin_Pages\<close> (\<open>prototype/lib/mock-admin.ts\<close>, \<open>mock-data.ts\<close>, the admin pages):
    bars bounded in double arithmetic, filters that partition, likely candidates.
  \<^item> \<open>Onboarding_Proto\<close> (\<open>prototype/app/onboarding\<close>, \<open>prototype/components/onboarding\<close>): the
    prototype's wizard; workspace addresses are slugs.
  \<^item> \<open>Accent\<close> (\<open>prototype/lib/accent-palettes.ts\<close>, \<open>fonts.ts\<close>, \<open>prototype/components/brand\<close>,
    \<open>web/components/theme-provider.tsx\<close>): palettes, the style sheet, the hotkeys.
  \<^item> \<open>Proto_Frame\<close> (\<open>prototype/components/auth/auth-shell.tsx\<close>, the dead ends of the funnel, layouts,
    \<open>prototype/app/page.tsx\<close>): the static side of the prototype; its index links every page.
  \<^item> This theory: properties that span components, the one session policy, the schedule the manage
    page saves, and the requests of the whole client against the server's rules.

  \<^bold>\<open>What modelling showed.\<close> Some results are about behaviour the code does not mean to have: a
  401 that arrives just after a renewal is rejected although a fresh token is there
  (\<open>Api_Client\<close>); Enter in the filter menu can read a property of \<open>undefined\<close> when fields are used
  once only (\<open>Filters_Menu\<close>); toggles made during a save are dropped, and first-time setup cannot
  be finished unchanged (\<open>Selection\<close>); Enter in the token form sends twice (\<open>Sources\<close>); and three
  lemmas on a confirm word with white space, an empty error message and a project named "all". No form
  keeps to the lengths the server allows, and the last step of the wizard can be reached without a region
  (\<open>Contract\<close>, this theory). When the stored user cannot be removed, the gate and the entry page redirect
  to each other without end (\<open>Journeys\<close>), and the rules that compare with the current time admit that
  time, against their documentation (\<open>Validation\<close>).
  In the prototype: a stored shade outside the scale breaks the theme on every load (\<open>Accent\<close>);
  the single sign-on loader takes a step too many, and cancelling it late does not stop it; a flow
  named like an inherited property leads nowhere (\<open>Auth_Funnel\<close>); the system status counts chapters
  in one of its three numbers only (\<open>Book\<close>); a count just below a million is shown as 1000k
  (\<open>Page_Kit\<close>); two tables of access rights and a connector count disagree (\<open>Admin_Pages\<close>); and a
  progress bar, a toggle group and a dialog of the kit lose what they are given (\<open>Kit_Proto\<close>).

  \<^bold>\<open>Not modelled.\<close> Styling, icons, animation and scrolling; the third-party elements below the kits
  (Radix, cmdk with its fuzzy matching, toasts); the query cache beyond its retries and the Connect
  runtime; of \<open>buf.validate\<close> the reports of violations and predefined rules; \<open>Math.pow\<close>, whose result the language leaves open; strings outside ASCII beyond carrying
  their bytes and counting their code points.
\<close>

section \<open>Properties across components\<close>

lemma classifiers_agree: "stream_isAuthError e = isAuthError e" "projects_isAuthError e = isAuthError e"
  by (simp_all only: session_policy.agrees connections.agrees projects.agrees)



text \<open>The events of the manage page whose schedule part the editor offers.\<close>

fun manage_offered :: "manage_event \<Rightarrow> bool" where
  "manage_offered (MSched (Sched e)) = sched_offered e"
| "manage_offered _ = True"

lemma save_interval:
  "mg_schedInterval (fst (save_reply r s)) = mg_schedInterval s"
  "mg_schedInterval (fst (save_refetched p s)) = mg_schedInterval s"
  by (auto simp: save_reply_def save_refetched_def Let_def split: option.splits list.splits)

lemma manage_step_interval:
  assumes "manage_offered e" "MIN_SECONDS \<le> mg_schedInterval s"
  shows "MIN_SECONDS \<le> mg_schedInterval (fst (manage_step p env e s))"
proof (cases "(p, env, e, s)" rule: manage_step.cases)
  case (6 p' env' e' s')
  obtain sch oc where r: "schedule_step (mg_schedInterval s) e' (mg_schedule s) = (sch, oc)" by fastforce
  show ?thesis
    using schedule_step_floor[of e' "mg_schedInterval s" "mg_schedule s"] assms 6 r by (cases oc) auto
next
  case (7 p' env' s')
  then show ?thesis using assms by (simp add: Let_def)
next
  case (8 p' env' r s')
  then show ?thesis using assms by (simp add: save_interval(1) split: prod.splits) (metis fst_conv save_interval(1))
next
  case (9 p' env' s')
  then show ?thesis using assms by (simp add: save_interval(2) split: prod.splits) (metis fst_conv save_interval(2))
next
  case (11 p' env' e' s')
  then show ?thesis using assms by (auto split: prod.splits)
qed (use assms in auto)

lemma manage_run_interval:
  "list_all manage_offered es \<Longrightarrow> MIN_SECONDS \<le> mg_schedInterval s \<Longrightarrow>
   MIN_SECONDS \<le> mg_schedInterval (manage_run p env es s)"
  by (induction es arbitrary: s) (simp_all add: manage_step_interval)

text \<open>
  C24. The manage page never saves a schedule below the floor: from a source whose saved
  interval is at least a minute, after any sequence of offered events (searches, toggles,
  schedule edits, saves, failures, dialog events), a schedule request carries an interval of at
  least a minute and names the source shown.
\<close>

theorem manage_saves_valid_schedule:
  assumes "list_all manage_offered es" and "MIN_SECONDS \<le> mp_syncIntervalSeconds p"
    and "UpdateSyncSchedule c en n \<in> set (onSave p env (manage_run p env es (manage_init p)))"
  shows "MIN_SECONDS \<le> n \<and> c = mp_connectionId p"
proof -
  have "MIN_SECONDS \<le> mg_schedInterval (manage_run p env es (manage_init p))"
    using manage_run_interval[OF assms(1)] assms(2) by (simp add: manage_init_def)
  with assms(3) show ?thesis by (auto simp: onSave_def split: if_splits)
qed

theorem manage_saves_valid_schedule_witness:
  "UpdateSyncSchedule ''c1'' True 900 \<in> set (onSave (ex_props True) ex_env
     (manage_run (ex_props True) ex_env [MSched (Sched (ChooseFreq (Every 900)))] (manage_init (ex_props True)))) \<and>
   MIN_SECONDS \<le> 900"
proof -
  let ?es = "[MSched (Sched (ChooseFreq (Every 900)))]"
  have es: "list_all manage_offered ?es" by (simp add: PRESETS_def)
  have iv: "MIN_SECONDS \<le> mp_syncIntervalSeconds (ex_props True)" by (simp add: MIN_SECONDS_def ex_props_def)
  have u: "UpdateSyncSchedule ''c1'' True 900 \<in> set (onSave (ex_props True) ex_env
      (manage_run (ex_props True) ex_env ?es (manage_init (ex_props True))))"
    by (simp add: onSave_def scheduleDirty_def manage_init_def ex_props_def)
  from manage_saves_valid_schedule[OF es iv u] u show ?thesis by blast
qed

section \<open>The requests of the whole client\<close>

text \<open>Every place of the client that changes something on the server.\<close>

inductive client_sends :: "rpc \<Rightarrow> bool" where
  cs_wizard: "fresh_tenant t \<Longrightarrow> wizard_reach t u p s \<Longrightarrow> onb_page p isPending err s = Some page \<Longrightarrow>
     a \<in> set (clicks page) \<union> set (entries v page) \<Longrightarrow> onb_handle p a s = Inr (s', es, rpcs) \<Longrightarrow>
     r \<in> set rpcs \<Longrightarrow> client_sends r"
| cs_rename: "r \<in> set (fst (snd (workspace_step tn we w))) \<Longrightarrow> client_sends r"
| cs_flag: "f \<in> set (nullish (q_data (flags :: FeatureFlag list query)) []) \<Longrightarrow> client_sends (SetFeatureFlag (flag_key f) b)"
| cs_authorize: "r \<in> set (fst (gallery_connect c)) \<Longrightarrow> client_sends r"
| cs_token: "r \<in> set (fst (snd (token_step connector te tf))) \<Longrightarrow> client_sends r"
| cs_details: "act \<in> set (clicks (details_view fm lc exact cur cid connectors cs serr g ps sp stp)) \<Longrightarrow>
     details_phase cid cs serr g = Details conn \<Longrightarrow> client_sends (details_rpc conn act)"
| cs_manage: "list_all manage_offered mes \<Longrightarrow> MIN_SECONDS \<le> mp_syncIntervalSeconds mp \<Longrightarrow>
     r \<in> set (fst (snd (manage_step mp env me (manage_run mp env mes (manage_init mp))))) \<Longrightarrow> client_sends r"
| cs_panel: "client_sends (panel_onSave pid pend pps)"

text \<open>
  What the client takes from the server or from the address: identifiers are not empty, the stored
  profile is within the limits it was stored under, and a text that is not empty has a character.
\<close>

fun server_data_ok :: "rpc \<Rightarrow> bool" where
  "server_data_ok (CompleteOnboarding r) = True"
| "server_data_ok (UpdateTenant u) =
     ((upd_name u \<noteq> [] \<longrightarrow> 1 \<le> code_points (upd_name u)) \<and> code_points (upd_size u) \<le> 50 \<and>
      length (upd_useCases u) \<le> 32 \<and> code_points (upd_useCaseOther u) \<le> 500)"
| "server_data_ok (SetFeatureFlag k b) = (1 \<le> code_points k \<and> code_points k \<le> 100)"
| "server_data_ok (GetAuthorizeUrl c) = (1 \<le> code_points c)"
| "server_data_ok (ConnectWithToken c t n) = (1 \<le> code_points c \<and> (t \<noteq> [] \<longrightarrow> 1 \<le> code_points t))"
| "server_data_ok (TriggerSync c) = (1 \<le> code_points c)"
| "server_data_ok (StopSync c) = (1 \<le> code_points c)"
| "server_data_ok (Disconnect c) = (1 \<le> code_points c)"
| "server_data_ok (SetProjectSelection c ids) = (1 \<le> code_points c)"
| "server_data_ok (UpdateSyncSchedule c b n) = (1 \<le> code_points c)"

text \<open>The limits no page enforces.\<close>

fun over_limit_rpc :: "rpc \<Rightarrow> bool" where
  "over_limit_rpc (CompleteOnboarding r) = (200 < code_points (onb_name r) \<or> 500 < code_points (onb_useCaseOther r))"
| "over_limit_rpc (UpdateTenant u) = (200 < code_points (upd_name u))"
| "over_limit_rpc (ConnectWithToken c t n) = (100 < code_points n)"
| "over_limit_rpc (UpdateSyncSchedule c b n) = (2 ^ 31 \<le> n)"
| "over_limit_rpc r = False"

lemma wizard_rpcs:
  assumes "fresh_tenant t" "wizard_reach t u p s" "onb_page p isPending err s = Some page"
    "a \<in> set (clicks page) \<union> set (entries v page)" "onb_handle p a s = Inr (s', es, rpcs)" "r \<in> set rpcs"
  shows "p = ''/onboarding/complete'' \<and> r = CompleteOnboarding (finish_request s)"
proof -
  have "a = Finish" using assms(5,6) by (cases a) (auto split: sum.splits)
  moreover from this assms(3,4) have "p = ''/onboarding/complete''"
    by (auto simp: onb_page_def page_defs page_clicks page_entries shown_if_def split: if_splits)
  ultimately show ?thesis using assms(5,6) by auto
qed

lemma manage_rpcs:
  assumes "r \<in> set (fst (snd (manage_step p env e s)))"
  shows "r \<in> set (onSave p env s) \<or> r = Disconnect (mp_connectionId p)"
  using assms
  by (cases "(p, env, e, s)" rule: manage_step.cases) (auto simp: Let_def split: prod.splits if_splits)



end
